(* ===== verification/Prelude.thy ===== *)
theory Prelude
  imports Main "HOL-Library.Word" "HOL-Library.Monad_Syntax" "HOL-Library.State_Monad"
begin

text \<open>
  Shared vocabulary of the development: the C integer types as words, little-endian byte
  encodings, a byte memory, and the facts about them that the components use.  The collection
  \<open>run\<close> gathers the equations that execute a piece of monadic code on a given world.
\<close>

unbundle bit_operations_syntax

named_theorems run \<open>execution equations of monadic code\<close>
named_theorems layout \<open>byte layouts of packed structures\<close>

type_synonym u8 = "8 word"
type_synonym u16 = "16 word"
type_synonym u32 = "32 word"
type_synonym u64 = "64 word"

section \<open>The state monad\<close>

lemma run_state_update [simp]: "run_state (State_Monad.update f) s = ((), f s)"
  by (simp add: State_Monad.update_def)

section \<open>Little-endian encodings\<close>

text \<open>The low \<open>n\<close> bytes of a word, least significant first, and the word they spell.\<close>

definition le_bytes :: "nat \<Rightarrow> 'a::len word \<Rightarrow> u8 list" where
  "le_bytes n w = map (\<lambda>i. ucast (drop_bit (8 * i) w)) [0..<n]"

fun le_word :: "u8 list \<Rightarrow> 'a::len word" where
  "le_word [] = 0"
| "le_word (b # bs) = ucast b OR push_bit 8 (le_word bs)"

lemma length_le_bytes [simp]: "length (le_bytes n w) = n"
  by (simp add: le_bytes_def)

lemma le_bytes_0 [simp]: "le_bytes 0 w = []"
  by (simp add: le_bytes_def)

lemma le_bytes_Suc: "le_bytes (Suc n) w = ucast w # le_bytes n (drop_bit 8 w)"
  by (simp add: le_bytes_def map_upt_Suc ac_simps del: upt_Suc)

lemma le_word_le_bytes: "le_word (le_bytes n w) = take_bit (8 * n) (w :: 'a::len word)"
proof (induction n arbitrary: w)
  case 0
  then show ?case by simp
next
  case (Suc n)
  have "ucast (ucast w :: u8) OR push_bit 8 (take_bit (8 * n) (drop_bit 8 w)) = take_bit (8 * Suc n) w"
    by (rule bit_word_eqI) (auto simp: bit_simps)
  then show ?case by (simp add: le_bytes_Suc Suc.IH)
qed

lemma le_word_le_bytes_full [simp]:
  "LENGTH('a) \<le> 8 * n \<Longrightarrow> le_word (le_bytes n w) = (w :: 'a::len word)"
  by (rule bit_word_eqI) (auto simp: le_word_le_bytes bit_simps)

text \<open>Reading the bytes of a word into a word of any width.\<close>

lemma bit_le_word_le_bytes:
  "bit (le_word (le_bytes n x) :: 'b::len word) i \<longleftrightarrow> i < LENGTH('b) \<and> i < 8 * n \<and> bit x i"
proof (induction n arbitrary: x i)
  case 0
  then show ?case by simp
next
  case (Suc n)
  show ?case
  proof (cases "i < 8")
    case True
    then show ?thesis by (auto simp: le_bytes_Suc bit_simps)
  next
    case False
    then show ?thesis by (auto simp: le_bytes_Suc bit_simps Suc.IH)
  qed
qed

lemma le_word_bytes_cast:
  "LENGTH('a) \<le> 8 * n \<Longrightarrow> (le_word (le_bytes n (x :: 'a::len word)) :: 'b::len word) = ucast x"
  by (rule bit_word_eqI) (auto simp: bit_le_word_le_bytes bit_simps dest: bit_imp_le_length)

lemma le_bytes_le_word:
  "8 * length bs \<le> LENGTH('a) \<Longrightarrow> le_bytes (length bs) (le_word bs :: 'a::len word) = bs"
proof -
  have byte: "\<And>i. i < length bs \<Longrightarrow> 8 * length bs \<le> LENGTH('a) \<Longrightarrow>
      (ucast (drop_bit (8 * i) (le_word bs :: 'a word)) :: u8) = bs ! i"
  proof (induction bs)
    case Nil
    then show ?case by simp
  next
    case (Cons b bs)
    show ?case
    proof (cases i)
      case 0
      have "(ucast (ucast b OR push_bit 8 (le_word bs :: 'a word)) :: u8) = b"
        using Cons.prems by (intro bit_word_eqI) (auto simp: bit_simps)
      with 0 show ?thesis by simp
    next
      case (Suc j)
      have "drop_bit (8 * Suc j) (ucast b OR push_bit 8 (le_word bs :: 'a word))
          = take_bit (LENGTH('a) - (8 * Suc j)) (drop_bit (8 * j) (le_word bs :: 'a word))"
        by (rule bit_word_eqI) (auto simp: bit_simps dest: bit_imp_le_length)
      moreover have "(ucast (take_bit (LENGTH('a) - (8 * Suc j)) (drop_bit (8 * j) (le_word bs :: 'a word))) :: u8)
          = ucast (drop_bit (8 * j) (le_word bs :: 'a word))"
        using Suc Cons.prems by (intro bit_word_eqI) (auto simp: bit_simps)
      ultimately show ?thesis using Suc Cons by simp
    qed
  qed
  assume "8 * length bs \<le> LENGTH('a)"
  then show ?thesis
    by (intro nth_equalityI) (auto simp: le_bytes_def byte)
qed

section \<open>Bits and halves of words\<close>

lemma bit_of_bool_word [bit_simps]: "bit (of_bool b :: 'a::len word) n \<longleftrightarrow> b \<and> n = 0"
  by (cases b) (auto simp: bit_simps)

lemma bit_word_high [simp]: "LENGTH('a) \<le> n \<Longrightarrow> bit (w :: 'a::len word) n = False"
  using bit_imp_le_length [of w n] by auto

lemma halves [simp]:
  "(ucast (ucast w :: u32) OR push_bit 32 (ucast (ucast (drop_bit 32 w) :: u32)) :: u64) = w"
  by (rule bit_word_eqI) (auto simp: bit_simps)

lemma halves_lo [simp]: "(ucast (ucast lo OR push_bit 32 (ucast hi) :: u64) :: u32) = lo"
  for lo hi :: u32
  by (rule bit_word_eqI) (auto simp: bit_simps)

lemma halves_hi [simp]: "(ucast (drop_bit 32 (ucast lo OR push_bit 32 (ucast hi) :: u64)) :: u32) = hi"
  for lo hi :: u32
  by (rule bit_word_eqI) (auto simp: bit_simps)

lemma unat_ucast_u32 [simp]: "unat (ucast (r :: u32) :: u64) = unat r"
proof -
  have "unat r < 2 ^ 32" using unsigned_less [of r] by simp
  then show ?thesis by (simp add: unsigned_ucast_eq take_bit_nat_eq_self)
qed

lemma ucast_ucast_u32 [simp]: "ucast (ucast (r :: u32) :: u64) = r"
  by (rule bit_word_eqI) (auto simp: bit_simps)

lemma halves_hi_or [simp]:
  "(ucast (drop_bit 32 (ucast lo :: u64) OR drop_bit 32 (push_bit 32 (ucast hi) :: u64)) :: u32) = hi"
  for lo hi :: u32
  by (rule bit_word_eqI) (auto simp: bit_simps)

text \<open>Numbers without overflow or sign.\<close>

lemma sint_small: "uint x < 2 ^ 63 \<Longrightarrow> sint x = uint x" for x :: u64
proof -
  assume "uint x < 2 ^ 63"
  moreover have "- (2 ^ 63) \<le> uint x" using uint_ge_0 [of x] by (rule order_trans [rotated]) simp
  ultimately have "signed_take_bit 63 (uint x) = uint x"
    by (simp add: signed_take_bit_int_eq_self)
  then show ?thesis by (simp add: sint_uint)
qed

lemma uint_add_u64: "uint x + uint y < 2 ^ 64 \<Longrightarrow> uint (x + y) = uint x + uint y" for x y :: u64
  by (subst uint_word_ariths, rule mod_pos_pos_trivial) auto

lemma uint_mult_u64: "uint x * uint y < 2 ^ 64 \<Longrightarrow> uint (x * y) = uint x * uint y" for x y :: u64
  by (subst uint_word_ariths, rule mod_pos_pos_trivial) auto

section \<open>A byte-addressed memory\<close>

type_synonym memory = "u64 \<Rightarrow> u8"

definition store_bytes :: "memory \<Rightarrow> u64 \<Rightarrow> u8 list \<Rightarrow> memory" where
  "store_bytes m a bs = (\<lambda>x. if unat (x - a) < length bs then bs ! unat (x - a) else m x)"

definition load_bytes :: "memory \<Rightarrow> u64 \<Rightarrow> nat \<Rightarrow> u8 list" where
  "load_bytes m a n = map (\<lambda>i. m (a + of_nat i)) [0..<n]"

text \<open>\<open>x\<close> lies in the \<open>n\<close> bytes that start at \<open>a\<close> (addresses wrap at \<open>2^64\<close>).\<close>

definition in_range :: "u64 \<Rightarrow> nat \<Rightarrow> u64 \<Rightarrow> bool" where
  "in_range a n x \<longleftrightarrow> unat (x - a) < n"

definition disjoint_ranges :: "u64 \<Rightarrow> nat \<Rightarrow> u64 \<Rightarrow> nat \<Rightarrow> bool" where
  "disjoint_ranges a n b m \<longleftrightarrow> (\<forall>i < m. \<not> in_range a n (b + of_nat i))"

lemma length_load_bytes [simp]: "length (load_bytes m a n) = n"
  by (simp add: load_bytes_def)

lemma unat_of_nat_u64: "i < 2 ^ 64 \<Longrightarrow> unat (of_nat i :: u64) = i"
  by (simp add: unat_of_nat take_bit_eq_mod)

lemma load_store_same:
  "length bs \<le> 2 ^ 64 \<Longrightarrow> load_bytes (store_bytes m a bs) a (length bs) = bs"
  by (intro nth_equalityI) (auto simp: load_bytes_def store_bytes_def unat_of_nat_u64)

lemma load_store_disjoint:
  "disjoint_ranges a (length bs) b n \<Longrightarrow>
    load_bytes (store_bytes m a bs) b n = load_bytes m b n"
  by (auto simp: load_bytes_def store_bytes_def disjoint_ranges_def in_range_def)

lemma load_bytes_append:
  "load_bytes m a (n + k) = load_bytes m a n @ load_bytes m (a + of_nat n) k"
  by (rule nth_equalityI) (auto simp: load_bytes_def nth_append add.assoc simp flip: of_nat_add)

text \<open>Address arithmetic: ranges at two offsets from one base.\<close>

lemma unat_diff_of_nat:
  assumes "p < 2 ^ 64" "q < 2 ^ 64"
  shows "unat (of_nat p - of_nat q :: u64) = (if q \<le> p then p - q else 2 ^ 64 + p - q)"
  using assms by (auto simp: unat_sub_if' unat_of_nat_u64 word_le_nat_alt)

lemma unat_add_of_nat: "unat d + m < 2 ^ 64 \<Longrightarrow> unat (d + of_nat m :: u64) = unat d + m"
  by (simp add: unat_word_ariths unat_of_nat_u64)

lemma slot_bound: "u < 8 \<Longrightarrow> k < 8 \<Longrightarrow> u + 8 * k < (2::nat) ^ 64"
  by simp

lemma disjoint_offsets:
  assumes "x + n \<le> y \<or> y + m \<le> x" and "x + n \<le> 2 ^ 63" and "y + m \<le> 2 ^ 63"
  shows "disjoint_ranges (a + of_nat x) n (a + of_nat y) m"
proof (unfold disjoint_ranges_def in_range_def, intro allI impI)
  fix k assume k: "k < m"
  have "a + of_nat y + of_nat k - (a + of_nat x) = (of_nat (y + k) - of_nat x :: u64)"
    by simp
  moreover have "\<not> unat (of_nat (y + k) - of_nat x :: u64) < n"
    using assms k by (subst unat_diff_of_nat) auto
  ultimately show "\<not> unat (a + of_nat y + of_nat k - (a + of_nat x)) < n" by metis
qed

end
