(* ===== verification/Machine.thy ===== *)
theory Machine
  imports Prelude
begin

text \<open>
  The machine under the test modules.  Hardware, hypervisor and kernel are not part of the
  repository, so they are a parameter: an \<open>env\<close> answers every read, every privileged
  instruction and every kernel call as a function of all that happened before it, the trace of
  events; \<open>env_sym\<close> gives the addresses of linked symbols, \<open>env_mapped\<close> says which addresses
  can be written, \<open>env_idtr\<close> is the base address in the CPU's IDTR, and \<open>env_fuel\<close> bounds open loops.  The state of the running code is a \<open>kworld\<close>: that trace, the flag RFLAGS.IF, the
  number of the executing CPU, the memory the code writes, and \<open>halted\<close>, which is set when the
  code gets no further (an exception the kernel does not recover from, or a loop that is still
  running when its bound is used up).  A halted world is frozen: no operation changes it.

  A message of \<open>printk\<close> is an event with its format string, less the trailing newline, and its
  arguments as they are passed (words as unsigned numbers).
\<close>

section \<open>Events\<close>

datatype arg = AInt int | AStr string

datatype exn = GP | UD | PF

datatype halt = Hang | Oops exn

datatype ev =
    Printk string "arg list"
  | MmioR u64 u32
  | MmioW u64 u32
  | OutB u16 u8
  | MsrRd u32 u64
  | MsrWr u32 u64
  | MsrRdSafe u32 int
  | MsrWrSafe u32 u64 int
  | Rdtsc u64
  | Rdtscp u64 u32
  | Cpuid u32 u32
  | Cli
  | Sti
  | Insn string "arg list"
  | Fault string exn
  | Call string "arg list"
  | IntTaken u8
  | Iret

abbreviation arg_word :: "'a::len word \<Rightarrow> arg" where
  "arg_word w \<equiv> AInt (uint w)"

abbreviation arg_bool :: "bool \<Rightarrow> arg" where
  "arg_bool b \<equiv> AInt (of_bool b)"

text \<open>The messages of a trace, in order: what \<open>dmesg\<close> shows.\<close>

fun is_message :: "ev \<Rightarrow> bool" where
  "is_message (Printk fmt args) = True"
| "is_message _ = False"

definition messages :: "ev list \<Rightarrow> ev list" where
  "messages t = filter is_message t"

lemma messages_simps [simp]:
  "messages [] = []" "messages (s @ t) = messages s @ messages t"
  "messages (e # t) = (if is_message e then e # messages t else messages t)"
  by (simp_all add: messages_def)

section \<open>The environment\<close>

record env =
  env_mmio :: "ev list \<Rightarrow> u64 \<Rightarrow> u32"
  env_rdmsr :: "ev list \<Rightarrow> u32 \<Rightarrow> u64"
  env_rdmsr_safe :: "ev list \<Rightarrow> u32 \<Rightarrow> int \<times> u64"
  env_wrmsr_safe :: "ev list \<Rightarrow> u32 \<Rightarrow> u64 \<Rightarrow> int"
  env_rdtsc :: "ev list \<Rightarrow> u64"
  env_rdtscp :: "ev list \<Rightarrow> u64 \<times> u32"
  env_cpuid :: "ev list \<Rightarrow> u32 \<Rightarrow> u32 \<Rightarrow> u32 \<times> u32 \<times> u32 \<times> u32"
  env_fault :: "ev list \<Rightarrow> string \<Rightarrow> exn option"
  env_insn :: "ev list \<Rightarrow> string \<Rightarrow> u64"
  env_call :: "ev list \<Rightarrow> string \<Rightarrow> arg list \<Rightarrow> u64"
  env_intr :: "ev list \<Rightarrow> u8 option"
  env_sym :: "string \<Rightarrow> u64"
  env_mapped :: "u64 \<Rightarrow> bool"
  env_idtr :: u64
  env_fuel :: nat

section \<open>The world\<close>

record kworld =
  trace :: "ev list"
  halted :: "halt option"
  irq_on :: bool
  cpu :: nat
  mem :: memory

definition modify ::
  "('a kworld_scheme \<Rightarrow> 'a kworld_scheme) \<Rightarrow> ('a kworld_scheme, unit) state" where
  "modify f = State_Monad.update (\<lambda>w. if halted w = None then f w else w)"

definition gets :: "('w \<Rightarrow> 'b) \<Rightarrow> ('w, 'b) state" where
  "gets f = do { w \<leftarrow> State_Monad.get; State_Monad.return (f w) }"

definition skip :: "('w, unit) state" where
  "skip = State_Monad.return ()"

definition emit :: "ev \<Rightarrow> ('a kworld_scheme, unit) state" where
  "emit e = modify (\<lambda>w. w\<lparr>trace := trace w @ [e]\<rparr>)"

definition halt :: "halt \<Rightarrow> ('a kworld_scheme, unit) state" where
  "halt h = modify (\<lambda>w. w\<lparr>halted := Some h\<rparr>)"

definition ask :: "(ev list \<Rightarrow> 'b) \<Rightarrow> ('a kworld_scheme, 'b) state" where
  "ask q = gets (\<lambda>w. q (trace w))"

lemma run_modify [simp]: "halted w = None \<Longrightarrow> run_state (modify f) w = ((), f w)"
  by (simp add: modify_def)

lemma run_modify_halted [simp]: "halted w = Some h \<Longrightarrow> run_state (modify f) w = ((), w)"
  by (simp add: modify_def)

lemma run_gets [simp]: "run_state (gets f) w = (f w, w)"
  by (simp add: gets_def)

lemma run_skip [simp]: "run_state skip w = ((), w)"
  by (simp add: skip_def)

lemma run_emit [simp]:
  "halted w = None \<Longrightarrow> run_state (emit e) w = ((), w\<lparr>trace := trace w @ [e]\<rparr>)"
  by (simp add: emit_def)

lemma run_halt [simp]:
  "halted w = None \<Longrightarrow> run_state (halt h) w = ((), w\<lparr>halted := Some h\<rparr>)"
  by (simp add: halt_def)

lemma run_ask [simp]: "run_state (ask q) w = (q (trace w), w)"
  by (simp add: ask_def)

lemma run_seq: "run_state a w = ((), w1) \<Longrightarrow> run_state b w1 = r \<Longrightarrow>
    run_state (State_Monad.bind a (\<lambda>_. b)) w = r"
  by simp

lemma run_If [simp]: "run_state (if b then m else n) w = (if b then run_state m w else run_state n w)"
  by simp

section \<open>Instructions and kernel calls\<close>

definition printk :: "string \<Rightarrow> arg list \<Rightarrow> ('a kworld_scheme, unit) state" where
  "printk fmt args = emit (Printk fmt args)"

definition mmio_read :: "env \<Rightarrow> u64 \<Rightarrow> ('a kworld_scheme, u32) state" where
  "mmio_read env a = do { v \<leftarrow> ask (\<lambda>t. env_mmio env t a); emit (MmioR a v); State_Monad.return v }"

definition mmio_write :: "u64 \<Rightarrow> u32 \<Rightarrow> ('a kworld_scheme, unit) state" where
  "mmio_write a v = emit (MmioW a v)"

definition outb :: "u8 \<Rightarrow> u16 \<Rightarrow> ('a kworld_scheme, unit) state" where
  "outb v port = emit (OutB port v)"

definition cli :: "('a kworld_scheme, unit) state" where
  "cli = do { modify (\<lambda>w. w\<lparr>irq_on := False\<rparr>); emit Cli }"

definition sti :: "('a kworld_scheme, unit) state" where
  "sti = do { modify (\<lambda>w. w\<lparr>irq_on := True\<rparr>); emit Sti }"

definition cpuid :: "env \<Rightarrow> u32 \<Rightarrow> u32 \<Rightarrow> ('a kworld_scheme, u32 \<times> u32 \<times> u32 \<times> u32) state" where
  "cpuid env leaf sub = do {
     r \<leftarrow> ask (\<lambda>t. env_cpuid env t leaf sub);
     emit (Cpuid leaf sub);
     State_Monad.return r }"

definition rdtsc :: "env \<Rightarrow> ('a kworld_scheme, u64) state" where
  "rdtsc env = do { v \<leftarrow> ask (env_rdtsc env); emit (Rdtsc v); State_Monad.return v }"

definition rdtscp :: "env \<Rightarrow> ('a kworld_scheme, u64 \<times> u32) state" where
  "rdtscp env = do {
     (v, aux) \<leftarrow> ask (env_rdtscp env);
     emit (Rdtscp v aux);
     State_Monad.return (v, aux) }"

text \<open>
  An instruction without an exception-table entry: when it faults, the kernel kills the task.
  \<open>insn\<close> runs one, \<open>insn_val\<close> also returns the value it leaves in its output register.
\<close>

definition insn :: "env \<Rightarrow> string \<Rightarrow> arg list \<Rightarrow> ('a kworld_scheme, unit) state" where
  "insn env name args = do {
     f \<leftarrow> ask (\<lambda>t. env_fault env t name);
     case f of
       Some e \<Rightarrow> do { emit (Fault name e); halt (Oops e) }
     | None \<Rightarrow> emit (Insn name args) }"

definition insn_val :: "env \<Rightarrow> string \<Rightarrow> arg list \<Rightarrow> ('a kworld_scheme, u64) state" where
  "insn_val env name args = do {
     v \<leftarrow> ask (\<lambda>t. env_insn env t name);
     insn env name args;
     State_Monad.return v }"

definition rdmsr :: "env \<Rightarrow> u32 \<Rightarrow> ('a kworld_scheme, u64) state" where
  "rdmsr env i = do {
     v \<leftarrow> ask (\<lambda>t. env_rdmsr env t i);
     f \<leftarrow> ask (\<lambda>t. env_fault env t ''rdmsr'');
     (case f of
       Some e \<Rightarrow> do { emit (Fault ''rdmsr'' e); halt (Oops e) }
     | None \<Rightarrow> emit (MsrRd i v));
     State_Monad.return v }"

definition wrmsr :: "env \<Rightarrow> u32 \<Rightarrow> u64 \<Rightarrow> ('a kworld_scheme, unit) state" where
  "wrmsr env i v = do {
     f \<leftarrow> ask (\<lambda>t. env_fault env t ''wrmsr'');
     case f of
       Some e \<Rightarrow> do { emit (Fault ''wrmsr'' e); halt (Oops e) }
     | None \<Rightarrow> emit (MsrWr i v) }"

text \<open>A write of consecutive bytes; an address that is not mapped is a page fault.\<close>

definition store :: "env \<Rightarrow> u64 \<Rightarrow> u8 list \<Rightarrow> ('a kworld_scheme, unit) state" where
  "store env a bs =
     (if \<forall>i < length bs. env_mapped env (a + of_nat i)
      then modify (\<lambda>w. w\<lparr>mem := store_bytes (mem w) a bs\<rparr>)
      else do { emit (Fault ''store'' PF); halt (Oops PF) })"

text \<open>
  The kernel's fault-tolerant accessors: \<open>rdmsrl_safe\<close> returns an error number (0 for success)
  and stores the value through its pointer; \<open>wrmsrl_safe\<close> returns an error number.
\<close>

definition rdmsrl_safe :: "env \<Rightarrow> u32 \<Rightarrow> ('a kworld_scheme, int \<times> u64) state" where
  "rdmsrl_safe env i = do {
     (err, p) \<leftarrow> ask (\<lambda>t. env_rdmsr_safe env t i);
     emit (MsrRdSafe i err);
     State_Monad.return (err, p) }"

definition wrmsrl_safe :: "env \<Rightarrow> u32 \<Rightarrow> u64 \<Rightarrow> ('a kworld_scheme, int) state" where
  "wrmsrl_safe env i v = do {
     err \<leftarrow> ask (\<lambda>t. env_wrmsr_safe env t i v);
     emit (MsrWrSafe i v err);
     State_Monad.return err }"

text \<open>A call of a kernel function that is a parameter: its name, its arguments, its result.\<close>

definition kcall :: "env \<Rightarrow> string \<Rightarrow> arg list \<Rightarrow> ('a kworld_scheme, u64) state" where
  "kcall env name args = do {
     r \<leftarrow> ask (\<lambda>t. env_call env t name args);
     emit (Call name args);
     State_Monad.return r }"

lemmas machine_defs =
  printk_def mmio_read_def mmio_write_def outb_def cli_def sti_def cpuid_def rdtsc_def rdtscp_def
  insn_def insn_val_def rdmsr_def wrmsr_def store_def rdmsrl_safe_def wrmsrl_safe_def kcall_def

lemma run_machine [simp]:
  assumes "halted w = None"
  shows "run_state (printk fmt args) w = ((), w\<lparr>trace := trace w @ [Printk fmt args]\<rparr>)"
    and "run_state (mmio_read env a) w =
      (env_mmio env (trace w) a, w\<lparr>trace := trace w @ [MmioR a (env_mmio env (trace w) a)]\<rparr>)"
    and "run_state (mmio_write a d) w = ((), w\<lparr>trace := trace w @ [MmioW a d]\<rparr>)"
    and "run_state (outb b port) w = ((), w\<lparr>trace := trace w @ [OutB port b]\<rparr>)"
    and "run_state cli w = ((), w\<lparr>trace := trace w @ [Cli], irq_on := False\<rparr>)"
    and "run_state sti w = ((), w\<lparr>trace := trace w @ [Sti], irq_on := True\<rparr>)"
    and "run_state (cpuid env l s) w =
      (env_cpuid env (trace w) l s, w\<lparr>trace := trace w @ [Cpuid l s]\<rparr>)"
    and "run_state (rdtsc env) w =
      (env_rdtsc env (trace w), w\<lparr>trace := trace w @ [Rdtsc (env_rdtsc env (trace w))]\<rparr>)"
    and "run_state (rdtscp env) w = (env_rdtscp env (trace w),
       w\<lparr>trace := trace w @ [Rdtscp (fst (env_rdtscp env (trace w))) (snd (env_rdtscp env (trace w)))]\<rparr>)"
    and "run_state (rdmsrl_safe env i) w =
      (env_rdmsr_safe env (trace w) i,
       w\<lparr>trace := trace w @ [MsrRdSafe i (fst (env_rdmsr_safe env (trace w) i))]\<rparr>)"
    and "run_state (wrmsrl_safe env i v) w =
      (env_wrmsr_safe env (trace w) i v,
       w\<lparr>trace := trace w @ [MsrWrSafe i v (env_wrmsr_safe env (trace w) i v)]\<rparr>)"
    and "run_state (kcall env name args) w =
      (env_call env (trace w) name args, w\<lparr>trace := trace w @ [Call name args]\<rparr>)"
  using assms by (auto simp: machine_defs split: prod.splits)

lemma run_insn [simp]:
  assumes "halted w = None"
  shows "run_state (insn env name args) w = (case env_fault env (trace w) name of
      Some e \<Rightarrow> ((), w\<lparr>trace := trace w @ [Fault name e], halted := Some (Oops e)\<rparr>)
    | None \<Rightarrow> ((), w\<lparr>trace := trace w @ [Insn name args]\<rparr>))"
  using assms by (simp add: insn_def split: option.splits)

lemma run_store [simp]:
  assumes "halted w = None" and "\<forall>i < length bs. env_mapped env (a + of_nat i)"
  shows "run_state (store env a bs) w = ((), w\<lparr>mem := store_bytes (mem w) a bs\<rparr>)"
  using assms by (simp add: store_def)

lemma run_insn_val:
  assumes "halted w = None" and "env_fault env (trace w) name = None"
  shows "run_state (insn_val env name args) w
    = (env_insn env (trace w) name, w\<lparr>trace := trace w @ [Insn name args]\<rparr>)"
  using assms by (simp add: insn_val_def)

section \<open>Loops that may run forever\<close>

text \<open>
  \<open>loop n d body s\<close> runs \<open>body\<close> from the loop variables \<open>s\<close>: \<open>Inl s'\<close> goes round again,
  \<open>Inr r\<close> leaves the loop with \<open>r\<close>.  At most \<open>n\<close> rounds are run; a loop that wants more hangs.
  \<open>while_do n c b\<close> is \<open>while (c) b\<close>.
\<close>

fun loop :: "nat \<Rightarrow> 'r \<Rightarrow> ('s \<Rightarrow> ('a kworld_scheme, 's + 'r) state) \<Rightarrow> 's
    \<Rightarrow> ('a kworld_scheme, 'r) state" where
  "loop 0 d body s = do { halt Hang; State_Monad.return d }"
| "loop (Suc n) d body s = do {
     r \<leftarrow> body s;
     case r of Inl s' \<Rightarrow> loop n d body s' | Inr x \<Rightarrow> State_Monad.return x }"

fun while_do :: "nat \<Rightarrow> ('a kworld_scheme, bool) state \<Rightarrow> ('a kworld_scheme, unit) state
    \<Rightarrow> ('a kworld_scheme, unit) state" where
  "while_do 0 c b = halt Hang"
| "while_do (Suc n) c b = do {
     go \<leftarrow> c;
     if go then do { b; while_do n c b } else skip }"

text \<open>An invariant of a loop carries over to its result, also when the bound is used up.\<close>

lemma loop_rule:
  assumes "I s w"
    and "\<And>s w r w'. I s w \<Longrightarrow> run_state (body s) w = (r, w') \<Longrightarrow>
      (case r of Inl s' \<Rightarrow> I s' w' | Inr x \<Rightarrow> Q x w')"
    and "\<And>s w. I s w \<Longrightarrow> Q d (snd (run_state (halt Hang) w))"
  shows "Q (fst (run_state (loop n d body s) w)) (snd (run_state (loop n d body s) w))"
  using assms(1)
proof (induction n arbitrary: s w)
  case 0
  with assms(3) show ?case by (simp add: split_def)
next
  case (Suc n)
  obtain r w' where r: "run_state (body s) w = (r, w')" by fastforce
  with assms(2) [OF Suc.prems r] Suc.IH show ?case by (cases r) simp_all
qed

text \<open>A bounded loop \<open>for (x in xs) body\<close>.\<close>

fun for_each :: "'b list \<Rightarrow> ('b \<Rightarrow> ('w, unit) state) \<Rightarrow> ('w, unit) state" where
  "for_each [] body = skip"
| "for_each (x # xs) body = do { body x; for_each xs body }"

lemma for_each_append:
  "run_state (for_each (xs @ ys) body) w = run_state (for_each ys body) (snd (run_state (for_each xs body) w))"
  by (induction xs arbitrary: w) (auto split: prod.splits)

section \<open>A halted machine executes nothing\<close>

definition frozen :: "('a kworld_scheme, 'b) state \<Rightarrow> bool" where
  "frozen m \<longleftrightarrow> (\<forall>w. halted w \<noteq> None \<longrightarrow> snd (run_state m w) = w)"

named_theorems frozen_intro \<open>frozen operations\<close>

lemma frozenD: "frozen m \<Longrightarrow> halted w = Some h \<Longrightarrow> snd (run_state m w) = w"
  by (simp add: frozen_def)

lemma run_frozen: "frozen m \<Longrightarrow> halted w = Some h \<Longrightarrow> run_state m w = ((), w)"
  using frozenD [of m w h] by (simp add: prod_eq_iff)

lemma frozen_basic [frozen_intro, simp, intro]:
  "frozen (State_Monad.return x)" "frozen (gets f)" "frozen skip" "frozen (ask q)"
  "frozen (modify g)" "frozen (emit e)" "frozen (halt h)"
  by (auto simp: frozen_def emit_def halt_def modify_def)

lemma frozen_bind [frozen_intro, intro!]:
  fixes m :: "('a kworld_scheme, 'b) state"
  assumes "frozen m" and "\<And>x. frozen (f x)"
  shows "frozen (State_Monad.bind m f)"
proof (unfold frozen_def, intro allI impI)
  fix w :: "'a kworld_scheme" assume h: "halted w \<noteq> None"
  obtain x w' where m: "run_state m w = (x, w')" by fastforce
  with assms(1) h have "w' = w" unfolding frozen_def by (metis snd_conv)
  with m assms(2) h show "snd (run_state (State_Monad.bind m f) w) = w"
    by (simp add: frozen_def)
qed

lemma frozen_machine [frozen_intro, simp]:
  "frozen (printk fmt args)" "frozen (mmio_read env a)" "frozen (mmio_write a d)"
  "frozen (outb b port)" "frozen cli" "frozen sti" "frozen (cpuid env l s)" "frozen (rdtsc env)" "frozen (rdtscp env)"
  "frozen (insn env name args)" "frozen (insn_val env name args)"
  "frozen (rdmsr env i)" "frozen (wrmsr env i v)" "frozen (store env a bs)"
  "frozen (rdmsrl_safe env i)" "frozen (wrmsrl_safe env i v)" "frozen (kcall env name args)"
  by (auto simp: machine_defs split: option.splits prod.splits)

lemma frozen_for_each [frozen_intro]:
  "(\<And>x. x \<in> set xs \<Longrightarrow> frozen (body x)) \<Longrightarrow> frozen (for_each xs body)"
  by (induction xs) auto

lemma frozen_while_do [frozen_intro]: "frozen c \<Longrightarrow> frozen b \<Longrightarrow> frozen (while_do n c b)"
  by (induction n) auto

lemma frozen_loop [frozen_intro]: "(\<And>s. frozen (body s)) \<Longrightarrow> frozen (loop n d body s)"
  by (induction n arbitrary: s) (auto split: sum.splits)

section \<open>A machine for the witnesses\<close>

text \<open>Every access succeeds, every answer is 0, no interrupt is ever pending.\<close>

definition calm_env :: env where
  "calm_env = \<lparr>
     env_mmio = (\<lambda>t a. 0), env_rdmsr = (\<lambda>t i. 0), env_rdmsr_safe = (\<lambda>t i. (0, 0)),
     env_wrmsr_safe = (\<lambda>t i v. 0), env_rdtsc = (\<lambda>t. 0), env_rdtscp = (\<lambda>t. (0, 0)),
     env_cpuid = (\<lambda>t l s. (0, 0, 0, 0)), env_fault = (\<lambda>t n. None), env_insn = (\<lambda>t n. 0),
     env_call = (\<lambda>t n a. 0), env_intr = (\<lambda>t. None), env_sym = (\<lambda>n. 0),
     env_mapped = (\<lambda>a. True), env_idtr = 0, env_fuel = 16\<rparr>"

definition start_world :: kworld where
  "start_world = \<lparr>trace = [], halted = None, irq_on = True, cpu = 0, mem = (\<lambda>a. 0)\<rparr>"

lemma start_world_simps [simp]:
  "trace start_world = []" "halted start_world = None" "irq_on start_world = True"
  by (simp_all add: start_world_def)

end
