(* ===== verification/Msr.thy ===== *)
theory Msr
  imports Machine
begin

text \<open>
  The MSR test of the pcm-unit module (\<open>src/pcm-unit/driver/msr.c\<close>): a table of registers
  with a value to write and the value expected back, the lookup of a register's row, the test
  of one register and the run over the table, followed by the SYSCALL test.
\<close>

section \<open>The table\<close>

record msr_rw_info =
  index :: u32
  name :: string
  msr_value :: u64
  expected :: u64

definition addr_64 :: u64 where
  "addr_64 = 0x0000123456789abc"

definition msr_info :: "msr_rw_info list" where
  "msr_info = [
    \<lparr>index = 0x00000174, name = ''IA32_SYSENTER_CS'', msr_value = 0x1234, expected = 0x1234\<rparr>,
    \<lparr>index = 0x00000175, name = ''MSR_IA32_SYSENTER_ESP'', msr_value = addr_64, expected = addr_64\<rparr>,
    \<lparr>index = 0x00000176, name = ''IA32_SYSENTER_EIP'', msr_value = addr_64, expected = addr_64\<rparr>,
    \<lparr>index = 0x000001a0, name = ''MSR_IA32_MISC_ENABLE'',
      msr_value = 0x400c51889, expected = 0x400c51889\<rparr>,
    \<lparr>index = 0x00000277, name = ''MSR_IA32_CR_PAT'', msr_value = 0x07070707, expected = 0x07070707\<rparr>,
    \<lparr>index = 0xc0000100, name = ''MSR_FS_BASE'', msr_value = addr_64, expected = addr_64\<rparr>,
    \<lparr>index = 0xc0000101, name = ''MSR_GS_BASE'', msr_value = addr_64, expected = addr_64\<rparr>,
    \<lparr>index = 0xc0000102, name = ''MSR_KERNEL_GS_BASE'', msr_value = addr_64, expected = addr_64\<rparr>,
    \<lparr>index = 0xc0000080, name = ''MSR_EFER'', msr_value = 0xD00, expected = 0xD00\<rparr>,
    \<lparr>index = 0xc0000082, name = ''MSR_LSTAR'', msr_value = addr_64, expected = addr_64\<rparr>,
    \<lparr>index = 0xc0000083, name = ''MSR_CSTAR'', msr_value = addr_64, expected = addr_64\<rparr>,
    \<lparr>index = 0xc0000084, name = ''MSR_SYSCALL_MASK'',
      msr_value = 0xffffffff, expected = 0xffffffff\<rparr>]"

section \<open>Lookup of a row\<close>

fun find_msr_from :: "int \<Rightarrow> msr_rw_info list \<Rightarrow> u32 \<Rightarrow> int" where
  "find_msr_from i [] x = -1"
| "find_msr_from i (m # ms) x = (if index m = x then i else find_msr_from (i + 1) ms x)"

definition find_msr_info :: "u32 \<Rightarrow> int" where
  "find_msr_info msr_index = find_msr_from 0 msr_info msr_index"

section \<open>The test of one register\<close>

text \<open>
  The status of the read, not the value behind the pointer, is what the code compares with
  the expected value: \<open>r = rdmsrl_safe(msr_index, &p)\<close>.
\<close>

definition test_msr_rw :: "env \<Rightarrow> u32 \<Rightarrow> u64 \<Rightarrow> u64 \<Rightarrow> ('a kworld_scheme, unit) state" where
  "test_msr_rw env msr_index input expct =
     (let i = find_msr_info msr_index in
      if i \<noteq> -1 then do {
        let sptr = name (msr_info ! nat i);
        _ \<leftarrow> wrmsrl_safe env msr_index input;
        (err, p) \<leftarrow> rdmsrl_safe env msr_index;
        let r = (word_of_int err :: u64);
        (if expct \<noteq> r then
           printk ''testing %s: output = 0x%x:0x%x expected = 0x%x:0x%x''
             [AStr sptr, arg_word (ucast (drop_bit 32 r) :: u32), arg_word (ucast r :: u32),
              arg_word (ucast (drop_bit 32 expct) :: u32), arg_word (ucast expct :: u32)]
         else skip);
        printk ''testing %s succeed'' [AStr sptr]
      }
      else printk ''couldn't find name for msr # 0x%x, skipping'' [arg_word msr_index])"

section \<open>The SYSCALL test and the whole test\<close>

definition MSR_EFER :: u32 where "MSR_EFER = 0xc0000080"
definition MSR_STAR :: u32 where "MSR_STAR = 0xc0000081"
definition MSR_LSTAR :: u32 where "MSR_LSTAR = 0xc0000082"
definition EFER_SCE :: u64 where "EFER_SCE = 1"

definition read_cs :: "env \<Rightarrow> ('a kworld_scheme, u16) state" where
  "read_cs env = do { val \<leftarrow> insn_val env ''mov %cs'' []; State_Monad.return (ucast val) }"

definition read_ss :: "env \<Rightarrow> ('a kworld_scheme, u16) state" where
  "read_ss env = do { val \<leftarrow> insn_val env ''mov %ss'' []; State_Monad.return (ucast val) }"

definition write_ss :: "env \<Rightarrow> u16 \<Rightarrow> ('a kworld_scheme, unit) state" where
  "write_ss env val = insn env ''mov to %ss'' [arg_word val]"

definition test_syscall_lazy_load :: "env \<Rightarrow> ('a kworld_scheme, unit) state" where
  "test_syscall_lazy_load env = do {
     cs \<leftarrow> read_cs env;
     ss \<leftarrow> read_ss env;
     (err, p) \<leftarrow> rdmsrl_safe env MSR_EFER;
     _ \<leftarrow> wrmsrl_safe env MSR_EFER (word_of_int err OR EFER_SCE);
     _ \<leftarrow> wrmsrl_safe env MSR_LSTAR (env_sym env ''syscall_target'');
     _ \<leftarrow> wrmsrl_safe env MSR_STAR (ucast cs);
     insn env ''pushf; syscall; popf'' [];
     write_ss env ss;
     printk ''MSR_*STAR eager loading '' [] }"

definition test_msr :: "env \<Rightarrow> ('a kworld_scheme, unit) state" where
  "test_msr env = do {
     for_each msr_info (\<lambda>m. test_msr_rw env (index m) (msr_value m) (expected m));
     test_syscall_lazy_load env }"

section \<open>Facts\<close>

lemma find_msr_from_found:
  "x \<in> index ` set ms \<Longrightarrow> 0 \<le> i \<Longrightarrow>
    i \<le> find_msr_from i ms x \<and> nat (find_msr_from i ms x - i) < length ms \<and>
    index (ms ! nat (find_msr_from i ms x - i)) = x"
proof (induction ms arbitrary: i)
  case Nil
  then show ?case by simp
next
  case (Cons m ms)
  show ?case
  proof (cases "index m = x")
    case True
    then show ?thesis by simp
  next
    case False
    with Cons.prems have "x \<in> index ` set ms" by auto
    from Cons.IH [OF this, of "i + 1"] Cons.prems(2)
    have IH: "i + 1 \<le> find_msr_from (i + 1) ms x"
      "nat (find_msr_from (i + 1) ms x - (i + 1)) < length ms"
      "index (ms ! nat (find_msr_from (i + 1) ms x - (i + 1))) = x" by auto
    moreover have "nat (find_msr_from (i + 1) ms x - i)
        = Suc (nat (find_msr_from (i + 1) ms x - (i + 1)))"
      using IH(1) by simp
    ultimately show ?thesis using False by simp
  qed
qed

lemma find_msr_from_missing: "x \<notin> index ` set ms \<Longrightarrow> find_msr_from i ms x = -1"
  by (induction ms arbitrary: i) auto

lemma distinct_msr_info: "distinct (map index msr_info)"
  by (simp add: msr_info_def)

lemma msr_info_row:
  assumes "m \<in> set msr_info"
  shows "find_msr_info (index m) \<noteq> -1 \<and> msr_info ! nat (find_msr_info (index m)) = m"
proof -
  have "index m \<in> index ` set msr_info" using assms by simp
  from find_msr_from_found [OF this, of 0]
  have f: "0 \<le> find_msr_info (index m)" "nat (find_msr_info (index m)) < length msr_info"
    "index (msr_info ! nat (find_msr_info (index m))) = index m"
    by (auto simp: find_msr_info_def)
  from assms obtain k where k: "k < length msr_info" "msr_info ! k = m"
    by (auto simp: in_set_conv_nth)
  with f(2,3) have "map index msr_info ! nat (find_msr_info (index m)) = map index msr_info ! k"
    by simp
  with f(2) k(1) have "nat (find_msr_info (index m)) = k"
    using nth_eq_iff_index_eq [OF distinct_msr_info] by simp
  with k f(1) show ?thesis by auto
qed

text \<open>What the test of one row of the table adds to the trace.\<close>

definition mismatch_msg :: "msr_rw_info \<Rightarrow> u64 \<Rightarrow> ev" where
  "mismatch_msg m r = Printk ''testing %s: output = 0x%x:0x%x expected = 0x%x:0x%x''
     [AStr (name m), arg_word (ucast (drop_bit 32 r) :: u32), arg_word (ucast r :: u32),
      arg_word (ucast (drop_bit 32 (expected m)) :: u32), arg_word (ucast (expected m) :: u32)]"

definition succeed_msg :: "msr_rw_info \<Rightarrow> ev" where
  "succeed_msg m = Printk ''testing %s succeed'' [AStr (name m)]"

definition row_events :: "env \<Rightarrow> ev list \<Rightarrow> msr_rw_info \<Rightarrow> ev list" where
  "row_events env t m =
     (let e1 = MsrWrSafe (index m) (msr_value m) (env_wrmsr_safe env t (index m) (msr_value m));
          err = fst (env_rdmsr_safe env (t @ [e1]) (index m))
      in [e1, MsrRdSafe (index m) err]
         @ (if expected m \<noteq> word_of_int err then [mismatch_msg m (word_of_int err)] else [])
         @ [succeed_msg m])"

lemma run_test_msr_rw:
  assumes "m \<in> set msr_info" and "halted w = None"
  shows "run_state (test_msr_rw env (index m) (msr_value m) (expected m)) w
    = ((), w\<lparr>trace := trace w @ row_events env (trace w) m\<rparr>)"
  using msr_info_row [OF assms(1)] assms(2)
  by (auto simp: test_msr_rw_def row_events_def mismatch_msg_def succeed_msg_def Let_def
      split: prod.splits)

fun table_events :: "env \<Rightarrow> ev list \<Rightarrow> msr_rw_info list \<Rightarrow> ev list" where
  "table_events env t [] = []"
| "table_events env t (m # ms) =
     row_events env t m @ table_events env (t @ row_events env t m) ms"

lemma run_table:
  assumes "set ms \<subseteq> set msr_info" and "halted w = None"
  shows "run_state (for_each ms (\<lambda>m. test_msr_rw env (index m) (msr_value m) (expected m))) w
    = ((), w\<lparr>trace := trace w @ table_events env (trace w) ms\<rparr>)"
  using assms
proof (induction ms arbitrary: w)
  case Nil
  then show ?case by simp
next
  case (Cons m ms)
  then show ?case by (simp add: run_test_msr_rw)
qed

definition is_succeed :: "ev \<Rightarrow> bool" where
  "is_succeed e \<longleftrightarrow> (\<exists>m. e = succeed_msg m)"

lemma succeed_row: "filter is_succeed (row_events env t m) = [succeed_msg m]"
  by (auto simp: row_events_def is_succeed_def succeed_msg_def mismatch_msg_def Let_def)

lemma succeed_table: "filter is_succeed (table_events env t ms) = map succeed_msg ms"
  by (induction ms arbitrary: t) (auto simp: succeed_row)

definition pair_writes :: "ev list \<Rightarrow> (u32 \<times> u64) list" where
  "pair_writes t = concat (map (\<lambda>e. case e of MsrWrSafe i v err \<Rightarrow> [(i, v)] | _ \<Rightarrow> []) t)"

lemma pair_writes_simps [simp]:
  "pair_writes [] = []" "pair_writes (s @ t) = pair_writes s @ pair_writes t"
  "pair_writes (e # t) = (case e of MsrWrSafe i v err \<Rightarrow> (i, v) # pair_writes t | _ \<Rightarrow> pair_writes t)"
  by (simp_all add: pair_writes_def split: ev.splits)

lemma pair_writes_table:
  "pair_writes (table_events env t ms) = map (\<lambda>m. (index m, msr_value m)) ms"
  by (induction ms arbitrary: t)
    (auto simp: row_events_def mismatch_msg_def succeed_msg_def Let_def)

lemma messages_table_ok:
  assumes "\<And>t i. fst (env_rdmsr_safe env t i) = 0" and "\<forall>m \<in> set ms. expected m \<noteq> 0"
  shows "messages (table_events env t ms)
    = concat (map (\<lambda>m. [mismatch_msg m 0, succeed_msg m]) ms)"
  using assms
  by (induction ms arbitrary: t)
    (auto simp: row_events_def mismatch_msg_def succeed_msg_def Let_def)

definition status_only :: "env \<Rightarrow> (ev list \<Rightarrow> u32 \<Rightarrow> u64) \<Rightarrow> env" where
  "status_only env g = env\<lparr>env_rdmsr_safe := (\<lambda>t i. (fst (env_rdmsr_safe env t i), g t i))\<rparr>"

lemma bind_status_only:
  fixes f :: "int \<Rightarrow> ('a kworld_scheme, 'b) state"
  shows "State_Monad.bind (rdmsrl_safe (status_only env g) i) (\<lambda>(err, p). f err)
    = State_Monad.bind (rdmsrl_safe env i) (\<lambda>(err, p). f err)"
  by (rule state_ext) (auto simp: rdmsrl_safe_def status_only_def split: prod.splits)

lemma status_only_other [simp]:
  "wrmsrl_safe (status_only env g) = wrmsrl_safe env"
  "insn (status_only env g) = insn env"
  "insn_val (status_only env g) = insn_val env"
  "env_sym (status_only env g) = env_sym env"
  by (auto simp: fun_eq_iff wrmsrl_safe_def insn_def insn_val_def status_only_def)

section \<open>Properties\<close>

text \<open>C39. The MSR test never looks at the values it reads back: replacing every value that
  \<open>rdmsrl_safe\<close> stores through its pointer by an arbitrary one, error codes unchanged, leaves
  the whole run (trace, messages, final state) the same.\<close>

theorem test_msr_ignores_values:
  "run_state (test_msr (status_only env g)) w = run_state (test_msr env) w"
  by (simp add: test_msr_def test_msr_rw_def test_syscall_lazy_load_def read_cs_def read_ss_def
      write_ss_def Let_def bind_status_only cong: if_cong)

text \<open>C38. On a machine where every MSR access succeeds and no instruction faults, the MSR test
  prints for each of the twelve registers a mismatch (output 0) followed by the line that says it
  succeeded, and then the SYSCALL line: a correct machine is reported as wrong and as right.\<close>

theorem test_msr_messages:
  assumes "halted w = None" and "\<forall>t i. fst (env_rdmsr_safe env t i) = 0"
    and "\<forall>t n. env_fault env t n = None"
  shows "messages (trace (snd (run_state (test_msr env) w))) =
    messages (trace w) @ concat (map (\<lambda>m. [mismatch_msg m 0, succeed_msg m]) msr_info)
      @ [Printk ''MSR_*STAR eager loading '' []]"
proof -
  have e: "\<forall>m \<in> set msr_info. expected m \<noteq> 0"
    by (simp add: msr_info_def addr_64_def)
  show ?thesis
    using assms messages_table_ok [OF _ e, of env "trace w"]
    by (simp add: test_msr_def run_table test_syscall_lazy_load_def read_cs_def read_ss_def
        write_ss_def insn_val_def split: prod.splits)
qed

theorem test_msr_messages_witness:
  "messages (trace (snd (run_state (test_msr calm_env) start_world))) =
    concat (map (\<lambda>m. [mismatch_msg m 0, succeed_msg m]) msr_info)
      @ [Printk ''MSR_*STAR eager loading '' []]"
  using test_msr_messages [of start_world calm_env] by (simp add: calm_env_def)

text \<open>C40. Whatever the machine answers, the MSR writes of the test are, in order, the table's
  rows with their values, and then, unless an instruction faulted, EFER with the status of its
  read (not its value) and SCE, LSTAR with the address of \<open>syscall_target\<close> and STAR with CS
  in its low bits.\<close>

theorem test_msr_writes:
  assumes "halted w = None" and "\<forall>t n. env_fault env t n = None"
  shows "let t1 = trace w @ table_events env (trace w) msr_info;
      status = fst (env_rdmsr_safe env (t1 @ [Insn ''mov %cs'' [], Insn ''mov %ss'' []]) MSR_EFER);
      cs = (ucast (env_insn env t1 ''mov %cs'') :: u16)
    in pair_writes (trace (snd (run_state (test_msr env) w))) =
      pair_writes (trace w) @ map (\<lambda>m. (index m, msr_value m)) msr_info
      @ [(MSR_EFER, word_of_int status OR EFER_SCE), (MSR_LSTAR, env_sym env ''syscall_target''),
         (MSR_STAR, ucast cs)]"
  using assms
  by (simp add: test_msr_def run_table test_syscall_lazy_load_def read_cs_def read_ss_def
      write_ss_def insn_val_def pair_writes_table Let_def split: prod.splits)

theorem test_msr_writes_witness:
  "pair_writes (trace (snd (run_state (test_msr calm_env) start_world))) =
    map (\<lambda>m. (index m, msr_value m)) msr_info @ [(MSR_EFER, 1), (MSR_LSTAR, 0), (MSR_STAR, 0)]"
  using test_msr_writes [of start_world calm_env] by (simp add: calm_env_def Let_def EFER_SCE_def)

text \<open>Every row of the table is found by its index and reported once as succeeded, in table
  order, whatever the machine answers.\<close>

lemma test_msr_rw_always_succeeds:
  assumes "halted w = None"
  shows "filter is_succeed (trace (snd (run_state
      (for_each msr_info (\<lambda>m. test_msr_rw env (index m) (msr_value m) (expected m))) w)))
    = filter is_succeed (trace w) @ map succeed_msg msr_info"
  using assms by (simp add: run_table succeed_table)

end
