(* ===== verification/Tsc.thy ===== *)
theory Tsc
  imports Machine
begin

text \<open>
  The time-stamp counter tests of the pcm-unit module: \<open>src/pcm-unit/driver/tsc.c\<close> and
  \<open>src/pcm-unit/driver/tsc_adjust.c\<close>.
\<close>

section \<open>tsc.c\<close>

definition MSR_IA32_TSC :: u32 where "MSR_IA32_TSC = 0x10"
definition MSR_TSC_AUX :: u32 where "MSR_TSC_AUX = 0xc0000103"

definition check_cpuid_80000001_edx :: "env \<Rightarrow> u32 \<Rightarrow> ('a kworld_scheme, bool) state" where
  "check_cpuid_80000001_edx env b = do {
     (eax, ebx, ecx, edx) \<leftarrow> cpuid env 0x80000001 0;
     State_Monad.return (edx AND b \<noteq> 0) }"

text \<open>\<open>native_write_msr_safe\<close> takes the value as EAX and EDX, both 32 bits wide.\<close>

definition native_write_msr_safe ::
  "env \<Rightarrow> u32 \<Rightarrow> u32 \<Rightarrow> u32 \<Rightarrow> ('a kworld_scheme, int) state" where
  "native_write_msr_safe env i low high =
     wrmsrl_safe env i (ucast low OR push_bit 32 (ucast high))"

definition test_wrtsc :: "env \<Rightarrow> u64 \<Rightarrow> ('a kworld_scheme, unit) state" where
  "test_wrtsc env t1 = do {
     _ \<leftarrow> native_write_msr_safe env MSR_IA32_TSC (ucast t1) (ucast (drop_bit 32 t1));
     t2 \<leftarrow> rdtsc env;
     printk ''rdtsc after wrtsc%lld : %lld '' [arg_word t1, arg_word t2] }"

definition test_rdtscp :: "env \<Rightarrow> u64 \<Rightarrow> ('a kworld_scheme, unit) state" where
  "test_rdtscp env aux = do {
     _ \<leftarrow> wrmsrl_safe env MSR_TSC_AUX aux;
     (_, ecx) \<leftarrow> rdtscp env;
     printk ''Test RDTSCP eax=%d, aux=%lld'' [arg_word ecx, arg_word aux] }"

definition test_tsc :: "env \<Rightarrow> ('a kworld_scheme, unit) state" where
  "test_tsc env = do {
     t1 \<leftarrow> rdtsc env;
     t2 \<leftarrow> rdtsc env;
     printk ''rdtsc latency %u'' [arg_word (ucast (t2 - t1) :: u32)];
     test_wrtsc env 0;
     test_wrtsc env 100000000000;
     test_rdtscp env 0;
     test_rdtscp env 10;
     test_rdtscp env 0x100 }"

section \<open>tsc_adjust.c\<close>

definition IA32_TSC_ADJUST :: u32 where "IA32_TSC_ADJUST = 0x3b"

definition test_tsc_adjust :: "env \<Rightarrow> ('a kworld_scheme, unit) state" where
  "test_tsc_adjust env = do {
     (eax, ebx, ecx, edx) \<leftarrow> cpuid env 7 0;
     if ebx AND push_bit 1 1 \<noteq> 0 then do {
       (_, p) \<leftarrow> rdmsrl_safe env IA32_TSC_ADJUST;
       printk ''IA32_TSC_ADJUST msr initialization,  %lld'' [arg_word p];
       let t3 = 100000000000;
       t1 \<leftarrow> rdtsc env;
       _ \<leftarrow> wrmsrl_safe env IA32_TSC_ADJUST t3;
       t2 \<leftarrow> rdtsc env;
       (_, t3) \<leftarrow> rdmsrl_safe env IA32_TSC_ADJUST;
       printk ''IA32_TSC_ADJUST msr read / write, %lld'' [arg_word t3];
       printk ''TSC adjustment for IA32_TSC_ADJUST value, t2-t1=%lld'' [arg_word (t2 - t1)];
       _ \<leftarrow> wrmsrl_safe env IA32_TSC_ADJUST 0;
       (_, t3) \<leftarrow> rdmsrl_safe env IA32_TSC_ADJUST;
       printk ''IA32_TSC_ADJUST msr read / write, %lld'' [arg_word t3];
       let t4 = 100000000000;
       t1 \<leftarrow> rdtsc env;
       _ \<leftarrow> wrmsrl_safe env MSR_IA32_TSC t4;
       t2 \<leftarrow> rdtsc env;
       (_, t5) \<leftarrow> rdmsrl_safe env IA32_TSC_ADJUST;
       let est_delta_time = t4 - t5 - t1;
       printk ''IA32_TSC_ADJUST msr adjustment on tsc write, est_delta_time=%lld, stdvalue=%lld''
         [arg_word est_delta_time, arg_word (2 * (t2 - t4))] }
     else printk ''IA32_TSC_ADJUST feature not enabled'' [] }"

section \<open>The documented behaviour of the counter\<close>

text \<open>
  A counter as the Intel manual describes it: \<open>cyc\<close> is the free-running count after a history,
  \<open>adj\<close> the content of IA32_TSC_ADJUST.  The time-stamp counter reads as their sum, a write of
  IA32_TSC_ADJUST replaces \<open>adj\<close>, and a write of the counter itself moves \<open>adj\<close> by the amount
  the counter moves.  RDTSCP returns the low half of the TSC_AUX register.
\<close>

definition adj_after :: "(ev list \<Rightarrow> u64) \<Rightarrow> ev list \<Rightarrow> u64 \<Rightarrow> ev \<Rightarrow> u64" where
  "adj_after cyc t a e = (case e of
     MsrWrSafe i v err \<Rightarrow>
       if err \<noteq> 0 then a
       else if i = IA32_TSC_ADJUST then v
       else if i = MSR_IA32_TSC then a + (v - (cyc t + a))
       else a
   | _ \<Rightarrow> a)"

definition aux_after :: "u64 \<Rightarrow> ev \<Rightarrow> u64" where
  "aux_after a e = (case e of
     MsrWrSafe i v err \<Rightarrow> if err = 0 \<and> i = MSR_TSC_AUX then v else a | _ \<Rightarrow> a)"

definition tsc_machine ::
  "env \<Rightarrow> (ev list \<Rightarrow> u64) \<Rightarrow> (ev list \<Rightarrow> u64) \<Rightarrow> (ev list \<Rightarrow> u64) \<Rightarrow> bool" where
  "tsc_machine env cyc adj aux \<longleftrightarrow>
     (\<forall>t. env_rdtsc env t = cyc t + adj t) \<and>
     (\<forall>t. env_rdmsr_safe env t IA32_TSC_ADJUST = (0, adj t)) \<and>
     (\<forall>t i v. env_wrmsr_safe env t i v = 0) \<and>
     (\<forall>t e. adj (t @ [e]) = adj_after cyc t (adj t) e) \<and>
     (\<forall>t. snd (env_rdtscp env t) = ucast (aux t)) \<and>
     (\<forall>t e. aux (t @ [e]) = aux_after (aux t) e)"

lemma tsc_machineD:
  assumes "tsc_machine env cyc adj aux"
  shows "env_rdtsc env t = cyc t + adj t"
    and "env_rdmsr_safe env t IA32_TSC_ADJUST = (0, adj t)"
    and "env_wrmsr_safe env t i v = 0"
    and "snd (env_rdtscp env t) = ucast (aux t)"
  using assms by (auto simp: tsc_machine_def)

lemma tsc_machine_snoc:
  assumes "tsc_machine env cyc adj aux"
  shows "adj (t @ [e]) = adj_after cyc t (adj t) e" "aux (t @ [e]) = aux_after (aux t) e"
  using assms by (auto simp: tsc_machine_def)

lemma snoc_split: "t @ e # es = (t @ [e]) @ es"
  by simp

lemma run_test_wrtsc:
  assumes "halted w = None"
  shows "run_state (test_wrtsc env t1) w =
    (let w1 = trace w @ [MsrWrSafe MSR_IA32_TSC t1 (env_wrmsr_safe env (trace w) MSR_IA32_TSC t1)];
         t2 = env_rdtsc env w1
     in ((), w\<lparr>trace := w1 @ [Rdtsc t2,
          Printk ''rdtsc after wrtsc%lld : %lld '' [arg_word t1, arg_word t2]]\<rparr>))"
  using assms by (simp add: test_wrtsc_def native_write_msr_safe_def Let_def)

lemma run_test_rdtscp:
  assumes "halted w = None"
  shows "run_state (test_rdtscp env a) w =
    (let w1 = trace w @ [MsrWrSafe MSR_TSC_AUX a (env_wrmsr_safe env (trace w) MSR_TSC_AUX a)]
     in ((), w\<lparr>trace := w1 @ [Rdtscp (fst (env_rdtscp env w1)) (snd (env_rdtscp env w1)),
          Printk ''Test RDTSCP eax=%d, aux=%lld''
            [arg_word (snd (env_rdtscp env w1)), arg_word a]]\<rparr>))"
  using assms by (simp add: test_rdtscp_def Let_def split: prod.splits)

definition ticks_within :: "(ev list \<Rightarrow> u64) \<Rightarrow> u64 \<Rightarrow> bool" where
  "ticks_within cyc c \<longleftrightarrow> (\<forall>t e. cyc (t @ [e]) - cyc t \<le> c)"

lemma ticks_withinD: "ticks_within cyc c \<Longrightarrow> cyc (t @ [e]) - cyc t \<le> c"
  by (simp add: ticks_within_def)

section \<open>Properties\<close>

lemma test_tsc_adjust_run:
  assumes "halted w = None" and "tsc_machine env cyc adj aux"
    and "bit (fst (snd (env_cpuid env (trace w) 7 0))) 1"
  obtains h0 h1 h2 h3 h4 h5 where "messages (trace (snd (run_state (test_tsc_adjust env) w))) = messages (trace w) @
    [Printk ''IA32_TSC_ADJUST msr initialization,  %lld'' [arg_word (adj (trace w))],
     Printk ''IA32_TSC_ADJUST msr read / write, %lld'' [arg_word (100000000000 :: u64)],
     Printk ''TSC adjustment for IA32_TSC_ADJUST value, t2-t1=%lld''
       [arg_word ((cyc h2 + 100000000000) - (cyc h0 + adj (trace w)))],
     Printk ''IA32_TSC_ADJUST msr read / write, %lld'' [arg_word (0 :: u64)],
     Printk ''IA32_TSC_ADJUST msr adjustment on tsc write, est_delta_time=%lld, stdvalue=%lld''
       [arg_word (cyc h4 - cyc h3), arg_word (2 * (cyc h5 - cyc h4))]]"
    and "\<exists>e. h1 = h0 @ [e]" and "\<exists>e. h2 = h1 @ [e]" and "\<exists>e. h4 = h3 @ [e]" and "\<exists>e. h5 = h4 @ [e]"
proof -
  note m = tsc_machineD [OF assms(2)]
  define a0 where "a0 = adj (trace w)"
  define h0 where "h0 = ((trace w @ [Cpuid 7 0]) @ [MsrRdSafe IA32_TSC_ADJUST 0])
    @ [Printk ''IA32_TSC_ADJUST msr initialization,  %lld'' [arg_word a0]]"
  define h1 where "h1 = h0 @ [Rdtsc (cyc h0 + a0)]"
  define h2 where "h2 = h1 @ [MsrWrSafe IA32_TSC_ADJUST 100000000000 0]"
  define t2 where "t2 = cyc h2 + 100000000000"
  define h3 where "h3 = ((((((h2 @ [Rdtsc t2]) @ [MsrRdSafe IA32_TSC_ADJUST 0])
    @ [Printk ''IA32_TSC_ADJUST msr read / write, %lld'' [AInt 100000000000]])
    @ [Printk ''TSC adjustment for IA32_TSC_ADJUST value, t2-t1=%lld''
        [arg_word (t2 - (cyc h0 + a0))]])
    @ [MsrWrSafe IA32_TSC_ADJUST 0 0]) @ [MsrRdSafe IA32_TSC_ADJUST 0])
    @ [Printk ''IA32_TSC_ADJUST msr read / write, %lld'' [AInt 0]]"
  define h4 where "h4 = h3 @ [Rdtsc (cyc h3)]"
  define h5 where "h5 = h4 @ [MsrWrSafe MSR_IA32_TSC 100000000000 0]"
  note hs = h0_def h1_def h2_def h3_def h4_def h5_def t2_def a0_def
  have bit1: "fst (snd (env_cpuid env (trace w) 7 0)) AND 2 \<noteq> 0"
    using assms(3) and_exp_eq_0_iff_not_bit [of "fst (snd (env_cpuid env (trace w) 7 0))" 1] by simp
  have ne: "MSR_IA32_TSC \<noteq> IA32_TSC_ADJUST" by (simp add: IA32_TSC_ADJUST_def MSR_IA32_TSC_def)
  obtain ca cb cc cd where cpu: "env_cpuid env (trace w) 7 0 = (ca, cb, cc, cd)"
    by (metis prod_cases4)
  note snoc = tsc_machine_snoc [OF assms(2)] adj_after_def ne
  have adjs: "adj h0 = a0" "adj h1 = a0" "adj h2 = 100000000000" "adj h3 = 0" "adj h4 = 0"
    "adj h5 = 100000000000 - cyc h4"
    by (simp_all only: hs, simp_all add: snoc del: append_assoc)
  have msgs: "messages h5 = messages (trace w) @
      [Printk ''IA32_TSC_ADJUST msr initialization,  %lld'' [arg_word a0],
       Printk ''IA32_TSC_ADJUST msr read / write, %lld'' [AInt 100000000000],
       Printk ''TSC adjustment for IA32_TSC_ADJUST value, t2-t1=%lld'' [arg_word (t2 - (cyc h0 + a0))],
       Printk ''IA32_TSC_ADJUST msr read / write, %lld'' [AInt 0]]"
    by (simp add: h0_def h1_def h2_def h3_def h4_def h5_def)
  have "messages (trace (snd (run_state (test_tsc_adjust env) w))) = messages (trace w) @
    [Printk ''IA32_TSC_ADJUST msr initialization,  %lld'' [arg_word a0],
     Printk ''IA32_TSC_ADJUST msr read / write, %lld'' [arg_word (100000000000 :: u64)],
     Printk ''TSC adjustment for IA32_TSC_ADJUST value, t2-t1=%lld''
       [arg_word ((cyc h2 + 100000000000) - (cyc h0 + a0))],
     Printk ''IA32_TSC_ADJUST msr read / write, %lld'' [arg_word (0 :: u64)],
     Printk ''IA32_TSC_ADJUST msr adjustment on tsc write, est_delta_time=%lld, stdvalue=%lld''
       [arg_word (cyc h4 - cyc h3), arg_word (2 * (cyc h5 - cyc h4))]]"
    using assms(1) bit1 cpu
    by (simp add: test_tsc_adjust_def m adjs msgs snoc 
        hs[symmetric] del: append_assoc)
  then show ?thesis
    by (rule that [unfolded a0_def [symmetric]]) (auto simp: h1_def h2_def h4_def h5_def)
qed

text \<open>C36. On a counter that behaves as documented and advances by at most \<open>c\<close> cycles per step,
  the IA32_TSC_ADJUST test reads back exactly what it wrote (10^11, then 0), sees the counter move
  by that amount plus two steps, and the time it estimates between reading and writing the counter
  is the one step that really elapsed.\<close>

theorem test_tsc_adjust_messages:
  assumes "halted w = None" and "tsc_machine env cyc adj aux" and "ticks_within cyc c"
    and "bit (fst (snd (env_cpuid env (trace w) 7 0))) 1"
  shows "\<exists>d1 d2 d3 d4. d1 \<le> c \<and> d2 \<le> c \<and> d3 \<le> c \<and> d4 \<le> c \<and>
    messages (trace (snd (run_state (test_tsc_adjust env) w))) = messages (trace w) @
    [Printk ''IA32_TSC_ADJUST msr initialization,  %lld'' [arg_word (adj (trace w))],
     Printk ''IA32_TSC_ADJUST msr read / write, %lld'' [arg_word (100000000000 :: u64)],
     Printk ''TSC adjustment for IA32_TSC_ADJUST value, t2-t1=%lld''
       [arg_word (100000000000 - adj (trace w) + d1 + d2)],
     Printk ''IA32_TSC_ADJUST msr read / write, %lld'' [arg_word (0 :: u64)],
     Printk ''IA32_TSC_ADJUST msr adjustment on tsc write, est_delta_time=%lld, stdvalue=%lld''
       [arg_word d3, arg_word (2 * d4)]]"
proof -
  obtain h0 h1 h2 h3 h4 h5 where run: "messages (trace (snd (run_state (test_tsc_adjust env) w))) = messages (trace w) @
    [Printk ''IA32_TSC_ADJUST msr initialization,  %lld'' [arg_word (adj (trace w))],
     Printk ''IA32_TSC_ADJUST msr read / write, %lld'' [arg_word (100000000000 :: u64)],
     Printk ''TSC adjustment for IA32_TSC_ADJUST value, t2-t1=%lld''
       [arg_word ((cyc h2 + 100000000000) - (cyc h0 + adj (trace w)))],
     Printk ''IA32_TSC_ADJUST msr read / write, %lld'' [arg_word (0 :: u64)],
     Printk ''IA32_TSC_ADJUST msr adjustment on tsc write, est_delta_time=%lld, stdvalue=%lld''
       [arg_word (cyc h4 - cyc h3), arg_word (2 * (cyc h5 - cyc h4))]]"
    and h: "\<exists>e. h1 = h0 @ [e]" "\<exists>e. h2 = h1 @ [e]" "\<exists>e. h4 = h3 @ [e]" "\<exists>e. h5 = h4 @ [e]"
    by (rule test_tsc_adjust_run [OF assms(1,2,4)])
  have "cyc h1 - cyc h0 \<le> c" "cyc h2 - cyc h1 \<le> c" "cyc h4 - cyc h3 \<le> c" "cyc h5 - cyc h4 \<le> c"
    using h ticks_withinD [OF assms(3)] by auto
  moreover have "(cyc h2 + 100000000000) - (cyc h0 + adj (trace w))
      = 100000000000 - adj (trace w) + (cyc h1 - cyc h0) + (cyc h2 - cyc h1)"
    by simp
  ultimately show ?thesis using run by metis
qed

text \<open>What the TSC test prints for three elapsed times.\<close>

definition tsc_messages :: "u64 \<Rightarrow> u64 \<Rightarrow> u64 \<Rightarrow> ev list" where
  "tsc_messages d0 d1 d2 =
    [Printk ''rdtsc latency %u'' [arg_word (ucast d0 :: u32)],
     Printk ''rdtsc after wrtsc%lld : %lld '' [arg_word (0 :: u64), arg_word d1],
     Printk ''rdtsc after wrtsc%lld : %lld ''
       [arg_word (100000000000 :: u64), arg_word (100000000000 + d2)],
     Printk ''Test RDTSCP eax=%d, aux=%lld'' [AInt 0, AInt 0],
     Printk ''Test RDTSCP eax=%d, aux=%lld'' [AInt 10, AInt 10],
     Printk ''Test RDTSCP eax=%d, aux=%lld'' [AInt 0x100, AInt 0x100]]"

lemma step_wrtsc:
  assumes "halted w = None" and "tsc_machine env cyc adj aux" and "ticks_within cyc c"
  shows "\<exists>d t. d \<le> c \<and> run_state (test_wrtsc env v) w = ((), w\<lparr>trace := t\<rparr>) \<and>
    messages t = messages (trace w) @ [Printk ''rdtsc after wrtsc%lld : %lld '' [arg_word v, arg_word (v + d)]]"
proof -
  let ?t1 = "trace w @ [MsrWrSafe MSR_IA32_TSC v 0]"
  have "adj ?t1 = v - cyc (trace w)"
    by (simp add: tsc_machine_snoc [OF assms(2)] adj_after_def IA32_TSC_ADJUST_def MSR_IA32_TSC_def)
  then have r: "env_rdtsc env ?t1 = v + (cyc ?t1 - cyc (trace w))"
    by (simp add: tsc_machineD [OF assms(2)])
  have "run_state (test_wrtsc env v) w = ((), w\<lparr>trace := ?t1 @ [Rdtsc (env_rdtsc env ?t1),
      Printk ''rdtsc after wrtsc%lld : %lld '' [arg_word v, arg_word (env_rdtsc env ?t1)]]\<rparr>)"
    using assms(1) by (simp add: run_test_wrtsc tsc_machineD [OF assms(2)] Let_def)
  then show ?thesis
    using ticks_withinD [OF assms(3), of "trace w" "MsrWrSafe MSR_IA32_TSC v 0"]
    unfolding r by (intro exI [of _ "cyc ?t1 - cyc (trace w)"] exI conjI) (assumption, assumption, simp)
qed

lemma step_rdtscp:
  assumes "halted w = None" and "tsc_machine env cyc adj aux"
  shows "\<exists>t. run_state (test_rdtscp env a) w = ((), w\<lparr>trace := t\<rparr>) \<and>
    messages t = messages (trace w) @ [Printk ''Test RDTSCP eax=%d, aux=%lld'' [arg_word (ucast a :: u32), arg_word a]]"
proof -
  let ?t1 = "trace w @ [MsrWrSafe MSR_TSC_AUX a 0]"
  have "snd (env_rdtscp env ?t1) = ucast a"
    by (simp add: tsc_machineD [OF assms(2)] tsc_machine_snoc [OF assms(2)] aux_after_def)
  then show ?thesis
    using assms(1) by (simp add: run_test_rdtscp tsc_machineD(3) [OF assms(2)] Let_def)
      (intro exI conjI, rule refl, simp)
qed

lemma step_latency:
  assumes "halted w = None" and "tsc_machine env cyc adj aux" and "ticks_within cyc c"
  shows "\<exists>d t. d \<le> c \<and> messages t = messages (trace w) @ [Printk ''rdtsc latency %u'' [arg_word (ucast d :: u32)]] \<and>
    run_state (do { t1 \<leftarrow> rdtsc env; t2 \<leftarrow> rdtsc env;
      printk ''rdtsc latency %u'' [arg_word (ucast (t2 - t1) :: u32)] }) w = ((), w\<lparr>trace := t\<rparr>)"
proof -
  let ?t1 = "trace w @ [Rdtsc (env_rdtsc env (trace w))]"
  have "env_rdtsc env ?t1 - env_rdtsc env (trace w) = cyc ?t1 - cyc (trace w)"
    by (simp add: tsc_machineD [OF assms(2)] tsc_machine_snoc [OF assms(2)] adj_after_def)
  then show ?thesis
    using assms(1) ticks_withinD [OF assms(3), of "trace w" "Rdtsc (env_rdtsc env (trace w))"]
    by (intro exI [of _ "cyc ?t1 - cyc (trace w)"] exI [of _ "?t1 @ [Rdtsc (env_rdtsc env ?t1),
      Printk ''rdtsc latency %u'' [arg_word (ucast (cyc ?t1 - cyc (trace w)) :: u32)]]"]) simp
qed

lemma test_tsc_run:
  assumes "halted w = None" and "tsc_machine env cyc adj aux" and "ticks_within cyc c"
  shows "\<exists>d0 d1 d2. d0 \<le> c \<and> d1 \<le> c \<and> d2 \<le> c \<and>
    (\<exists>t. run_state (test_tsc env) w = ((), w\<lparr>trace := t\<rparr>)
      \<and> messages t = messages (trace w) @ tsc_messages d0 d1 d2)"
proof -
  have tsc: "test_tsc env = do {
      do { t1 \<leftarrow> rdtsc env; t2 \<leftarrow> rdtsc env; printk ''rdtsc latency %u'' [arg_word (ucast (t2 - t1) :: u32)] };
      test_wrtsc env 0; test_wrtsc env 100000000000;
      test_rdtscp env 0; test_rdtscp env 10; test_rdtscp env 0x100 }"
    by (simp add: test_tsc_def)
  obtain d0 t0 where 0: "d0 \<le> c" "messages t0 = messages (trace w) @ [Printk ''rdtsc latency %u'' [arg_word (ucast d0 :: u32)]]"
    "run_state (do { t1 \<leftarrow> rdtsc env; t2 \<leftarrow> rdtsc env;
      printk ''rdtsc latency %u'' [arg_word (ucast (t2 - t1) :: u32)] }) w = ((), w\<lparr>trace := t0\<rparr>)"
    using step_latency [OF assms] by blast
  note h = assms(1)
  obtain d1 t1 where 1: "d1 \<le> c" "run_state (test_wrtsc env 0) (w\<lparr>trace := t0\<rparr>) = ((), w\<lparr>trace := t1\<rparr>)"
    "messages t1 = messages t0 @ [Printk ''rdtsc after wrtsc%lld : %lld '' [arg_word (0 :: u64), arg_word d1]]"
    using step_wrtsc [of "w\<lparr>trace := t0\<rparr>", OF _ assms(2,3), of 0] h by auto
  obtain d2 t2 where 2: "d2 \<le> c" "run_state (test_wrtsc env 100000000000) (w\<lparr>trace := t1\<rparr>) = ((), w\<lparr>trace := t2\<rparr>)"
    "messages t2 = messages t1 @ [Printk ''rdtsc after wrtsc%lld : %lld ''
      [arg_word (100000000000 :: u64), arg_word (100000000000 + d2)]]"
    using step_wrtsc [of "w\<lparr>trace := t1\<rparr>", OF _ assms(2,3), of 100000000000] h by auto
  obtain t3 where 3: "run_state (test_rdtscp env 0) (w\<lparr>trace := t2\<rparr>) = ((), w\<lparr>trace := t3\<rparr>)"
    "messages t3 = messages t2 @ [Printk ''Test RDTSCP eax=%d, aux=%lld'' [AInt 0, AInt 0]]"
    using step_rdtscp [of "w\<lparr>trace := t2\<rparr>", OF _ assms(2), of 0] h by auto
  obtain t4 where 4: "run_state (test_rdtscp env 10) (w\<lparr>trace := t3\<rparr>) = ((), w\<lparr>trace := t4\<rparr>)"
    "messages t4 = messages t3 @ [Printk ''Test RDTSCP eax=%d, aux=%lld'' [AInt 10, AInt 10]]"
    using step_rdtscp [of "w\<lparr>trace := t3\<rparr>", OF _ assms(2), of 10] h by auto
  obtain t5 where 5: "run_state (test_rdtscp env 0x100) (w\<lparr>trace := t4\<rparr>) = ((), w\<lparr>trace := t5\<rparr>)"
    "messages t5 = messages t4 @ [Printk ''Test RDTSCP eax=%d, aux=%lld'' [AInt 0x100, AInt 0x100]]"
    using step_rdtscp [of "w\<lparr>trace := t4\<rparr>", OF _ assms(2), of "0x100"] h by auto
  have "run_state (test_tsc env) w = ((), w\<lparr>trace := t5\<rparr>)"
    unfolding tsc by (rule run_seq [OF 0(3)] run_seq [OF 1(2)] run_seq [OF 2(2)] run_seq [OF 3(1)]
        run_seq [OF 4(1)] 5(1))+
  moreover have "messages t5 = messages (trace w) @ tsc_messages d0 d1 d2"
    by (simp add: 0(2) 1(3) 2(3) 3(2) 4(2) 5(2) tsc_messages_def)
  ultimately show ?thesis using 0(1) 1(1) 2(1) by blast
qed

text \<open>C37. On such a counter the TSC test reports a latency of one step, after each write of the
  counter a value at most one step above the value written (the split into two 32-bit halves loses
  nothing), and for RDTSCP exactly the auxiliary value it wrote.\<close>

theorem test_tsc_messages:
  assumes "halted w = None" and "tsc_machine env cyc adj aux" and "ticks_within cyc c"
  shows "\<exists>d0 d1 d2. d0 \<le> c \<and> d1 \<le> c \<and> d2 \<le> c \<and>
    messages (trace (snd (run_state (test_tsc env) w))) = messages (trace w) @
    [Printk ''rdtsc latency %u'' [arg_word (ucast d0 :: u32)],
     Printk ''rdtsc after wrtsc%lld : %lld '' [arg_word (0 :: u64), arg_word d1],
     Printk ''rdtsc after wrtsc%lld : %lld ''
       [arg_word (100000000000 :: u64), arg_word (100000000000 + d2)],
     Printk ''Test RDTSCP eax=%d, aux=%lld'' [AInt 0, AInt 0],
     Printk ''Test RDTSCP eax=%d, aux=%lld'' [AInt 10, AInt 10],
     Printk ''Test RDTSCP eax=%d, aux=%lld'' [AInt 0x100, AInt 0x100]]"
proof -
  from test_tsc_run [OF assms] obtain d0 d1 d2 t where d: "d0 \<le> c" "d1 \<le> c" "d2 \<le> c"
    and t: "run_state (test_tsc env) w = ((), w\<lparr>trace := t\<rparr>)"
      "messages t = messages (trace w) @ tsc_messages d0 d1 d2" by blast
  show ?thesis
    by (rule exI [of _ d0], rule exI [of _ d1], rule exI [of _ d2])
      (simp add: d t tsc_messages_def)
qed

text \<open>A counter that ticks once per event, for the witnesses.\<close>

fun tick_adj_rev :: "ev list \<Rightarrow> u64" where
  "tick_adj_rev [] = 0"
| "tick_adj_rev (e # r) = adj_after (\<lambda>t. of_nat (length t)) (rev r) (tick_adj_rev r) e"

definition tick_adj :: "ev list \<Rightarrow> u64" where
  "tick_adj t = tick_adj_rev (rev t)"

definition tick_aux :: "ev list \<Rightarrow> u64" where
  "tick_aux t = foldl aux_after 0 t"

definition tick_env :: env where
  "tick_env = calm_env\<lparr>
     env_rdtsc := (\<lambda>t. of_nat (length t) + tick_adj t),
     env_rdmsr_safe := (\<lambda>t i. (0, tick_adj t)),
     env_rdtscp := (\<lambda>t. (of_nat (length t) + tick_adj t, ucast (tick_aux t))),
     env_cpuid := (\<lambda>t l s. (0, 2, 0, 0))\<rparr>"

lemma tick_machine: "tsc_machine tick_env (\<lambda>t. of_nat (length t)) tick_adj tick_aux"
  by (simp add: tsc_machine_def tick_env_def calm_env_def tick_adj_def tick_aux_def)

lemma tick_within: "ticks_within (\<lambda>t. of_nat (length t)) 1"
  by (simp add: ticks_within_def)

theorem test_tsc_messages_witness:
  "\<exists>d0 d1 d2. d0 \<le> 1 \<and> d1 \<le> 1 \<and> d2 \<le> 1 \<and>
    messages (trace (snd (run_state (test_tsc tick_env) start_world))) =
    [Printk ''rdtsc latency %u'' [arg_word (ucast (d0 :: u64) :: u32)],
     Printk ''rdtsc after wrtsc%lld : %lld '' [arg_word (0 :: u64), arg_word (d1 :: u64)],
     Printk ''rdtsc after wrtsc%lld : %lld ''
       [arg_word (100000000000 :: u64), arg_word (100000000000 + d2 :: u64)],
     Printk ''Test RDTSCP eax=%d, aux=%lld'' [AInt 0, AInt 0],
     Printk ''Test RDTSCP eax=%d, aux=%lld'' [AInt 10, AInt 10],
     Printk ''Test RDTSCP eax=%d, aux=%lld'' [AInt 0x100, AInt 0x100]]"
  using test_tsc_messages [OF _ tick_machine tick_within, of start_world] by simp

theorem test_tsc_adjust_messages_witness:
  "\<exists>d1 d2 d3 d4. d1 \<le> 1 \<and> d2 \<le> 1 \<and> d3 \<le> 1 \<and> d4 \<le> 1 \<and>
    messages (trace (snd (run_state (test_tsc_adjust tick_env) start_world))) =
    [Printk ''IA32_TSC_ADJUST msr initialization,  %lld'' [AInt 0],
     Printk ''IA32_TSC_ADJUST msr read / write, %lld'' [AInt 100000000000],
     Printk ''TSC adjustment for IA32_TSC_ADJUST value, t2-t1=%lld''
       [arg_word (100000000000 + d1 + d2 :: u64)],
     Printk ''IA32_TSC_ADJUST msr read / write, %lld'' [AInt 0],
     Printk ''IA32_TSC_ADJUST msr adjustment on tsc write, est_delta_time=%lld, stdvalue=%lld''
       [arg_word (d3 :: u64), arg_word (2 * d4 :: u64)]]"
  using test_tsc_adjust_messages [OF _ tick_machine tick_within, of start_world]
  by (simp add: tick_env_def calm_env_def tick_adj_def)

end
