(* ===== verification/Setjmp.thy ===== *)
theory Setjmp
  imports Machine
begin

text \<open>
  Non-local jumps in the pcm-unit module: the two assembler routines of
  \<open>src/pcm-unit/driver/setjmp64.S\<close> over the registers they touch and a byte memory, and the test
  of \<open>src/pcm-unit/driver/setjmp.c\<close> over the values \<open>setjmp\<close> returns.
\<close>

section \<open>setjmp64.S\<close>

record regs =
  rax :: u64
  rbx :: u64
  rsi :: u64
  rdi :: u64
  rbp :: u64
  rsp :: u64
  r12 :: u64
  r13 :: u64
  r14 :: u64
  r15 :: u64
  rip :: u64
  ram :: memory

definition load64 :: "memory \<Rightarrow> u64 \<Rightarrow> u64" where
  "load64 m a = le_word (load_bytes m a 8)"

definition store64 :: "memory \<Rightarrow> u64 \<Rightarrow> u64 \<Rightarrow> memory" where
  "store64 m a v = store_bytes m a (le_bytes 8 v)"

definition ret :: "regs \<Rightarrow> regs" where
  "ret s = s\<lparr>rip := load64 (ram s) (rsp s), rsp := rsp s + 8\<rparr>"

definition setjmp :: "regs \<Rightarrow> regs" where
  "setjmp s =
    (let s = s\<lparr>rsi := load64 (ram s) (rsp s)\<rparr>;
         s = s\<lparr>ram := store64 (ram s) (rdi s) (rsi s)\<rparr>;
         s = s\<lparr>ram := store64 (ram s) (rdi s + 0x8) (rsp s)\<rparr>;
         s = s\<lparr>ram := store64 (ram s) (rdi s + 0x10) (rbp s)\<rparr>;
         s = s\<lparr>ram := store64 (ram s) (rdi s + 0x18) (rbx s)\<rparr>;
         s = s\<lparr>ram := store64 (ram s) (rdi s + 0x20) (r12 s)\<rparr>;
         s = s\<lparr>ram := store64 (ram s) (rdi s + 0x28) (r13 s)\<rparr>;
         s = s\<lparr>ram := store64 (ram s) (rdi s + 0x30) (r14 s)\<rparr>;
         s = s\<lparr>ram := store64 (ram s) (rdi s + 0x38) (r15 s)\<rparr>;
         s = s\<lparr>rax := 0\<rparr>
     in ret s)"

text \<open>\<open>mov %esi, %eax\<close> writes the low half and clears the high half of RAX.\<close>

definition longjmp :: "regs \<Rightarrow> regs" where
  "longjmp s =
    (let s = s\<lparr>rax := ucast (ucast (rsi s) :: u32)\<rparr>;
         s = s\<lparr>r15 := load64 (ram s) (rdi s + 0x38)\<rparr>;
         s = s\<lparr>r14 := load64 (ram s) (rdi s + 0x30)\<rparr>;
         s = s\<lparr>r13 := load64 (ram s) (rdi s + 0x28)\<rparr>;
         s = s\<lparr>r12 := load64 (ram s) (rdi s + 0x20)\<rparr>;
         s = s\<lparr>rbx := load64 (ram s) (rdi s + 0x18)\<rparr>;
         s = s\<lparr>rbp := load64 (ram s) (rdi s + 0x10)\<rparr>;
         s = s\<lparr>rsp := load64 (ram s) (rdi s + 0x8)\<rparr>;
         s = s\<lparr>rsi := load64 (ram s) (rdi s)\<rparr>;
         s = s\<lparr>ram := store64 (ram s) (rsp s) (rsi s)\<rparr>
     in ret s)"

section \<open>setjmp.c\<close>

text \<open>
  The code after \<open>setjmp\<close>, entered with the value \<open>v\<close> it returned and the value of the volatile
  variable \<open>i\<close>; \<open>longjmp(j, 1)\<close> enters it again with 1.
\<close>

function after_setjmp :: "int \<Rightarrow> int \<Rightarrow> ('a kworld_scheme, unit) state" where
  "after_setjmp v i = do {
     let i = (if v = 0 then 0 else i);
     printk ''%d'' [AInt i];
     let i = i + 1;
     if i < 10 then after_setjmp 1 i
     else printk ''done'' [] }"
  by pat_completeness auto
termination
  by (relation "measure (\<lambda>(v, i). if v = 0 then 11 else nat (10 - i))") (auto split: if_splits)

declare after_setjmp.simps [simp del]

definition test_setjmp :: "int \<Rightarrow> ('a kworld_scheme, unit) state" where
  "test_setjmp i = after_setjmp 0 i"

section \<open>Facts\<close>

lemma load64_store64_same [simp]: "load64 (store64 m a v) a = v"
  using load_store_same [of "le_bytes 8 v" m a] by (simp add: load64_def store64_def)

lemma load64_store64_other: "disjoint_ranges a 8 b 8 \<Longrightarrow> load64 (store64 m a v) b = load64 m b"
  by (simp add: load64_def store64_def load_store_disjoint)

text \<open>Slots of the buffer do not overlap.\<close>

lemma load64_store64_off:
  assumes "x + 8 \<le> y \<or> y + 8 \<le> x" and "x < 2 ^ 62" and "y < 2 ^ 62"
  shows "load64 (store64 m (a + of_nat x) v) (a + of_nat y) = load64 m (a + of_nat y)"
  using assms by (intro load64_store64_other disjoint_offsets) auto

lemma load64_store64_slots [simp]:
  "numeral x + 8 \<le> (numeral y :: nat) \<or> numeral y + 8 \<le> (numeral x :: nat)
    \<Longrightarrow> (numeral x :: nat) < 2 ^ 62 \<Longrightarrow> (numeral y :: nat) < 2 ^ 62
    \<Longrightarrow> load64 (store64 m (a + numeral x) v) (a + numeral y) = load64 m (a + numeral y)"
  "8 \<le> (numeral y :: nat) \<Longrightarrow> (numeral y :: nat) < 2 ^ 62
    \<Longrightarrow> load64 (store64 m (a + numeral y) v) a = load64 m a"
  "8 \<le> (numeral y :: nat) \<Longrightarrow> (numeral y :: nat) < 2 ^ 62
    \<Longrightarrow> load64 (store64 m a v) (a + numeral y) = load64 m (a + numeral y)"
  using load64_store64_off [of "numeral x" "numeral y" m a v]
    load64_store64_off [of "numeral y" 0 m a v] load64_store64_off [of 0 "numeral y" m a v]
  by (simp_all only: of_nat_numeral of_nat_0 add_0_left add_0_right) auto

definition jmp_buf_of :: "memory \<Rightarrow> u64 \<Rightarrow> u64 list" where
  "jmp_buf_of m a = map (\<lambda>k. load64 m (a + of_nat (8 * k))) [0..<8]"

lemma jmp_buf_slots:
  "jmp_buf_of m a = [load64 m a, load64 m (a + 0x8), load64 m (a + 0x10), load64 m (a + 0x18),
    load64 m (a + 0x20), load64 m (a + 0x28), load64 m (a + 0x30), load64 m (a + 0x38)]"
  by (simp add: jmp_buf_of_def upt_rec)

lemma setjmp_saves:
  assumes "disjoint_ranges (rdi s) 64 (rsp s) 8"
  shows "jmp_buf_of (ram (setjmp s)) (rdi s) =
    [load64 (ram s) (rsp s), rsp s, rbp s, rbx s, r12 s, r13 s, r14 s, r15 s]"
  by (simp add: setjmp_def ret_def Let_def jmp_buf_slots)

lemma load64_in_buffer:
  assumes "disjoint_ranges a 64 b 8" and "k < 8"
  shows "load64 (store64 m (a + of_nat (8 * k)) v) b = load64 m b"
proof (rule load64_store64_other, unfold disjoint_ranges_def in_range_def, intro allI impI notI)
  fix i assume i: "i < (8::nat)" and near: "unat (b + of_nat i - (a + of_nat (8 * k))) < 8"
  have "b + of_nat i - a = (b + of_nat i - (a + of_nat (8 * k))) + of_nat (8 * k)" by simp
  then have "unat (b + of_nat i - a) = unat (b + of_nat i - (a + of_nat (8 * k))) + 8 * k"
    using near assms(2) by (metis unat_add_of_nat slot_bound)
  with near assms(2) have "unat (b + of_nat i - a) < 64" by simp
  with assms(1) i show False by (auto simp: disjoint_ranges_def in_range_def)
qed

lemmas load64_in_buffer_slots =
  load64_in_buffer [where k = 0, simplified] load64_in_buffer [where k = 1, simplified]
  load64_in_buffer [where k = 2, simplified] load64_in_buffer [where k = 3, simplified]
  load64_in_buffer [where k = 4, simplified] load64_in_buffer [where k = 5, simplified]
  load64_in_buffer [where k = 6, simplified] load64_in_buffer [where k = 7, simplified]

lemma setjmp_returns:
  assumes "disjoint_ranges (rdi s) 64 (rsp s) 8"
  shows "rip (setjmp s) = load64 (ram s) (rsp s)" "rsp (setjmp s) = rsp s + 8" "rax (setjmp s) = 0"
    "rbx (setjmp s) = rbx s" "rbp (setjmp s) = rbp s" "r12 (setjmp s) = r12 s"
    "r13 (setjmp s) = r13 s" "r14 (setjmp s) = r14 s" "r15 (setjmp s) = r15 s"
  using load64_in_buffer_slots [OF assms]
  by (simp_all add: setjmp_def ret_def Let_def)

lemma run_after_setjmp_done:
  assumes "halted w = None" and "v \<noteq> 0" and "i = 10 - int n" and "0 < n"
  shows "run_state (after_setjmp v i) w = ((), w\<lparr>trace := trace w
    @ map (\<lambda>k. Printk ''%d'' [AInt k]) [i..9] @ [Printk ''done'' []]\<rparr>)"
  using assms
proof (induction n arbitrary: v i w)
  case 0
  then show ?case by simp
next
  case (Suc n)
  show ?case
  proof (cases "n = 0")
    case True
    with Suc.prems show ?thesis by (subst after_setjmp.simps) simp
  next
    case False
    with Suc.prems have "[i..9] = i # [i+1..9]" by (simp add: upto_rec1)
    with False Suc.prems Suc.IH [of "w\<lparr>trace := trace w @ [Printk ''%d'' [AInt i]]\<rparr>" 1 "i + 1"]
    show ?thesis by (subst after_setjmp.simps) simp
  qed
qed

section \<open>Properties\<close>

text \<open>C34. A \<open>longjmp\<close> through a buffer that \<open>setjmp\<close> filled, whatever happened to registers
  and memory in between as long as the eight slots are intact, resumes after the \<open>setjmp\<close> call:
  same return address, same stack pointer, same callee-saved registers, and the low 32 bits of the
  second argument as the value returned (a 0 is passed through as 0).\<close>

theorem longjmp_restores:
  assumes "disjoint_ranges (rdi s) 64 (rsp s) 8"
    and "jmp_buf_of (ram t) (rdi s) = jmp_buf_of (ram (setjmp s)) (rdi s)" and "rdi t = rdi s"
  shows "rip (longjmp t) = rip (setjmp s) \<and> rsp (longjmp t) = rsp (setjmp s) \<and>
    rbx (longjmp t) = rbx s \<and> rbp (longjmp t) = rbp s \<and> r12 (longjmp t) = r12 s \<and>
    r13 (longjmp t) = r13 s \<and> r14 (longjmp t) = r14 s \<and> r15 (longjmp t) = r15 s \<and>
    rax (longjmp t) = take_bit 32 (rsi t)"
proof -
  have "(ucast (ucast (rsi t) :: u32) :: u64) = take_bit 32 (rsi t)"
    by (rule bit_word_eqI) (auto simp: bit_simps)
  with assms(2) [unfolded setjmp_saves [OF assms(1)], unfolded jmp_buf_slots] show ?thesis
    by (simp add: longjmp_def ret_def Let_def assms(3) setjmp_returns [OF assms(1)])
qed

definition jump_regs :: regs where
  "jump_regs = \<lparr>rax = 7, rbx = 1, rsi = 0, rdi = 0x1000, rbp = 2, rsp = 0x2000, r12 = 3, r13 = 4,
     r14 = 5, r15 = 6, rip = 0x400, ram = (\<lambda>a. 0)\<rparr>"

lemma jump_regs_disjoint: "disjoint_ranges (rdi jump_regs) 64 (rsp jump_regs) 8"
  using disjoint_offsets [of 0 64 "0x1000" 8 "0x1000"] by (simp add: jump_regs_def)

theorem longjmp_restores_witness:
  "rip (longjmp ((setjmp jump_regs)\<lparr>rbx := 99, rsp := 0x1f00, rsi := 1\<rparr>)) = 0 \<and>
   rsp (longjmp ((setjmp jump_regs)\<lparr>rbx := 99, rsp := 0x1f00, rsi := 1\<rparr>)) = 0x2008 \<and>
   rbx (longjmp ((setjmp jump_regs)\<lparr>rbx := 99, rsp := 0x1f00, rsi := 1\<rparr>)) = 1 \<and>
   rax (longjmp ((setjmp jump_regs)\<lparr>rbx := 99, rsp := 0x1f00, rsi := 1\<rparr>)) = 1"
proof -
  let ?t = "(setjmp jump_regs)\<lparr>rbx := 99, rsp := 0x1f00, rsi := 1\<rparr>"
  have t: "jmp_buf_of (ram ?t) (rdi jump_regs) = jmp_buf_of (ram (setjmp jump_regs)) (rdi jump_regs)"
    "rdi ?t = rdi jump_regs"
    by (simp_all add: setjmp_def ret_def Let_def)
  have "load64 (\<lambda>a. 0) 0x2000 = 0" by (simp add: load64_def load_bytes_def upt_rec)
  with longjmp_restores [OF jump_regs_disjoint t] setjmp_returns [OF jump_regs_disjoint]
  show ?thesis by (simp add: jump_regs_def)
qed

text \<open>C35. The jump test terminates and prints 0 to 9 in order and then \<open>done\<close>, whatever the
  uninitialised counter held: the counter survives each of the nine jumps.\<close>

theorem test_setjmp_counts:
  assumes "halted w = None"
  shows "run_state (test_setjmp i) w = ((), w\<lparr>trace := trace w
    @ map (\<lambda>k. Printk ''%d'' [AInt k]) [0..9] @ [Printk ''done'' []]\<rparr>)"
proof -
  have "[0..9] = (0::int) # [1..9]" by (simp add: upto_rec1)
  with assms run_after_setjmp_done [of "w\<lparr>trace := trace w @ [Printk ''%d'' [AInt 0]]\<rparr>" 1 1 9]
  show ?thesis unfolding test_setjmp_def by (subst after_setjmp.simps) simp
qed

theorem test_setjmp_counts_witness:
  "trace (snd (run_state (test_setjmp 42) start_world)) =
    map (\<lambda>k. Printk ''%d'' [AInt k]) [0..9] @ [Printk ''done'' []]"
  using test_setjmp_counts [of start_world 42] by simp

end
