(* ===== verification/IoapicRegs.thy ===== *)
theory IoapicRegs
  imports Machine
begin

text \<open>
  The register layer of \<open>src/pcm-unit/driver/ioapic.c\<close>: the local APIC through memory or through
  MSRs and the table of operations that hides which one, the index/data window of the I/O APIC,
  the layout of a redirection entry, and the operations on entries.
\<close>

definition g_apic :: u64 where "g_apic = 0xfee00000"
definition g_ioapic :: u64 where "g_ioapic = 0xfec00000"

definition APIC_ID :: u32 where "APIC_ID = 0x20"
definition APIC_EOI :: u32 where "APIC_EOI = 0xB0"
definition APIC_TMR :: u32 where "APIC_TMR = 0x180"
definition APIC_ICR :: u32 where "APIC_ICR = 0x300"
definition APIC_ICR_BUSY :: u32 where "APIC_ICR_BUSY = 0x1000"
definition APIC_ICR2 :: u32 where "APIC_ICR2 = 0x310"
definition APIC_BASE_MSR :: u32 where "APIC_BASE_MSR = 0x800"

section \<open>The local APIC and its two access modes\<close>

record 'w apic_ops =
  reg_read :: "u32 \<Rightarrow> ('w, u32) state"
  reg_write :: "u32 \<Rightarrow> u32 \<Rightarrow> ('w, unit) state"
  icr_write :: "u32 \<Rightarrow> u32 \<Rightarrow> ('w, unit) state"
  apic_id :: "('w, u32) state"

definition xapic_read :: "env \<Rightarrow> u32 \<Rightarrow> ('a kworld_scheme, u32) state" where
  "xapic_read env reg = mmio_read env (g_apic + ucast reg)"

definition xapic_write :: "u32 \<Rightarrow> u32 \<Rightarrow> ('a kworld_scheme, unit) state" where
  "xapic_write reg val = mmio_write (g_apic + ucast reg) val"

definition xapic_icr_write :: "env \<Rightarrow> u32 \<Rightarrow> u32 \<Rightarrow> ('a kworld_scheme, unit) state" where
  "xapic_icr_write env val dest = do {
     while_do (env_fuel env)
       (do { icr \<leftarrow> xapic_read env APIC_ICR; State_Monad.return (icr AND APIC_ICR_BUSY \<noteq> 0) })
       skip;
     xapic_write APIC_ICR2 (push_bit 24 dest);
     xapic_write APIC_ICR val }"

definition xapic_id :: "env \<Rightarrow> ('a kworld_scheme, u32) state" where
  "xapic_id env = do { v \<leftarrow> xapic_read env APIC_ID; State_Monad.return (drop_bit 24 v) }"

definition xapic_ops :: "env \<Rightarrow> ('a kworld_scheme) apic_ops" where
  "xapic_ops env = \<lparr>reg_read = xapic_read env, reg_write = xapic_write,
     icr_write = xapic_icr_write env, apic_id = xapic_id env\<rparr>"

text \<open>RDMSR leaves the value in EAX and EDX; WRMSR takes it from there.\<close>

definition x2apic_read :: "env \<Rightarrow> u32 \<Rightarrow> ('a kworld_scheme, u32) state" where
  "x2apic_read env reg = do {
     v \<leftarrow> rdmsr env (APIC_BASE_MSR + reg div 16);
     let a = (ucast v :: u32);
     let d = (ucast (drop_bit 32 v) :: u32);
     State_Monad.return (ucast (ucast a OR push_bit 32 (ucast d) :: u64)) }"

definition x2apic_write :: "env \<Rightarrow> u32 \<Rightarrow> u32 \<Rightarrow> ('a kworld_scheme, unit) state" where
  "x2apic_write env reg val = wrmsr env (APIC_BASE_MSR + reg div 16) (ucast val)"

definition x2apic_icr_write :: "env \<Rightarrow> u32 \<Rightarrow> u32 \<Rightarrow> ('a kworld_scheme, unit) state" where
  "x2apic_icr_write env val dest =
     wrmsr env (APIC_BASE_MSR + APIC_ICR div 16) (ucast val OR push_bit 32 (ucast dest))"

definition x2apic_id :: "env \<Rightarrow> ('a kworld_scheme, u32) state" where
  "x2apic_id env = x2apic_read env APIC_ID"

definition x2apic_ops :: "env \<Rightarrow> ('a kworld_scheme) apic_ops" where
  "x2apic_ops env = \<lparr>reg_read = x2apic_read env, reg_write = x2apic_write env,
     icr_write = x2apic_icr_write env, apic_id = x2apic_id env\<rparr>"

text \<open>
  \<open>apic_read\<close> and \<open>apic_write\<close> are the kernel's (the local definitions are commented out).
\<close>

definition apic_read :: "env \<Rightarrow> u32 \<Rightarrow> ('a kworld_scheme, u32) state" where
  "apic_read env reg = do {
     v \<leftarrow> kcall env ''apic_read'' [arg_word reg]; State_Monad.return (ucast v) }"

definition apic_write :: "env \<Rightarrow> u32 \<Rightarrow> u32 \<Rightarrow> ('a kworld_scheme, unit) state" where
  "apic_write env reg val = do {
     _ \<leftarrow> kcall env ''apic_write'' [arg_word reg, arg_word val]; skip }"

definition mask_pic_interrupts :: "('a kworld_scheme, unit) state" where
  "mask_pic_interrupts = do { outb 0xff 0x21; outb 0xff 0xa1 }"

definition irq_disable :: "('a kworld_scheme, unit) state" where
  "irq_disable = cli"

definition irq_enable :: "('a kworld_scheme, unit) state" where
  "irq_enable = sti"

text \<open>The 256-bit registers of the local APIC are eight 32-bit words, 16 bytes apart.\<close>

definition apic_read_bit :: "env \<Rightarrow> u32 \<Rightarrow> u32 \<Rightarrow> ('a kworld_scheme, bool) state" where
  "apic_read_bit env reg n = do {
     let reg = reg + push_bit 4 (drop_bit 5 n);
     let n = n AND 31;
     v \<leftarrow> apic_read env reg;
     State_Monad.return (v AND push_bit (unat n) 1 \<noteq> 0) }"

definition eoi :: "env \<Rightarrow> ('a kworld_scheme, unit) state" where
  "eoi env = apic_write env APIC_EOI 0"

section \<open>The I/O APIC window\<close>

definition ioapic_read_reg :: "env \<Rightarrow> u32 \<Rightarrow> ('a kworld_scheme, u32) state" where
  "ioapic_read_reg env reg = do { mmio_write g_ioapic reg; mmio_read env (g_ioapic + 0x10) }"

definition ioapic_write_reg :: "u32 \<Rightarrow> u32 \<Rightarrow> ('a kworld_scheme, unit) state" where
  "ioapic_write_reg reg val = do { mmio_write g_ioapic reg; mmio_write (g_ioapic + 0x10) val }"

section \<open>Redirection entries\<close>

datatype trigger_mode = TRIGGER_EDGE | TRIGGER_LEVEL | TRIGGER_MAX

record ioapic_redir_entry =
  vector :: u8
  delivery_mode :: "3 word"
  dest_mode :: bool
  delivery_status :: bool
  polarity :: bool
  remote_irr :: bool
  trig_mode :: bool
  mask_bit :: bool
  reserve :: "7 word"
  reserved :: u32
  dest_id :: u8

text \<open>The eight bytes of the structure as one little-endian number, and back.\<close>

definition redir_to_u64 :: "ioapic_redir_entry \<Rightarrow> u64" where
  "redir_to_u64 e =
     ucast (vector e) OR push_bit 8 (ucast (delivery_mode e))
     OR push_bit 11 (of_bool (dest_mode e)) OR push_bit 12 (of_bool (delivery_status e))
     OR push_bit 13 (of_bool (polarity e)) OR push_bit 14 (of_bool (remote_irr e))
     OR push_bit 15 (of_bool (trig_mode e)) OR push_bit 16 (of_bool (mask_bit e))
     OR push_bit 17 (ucast (reserve e)) OR push_bit 24 (ucast (reserved e))
     OR push_bit 56 (ucast (dest_id e))"

definition redir_of_u64 :: "u64 \<Rightarrow> ioapic_redir_entry" where
  "redir_of_u64 w = \<lparr>
     vector = ucast w, delivery_mode = ucast (drop_bit 8 w), dest_mode = bit w 11,
     delivery_status = bit w 12, polarity = bit w 13, remote_irr = bit w 14,
     trig_mode = bit w 15, mask_bit = bit w 16, reserve = ucast (drop_bit 17 w),
     reserved = ucast (drop_bit 24 w), dest_id = ucast (drop_bit 56 w)\<rparr>"

definition ioapic_write_redir :: "u32 \<Rightarrow> ioapic_redir_entry \<Rightarrow> ('a kworld_scheme, unit) state" where
  "ioapic_write_redir line e = do {
     ioapic_write_reg (0x10 + line * 2 + 0) (ucast (redir_to_u64 e));
     ioapic_write_reg (0x10 + line * 2 + 1) (ucast (drop_bit 32 (redir_to_u64 e))) }"

definition ioapic_read_redir :: "env \<Rightarrow> u32 \<Rightarrow> ('a kworld_scheme, ioapic_redir_entry) state" where
  "ioapic_read_redir env line = do {
     lo \<leftarrow> ioapic_read_reg env (0x10 + line * 2 + 0);
     hi \<leftarrow> ioapic_read_reg env (0x10 + line * 2 + 1);
     State_Monad.return (redir_of_u64 (ucast lo OR push_bit 32 (ucast hi))) }"

fun trigger_bit :: "trigger_mode \<Rightarrow> bool" where
  "trigger_bit TRIGGER_EDGE = False"
| "trigger_bit TRIGGER_LEVEL = True"
| "trigger_bit TRIGGER_MAX = False"

definition set_ioapic_redir :: "u32 \<Rightarrow> u32 \<Rightarrow> trigger_mode \<Rightarrow> ('a kworld_scheme, unit) state" where
  "set_ioapic_redir line vec trig = ioapic_write_redir line \<lparr>
     vector = ucast vec, delivery_mode = 0, dest_mode = False, delivery_status = False,
     polarity = False, remote_irr = False, trig_mode = trigger_bit trig, mask_bit = False,
     reserve = 0, reserved = 0, dest_id = 0\<rparr>"

text \<open>The one-bit field keeps the low bit of the integer assigned to it.\<close>

definition set_mask :: "env \<Rightarrow> u32 \<Rightarrow> int \<Rightarrow> ('a kworld_scheme, unit) state" where
  "set_mask env line m = do {
     e \<leftarrow> ioapic_read_redir env line;
     ioapic_write_redir line (e\<lparr>mask_bit := odd m\<rparr>) }"

section \<open>Interrupt lines\<close>

definition set_irq_line :: "u32 \<Rightarrow> int \<Rightarrow> ('a kworld_scheme, unit) state" where
  "set_irq_line line val = outb (word_of_int val) (ucast (0x2000 + line))"

section \<open>The register tests\<close>

definition ioapic_reg_version :: "env \<Rightarrow> ('a kworld_scheme, unit) state" where
  "ioapic_reg_version env = do {
     let version_offset = 0x01;
     data_read \<leftarrow> ioapic_read_reg env version_offset;
     let data_write = data_read XOR 0xffffffff;
     ioapic_write_reg version_offset data_write;
     again \<leftarrow> ioapic_read_reg env version_offset;
     printk ''version register read only test, version0=%d, version1=%d''
       [arg_word data_read, arg_word again] }"

definition ioapic_reg_id :: "env \<Rightarrow> ('a kworld_scheme, unit) state" where
  "ioapic_reg_id env = do {
     let id_offset = 0x0;
     data_read \<leftarrow> ioapic_read_reg env id_offset;
     let data_write = data_read XOR 0xffffffff;
     ioapic_write_reg id_offset data_write;
     again \<leftarrow> ioapic_read_reg env id_offset;
     let diff = data_read XOR again;
     printk ''id register only bits [24:27] writable, diff=%x'' [arg_word diff] }"

definition ioapic_arbitration_id :: "env \<Rightarrow> ('a kworld_scheme, unit) state" where
  "ioapic_arbitration_id env = do {
     let id_offset = 0x0;
     let arb_offset = 0x2;
     let wr = 0x0f000000;
     ioapic_write_reg id_offset wr;
     a1 \<leftarrow> ioapic_read_reg env arb_offset;
     printk ''arbitration register set by id, write=%x, ioapic_read_reg(arb_offset)=%x''
       [arg_word (wr :: u32), arg_word a1];
     ioapic_write_reg arb_offset 0x0;
     a2 \<leftarrow> ioapic_read_reg env arb_offset;
     printk ''arbtration register read only, write=%x, ioapic_read_reg(arb_offset)=%x''
       [arg_word wr, arg_word a2] }"

section \<open>Facts: the layout of an entry\<close>

lemma redir_of_to: "redir_of_u64 (redir_to_u64 e) = e"
proof -
  have "ucast (redir_to_u64 e) = vector e"
    "ucast (drop_bit 8 (redir_to_u64 e)) = delivery_mode e"
    "ucast (drop_bit 17 (redir_to_u64 e)) = reserve e"
    "ucast (drop_bit 24 (redir_to_u64 e)) = reserved e"
    "ucast (drop_bit 56 (redir_to_u64 e)) = dest_id e"
    by (rule bit_word_eqI; auto simp: redir_to_u64_def bit_simps dest: bit_imp_le_length)+
  moreover have "bit (redir_to_u64 e) 11 = dest_mode e" "bit (redir_to_u64 e) 12 = delivery_status e"
    "bit (redir_to_u64 e) 13 = polarity e" "bit (redir_to_u64 e) 14 = remote_irr e"
    "bit (redir_to_u64 e) 15 = trig_mode e" "bit (redir_to_u64 e) 16 = mask_bit e"
    by (simp_all add: redir_to_u64_def bit_simps)
  ultimately show ?thesis by (simp add: redir_of_u64_def)
qed

lemma redir_mask_bits:
  assumes "n < 64"
  shows "bit (redir_to_u64 (redir_of_u64 w\<lparr>mask_bit := b\<rparr>)) n = (if n = 16 then b else bit w n)"
proof -
  from assms consider "n < 8" | "8 \<le> n \<and> n < 11" | "n = 11" | "n = 12" | "n = 13" | "n = 14"
    | "n = 15" | "n = 16" | "17 \<le> n \<and> n < 24" | "24 \<le> n \<and> n < 56" | "56 \<le> n \<and> n < 64"
    by linarith
  then show ?thesis
    by cases (simp_all add: redir_to_u64_def redir_of_u64_def bit_simps, linarith+)
qed

text \<open>Setting the mask flag of an entry changes bit 16 of its encoding and nothing else.\<close>

lemma redir_mask_bit:
  "redir_to_u64 (redir_of_u64 w\<lparr>mask_bit := b\<rparr>) = (if b then set_bit 16 w else unset_bit 16 w)"
  by (rule bit_word_eqI) (auto simp: redir_mask_bits bit_simps)

lemma redir_to_of: "redir_to_u64 (redir_of_u64 w) = w"
proof -
  have "redir_of_u64 w = redir_of_u64 w\<lparr>mask_bit := bit w 16\<rparr>"
    by (simp add: redir_of_u64_def)
  then show ?thesis
    using redir_mask_bits [where w = w and b = "bit w 16"] by (intro bit_word_eqI) simp
qed

section \<open>Facts: the window\<close>

text \<open>
  What the accesses of a trace write to the indirect registers: the index register selects, the
  data register writes the selected one.
\<close>

fun window_step :: "u32 \<times> (u32 \<times> u32) list \<Rightarrow> ev \<Rightarrow> u32 \<times> (u32 \<times> u32) list" where
  "window_step (sel, ws) (MmioW a v) =
     (if a = g_ioapic then (v, ws)
      else if a = g_ioapic + 0x10 then (sel, ws @ [(sel, v)])
      else (sel, ws))"
| "window_step s _ = s"

definition window_writes :: "ev list \<Rightarrow> (u32 \<times> u32) list" where
  "window_writes t = snd (foldl window_step (0, []) t)"

lemma window_data_ne [simp]: "g_ioapic + 0x10 \<noteq> g_ioapic"
  by (simp add: g_ioapic_def)

lemma window_fold: "foldl window_step (sel, ws) es
    = (fst (foldl window_step (sel, []) es), ws @ snd (foldl window_step (sel, []) es))"
proof (induction es arbitrary: sel ws)
  case Nil
  then show ?case by simp
next
  case (Cons e es)
  obtain sel' ws' where s: "window_step (sel, []) e = (sel', ws')" by fastforce
  then have "window_step (sel, ws) e = (sel', ws @ ws')"
    by (cases e) (auto split: if_splits)
  with s Cons.IH [of sel' "ws @ ws'"] Cons.IH [of sel' ws'] show ?case by simp
qed

lemma window_writes_append:
  "window_writes (t @ es)
    = window_writes t @ snd (foldl window_step (fst (foldl window_step (0, []) t), []) es)"
proof -
  obtain sel ws where f: "foldl window_step (0, []) t = (sel, ws)" by fastforce
  show ?thesis
    unfolding window_writes_def foldl_append f by (subst window_fold) simp
qed

lemma run_ioapic_read_reg [simp]:
  assumes "halted w = None"
  shows "run_state (ioapic_read_reg env r) w =
    (let v = env_mmio env (trace w @ [MmioW g_ioapic r]) (g_ioapic + 0x10)
     in (v, w\<lparr>trace := trace w @ [MmioW g_ioapic r, MmioR (g_ioapic + 0x10) v]\<rparr>))"
  using assms by (simp add: ioapic_read_reg_def Let_def)

lemma run_ioapic_write_reg [simp]:
  assumes "halted w = None"
  shows "run_state (ioapic_write_reg r v) w =
    ((), w\<lparr>trace := trace w @ [MmioW g_ioapic r, MmioW (g_ioapic + 0x10) v]\<rparr>)"
  using assms by (simp add: ioapic_write_reg_def)

section \<open>The interface of the redirection table\<close>

text \<open>
  What the operations on entries rely on: writing an entry writes the two words of its line and
  nothing else, reading an entry writes nothing.  \<open>writes\<close> reads the indirect writes off a trace.
\<close>

definition entry_words :: "u32 \<Rightarrow> ioapic_redir_entry \<Rightarrow> (u32 \<times> u32) list" where
  "entry_words line e =
     [(0x10 + line * 2, ucast (redir_to_u64 e)),
      (0x10 + line * 2 + 1, ucast (drop_bit 32 (redir_to_u64 e)))]"

locale redir_table =
  fixes read_redir :: "u32 \<Rightarrow> ('a kworld_scheme, ioapic_redir_entry) state"
    and write_redir :: "u32 \<Rightarrow> ioapic_redir_entry \<Rightarrow> ('a kworld_scheme, unit) state"
    and writes :: "ev list \<Rightarrow> (u32 \<times> u32) list"
  assumes read_law: "halted w = None \<Longrightarrow> halted (snd (run_state (read_redir line) w)) = None \<and>
      writes (trace (snd (run_state (read_redir line) w))) = writes (trace w)"
    and write_law: "halted w = None \<Longrightarrow> halted (snd (run_state (write_redir line e) w)) = None \<and>
      writes (trace (snd (run_state (write_redir line e) w)))
        = writes (trace w) @ entry_words line e"
begin

text \<open>Read, change, write back: one entry is written, the one read with the change.\<close>

lemma update_entry:
  assumes "halted w = None"
  shows "writes (trace (snd (run_state (State_Monad.bind (read_redir line)
      (\<lambda>e. write_redir line (f e))) w)))
    = writes (trace w) @ entry_words line (f (fst (run_state (read_redir line) w)))"
  using read_law [OF assms, of line] write_law [of "snd (run_state (read_redir line) w)"]
  by (simp add: split_def)

lemma write_entries:
  assumes "halted w = None"
  shows "writes (trace (snd (run_state (for_each les (\<lambda>(line, e). write_redir line e)) w)))
    = writes (trace w) @ concat (map (\<lambda>(line, e). entry_words line e) les)"
  using assms
proof (induction les arbitrary: w)
  case Nil
  then show ?case by simp
next
  case (Cons p les)
  from write_law [OF Cons.prems] Cons.IH [of "snd (run_state (write_redir (fst p) (snd p)) w)"]
  show ?case by (simp add: split_def)
qed

end

interpretation window: redir_table "ioapic_read_redir env" ioapic_write_redir window_writes for env
  by unfold_locales
    (auto simp: ioapic_read_redir_def ioapic_write_redir_def entry_words_def Let_def
      window_writes_append)

section \<open>The interface of the local APIC\<close>

text \<open>
  What an access mode promises: a register write or an interrupt command reaches the local APIC as
  one action, \<open>acts\<close> being the actions a trace makes in that mode.  In the memory mode the
  destination of a command goes through its own register first; in the MSR mode one 64-bit write
  carries both halves.
\<close>

datatype apic_act = AWrite u32 u32 | AIcr u32 u32

definition plain_reg :: "u32 \<Rightarrow> bool" where
  "plain_reg reg \<longleftrightarrow> unat reg < 0x400 \<and> 16 dvd unat reg \<and> reg \<noteq> APIC_ICR \<and> reg \<noteq> APIC_ICR2"

fun act_ok :: "apic_act \<Rightarrow> bool" where
  "act_ok (AWrite reg v) = plain_reg reg"
| "act_ok (AIcr v dest) = (unat dest < 256)"

fun perform :: "('a kworld_scheme) apic_ops \<Rightarrow> apic_act \<Rightarrow> ('a kworld_scheme, unit) state" where
  "perform ops (AWrite reg v) = reg_write ops reg v"
| "perform ops (AIcr v dest) = icr_write ops v dest"

locale apic_iface =
  fixes ops :: "('a kworld_scheme) apic_ops"
    and acts :: "ev list \<Rightarrow> apic_act list"
  assumes perform_law: "act_ok a \<Longrightarrow> halted w = None \<Longrightarrow>
      halted (snd (run_state (perform ops a) w)) = None \<Longrightarrow>
      acts (trace (snd (run_state (perform ops a) w))) = acts (trace w) @ [a]"
    and perform_frozen: "frozen (perform ops a)"
begin

lemma perform_all:
  assumes "list_all act_ok as" and "halted w = None"
    and "halted (snd (run_state (for_each as (perform ops)) w)) = None"
  shows "acts (trace (snd (run_state (for_each as (perform ops)) w))) = acts (trace w) @ as"
  using assms
proof (induction as arbitrary: w)
  case Nil
  then show ?case by simp
next
  case (Cons a as)
  let ?w1 = "snd (run_state (perform ops a) w)"
  have split: "snd (run_state (for_each (a # as) (perform ops)) w)
      = snd (run_state (for_each as (perform ops)) ?w1)"
    by (simp add: split_def)
  have fr: "frozen (for_each as (perform ops))"
    by (rule frozen_for_each) (rule perform_frozen)
  have h: "halted ?w1 = None"
  proof (cases "halted ?w1")
    case (Some x)
    with frozenD [OF fr Some] Cons.prems(3) split show ?thesis by simp
  qed
  with Cons.prems have "acts (trace ?w1) = acts (trace w) @ [a]"
    by (intro perform_law) auto
  with Cons.IH [of ?w1] Cons.prems h split show ?case by simp
qed

end

fun xapic_step :: "u32 \<times> apic_act list \<Rightarrow> ev \<Rightarrow> u32 \<times> apic_act list" where
  "xapic_step (icr2, as) (MmioW a v) =
     (let reg = (ucast (a - g_apic) :: u32) in
      if unat (a - g_apic) \<ge> 0x400 then (icr2, as)
      else if reg = APIC_ICR2 then (v, as)
      else if reg = APIC_ICR then (icr2, as @ [AIcr v (drop_bit 24 icr2)])
      else (icr2, as @ [AWrite reg v]))"
| "xapic_step s _ = s"

definition xapic_acts :: "ev list \<Rightarrow> apic_act list" where
  "xapic_acts t = snd (foldl xapic_step (0, []) t)"

fun x2apic_step :: "apic_act list \<Rightarrow> ev \<Rightarrow> apic_act list" where
  "x2apic_step as (MsrWr i v) =
     (if unat (i - APIC_BASE_MSR) \<ge> 0x40 then as
      else if i = APIC_BASE_MSR + APIC_ICR div 16
        then as @ [AIcr (ucast v) (ucast (drop_bit 32 v))]
      else as @ [AWrite ((i - APIC_BASE_MSR) * 16) (ucast v)])"
| "x2apic_step as _ = as"

definition x2apic_acts :: "ev list \<Rightarrow> apic_act list" where
  "x2apic_acts t = foldl x2apic_step [] t"

lemma run_xapic_wait:
  assumes "halted w = None"
  shows "xapic_acts (trace (snd (run_state (while_do n (do { icr \<leftarrow> xapic_read env APIC_ICR;
      State_Monad.return (icr AND APIC_ICR_BUSY \<noteq> 0) }) skip) w))) = xapic_acts (trace w)"
  using assms
proof (induction n arbitrary: w)
  case 0
  then show ?case by simp
next
  case (Suc n)
  have step: "xapic_acts (trace w @ [MmioR a v]) = xapic_acts (trace w)" for a v
    by (simp add: xapic_acts_def)
  show ?case using Suc step by (simp add: xapic_read_def)
qed

lemma low_byte_dest: "unat (dest :: u32) < 256 \<Longrightarrow> drop_bit 24 (push_bit 24 dest) = dest"
proof -
  assume "unat dest < 256"
  then have "unat (push_bit 24 dest) = unat dest * 2 ^ 24"
    by (simp add: push_bit_eq_mult unat_word_ariths)
  then have "unat (drop_bit 24 (push_bit 24 dest)) = unat dest"
    by (simp add: drop_bit_eq_div unat_div)
  then show ?thesis by (simp add: word_unat_eq_iff)
qed

lemma xapic_acts_icr:
  "xapic_acts (t @ [MmioW (g_apic + ucast APIC_ICR2) x, MmioW (g_apic + ucast APIC_ICR) v])
    = xapic_acts t @ [AIcr v (drop_bit 24 x)]"
  by (cases "foldl xapic_step (0, []) t")
    (simp add: xapic_acts_def APIC_ICR_def APIC_ICR2_def)

lemma xapic_acts_write:
  "plain_reg reg \<Longrightarrow> xapic_acts (t @ [MmioW (g_apic + ucast reg) v]) = xapic_acts t @ [AWrite reg v]"
  by (cases "foldl xapic_step (0, []) t") (simp add: xapic_acts_def plain_reg_def Let_def)

lemma x2apic_acts_write:
  assumes "plain_reg reg"
  shows "x2apic_acts (t @ [MsrWr (APIC_BASE_MSR + reg div 16) (ucast v)]) = x2apic_acts t @ [AWrite reg v]"
proof -
  from assms have "unat reg < 0x400" by (simp add: plain_reg_def)
  then have "unat reg div 16 < 0x40" by arith
  then have "unat (reg div 16) < 0x40" by (simp add: unat_div)
  moreover have "reg div 16 * 16 = reg"
    using assms \<open>unat reg < 0x400\<close>
    by (auto simp: plain_reg_def word_unat_eq_iff unat_word_ariths unat_div dvd_def)
  moreover have "reg div 16 \<noteq> APIC_ICR div 16"
    using calculation(2) assms by (auto simp: plain_reg_def APIC_ICR_def)
  ultimately show ?thesis by (simp add: x2apic_acts_def)
qed

lemma x2apic_acts_icr:
  "x2apic_acts (t @ [MsrWr (APIC_BASE_MSR + APIC_ICR div 16) (ucast v OR push_bit 32 (ucast dest))])
    = x2apic_acts t @ [AIcr v dest]"
  by (simp add: x2apic_acts_def APIC_ICR_def)

interpretation xapic: apic_iface "xapic_ops env" xapic_acts for env
proof
  fix a :: apic_act and w :: "'a kworld_scheme"
  let ?w = "snd (run_state (perform (xapic_ops env) a) w)"
  assume a: "act_ok a" and h: "halted w = None" and h': "halted ?w = None"
  show "xapic_acts (trace ?w) = xapic_acts (trace w) @ [a]"
  proof (cases a)
    case (AWrite reg v)
    with a h show ?thesis by (simp add: xapic_ops_def xapic_write_def xapic_acts_write)
  next
    case (AIcr v dest)
    let ?wait = "while_do (env_fuel env) (do { icr \<leftarrow> xapic_read env APIC_ICR;
      State_Monad.return (icr AND APIC_ICR_BUSY \<noteq> 0) }) skip"
    let ?w1 = "snd (run_state ?wait w)"
    let ?rest = "do { xapic_write APIC_ICR2 (push_bit 24 dest); xapic_write APIC_ICR v }"
    have w: "?w = snd (run_state ?rest ?w1)"
      by (simp add: AIcr xapic_ops_def xapic_icr_write_def split_def)
    have "frozen ?rest" by (auto simp: xapic_write_def)
    have "halted ?w1 = None"
    proof (cases "halted ?w1")
      case (Some x)
      with frozenD [OF \<open>frozen ?rest\<close> Some] w h' show ?thesis by simp
    qed
    then show ?thesis
      using w a AIcr run_xapic_wait [OF h, of "env_fuel env" env]
      by (simp add: xapic_write_def xapic_acts_icr low_byte_dest)
  qed
next
  show "frozen (perform (xapic_ops env) a)" for a
    by (cases a) (auto simp: xapic_ops_def xapic_write_def xapic_icr_write_def xapic_read_def
        intro!: frozen_while_do)
qed

interpretation x2apic: apic_iface "x2apic_ops env" x2apic_acts for env
proof
  fix a :: apic_act and w :: "'a kworld_scheme"
  let ?w = "snd (run_state (perform (x2apic_ops env) a) w)"
  assume a: "act_ok a" and h: "halted w = None" and h': "halted ?w = None"
  show "x2apic_acts (trace ?w) = x2apic_acts (trace w) @ [a]"
  proof (cases a)
    case (AWrite reg v)
    with a h h' show ?thesis
      by (simp add: x2apic_ops_def x2apic_write_def wrmsr_def x2apic_acts_write split: option.splits)
  next
    case (AIcr v dest)
    with a h h' show ?thesis
      by (simp add: x2apic_ops_def x2apic_icr_write_def wrmsr_def x2apic_acts_icr split: option.splits)
  qed
next
  show "frozen (perform (x2apic_ops env) a)" for a
    by (cases a) (auto simp: x2apic_ops_def x2apic_write_def x2apic_icr_write_def)
qed

section \<open>Properties\<close>

text \<open>C32. The two access modes implement one interface: whatever sequence of register writes and
  interrupt commands (destinations below 256) is performed through either table of operations, if
  neither run hangs on a busy command register or faults, the local APIC receives exactly that
  sequence of actions from both.\<close>

theorem apic_modes_agree:
  assumes "list_all act_ok as" and "halted w = None"
    and "halted (snd (run_state (for_each as (perform (xapic_ops env))) w)) = None"
    and "halted (snd (run_state (for_each as (perform (x2apic_ops env))) w)) = None"
  shows "xapic_acts (trace (snd (run_state (for_each as (perform (xapic_ops env))) w)))
      = xapic_acts (trace w) @ as \<and>
    x2apic_acts (trace (snd (run_state (for_each as (perform (x2apic_ops env))) w)))
      = x2apic_acts (trace w) @ as"
  using xapic.perform_all [OF assms(1-3)] x2apic.perform_all [OF assms(1,2,4)] by simp

theorem apic_modes_agree_witness:
  "xapic_acts (trace (snd (run_state (for_each [AWrite 0x80 0x20, AIcr 0x4031 3]
      (perform (xapic_ops calm_env))) start_world))) = [AWrite 0x80 0x20, AIcr 0x4031 3] \<and>
   x2apic_acts (trace (snd (run_state (for_each [AWrite 0x80 0x20, AIcr 0x4031 3]
      (perform (x2apic_ops calm_env))) start_world))) = [AWrite 0x80 0x20, AIcr 0x4031 3]"
proof -
  have ok: "list_all act_ok [AWrite 0x80 0x20, AIcr 0x4031 3]"
    by (simp add: plain_reg_def APIC_ICR_def APIC_ICR2_def)
  have x: "halted (snd (run_state (for_each [AWrite 0x80 0x20, AIcr 0x4031 3]
      (perform (xapic_ops calm_env))) start_world)) = None"
    by (simp add: xapic_ops_def xapic_write_def xapic_icr_write_def xapic_read_def calm_env_def
        numeral_eq_Suc)
  have x2: "halted (snd (run_state (for_each [AWrite 0x80 0x20, AIcr 0x4031 3]
      (perform (x2apic_ops calm_env))) start_world)) = None"
    by (simp add: x2apic_ops_def x2apic_write_def x2apic_icr_write_def wrmsr_def calm_env_def)
  show ?thesis using apic_modes_agree [OF ok _ x x2] by (simp add: xapic_acts_def x2apic_acts_def)
qed


text \<open>Whatever the device answers, \<open>set_mask\<close> writes exactly the two words of its line: the
  low word it read with bit 16 set or cleared and every other bit as read, and the high word as
  read.\<close>

lemma set_mask_writes:
  assumes "halted w = None"
  shows "let t1 = trace w @ [MmioW g_ioapic (0x10 + line * 2)];
      lo = env_mmio env t1 (g_ioapic + 0x10);
      hi = env_mmio env (t1 @ [MmioR (g_ioapic + 0x10) lo, MmioW g_ioapic (0x10 + line * 2 + 1)])
        (g_ioapic + 0x10)
    in window_writes (trace (snd (run_state (set_mask env line m) w))) = window_writes (trace w) @
      [(0x10 + line * 2, if odd m then set_bit 16 lo else unset_bit 16 lo),
       (0x10 + line * 2 + 1, hi)]"
proof -
  have lo: "ucast (if odd m then set_bit 16 x else unset_bit 16 x)
      = (if odd m then set_bit 16 (ucast x) else unset_bit 16 (ucast x) :: u32)" for x :: u64
    by (rule bit_word_eqI) (auto simp: bit_simps)
  have hi: "ucast (drop_bit 32 (if odd m then set_bit 16 x else unset_bit 16 x))
      = (ucast (drop_bit 32 x) :: u32)" for x :: u64
    by (rule bit_word_eqI) (auto simp: bit_simps)
  have w: "fst (run_state (ioapic_read_redir env line) w) = redir_of_u64 x
      \<Longrightarrow> window_writes (trace (snd (run_state (set_mask env line m) w))) = window_writes (trace w) @
      [(0x10 + line * 2, if odd m then set_bit 16 (ucast x) else unset_bit 16 (ucast x)),
       (0x10 + line * 2 + 1, ucast (drop_bit 32 x))]" for x
    using window.update_entry [OF assms, of env line "\<lambda>e. e\<lparr>mask_bit := odd m\<rparr>"]
    unfolding set_mask_def by (simp add: entry_words_def redir_mask_bit lo hi)
  show ?thesis
    using assms by (subst w) (auto simp: ioapic_read_redir_def Let_def)
qed

end
