(* ===== verification/IoapicIdt.thy ===== *)
theory IoapicIdt
  imports Machine
begin

text \<open>
  Interrupt descriptors and handler stubs of \<open>src/pcm-unit/driver/ioapic.c\<close>: the layout of an IDT
  entry, the code bytes of the stub (thunk) that \<open>handle_irq_local\<close> writes, and, on the side of the
  CPU, what an interrupt that goes through such an entry and such a stub executes.
\<close>

section \<open>Descriptors\<close>

record idt_entry =
  offset0 :: u16
  selector :: u16
  ist :: "3 word"
  idt_type :: "4 word"
  dpl :: "2 word"
  present :: bool
  offset1 :: u16
  offset2 :: u32
  idt_reserved :: u32

definition idt_flags :: "idt_entry \<Rightarrow> u16" where
  "idt_flags e = ucast (ist e) OR push_bit 8 (ucast (idt_type e)) OR push_bit 13 (ucast (dpl e))
     OR push_bit 15 (of_bool (present e))"

definition idt_bytes :: "idt_entry \<Rightarrow> u8 list" where
  "idt_bytes e = le_bytes 2 (offset0 e) @ le_bytes 2 (selector e) @ le_bytes 2 (idt_flags e)
     @ le_bytes 2 (offset1 e) @ le_bytes 4 (offset2 e) @ le_bytes 4 (idt_reserved e)"

definition read_cs :: "env \<Rightarrow> ('a kworld_scheme, u16) state" where
  "read_cs env = do { val \<leftarrow> insn_val env ''mov %cs'' []; State_Monad.return (ucast val) }"

text \<open>The address of the table: an absolute symbol of \<open>src/pcm-unit/driver/setjmp64.S\<close>.\<close>

definition boot_idt :: u64 where "boot_idt = 0"

definition gate_address :: "u64 \<Rightarrow> nat \<Rightarrow> u64" where
  "gate_address base vec = base + of_nat (16 * vec)"

definition set_idt_entry :: "env \<Rightarrow> nat \<Rightarrow> u64 \<Rightarrow> nat \<Rightarrow> ('a kworld_scheme, unit) state" where
  "set_idt_entry env vec addr pl = do {
     let e = gate_address boot_idt vec;
     store env e (replicate 16 0);
     cs \<leftarrow> read_cs env;
     store env e (idt_bytes \<lparr>
       offset0 = ucast addr, selector = cs, ist = 0, idt_type = 14, dpl = of_nat pl,
       present = True, offset1 = ucast (drop_bit 16 addr), offset2 = ucast (drop_bit 32 addr),
       idt_reserved = 0\<rparr>) }"

section \<open>Handler stubs\<close>

text \<open>
  \<open>sub $8,%rsp; movl $low,(%rsp); movl $high,4(%rsp); jmp rel32\<close>: the address of the handler is
  left on the stack for \<open>isr_entry_point\<close>.
\<close>

definition thunk_bytes :: "u64 \<Rightarrow> u32 \<Rightarrow> u8 list" where
  "thunk_bytes func rel =
     [0x48, 0x83, 0xec, 0x08] @ [0xc7, 0x04, 0x24] @ le_bytes 4 (ucast func :: u32)
     @ [0xc7, 0x44, 0x24, 0x04] @ le_bytes 4 (ucast (drop_bit 32 func) :: u32)
     @ [0xe9] @ le_bytes 4 rel"

definition handle_irq_local :: "env \<Rightarrow> nat \<Rightarrow> u64 \<Rightarrow> ('a kworld_scheme, unit) state" where
  "handle_irq_local env vec func = do {
     thunk \<leftarrow> kcall env ''vmalloc'' [AInt 50];
     set_idt_entry env vec thunk 0;
     store env thunk (thunk_bytes func
       (ucast (env_sym env ''isr_entry_point'' - (thunk + 20 + 4)))) }"

section \<open>What the CPU does with them\<close>

text \<open>The target of a present interrupt gate.\<close>

definition decode_gate :: "u8 list \<Rightarrow> u64 option" where
  "decode_gate bs =
     (let flags = (le_word (take 2 (drop 4 bs)) :: u16) in
      if bit flags 15 \<and> (ucast (drop_bit 8 flags) :: 4 word) = 14
      then Some (le_word (take 2 bs) OR push_bit 16 (le_word (take 2 (drop 6 bs)))
        OR push_bit 32 (le_word (take 4 (drop 8 bs))))
      else None)"

text \<open>The value a stub leaves on the stack and the displacement of its jump.\<close>

definition decode_thunk :: "u8 list \<Rightarrow> (u64 \<times> u32) option" where
  "decode_thunk bs =
     (if take 7 bs = [0x48, 0x83, 0xec, 0x08, 0xc7, 0x04, 0x24]
        \<and> take 4 (drop 11 bs) = [0xc7, 0x44, 0x24, 0x04] \<and> take 1 (drop 19 bs) = [0xe9]
      then Some (le_word (take 4 (drop 7 bs)) OR push_bit 32 (le_word (take 4 (drop 15 bs))),
        le_word (drop 20 bs))
      else None)"

text \<open>
  The handler that an interrupt on a vector ends up calling: the gate leads to a stub, the stub
  jumps to \<open>isr_entry_point\<close>, which calls the function whose address is on the stack.
\<close>

definition handler_of :: "env \<Rightarrow> memory \<Rightarrow> nat \<Rightarrow> u64 option" where
  "handler_of env m vec = do {
     stub \<leftarrow> decode_gate (load_bytes m (gate_address (env_idtr env) vec) 16);
     (func, rel) \<leftarrow> decode_thunk (load_bytes m stub 24);
     if stub + 24 + scast rel = env_sym env ''isr_entry_point'' then Some func else None }"

section \<open>Facts\<close>

lemma length_idt_bytes [simp]: "length (idt_bytes e) = 16"
  by (simp add: idt_bytes_def)

lemma length_thunk_bytes [simp]: "length (thunk_bytes f r) = 24"
  by (simp add: thunk_bytes_def)

lemma idt_flags_present: "bit (idt_flags e) 15 = present e"
  by (simp add: idt_flags_def bit_simps)

lemma idt_flags_type: "(ucast (drop_bit 8 (idt_flags e)) :: 4 word) = idt_type e"
proof (rule bit_word_eqI)
  fix n assume "n < LENGTH(4)"
  then have "n < 4" by simp
  then have "n = 0 \<or> n = 1 \<or> n = 2 \<or> n = 3" by arith
  then show "bit (ucast (drop_bit 8 (idt_flags e)) :: 4 word) n = bit (idt_type e) n"
    by (auto simp: idt_flags_def bit_simps)
qed

lemma offset_parts:
  "(ucast (ucast a :: u16) :: u64) OR push_bit 16 (ucast (ucast (drop_bit 16 a) :: u16))
    OR push_bit 32 (ucast (ucast (drop_bit 32 a) :: u32)) = a"
proof (rule bit_word_eqI)
  fix n assume "n < LENGTH(64)"
  then consider "n < 16" | "16 \<le> n \<and> n < 32" | "32 \<le> n \<and> n < 64" by fastforce
  then show "bit ((ucast (ucast a :: u16) :: u64) OR push_bit 16 (ucast (ucast (drop_bit 16 a) :: u16))
    OR push_bit 32 (ucast (ucast (drop_bit 32 a) :: u32))) n = bit a n"
    by cases (simp_all add: bit_simps, linarith+)
qed

lemma decode_gate_bytes:
  assumes "present e" and "idt_type e = 14"
  shows "decode_gate (idt_bytes e) = Some (ucast (offset0 e) OR push_bit 16 (ucast (offset1 e))
    OR push_bit 32 (ucast (offset2 e)))"
  using assms by (simp add: decode_gate_def idt_bytes_def idt_flags_present idt_flags_type le_word_bytes_cast)

lemma decode_thunk_bytes: "decode_thunk (thunk_bytes f rel) = Some (f, rel)"
  by (simp add: decode_thunk_def thunk_bytes_def le_word_bytes_cast)

text \<open>The displacement of the jump is kept in 32 bits and sign-extended by the CPU.\<close>

definition fits32 :: "u64 \<Rightarrow> bool" where
  "fits32 d \<longleftrightarrow> - (2 ^ 31) \<le> sint d \<and> sint d < 2 ^ 31"

lemma scast_ucast_fits: "scast (ucast d :: u32) = (d :: u64) \<longleftrightarrow> fits32 d"
proof -
  have s: "sint (ucast d :: u32) = signed_take_bit 31 (sint d)"
    by (simp add: sint_uint unsigned_ucast_eq signed_take_bit_take_bit min_def)
  have "scast (ucast d :: u32) = d \<longleftrightarrow> sint (scast (ucast d :: u32) :: u64) = sint d"
    by (metis signed_word_eqI)
  also have "sint (scast (ucast d :: u32) :: u64) = sint (ucast d :: u32)"
    by (simp add: sint_up_scast is_up)
  also have "(sint (ucast d :: u32) = sint d) \<longleftrightarrow> fits32 d"
    unfolding s fits32_def
    by (metis signed_take_bit_int_eq_self signed_take_bit_int_eq_self_iff)
  finally show ?thesis .
qed

section \<open>Installing a handler\<close>

text \<open>All bytes of a range can be written.\<close>

definition mapped_range :: "env \<Rightarrow> u64 \<Rightarrow> nat \<Rightarrow> bool" where
  "mapped_range env a n \<longleftrightarrow> (\<forall>i < n. env_mapped env (a + of_nat i))"

lemma run_store_range [simp]:
  "halted w = None \<Longrightarrow> mapped_range env a (length bs) \<Longrightarrow>
    run_state (store env a bs) w = ((), w\<lparr>mem := store_bytes (mem w) a bs\<rparr>)"
  by (simp add: mapped_range_def)

lemma run_store_fault [simp]:
  "halted w = None \<Longrightarrow> \<not> mapped_range env a (length bs) \<Longrightarrow>
    run_state (store env a bs) w
      = ((), w\<lparr>trace := trace w @ [Fault ''store'' PF], halted := Some (Oops PF)\<rparr>)"
  by (auto simp: store_def mapped_range_def)

definition the_gate :: "u16 \<Rightarrow> u64 \<Rightarrow> idt_entry" where
  "the_gate cs addr = \<lparr>offset0 = ucast addr, selector = cs, ist = 0, idt_type = 14, dpl = 0,
     present = True, offset1 = ucast (drop_bit 16 addr), offset2 = ucast (drop_bit 32 addr),
     idt_reserved = 0\<rparr>"

text \<open>Memory after \<open>handle_irq_local\<close>: the cleared entry, the entry, the stub.\<close>

definition installed :: "memory \<Rightarrow> u64 \<Rightarrow> u64 \<Rightarrow> u16 \<Rightarrow> u64 \<Rightarrow> u32 \<Rightarrow> memory" where
  "installed m gate stub cs func rel =
     store_bytes (store_bytes (store_bytes m gate (replicate 16 0)) gate (idt_bytes (the_gate cs stub)))
       stub (thunk_bytes func rel)"

text \<open>What one installation needs of the machine: the entry and the stub are writable.\<close>

definition install_ok :: "env \<Rightarrow> nat \<Rightarrow> ev list \<Rightarrow> bool" where
  "install_ok env vec t \<longleftrightarrow>
     mapped_range env (gate_address boot_idt vec) 16
     \<and> mapped_range env (env_call env t ''vmalloc'' [AInt 50]) 24
     \<and> env_fault env (t @ [Call ''vmalloc'' [AInt 50]]) ''mov %cs'' = None"

lemma run_handle_irq_local:
  assumes "halted w = None" and "install_ok env vec (trace w)"
  shows "run_state (handle_irq_local env vec func) w =
    (let stub = env_call env (trace w) ''vmalloc'' [AInt 50];
         t = trace w @ [Call ''vmalloc'' [AInt 50]]
     in ((), w\<lparr>trace := t @ [Insn ''mov %cs'' []],
       mem := installed (mem w) (gate_address boot_idt vec) stub (ucast (env_insn env t ''mov %cs''))
         func (ucast (env_sym env ''isr_entry_point'' - (stub + 24)))\<rparr>))"
  using assms
  by (simp add: handle_irq_local_def set_idt_entry_def read_cs_def run_insn_val install_ok_def Let_def
      installed_def the_gate_def add.commute)

lemma set_idt_entry_fault:
  assumes "halted w = None" and "\<not> mapped_range env (gate_address boot_idt vec) 16"
  shows "run_state (set_idt_entry env vec addr pl) w
    = ((), w\<lparr>trace := trace w @ [Fault ''store'' PF], halted := Some (Oops PF)\<rparr>)"
proof -
  have fr: "frozen (read_cs env :: ('a kworld_scheme, u16) state)"
    by (auto simp: read_cs_def)
  show ?thesis
    using assms by (simp add: set_idt_entry_def Let_def split_def frozenD [OF fr] run_frozen)
qed

lemma load_gate:
  assumes "disjoint_ranges stub 24 gate 16"
  shows "load_bytes (installed m gate stub cs func rel) gate 16 = idt_bytes (the_gate cs stub)"
  using assms load_store_same [of "idt_bytes (the_gate cs stub)"]
  by (simp add: installed_def load_store_disjoint)

lemma load_stub: "load_bytes (installed m gate stub cs func rel) stub 24 = thunk_bytes func rel"
  using load_store_same [of "thunk_bytes func rel"] by (simp add: installed_def)

lemma load_elsewhere:
  "disjoint_ranges stub 24 a n \<Longrightarrow> disjoint_ranges gate 16 a n \<Longrightarrow>
    load_bytes (installed m gate stub cs func rel) a n = load_bytes m a n"
  by (simp add: installed_def load_store_disjoint)

lemma decode_the_gate: "decode_gate (idt_bytes (the_gate cs a)) = Some a"
  using offset_parts [of a] by (simp add: decode_gate_bytes the_gate_def)

lemma handler_of_installed:
  assumes "disjoint_ranges stub 24 (gate_address (env_idtr env) vec) 16"
  shows "handler_of env (installed m (gate_address (env_idtr env) vec) stub cs func rel) vec
    = (if stub + 24 + scast rel = env_sym env ''isr_entry_point'' then Some func else None)"
  using assms by (simp add: handler_of_def load_gate load_stub decode_the_gate decode_thunk_bytes)

lemma gates_disjoint:
  "v \<noteq> v' \<Longrightarrow> v < 256 \<Longrightarrow> v' < 256 \<Longrightarrow>
    disjoint_ranges (gate_address b v) 16 (gate_address b v') 16"
  unfolding gate_address_def by (rule disjoint_offsets) auto

lemma handler_of_other:
  assumes "v \<noteq> v'" "v < 256" "v' < 256"
    and "disjoint_ranges stub 24 (gate_address (env_idtr env) v') 16"
    and "\<And>s. decode_gate (load_bytes m (gate_address (env_idtr env) v') 16) = Some s \<Longrightarrow>
      disjoint_ranges stub 24 s 24 \<and> disjoint_ranges (gate_address (env_idtr env) v) 16 s 24"
  shows "handler_of env (installed m (gate_address (env_idtr env) v) stub cs func rel) v' = handler_of env m v'"
proof (cases "decode_gate (load_bytes m (gate_address (env_idtr env) v') 16)")
  case None
  with assms show ?thesis by (simp add: handler_of_def load_elsewhere gates_disjoint)
next
  case (Some s)
  with assms show ?thesis by (simp add: handler_of_def load_elsewhere gates_disjoint)
qed

lemma installed_reaches:
  assumes "halted w = None" and "install_ok env vec (trace w)" and "env_idtr env = boot_idt"
    and "disjoint_ranges (env_call env (trace w) ''vmalloc'' [AInt 50]) 24 (gate_address boot_idt vec) 16"
  shows "handler_of env (mem (snd (run_state (handle_irq_local env vec func) w))) vec = Some func \<longleftrightarrow>
    fits32 (env_sym env ''isr_entry_point'' - (env_call env (trace w) ''vmalloc'' [AInt 50] + 24))"
proof -
  let ?stub = "env_call env (trace w) ''vmalloc'' [AInt 50]"
  let ?d = "env_sym env ''isr_entry_point'' - (?stub + 24)"
  have "?stub + 24 + scast (ucast ?d :: u32) = env_sym env ''isr_entry_point'' \<longleftrightarrow>
      scast (ucast ?d :: u32) = ?d"
    by (metis add_diff_cancel_left' diff_add_cancel)
  then show ?thesis
    using assms handler_of_installed [of ?stub env vec]
    by (simp add: run_handle_irq_local Let_def scast_ucast_fits)
qed

lemma handle_irq_local_fault:
  assumes "halted w = None" and "vec < 256" and "\<And>a. unat a < 4096 \<Longrightarrow> \<not> env_mapped env a"
  shows "run_state (handle_irq_local env vec func) w = ((), w\<lparr>trace := trace w @
    [Call ''vmalloc'' [AInt 50], Fault ''store'' PF], halted := Some (Oops PF)\<rparr>)"
proof -
  have "unat (gate_address boot_idt vec) = 16 * vec"
    using \<open>vec < 256\<close> unat_of_nat_u64 [of "16 * vec"] by (simp add: gate_address_def boot_idt_def)
  with assms have u: "\<not> mapped_range env (gate_address boot_idt vec) 16"
    unfolding mapped_range_def by (intro notI) (auto dest!: spec [of _ 0])
  let ?w1 = "w\<lparr>trace := trace w @ [Call ''vmalloc'' [AInt 50]]\<rparr>"
  let ?stub = "env_call env (trace w) ''vmalloc'' [AInt 50]"
  have "run_state (set_idt_entry env vec ?stub 0) ?w1
      = ((), ?w1\<lparr>trace := trace ?w1 @ [Fault ''store'' PF], halted := Some (Oops PF)\<rparr>)"
    using assms(1) u by (simp add: set_idt_entry_fault)
  with assms(1) show ?thesis
    by (simp add: handle_irq_local_def Let_def run_frozen)
qed

section \<open>Properties\<close>


text \<open>A machine with a mapped table, whose allocator returns one fixed page.\<close>

definition idt_env :: env where
  "idt_env = calm_env\<lparr>env_call := (\<lambda>t n a. 0x10000)\<rparr>"


end
