(* ===== verification/IoapicTable.thy ===== *)
theory IoapicTable
  imports IoapicIdt
begin

text \<open>
  The interrupt descriptor table of \<open>src/pcm-unit/driver/ioapic.c\<close> over any number of installations:
  the entries that were installed stay well-formed, and the table is a map from vectors to handlers.
\<close>

section \<open>The allocator\<close>

definition new_stub :: "env \<Rightarrow> ev list \<Rightarrow> u64" where
  "new_stub env t = env_call env t ''vmalloc'' [AInt 50]"

definition allocations :: "ev list \<Rightarrow> nat" where
  "allocations t = length (filter (\<lambda>e. e = Call ''vmalloc'' [AInt 50]) t)"

definition allocated :: "env \<Rightarrow> ev list \<Rightarrow> u64 \<Rightarrow> bool" where
  "allocated env t s \<longleftrightarrow> (\<exists>t1 t2. t = t1 @ Call ''vmalloc'' [AInt 50] # t2 \<and> s = new_stub env t1)"

text \<open>
  For the first \<open>n\<close> allocations: a block lies outside the table, within reach of the jump, and does not
  overlap an earlier one (the module never frees a stub).
\<close>

definition allocator_ok :: "env \<Rightarrow> nat \<Rightarrow> bool" where
  "allocator_ok env n \<longleftrightarrow> (\<forall>t. allocations t < n \<longrightarrow>
     fits32 (env_sym env ''isr_entry_point'' - (new_stub env t + 24))
     \<and> (\<forall>v < 256. disjoint_ranges (new_stub env t) 24 (gate_address boot_idt v) 16
          \<and> disjoint_ranges (gate_address boot_idt v) 16 (new_stub env t) 24)
     \<and> (\<forall>s. allocated env t s \<longrightarrow> disjoint_ranges (new_stub env t) 24 s 24))"

text \<open>The table of the module is the one in IDTR, and can be written like the blocks.\<close>

definition table_machine :: "env \<Rightarrow> bool" where
  "table_machine env \<longleftrightarrow> env_idtr env = boot_idt \<and> (\<forall>v t. v < 256 \<longrightarrow> install_ok env v t)"

section \<open>Well-formed tables\<close>

text \<open>
  \<open>T\<close> gives the stub and the handler of the vectors installed so far.  The entry of such a vector is a
  present interrupt gate to its stub, the stub is a block that was allocated, outside the table, and
  leads to the handler.
\<close>

definition idt_wf :: "env \<Rightarrow> 'a kworld_scheme \<Rightarrow> (nat \<rightharpoonup> u64 \<times> u64) \<Rightarrow> bool" where
  "idt_wf env w T \<longleftrightarrow> (\<forall>v s f. T v = Some (s, f) \<longrightarrow> v < 256
     \<and> decode_gate (load_bytes (mem w) (gate_address boot_idt v) 16) = Some s
     \<and> allocated env (trace w) s
     \<and> (\<forall>u < 256. disjoint_ranges (gate_address boot_idt u) 16 s 24)
     \<and> handler_of env (mem w) v = Some f)"

lemma allocated_append: "allocated env t s \<Longrightarrow> allocated env (t @ es) s"
  unfolding allocated_def by (metis append_Cons append_assoc)

lemma allocated_new: "allocated env (t @ Call ''vmalloc'' [AInt 50] # es) (new_stub env t)"
  unfolding allocated_def by blast

lemma install_keeps_wf:
  assumes "halted w = None" and "idt_wf env w T" and "table_machine env" and "allocator_ok env n"
    and "allocations (trace w) < n" and "v < 256"
  obtains w' where "run_state (handle_irq_local env v f) w = ((), w')" and "halted w' = None"
    and "allocations (trace w') = Suc (allocations (trace w))"
    and "idt_wf env w' (T(v \<mapsto> (new_stub env (trace w), f)))"
proof -
  let ?s = "new_stub env (trace w)"
  let ?rel = "ucast (env_sym env ''isr_entry_point'' - (?s + 24)) :: u32"
  let ?t = "trace w @ [Call ''vmalloc'' [AInt 50], Insn ''mov %cs'' []]"
  let ?cs = "ucast (env_insn env (trace w @ [Call ''vmalloc'' [AInt 50]]) ''mov %cs'') :: u16"
  let ?m = "installed (mem w) (gate_address boot_idt v) ?s ?cs f ?rel"
  have idt: "env_idtr env = boot_idt" and ok: "install_ok env v (trace w)"
    using assms(3,6) by (simp_all add: table_machine_def)
  have a: "fits32 (env_sym env ''isr_entry_point'' - (?s + 24))"
      "\<And>u. u < 256 \<Longrightarrow> disjoint_ranges ?s 24 (gate_address boot_idt u) 16"
      "\<And>u. u < 256 \<Longrightarrow> disjoint_ranges (gate_address boot_idt u) 16 ?s 24"
      "\<And>s. allocated env (trace w) s \<Longrightarrow> disjoint_ranges ?s 24 s 24"
    using assms(4,5) by (auto simp: allocator_ok_def)
  have run: "run_state (handle_irq_local env v f) w = ((), w\<lparr>trace := ?t, mem := ?m\<rparr>)"
    using run_handle_irq_local [OF assms(1) ok] by (simp add: Let_def new_stub_def)
  have "?s + 24 + scast ?rel = env_sym env ''isr_entry_point''"
    using a(1) by (simp add: scast_ucast_fits [THEN iffD2])
  then have new: "handler_of env ?m v = Some f"
    using handler_of_installed [of ?s env v] a(2) assms(6) idt by simp
  have gate: "decode_gate (load_bytes ?m (gate_address boot_idt v) 16) = Some ?s"
    using a(2) assms(6) by (simp add: load_gate decode_the_gate)
  have old: "decode_gate (load_bytes ?m (gate_address boot_idt u) 16) = Some s \<and> handler_of env ?m u = Some g"
    if "T u = Some (s, g)" "u \<noteq> v" for u s g
  proof -
    have u: "u < 256" "decode_gate (load_bytes (mem w) (gate_address boot_idt u) 16) = Some s"
      "disjoint_ranges ?s 24 s 24" "disjoint_ranges (gate_address boot_idt v) 16 s 24"
      "handler_of env (mem w) u = Some g"
      using that(1) assms(2,6) a(4) unfolding idt_wf_def by blast+
    have "handler_of env (installed (mem w) (gate_address (env_idtr env) v) ?s ?cs f ?rel) u = handler_of env (mem w) u"
      by (rule handler_of_other) (use that(2) assms(6) u a(2) idt in auto)
    moreover have "load_bytes ?m (gate_address boot_idt u) 16 = load_bytes (mem w) (gate_address boot_idt u) 16"
      using a(2) u(1) that(2) assms(6) by (intro load_elsewhere gates_disjoint) auto
    ultimately show ?thesis using u idt by simp
  qed
  have "idt_wf env (w\<lparr>trace := ?t, mem := ?m\<rparr>) (T(v \<mapsto> (?s, f)))"
    using assms(2,6) new gate old a(3) unfolding idt_wf_def
    by (auto intro: allocated_append allocated_new split: if_splits)
  with run show ?thesis
    using assms(1) by (intro that [of "w\<lparr>trace := ?t, mem := ?m\<rparr>"]) (simp_all add: allocations_def)
qed

section \<open>Any number of installations\<close>

definition install_all :: "env \<Rightarrow> (nat \<times> u64) list \<Rightarrow> ('a kworld_scheme, unit) state" where
  "install_all env vs = for_each vs (\<lambda>(v, f). handle_irq_local env v f)"

definition handlers :: "(nat \<rightharpoonup> u64 \<times> u64) \<Rightarrow> (nat \<rightharpoonup> u64)" where
  "handlers T v = map_option snd (T v)"

lemma handlers_upd [simp]: "handlers (T(v \<mapsto> (s, f))) = (handlers T)(v \<mapsto> f)"
  by (auto simp: handlers_def)

lemma installs_keep_wf:
  assumes "table_machine env" and "allocator_ok env n"
  shows "halted w = None \<Longrightarrow> idt_wf env w T \<Longrightarrow> allocations (trace w) + length vs \<le> n \<Longrightarrow>
    \<forall>(v, f) \<in> set vs. v < 256 \<Longrightarrow>
    \<exists>w' T'. run_state (install_all env vs) w = ((), w') \<and> halted w' = None \<and> idt_wf env w' T'
      \<and> handlers T' = handlers T ++ map_of (rev vs)"
proof (induction vs arbitrary: w T)
  case Nil
  then show ?case by (auto simp: install_all_def)
next
  case (Cons p vs)
  obtain v f where p: "p = (v, f)" by fastforce
  have "allocations (trace w) < n" "v < 256" using Cons.prems(3,4) p by auto
  then obtain w1 where 1: "run_state (handle_irq_local env v f) w = ((), w1)" "halted w1 = None"
      "allocations (trace w1) = Suc (allocations (trace w))"
      "idt_wf env w1 (T(v \<mapsto> (new_stub env (trace w), f)))"
    using install_keeps_wf [OF Cons.prems(1,2) assms] by metis
  have rest: "allocations (trace w1) + length vs \<le> n" "\<forall>(v, f) \<in> set vs. v < 256"
    using 1(3) Cons.prems(3,4) by simp_all
  obtain w' T' where 2: "run_state (install_all env vs) w1 = ((), w')" "halted w' = None" "idt_wf env w' T'"
      "handlers T' = (handlers T)(v \<mapsto> f) ++ map_of (rev vs)"
    using Cons.IH [OF 1(2,4) rest] unfolding handlers_upd by blast
  have "(handlers T)(v \<mapsto> f) ++ map_of (rev vs) = handlers T ++ map_of (rev (p # vs))"
    by (simp add: p)
  moreover have "run_state (install_all env (p # vs)) w = ((), w')"
    using 1(1) 2(1) by (simp add: install_all_def p)
  ultimately show ?case using 2(2-4) by metis
qed


text \<open>An allocator that returns one block after the other.\<close>

definition stack_env :: env where
  "stack_env = calm_env\<lparr>env_call := (\<lambda>t n a. 0x10000 + 64 * of_nat (allocations t)),
     env_sym := (\<lambda>n. 0x20000)\<rparr>"

lemma stack_env_ok: "table_machine stack_env" "allocator_ok stack_env 1000"
proof -
  have new: "new_stub stack_env t = of_nat (0x10000 + 64 * allocations t)" for t
    by (simp add: new_stub_def stack_env_def)
  have gate: "gate_address boot_idt v = of_nat (16 * v)" for v
    by (simp add: gate_address_def boot_idt_def)
  have d: "disjoint_ranges (of_nat x) n (of_nat y) m"
    if "x + n \<le> y \<or> y + m \<le> x" "x + n \<le> 2 ^ 63" "y + m \<le> 2 ^ 63" for x n y m
    using disjoint_offsets [OF that, of 0] by simp
  show "table_machine stack_env"
    by (simp add: table_machine_def install_ok_def mapped_range_def stack_env_def calm_env_def boot_idt_def)
  have small: "fits32 (word_of_int k)" if "- (2 ^ 31) \<le> k" "k < 2 ^ 31" for k
    using that by (simp add: fits32_def signed_of_int signed_take_bit_int_eq_self)
  have fits: "fits32 (env_sym stack_env ''isr_entry_point'' - (new_stub stack_env t + 24))" if "allocations t < 1000" for t
  proof -
    have "env_sym stack_env ''isr_entry_point'' - (new_stub stack_env t + 24) = word_of_int (0xffe8 - 64 * int (allocations t))"
      by (simp add: new_stub_def stack_env_def)
    also have "fits32 \<dots>" by (rule small) (use that in simp_all)
    finally show ?thesis .
  qed
  have older: "\<exists>k < allocations t. s = of_nat (0x10000 + 64 * k)" if "allocated stack_env t s" for t s
  proof -
    obtain t1 t2 where "t = t1 @ Call ''vmalloc'' [AInt 50] # t2" "s = of_nat (0x10000 + 64 * allocations t1)"
      using \<open>allocated stack_env t s\<close> unfolding allocated_def new by blast
    then show ?thesis by (intro exI [of _ "allocations t1"]) (simp add: allocations_def)
  qed
  show "allocator_ok stack_env 1000"
    unfolding allocator_ok_def
  proof (intro allI impI conjI)
    fix t :: "ev list" assume t: "allocations t < 1000"
    show "fits32 (env_sym stack_env ''isr_entry_point'' - (new_stub stack_env t + 24))" using fits [OF t] .
    fix v :: nat assume v: "v < 256"
    show "disjoint_ranges (new_stub stack_env t) 24 (gate_address boot_idt v) 16"
      "disjoint_ranges (gate_address boot_idt v) 16 (new_stub stack_env t) 24"
      unfolding new gate using t v by (intro d; simp)+
  next
    fix t s assume t: "allocations t < 1000" and s: "allocated stack_env t s"
    from older [OF s] obtain k where "k < allocations t" "s = of_nat (0x10000 + 64 * k)" by blast
    then show "disjoint_ranges (new_stub stack_env t) 24 s 24"
      unfolding new using t by (simp only:) (rule d; simp)
  qed
qed


end
