(* ===== verification/CharDev.thy ===== *)
theory CharDev
  imports Machine
begin

text \<open>
  The character device of the two test drivers.  Apart from the \<open>switch\<close> of the ioctl and the
  largest command number, \<open>src/pcm-unit/driver/pcm_test_mod.c\<close> and
  \<open>src/focus_test/driver/pcm_test_mod.c\<close> are the same text; those two are the arguments of
  \<open>pcm_cdev_ioctl\<close>.  The module's variables are the fields of \<open>cdev_world\<close>, which the worlds of both
  drivers extend.

  The kernel's services (\<open>alloc_chrdev_region\<close>, \<open>class_create\<close>, \<open>kmalloc\<close>, \<open>cdev_add\<close> and so on) are
  calls the environment answers.
\<close>

section \<open>State\<close>

record cdev_world = kworld +
  pcm_cdev_major :: u32
  pcm_class :: u64
  pcm_cdev_t :: u64

definition hypercall :: "env \<Rightarrow> u32 \<Rightarrow> ('a kworld_scheme, int) state" where
  "hypercall env nr = do {
     ret \<leftarrow> insn_val env ''vmcall'' [arg_word nr];
     State_Monad.return (sint ret) }"

section \<open>Opening, closing, commands\<close>

text \<open>
  A file is its \<open>private_data\<close> pointer.  The structure \<open>pcm_cdev\<close> has one member, at offset 0.
\<close>

definition pcm_cdev_open :: "u64 \<Rightarrow> ('a kworld_scheme, int \<times> u64) state" where
  "pcm_cdev_open i_cdev = do {
     printk ''%s()'' [AStr ''pcm_cdev_open''];
     let dev = i_cdev - 0;
     State_Monad.return (0, dev) }"

definition pcm_cdev_release :: "('a kworld_scheme, int) state" where
  "pcm_cdev_release = do {
     printk ''%s()'' [AStr ''pcm_cdev_release''];
     State_Monad.return 0 }"

text \<open>The command word of an ioctl, as \<open>linux/ioctl.h\<close> lays it out.\<close>

definition IOC_NR :: "u32 \<Rightarrow> u32" where "IOC_NR cmd = cmd AND 0xff"
definition IOC_TYPE :: "u32 \<Rightarrow> u32" where "IOC_TYPE cmd = drop_bit 8 cmd AND 0xff"
definition IOC_SIZE :: "u32 \<Rightarrow> u32" where "IOC_SIZE cmd = drop_bit 16 cmd AND 0x3fff"
definition IOC_DIR :: "u32 \<Rightarrow> u32" where "IOC_DIR cmd = drop_bit 30 cmd AND 3"
definition IOC_WRITE :: u32 where "IOC_WRITE = 1"
definition IOC_READ :: u32 where "IOC_READ = 2"
definition IO :: "u32 \<Rightarrow> u32 \<Rightarrow> u32" where "IO ty nr = push_bit 8 ty OR nr"

lemmas ioc_defs = IOC_NR_def IOC_TYPE_def IOC_SIZE_def IOC_DIR_def IOC_WRITE_def IOC_READ_def IO_def

definition PCM_TEST_IOC_MAGIC :: u32 where "PCM_TEST_IOC_MAGIC = 0x6b"
definition EINVAL :: int where "EINVAL = 22"
definition EFAULT :: int where "EFAULT = 14"
definition VERIFY_READ :: int where "VERIFY_READ = 0"
definition VERIFY_WRITE :: int where "VERIFY_WRITE = 1"

text \<open>\<open>access_ok\<close> is the kernel's; \<open>!access_ok(..)\<close> as an int.\<close>

definition not_access_ok :: "env \<Rightarrow> int \<Rightarrow> u64 \<Rightarrow> u32 \<Rightarrow> ('a kworld_scheme, int) state" where
  "not_access_ok env ty p n = do {
     r \<leftarrow> kcall env ''access_ok'' [AInt ty, arg_word p, arg_word n];
     State_Monad.return (if r = 0 then 1 else 0) }"

definition access_err :: "env \<Rightarrow> u32 \<Rightarrow> u64 \<Rightarrow> ('a kworld_scheme, int) state" where
  "access_err env cmd p =
     (if IOC_DIR cmd AND IOC_READ \<noteq> 0 then not_access_ok env VERIFY_WRITE p (IOC_SIZE cmd)
      else if IOC_DIR cmd AND IOC_WRITE \<noteq> 0 then not_access_ok env VERIFY_READ p (IOC_SIZE cmd)
      else State_Monad.return 0)"

definition pcm_cdev_ioctl :: "env \<Rightarrow> u32 \<Rightarrow> (u32 \<Rightarrow> ('a kworld_scheme, unit) state) \<Rightarrow> u32 \<Rightarrow> u64
    \<Rightarrow> ('a kworld_scheme, int) state" where
  "pcm_cdev_ioctl env PCM_TEST_IOC_MAXNR switch cmd p = do {
     printk ''%s()'' [AStr ''pcm_cdev_ioctl''];
     if IOC_TYPE cmd \<noteq> PCM_TEST_IOC_MAGIC then State_Monad.return (- EINVAL)
     else if IOC_NR cmd > PCM_TEST_IOC_MAXNR then State_Monad.return (- EINVAL)
     else do {
       err \<leftarrow> access_err env cmd p;
       if err \<noteq> 0 then State_Monad.return (- EFAULT)
       else do {
         cli;
         _ \<leftarrow> hypercall env 102;
         switch cmd;
         _ \<leftarrow> hypercall env 103;
         sti;
         State_Monad.return err } } }"

section \<open>Loading and unloading\<close>

text \<open>A device number has a 12-bit major and a 20-bit minor part.\<close>

definition MKDEV :: "u32 \<Rightarrow> u32 \<Rightarrow> u32" where "MKDEV ma mi = push_bit 20 ma OR mi"
definition MAJOR :: "u32 \<Rightarrow> u32" where "MAJOR dev = drop_bit 20 dev"

text \<open>An \<open>int\<close> result of the kernel.\<close>

definition to_int :: "u64 \<Rightarrow> int" where "to_int r = sint (ucast r :: u32)"

definition pcm_cdev_init :: "env \<Rightarrow> ('a cdev_world_scheme, int) state" where
  "pcm_cdev_init env = do {
     major \<leftarrow> gets pcm_cdev_major;
     let args = [arg_word (MKDEV major 0), AInt 0, AInt 1, AStr ''pcm_test''];
     pcm_cdev_no \<leftarrow> ask (\<lambda>t. env_call env t ''alloc_chrdev_region dev'' args);
     r \<leftarrow> kcall env ''alloc_chrdev_region'' args;
     let ret = to_int r;
     if ret < 0 then do {
       printk ''alloc_chrdev_region error'' [];
       State_Monad.return ret }
     else do {
       modify (\<lambda>w. w\<lparr>pcm_cdev_major := MAJOR (ucast pcm_cdev_no)\<rparr>);
       State_Monad.return ret } }"

definition pcm_cdev_exit :: "env \<Rightarrow> ('a cdev_world_scheme, unit) state" where
  "pcm_cdev_exit env = do {
     cls \<leftarrow> gets pcm_class;
     major \<leftarrow> gets pcm_cdev_major;
     p \<leftarrow> gets pcm_cdev_t;
     _ \<leftarrow> kcall env ''device_destroy'' [arg_word cls, arg_word (MKDEV major 0)];
     _ \<leftarrow> kcall env ''class_destroy'' [arg_word cls];
     _ \<leftarrow> kcall env ''cdev_del'' [arg_word p];
     _ \<leftarrow> kcall env ''kfree'' [arg_word p];
     _ \<leftarrow> kcall env ''unregister_chrdev_region'' [arg_word (MKDEV major 0), AInt 1];
     skip }"

text \<open>
  The layout of the kernel's \<open>struct cdev\<close> and the addresses of \<open>THIS_MODULE\<close> and of the operation table are
  parameters (the null parent and data of \<open>device_create\<close> are left out); the two assignments to \<open>pcm_cdev_t->cdev\<close> are writes to memory.
\<close>

definition pcm_cdev_add :: "env \<Rightarrow> ('a cdev_world_scheme, int) state" where
  "pcm_cdev_add env = do {
     major \<leftarrow> gets pcm_cdev_major;
     let dev_no = MKDEV major 0;
     cls \<leftarrow> kcall env ''class_create'' [arg_word (env_sym env ''THIS_MODULE''), AStr ''pcm_test''];
     modify (\<lambda>w. w\<lparr>pcm_class := cls\<rparr>);
     p \<leftarrow> kcall env ''kmalloc'' [arg_word (env_sym env ''sizeof(struct pcm_cdev)''), AStr ''GFP_KERNEL''];
     modify (\<lambda>w. w\<lparr>pcm_cdev_t := p\<rparr>);
     _ \<leftarrow> kcall env ''cdev_init'' [arg_word p, arg_word (env_sym env ''pcm_cdev_file_ops'')];
     store env (p + env_sym env ''offsetof(struct cdev, owner)'') (le_bytes 8 (env_sym env ''THIS_MODULE''));
     store env (p + env_sym env ''offsetof(struct cdev, ops)'') (le_bytes 8 (env_sym env ''pcm_cdev_file_ops''));
     r \<leftarrow> kcall env ''cdev_add'' [arg_word p, arg_word dev_no, AInt 1];
     let ret = to_int r;
     if ret < 0 then do {
       printk ''Fail to cdev_add'' [];
       State_Monad.return ret }
     else do {
       _ \<leftarrow> kcall env ''device_create'' [arg_word cls, arg_word dev_no, AStr ''pcm_test''];
       State_Monad.return ret } }"

definition pcm_test_init :: "env \<Rightarrow> ('a cdev_world_scheme, int) state" where
  "pcm_test_init env = do {
     _ \<leftarrow> pcm_cdev_init env;
     pcm_cdev_add env }"

definition pcm_test_exit :: "env \<Rightarrow> ('a cdev_world_scheme, unit) state" where
  "pcm_test_exit env = pcm_cdev_exit env"

section \<open>Facts\<close>

lemma command_fields:
  assumes "nr \<in> {1, 2, 3, 4, 5, 6, 7, 8, 9, 10}"
  shows "IOC_TYPE (IO PCM_TEST_IOC_MAGIC nr) = PCM_TEST_IOC_MAGIC"
    "IOC_NR (IO PCM_TEST_IOC_MAGIC nr) = nr" "IOC_DIR (IO PCM_TEST_IOC_MAGIC nr) = 0"
  using assms by (auto simp: ioc_defs PCM_TEST_IOC_MAGIC_def)

lemma major_region: "take_bit 20 dev = 0 \<Longrightarrow> MKDEV (MAJOR dev) 0 = dev"
  using bits_ident [of 20 dev] unfolding MKDEV_def MAJOR_def by simp

lemma frozen_hypercall [simp]: "frozen (hypercall env nr)"
  unfolding hypercall_def by auto

lemma frozen_access_err [simp]: "frozen (access_err env cmd p)"
  unfolding access_err_def not_access_ok_def by auto

lemma frozen_ioctl: "(\<And>c. frozen (switch c)) \<Longrightarrow> frozen (pcm_cdev_ioctl env n switch cmd p)"
  unfolding pcm_cdev_ioctl_def Let_def by auto

lemma run_hypercall:
  assumes "halted w = None"
  shows "snd (run_state (hypercall env nr) w) = (case env_fault env (trace w) ''vmcall'' of
      Some e \<Rightarrow> w\<lparr>trace := trace w @ [Fault ''vmcall'' e], halted := Some (Oops e)\<rparr>
    | None \<Rightarrow> w\<lparr>trace := trace w @ [Insn ''vmcall'' [arg_word nr]]\<rparr>)"
  using assms by (simp add: hypercall_def insn_val_def split: option.splits)

lemma run_access_err:
  assumes "halted w = None"
  shows "run_state (access_err env cmd p) w = (
    if IOC_DIR cmd AND IOC_READ \<noteq> 0 then
      (if env_call env (trace w) ''access_ok'' [AInt 1, arg_word p, arg_word (IOC_SIZE cmd)] = 0 then 1 else 0,
       w\<lparr>trace := trace w @ [Call ''access_ok'' [AInt 1, arg_word p, arg_word (IOC_SIZE cmd)]]\<rparr>)
    else if IOC_DIR cmd AND IOC_WRITE \<noteq> 0 then
      (if env_call env (trace w) ''access_ok'' [AInt 0, arg_word p, arg_word (IOC_SIZE cmd)] = 0 then 1 else 0,
       w\<lparr>trace := trace w @ [Call ''access_ok'' [AInt 0, arg_word p, arg_word (IOC_SIZE cmd)]]\<rparr>)
    else (0, w))"
  using assms by (simp add: access_err_def not_access_ok_def VERIFY_READ_def VERIFY_WRITE_def)

section \<open>The contract of an ioctl\<close>

definition bad_command :: "u32 \<Rightarrow> u32 \<Rightarrow> bool" where
  "bad_command maxnr cmd \<longleftrightarrow> IOC_TYPE cmd \<noteq> PCM_TEST_IOC_MAGIC \<or> maxnr < IOC_NR cmd"

text \<open>After \<open>err\<close> is known, the accepted part of an ioctl.\<close>

definition accepted :: "env \<Rightarrow> (u32 \<Rightarrow> ('a kworld_scheme, unit) state) \<Rightarrow> u32 \<Rightarrow> ('a kworld_scheme, int) state" where
  "accepted env switch cmd = do {
     cli;
     _ \<leftarrow> hypercall env 102;
     switch cmd;
     _ \<leftarrow> hypercall env 103;
     sti;
     State_Monad.return 0 }"

lemma run_ioctl:
  assumes "halted w = None"
  shows "run_state (pcm_cdev_ioctl env n switch cmd p) w = (
    let w1 = w\<lparr>trace := trace w @ [Printk ''%s()'' [AStr ''pcm_cdev_ioctl'']]\<rparr> in
    if bad_command n cmd then (- EINVAL, w1)
    else let (err, w2) = run_state (access_err env cmd p) w1 in
      if err \<noteq> 0 then (- EFAULT, w2) else run_state (accepted env switch cmd) w2)"
  using assms by (simp add: pcm_cdev_ioctl_def bad_command_def accepted_def split: prod.splits)

lemma run_accepted:
  assumes "halted w = None" and "\<And>t. env_fault env t ''vmcall'' = None"
    and "run_state (switch cmd) (w\<lparr>irq_on := False, trace := trace w @ [Cli, Insn ''vmcall'' [AInt 102]]\<rparr>) = ((), w')"
    and "halted w' = None"
  shows "run_state (accepted env switch cmd) w
    = (0, w'\<lparr>trace := trace w' @ [Insn ''vmcall'' [AInt 103], Sti], irq_on := True\<rparr>)"
  using assms by (simp add: accepted_def hypercall_def run_insn_val)

lemma still_running: "frozen m \<Longrightarrow> halted (snd (run_state m w)) = None \<Longrightarrow> halted w = None"
  by (metis frozenD option.exhaust)

locale test_driver =
  fixes env :: env and maxnr :: u32 and switch :: "u32 \<Rightarrow> ('a kworld_scheme, unit) state"
  assumes switch_frozen: "frozen (switch cmd)"
begin

abbreviation ioctl :: "u32 \<Rightarrow> u64 \<Rightarrow> ('a kworld_scheme, int) state" where
  "ioctl \<equiv> pcm_cdev_ioctl env maxnr switch"

lemma ioctl_frozen: "frozen (ioctl cmd p)"
  by (rule frozen_ioctl) (rule switch_frozen)

end

section \<open>Errors\<close>

lemma ioc_dir_bits:
  "IOC_DIR cmd AND IOC_READ = 0 \<longleftrightarrow> \<not> bit cmd 31" "IOC_DIR cmd AND IOC_WRITE = 0 \<longleftrightarrow> \<not> bit cmd 30"
proof -
  have e: "IOC_READ = 2 ^ 1" "IOC_WRITE = 2 ^ 0" by (simp_all add: ioc_defs)
  show "IOC_DIR cmd AND IOC_READ = 0 \<longleftrightarrow> \<not> bit cmd 31" "IOC_DIR cmd AND IOC_WRITE = 0 \<longleftrightarrow> \<not> bit cmd 30"
    unfolding e and_exp_eq_0_iff_not_bit by (simp_all add: IOC_DIR_def bit_simps)
qed

text \<open>C11. The error behaviour of the ioctl of both drivers.  A command with another magic number or
  with a number above the largest returns -EINVAL; one that says it reads or writes user memory
  (bits 31 and 30) returns -EFAULT when the kernel denies access to that range (for writing when
  bit 31 is set); in both cases nothing happens but the announcement and the question to the kernel:
  interrupts stay as they are, there is no hypercall and no test.  Every other command returns 0.\<close>

theorem ioctl_errors:
  assumes "halted w = None"
  shows "let (r, w') = run_state (pcm_cdev_ioctl env maxnr switch cmd p) w;
      log = trace w @ [Printk ''%s()'' [AStr ''pcm_cdev_ioctl'']];
      args = [AInt (of_bool (bit cmd 31)), arg_word p, arg_word (IOC_SIZE cmd)]
    in if bad_command maxnr cmd then r = - 22 \<and> w' = w\<lparr>trace := log\<rparr>
      else if (bit cmd 31 \<or> bit cmd 30) \<and> env_call env log ''access_ok'' args = 0
      then r = - 14 \<and> w' = w\<lparr>trace := log @ [Call ''access_ok'' args]\<rparr>
      else r = 0"
  using assms
  by (simp add: run_ioctl run_access_err ioc_dir_bits EINVAL_def EFAULT_def accepted_def Let_def
      split: prod.splits)

text \<open>A write command (bit 30) with its pointer refused.\<close>

theorem ioctl_errors_witness:
  "fst (run_state (pcm_cdev_ioctl calm_env 6 (\<lambda>c. skip) 0x40046b01 0) start_world) = - 14"
  using ioctl_errors [of start_world calm_env 6 "\<lambda>c. skip" "0x40046b01" 0]
  by (simp add: bad_command_def ioc_defs PCM_TEST_IOC_MAGIC_def calm_env_def bit_numeral_rec split: prod.splits)

end
