(* ===== verification/UserApi.thy ===== *)
theory UserApi
  imports CharDev
begin

text \<open>
  The C library and the system calls as the programs of the repository use them.  A program prints
  with \<open>printf\<close>; opening \<open>/dev/pcm_test\<close> and ioctls on a descriptor it got that way reach the driver, a
  call on any other number is answered by the environment.  A system call returns its result and
  the error number, as the C library does: -1 and a positive number for a failure.
\<close>

definition printf :: "string \<Rightarrow> arg list \<Rightarrow> ('a kworld_scheme, unit) state" where
  "printf fmt args = emit (Call ''printf'' (AStr fmt # args))"

definition libc_result :: "int \<Rightarrow> int \<times> int" where
  "libc_result r = (if r < 0 then (- 1, - r) else (r, 0))"

definition sys_open :: "env \<Rightarrow> ('a kworld_scheme, int \<times> int) state" where
  "sys_open env = do {
     r \<leftarrow> kcall env ''open'' [AStr ''/dev/pcm_test''];
     let fd = to_int r;
     (if fd < 0 then skip else do { _ \<leftarrow> pcm_cdev_open (env_sym env ''i_cdev''); skip });
     State_Monad.return (libc_result fd) }"

text \<open>The programs pass no third argument, so the driver sees what the register holds.\<close>

definition sys_ioctl :: "env \<Rightarrow> (u32 \<Rightarrow> u64 \<Rightarrow> ('a kworld_scheme, int) state) \<Rightarrow> int list \<Rightarrow> int \<Rightarrow> u32
    \<Rightarrow> ('a kworld_scheme, int \<times> int) state" where
  "sys_ioctl env ioctl fds fd cmd = do {
     r \<leftarrow> (if fd \<in> set fds then ioctl cmd (env_sym env ''rdx'')
          else do { v \<leftarrow> kcall env ''ioctl'' [AInt fd, arg_word cmd]; State_Monad.return (to_int v) });
     State_Monad.return (libc_result r) }"

definition sys_close :: "env \<Rightarrow> int list \<Rightarrow> int \<Rightarrow> ('a kworld_scheme, unit) state" where
  "sys_close env fds fd =
     (if fd \<in> set fds then do { _ \<leftarrow> pcm_cdev_release; skip }
      else do { _ \<leftarrow> kcall env ''close'' [AInt fd]; skip })"

lemmas user_defs = printf_def libc_result_def sys_open_def sys_ioctl_def sys_close_def

end
