(* ===== verification/Footprint.thy ===== *)
theory Footprint
  imports CharDev
begin

text \<open>
  What a piece of code may leave behind: the events it adds to the trace, and the variables of the
  module.  The tests of both drivers make no hypercall (those mark the tests for the hypervisor), take
  and give back none of the module's resources, and leave its variables alone.
\<close>

section \<open>Events\<close>

text \<open>The kernel calls by which the module takes and gives back its resources.\<close>

definition resource_calls :: "string list" where
  "resource_calls = [''alloc_chrdev_region'', ''class_create'', ''kmalloc'', ''cdev_add'', ''device_create'',
     ''device_destroy'', ''class_destroy'', ''cdev_del'', ''kfree'', ''unregister_chrdev_region'']"

fun keeps_resources :: "ev \<Rightarrow> bool" where
  "keeps_resources (Call nm args) = (nm \<notin> set resource_calls)"
| "keeps_resources _ = True"

fun is_vmcall :: "ev \<Rightarrow> bool" where
  "is_vmcall (Insn nm args) = (nm = ''vmcall'')"
| "is_vmcall _ = False"

definition test_event :: "ev \<Rightarrow> bool" where
  "test_event e \<longleftrightarrow> keeps_resources e \<and> \<not> is_vmcall e"

lemma test_event_simps [simp]:
  "test_event (Call nm args) = (nm \<notin> set resource_calls)" "test_event (Insn nm args) = (nm \<noteq> ''vmcall'')"
  "test_event (Printk f a)" "test_event (MmioR x y)" "test_event (MmioW x z)" "test_event (OutB p b)"
  "test_event (MsrRd i v)" "test_event (MsrWr i v)" "test_event (MsrRdSafe i err)" "test_event (MsrWrSafe i v err)"
  "test_event (Rdtsc v)" "test_event (Rdtscp v c)" "test_event (Cpuid l s)" "test_event Cli" "test_event Sti"
  "test_event (Fault nm e)" "test_event (IntTaken u)" "test_event Iret"
  by (simp_all add: test_event_def)

section \<open>Code within a footprint\<close>

text \<open>The variables of the module.\<close>

definition same_module :: "'a cdev_world_scheme \<Rightarrow> 'a cdev_world_scheme \<Rightarrow> bool" where
  "same_module w w' \<longleftrightarrow> pcm_cdev_major w' = pcm_cdev_major w \<and> pcm_class w' = pcm_class w
     \<and> pcm_cdev_t w' = pcm_cdev_t w"

lemma same_module_updates [simp]:
  fixes w :: "'a cdev_world_scheme"
  shows "same_module w w" "same_module w (w\<lparr>irq_on := b\<rparr>)" "same_module w (w\<lparr>cpu := c\<rparr>)" "same_module w (w\<lparr>mem := m\<rparr>)"
  by (simp_all add: same_module_def)

definition within :: "(ev \<Rightarrow> bool) \<Rightarrow> ('a cdev_world_scheme, 'b) state \<Rightarrow> bool" where
  "within P m \<longleftrightarrow> (\<forall>w. same_module w (snd (run_state m w))
     \<and> (\<exists>es. trace (snd (run_state m w)) = trace w @ es \<and> list_all P es))"

lemma withinD:
  "within P m \<Longrightarrow> same_module w (snd (run_state m w))
    \<and> (\<exists>es. trace (snd (run_state m w)) = trace w @ es \<and> list_all P es)"
  by (simp add: within_def)

lemma within_mono: "within P m \<Longrightarrow> (\<And>e. P e \<Longrightarrow> Q e) \<Longrightarrow> within Q m"
  unfolding within_def list_all_iff by blast

lemma within_basic [simp, intro]:
  "within P (State_Monad.return x)" "within P (gets f)" "within P skip" "within P (ask q)" "within P (halt h)"
  by (auto simp: within_def same_module_def halt_def modify_def)

lemma within_modify [simp, intro]:
  "(\<And>w. trace (g w) = trace w \<and> same_module w (g w)) \<Longrightarrow> within P (modify g)"
  by (auto simp: within_def modify_def same_module_def)

lemma within_emit [simp, intro]: "P e \<Longrightarrow> within P (emit e)"
  by (auto simp: within_def emit_def modify_def same_module_def)

lemma within_bind [intro!]:
  assumes "within P m" and "\<And>x. within P (f x)"
  shows "within P (State_Monad.bind m f)"
  unfolding within_def
proof
  fix w
  obtain x w1 where m: "run_state m w = (x, w1)" by fastforce
  obtain es where es: "same_module w w1" "trace w1 = trace w @ es" "list_all P es"
    using withinD [OF assms(1), of w] m by auto
  obtain fs where "same_module w1 (snd (run_state (f x) w1))" "trace (snd (run_state (f x) w1)) = trace w1 @ fs"
    "list_all P fs" using withinD [OF assms(2) [of x], of w1] by auto
  with es m show "same_module w (snd (run_state (State_Monad.bind m f) w))
      \<and> (\<exists>es. trace (snd (run_state (State_Monad.bind m f) w)) = trace w @ es \<and> list_all P es)"
    by (intro conjI exI [of _ "es @ fs"]) (auto simp: same_module_def)
qed

lemma within_for_each: "(\<And>x. x \<in> set xs \<Longrightarrow> within P (body x)) \<Longrightarrow> within P (for_each xs body)"
  by (induction xs) auto

lemma within_while_do: "within P c \<Longrightarrow> within P b \<Longrightarrow> within P (while_do n c b)"
  by (induction n) auto

lemma within_loop: "(\<And>s. within P (body s)) \<Longrightarrow> within P (loop n d body s)"
  by (induction n arbitrary: s) (auto split: sum.splits)

text \<open>The operations of the machine; which instructions and which kernel calls is the caller's matter.\<close>

lemma within_machine [simp]:
  "within test_event (printk fmt args)" "within test_event (mmio_read env a)" "within test_event (mmio_write a d)"
  "within test_event (outb b port)" "within test_event cli" "within test_event sti"
  "within test_event (cpuid env l s)" "within test_event (rdtsc env)" "within test_event (rdtscp env)"
  "nm \<noteq> ''vmcall'' \<Longrightarrow> within test_event (insn env nm args)"
  "nm \<noteq> ''vmcall'' \<Longrightarrow> within test_event (insn_val env nm args)"
  "within test_event (rdmsr env i)" "within test_event (wrmsr env i v)" "within test_event (store env a bs)"
  "within test_event (rdmsrl_safe env i)" "within test_event (wrmsrl_safe env i v)"
  "nm \<notin> set resource_calls \<Longrightarrow> within test_event (kcall env nm args)"
  by (auto simp: machine_defs same_module_def split: option.splits prod.splits)

text \<open>The ioctl of a driver whose tests are within the footprint.\<close>

lemma within_hypercall: "within keeps_resources (hypercall env nr)"
  unfolding hypercall_def insn_val_def insn_def by (auto split: option.splits)

lemma within_resources: "within test_event m \<Longrightarrow> within keeps_resources m"
  by (erule within_mono) (simp add: test_event_def)

lemma within_ioctl:
  assumes "\<And>c. within test_event (switch c)"
  shows "within keeps_resources (pcm_cdev_ioctl env n switch cmd p)"
proof -
  have "within test_event (access_err env cmd p)"
    by (auto simp: access_err_def not_access_ok_def resource_calls_def)
  then show ?thesis
    unfolding pcm_cdev_ioctl_def using assms
    by (auto intro: within_hypercall within_resources simp: within_resources)
qed

end
