(* ===== verification/CharDevLife.thy ===== *)
theory CharDevLife
  imports CharDev "HOL-Library.Multiset"
begin

text \<open>
  Loading and unloading the drivers against the specification \<open>held\<close> of the resources a module
  holds, a function of the kernel calls made and of the answers given: with a kernel that grants everything unloading gives back all that loading took; without,
  the driver keeps resources or gives back one it does not hold.
\<close>

section \<open>Specification: the resources a module holds\<close>

datatype resource = Region u32 | Class u64 | Memory u64 | Cdev u64 | Device u64 u32

text \<open>
  What one kernel call grants or takes back, given the answer the environment gave to it at the
  trace \<open>t\<close>.  Giving back what is not held is an error (\<open>None\<close>).
\<close>

definition give_back :: "resource \<Rightarrow> resource multiset \<Rightarrow> resource multiset option" where
  "give_back r h = (if r \<in># h then Some (h - {#r#}) else None)"

definition int_arg :: "arg list \<Rightarrow> nat \<Rightarrow> int" where
  "int_arg args i = (if i < length args then (case args ! i of AInt n \<Rightarrow> n | AStr s \<Rightarrow> 0) else 0)"

lemma int_arg_simps [simp]:
  "int_arg (AInt n # args) 0 = n" "int_arg (a # args) (Suc i) = int_arg args i"
  by (simp_all add: int_arg_def)

definition effect :: "env \<Rightarrow> ev list \<Rightarrow> string \<Rightarrow> arg list \<Rightarrow> resource multiset \<Rightarrow> resource multiset option" where
  "effect env t name args h = (
     let r = env_call env t name args; a = (\<lambda>i. word_of_int (int_arg args i) :: u64) in
     if name = ''alloc_chrdev_region'' then Some (if to_int r < 0 then h
       else add_mset (Region (ucast (env_call env t ''alloc_chrdev_region dev'' args))) h)
     else if name = ''class_create'' then Some (add_mset (Class r) h)
     else if name = ''kmalloc'' then Some (if r = 0 then h else add_mset (Memory r) h)
     else if name = ''cdev_add'' then Some (if to_int r < 0 then h else add_mset (Cdev (a 0)) h)
     else if name = ''device_create'' then Some (add_mset (Device (a 0) (ucast (a 1))) h)
     else if name = ''device_destroy'' then give_back (Device (a 0) (ucast (a 1))) h
     else if name = ''class_destroy'' then give_back (Class (a 0)) h
     else if name = ''cdev_del'' then give_back (Cdev (a 0)) h
     else if name = ''kfree'' then give_back (Memory (a 0)) h
     else if name = ''unregister_chrdev_region'' then give_back (Region (ucast (a 0))) h
     else Some h)"

fun held_back :: "env \<Rightarrow> ev list \<Rightarrow> resource multiset option" where
  "held_back env [] = Some {#}"
| "held_back env (e # t) = (case held_back env t of
     None \<Rightarrow> None
   | Some h \<Rightarrow> (case e of Call name args \<Rightarrow> effect env (rev t) name args h | _ \<Rightarrow> Some h))"

definition held :: "env \<Rightarrow> ev list \<Rightarrow> resource multiset option" where
  "held env t = held_back env (rev t)"

lemma held_snoc [simp]:
  "held env (t @ [Call name args]) = Option.bind (held env t) (effect env t name args)"
  "\<And>a v. held env (t @ [Printk a v]) = held env t"
  "\<And>n e. held env (t @ [Fault n e]) = held env t"
  by (auto simp: held_def split: option.splits)

section \<open>Loading and unloading\<close>

definition grants_memory :: "env \<Rightarrow> bool" where
  "grants_memory env \<longleftrightarrow> (\<forall>t args. let p = env_call env t ''kmalloc'' args in p \<noteq> 0 \<and>
     (\<forall>i < 8. env_mapped env (p + env_sym env ''offsetof(struct cdev, owner)'' + of_nat i)
       \<and> env_mapped env (p + env_sym env ''offsetof(struct cdev, ops)'' + of_nat i)))"

definition grants_region :: "env \<Rightarrow> bool" where
  "grants_region env \<longleftrightarrow> (\<forall>t args. 0 \<le> to_int (env_call env t ''alloc_chrdev_region'' args)
     \<and> take_bit 20 (ucast (env_call env t ''alloc_chrdev_region dev'' args) :: u32) = 0)"

definition grants_cdev :: "env \<Rightarrow> bool" where
  "grants_cdev env \<longleftrightarrow> (\<forall>t args. 0 \<le> to_int (env_call env t ''cdev_add'' args))"

lemma length_le_bytes_8 [simp]: "length (le_bytes 8 w) = 8" by simp

text \<open>The state after each step, with the trace replaced by what it says about the resources.\<close>

lemma run_cdev_init_ok:
  assumes "halted w = None" and "grants_region env" and "held env (trace w) = Some h"
  shows "\<exists>t ma r. run_state (pcm_cdev_init env) w = (r, w\<lparr>trace := t, pcm_cdev_major := ma\<rparr>)
    \<and> held env t = Some (add_mset (Region (MKDEV ma 0)) h)"
proof -
  let ?args = "[arg_word (MKDEV (pcm_cdev_major w) 0), AInt 0, AInt 1, AStr ''pcm_test'']"
  let ?dev = "ucast (env_call env (trace w) ''alloc_chrdev_region dev'' ?args) :: u32"
  have ok: "0 \<le> to_int (env_call env (trace w) ''alloc_chrdev_region'' ?args)" "take_bit 20 ?dev = 0"
    using assms(2) by (simp_all add: grants_region_def)
  have "run_state (pcm_cdev_init env) w = (to_int (env_call env (trace w) ''alloc_chrdev_region'' ?args),
      w\<lparr>trace := trace w @ [Call ''alloc_chrdev_region'' ?args], pcm_cdev_major := MAJOR ?dev\<rparr>)"
    using assms(1) ok by (simp add: pcm_cdev_init_def Let_def)
  moreover have "held env (trace w @ [Call ''alloc_chrdev_region'' ?args])
      = Some (add_mset (Region (MKDEV (MAJOR ?dev) 0)) h)"
    using ok assms(3) by (simp add: effect_def major_region)
  ultimately show ?thesis by blast
qed

lemma run_cdev_init_fails:
  assumes "halted w = None" and "to_int (env_call env (trace w) ''alloc_chrdev_region''
      [arg_word (MKDEV (pcm_cdev_major w) 0), AInt 0, AInt 1, AStr ''pcm_test'']) < 0"
    and "held env (trace w) = Some h"
  shows "\<exists>t r. run_state (pcm_cdev_init env) w = (r, w\<lparr>trace := t\<rparr>) \<and> held env t = Some h"
proof -
  let ?args = "[arg_word (MKDEV (pcm_cdev_major w) 0), AInt 0, AInt 1, AStr ''pcm_test'']"
  let ?t = "trace w @ [Call ''alloc_chrdev_region'' ?args] @ [Printk ''alloc_chrdev_region error'' []]"
  have "run_state (pcm_cdev_init env) w = (to_int (env_call env (trace w) ''alloc_chrdev_region'' ?args), w\<lparr>trace := ?t\<rparr>)"
    using assms(1,2) by (simp add: pcm_cdev_init_def Let_def)
  moreover have "held env ?t = Some h"
    using assms(2,3) unfolding append_assoc [symmetric] held_snoc by (simp add: effect_def)
  ultimately show ?thesis by blast
qed


lemma held_step:
  assumes "held env t = Some h" and "effect env t name args h = Some h'"
  shows "held env (t @ [Call name args]) = Some h'"
  using assms by simp

lemma run_cdev_add:
  assumes "halted w = None" and "grants_memory env" and "held env (trace w) = Some h"
  shows "\<exists>t cls p m r t3 args. run_state (pcm_cdev_add env) w
      = (r, w\<lparr>pcm_class := cls, pcm_cdev_t := p, mem := m, trace := t\<rparr>)
    \<and> r = to_int (env_call env t3 ''cdev_add'' args)
    \<and> held env t = Some (add_mset (Class cls) (add_mset (Memory p)
        (if r < 0 then h else add_mset (Cdev p) (add_mset (Device cls (MKDEV (pcm_cdev_major w) 0)) h))))"
proof -
  let ?dev = "MKDEV (pcm_cdev_major w) 0"
  define a1 where "a1 = [arg_word (env_sym env ''THIS_MODULE''), AStr ''pcm_test'']"
  define cls where "cls = env_call env (trace w) ''class_create'' a1"
  define t1 where "t1 = trace w @ [Call ''class_create'' a1]"
  define a2 where "a2 = [arg_word (env_sym env ''sizeof(struct pcm_cdev)''), AStr ''GFP_KERNEL'']"
  define p where "p = env_call env t1 ''kmalloc'' a2"
  define t2 where "t2 = t1 @ [Call ''kmalloc'' a2]"
  define t3 where "t3 = t2 @ [Call ''cdev_init'' [arg_word p, arg_word (env_sym env ''pcm_cdev_file_ops'')]]"
  define a3 where "a3 = [arg_word p, arg_word ?dev, AInt 1]"
  define r where "r = to_int (env_call env t3 ''cdev_add'' a3)"
  define t4 where "t4 = t3 @ [Call ''cdev_add'' a3]"
  define t5 where "t5 = (if r < 0 then t4 @ [Printk ''Fail to cdev_add'' []]
    else t4 @ [Call ''device_create'' [arg_word cls, arg_word ?dev, AStr ''pcm_test'']])"
  define m where "m = store_bytes (store_bytes (mem w) (p + env_sym env ''offsetof(struct cdev, owner)'')
      (le_bytes 8 (env_sym env ''THIS_MODULE'')))
    (p + env_sym env ''offsetof(struct cdev, ops)'') (le_bytes 8 (env_sym env ''pcm_cdev_file_ops''))"
  have p: "p \<noteq> 0"
    and mapped: "\<forall>i < 8. env_mapped env (p + env_sym env ''offsetof(struct cdev, owner)'' + of_nat i)"
      "\<forall>i < 8. env_mapped env (p + env_sym env ''offsetof(struct cdev, ops)'' + of_nat i)"
    using assms(2) by (simp_all add: grants_memory_def p_def Let_def)
  have "run_state (pcm_cdev_add env) w
      = (r, w\<lparr>pcm_class := cls, pcm_cdev_t := p, mem := m, trace := t5\<rparr>)"
    using assms(1) mapped
    by (simp add: pcm_cdev_add_def Let_def r_def cls_def p_def m_def t5_def t4_def t3_def t2_def t1_def a1_def a2_def a3_def)
  moreover have "held env t1 = Some (add_mset (Class cls) h)"
    unfolding t1_def by (rule held_step [OF assms(3)]) (simp add: effect_def cls_def)
  then have "held env t2 = Some (add_mset (Memory p) (add_mset (Class cls) h))"
    unfolding t2_def by (rule held_step) (use p in \<open>simp add: effect_def p_def\<close>)
  then have "held env t3 = Some (add_mset (Memory p) (add_mset (Class cls) h))"
    unfolding t3_def by (rule held_step) (simp add: effect_def)
  then have t4: "held env t4 = Some (if r < 0 then add_mset (Memory p) (add_mset (Class cls) h)
      else add_mset (Cdev p) (add_mset (Memory p) (add_mset (Class cls) h)))"
    unfolding t4_def by (rule held_step) (simp add: effect_def r_def a3_def Let_def)
  have "held env t5 = Some (add_mset (Class cls) (add_mset (Memory p)
      (if r < 0 then h else add_mset (Cdev p) (add_mset (Device cls ?dev) h))))"
  proof (cases "r < 0")
    case True
    with t4 show ?thesis by (simp add: t5_def add_mset_commute)
  next
    case False
    then have "t5 = t4 @ [Call ''device_create'' [arg_word cls, arg_word ?dev, AStr ''pcm_test'']]"
      by (simp add: t5_def)
    with t4 False show ?thesis by (simp add: effect_def Let_def ac_simps)
  qed
  ultimately show ?thesis using r_def by blast
qed


text \<open>The effect of a sequence of kernel calls.\<close>

fun effects :: "env \<Rightarrow> ev list \<Rightarrow> (string \<times> arg list) list \<Rightarrow> resource multiset \<Rightarrow> resource multiset option" where
  "effects env t [] h = Some h"
| "effects env t ((name, args) # cs) h
     = Option.bind (effect env t name args h) (effects env (t @ [Call name args]) cs)"

lemma effects_Nil [simp]: "effects env t [] = Some"
  by (simp add: fun_eq_iff)

lemma effects_Cons: "effects env t ((name, args) # cs)
    = (\<lambda>h. Option.bind (effect env t name args h) (effects env (t @ [Call name args]) cs))"
  by (simp add: fun_eq_iff)

lemma held_calls:
  "held env (t @ map (\<lambda>(name, args). Call name args) cs) = Option.bind (held env t) (effects env t cs)"
proof (induction cs arbitrary: t)
  case (Cons c cs)
  obtain name args where "c = (name, args)" by fastforce
  with Cons.IH [of "t @ [Call name args]"] show ?case
    by (cases "held env t") simp_all
qed simp

lemma held_after_exit:
  assumes "halted w = None"
  shows "held env (trace (snd (run_state (pcm_cdev_exit env) w))) = Option.bind (held env (trace w)) (\<lambda>h.
    Option.bind (give_back (Device (pcm_class w) (MKDEV (pcm_cdev_major w) 0)) h) (\<lambda>h.
    Option.bind (give_back (Class (pcm_class w)) h) (\<lambda>h.
    Option.bind (give_back (Cdev (pcm_cdev_t w)) h) (\<lambda>h.
    Option.bind (give_back (Memory (pcm_cdev_t w)) h) (\<lambda>h.
    give_back (Region (MKDEV (pcm_cdev_major w) 0)) h)))))"
proof -
  let ?dev = "arg_word (MKDEV (pcm_cdev_major w) 0)"
  have t: "trace (snd (run_state (pcm_cdev_exit env) w)) = trace w @ map (\<lambda>(name, args). Call name args)
      [(''device_destroy'', [arg_word (pcm_class w), ?dev]), (''class_destroy'', [arg_word (pcm_class w)]),
       (''cdev_del'', [arg_word (pcm_cdev_t w)]), (''kfree'', [arg_word (pcm_cdev_t w)]),
       (''unregister_chrdev_region'', [?dev, AInt 1])]"
    using assms by (simp add: pcm_cdev_exit_def)
  show ?thesis
    by (simp only: t held_calls) (simp add: effects_Cons effect_def Let_def)
qed

text \<open>C21. When the kernel refuses the device (\<open>cdev_add\<close> fails), loading fails with its error and the driver
  keeps the number region, the class and the memory: none of them is given back, and the kernel does
  not run the exit function of a module that failed to load.\<close>

theorem failed_load_leaks:
  assumes "halted w = None" and "held env (trace w) = Some h"
    and "grants_region env" and "grants_memory env"
    and "\<And>t args. to_int (env_call env t ''cdev_add'' args) < 0"
  shows "let (r, w1) = run_state (pcm_test_init env) w in
    r < 0 \<and> held env (trace w1) = Some (h + {#Region (MKDEV (pcm_cdev_major w1) 0), Class (pcm_class w1),
      Memory (pcm_cdev_t w1)#})"
proof -
  obtain t1 ma r1 where 1: "run_state (pcm_cdev_init env) w = (r1, w\<lparr>trace := t1, pcm_cdev_major := ma\<rparr>)"
    "held env t1 = Some (add_mset (Region (MKDEV ma 0)) h)"
    using run_cdev_init_ok [OF assms(1,3,2)] by blast
  let ?w1 = "w\<lparr>trace := t1, pcm_cdev_major := ma\<rparr>"
  obtain t cls p m r t3 args where 2: "run_state (pcm_cdev_add env) ?w1
      = (r, ?w1\<lparr>pcm_class := cls, pcm_cdev_t := p, mem := m, trace := t\<rparr>)"
    "r = to_int (env_call env t3 ''cdev_add'' args)"
    "held env t = Some (add_mset (Class cls) (add_mset (Memory p) (if r < 0 then add_mset (Region (MKDEV ma 0)) h
        else add_mset (Cdev p) (add_mset (Device cls (MKDEV ma 0)) (add_mset (Region (MKDEV ma 0)) h)))))"
    using run_cdev_add [of ?w1 env] assms(1,4) 1(2) by auto
  have "run_state (pcm_test_init env) w = (r, ?w1\<lparr>pcm_class := cls, pcm_cdev_t := p, mem := m, trace := t\<rparr>)"
    by (simp add: pcm_test_init_def 1 2(1))
  moreover have "r < 0" using assms(5) 2(2) by simp
  ultimately show ?thesis using 2(3) by simp
qed

text \<open>C22. The result of \<open>alloc_chrdev_region\<close> is ignored: when the kernel refuses the number region, loading
  still succeeds, the device is registered under a number the module does not own (the major number
  that was in the variable, 0 after loading), and unloading gives back a region that is not held.\<close>

theorem refused_region_ignored:
  assumes "halted w = None" and "held env (trace w) = Some h"
    and "\<And>t args. to_int (env_call env t ''alloc_chrdev_region'' args) < 0"
    and "grants_memory env" and "grants_cdev env"
    and "Region (MKDEV (pcm_cdev_major w) 0) \<notin># h"
  shows "let (r, w1) = run_state (pcm_test_init env) w; dev = MKDEV (pcm_cdev_major w) 0 in
    0 \<le> r \<and> held env (trace w1) = Some (h + {#Class (pcm_class w1), Memory (pcm_cdev_t w1), Cdev (pcm_cdev_t w1),
      Device (pcm_class w1) dev#})
    \<and> held env (trace (snd (run_state (pcm_test_exit env) w1))) = None"
proof -
  obtain t1 r1 where 1: "run_state (pcm_cdev_init env) w = (r1, w\<lparr>trace := t1\<rparr>)" "held env t1 = Some h"
    using run_cdev_init_fails [OF assms(1) assms(3,2)] by blast
  let ?w1 = "w\<lparr>trace := t1\<rparr>" and ?dev = "MKDEV (pcm_cdev_major w) 0"
  obtain t cls p m r t3 args where 2: "run_state (pcm_cdev_add env) ?w1
      = (r, ?w1\<lparr>pcm_class := cls, pcm_cdev_t := p, mem := m, trace := t\<rparr>)"
    "r = to_int (env_call env t3 ''cdev_add'' args)"
    "held env t = Some (add_mset (Class cls) (add_mset (Memory p) (if r < 0 then h
        else add_mset (Cdev p) (add_mset (Device cls ?dev) h))))"
    using run_cdev_add [of ?w1 env] assms(1,4) 1(2) by auto
  have r: "0 \<le> r" using assms(5) 2(2) by (simp add: grants_cdev_def)
  let ?w2 = "?w1\<lparr>pcm_class := cls, pcm_cdev_t := p, mem := m, trace := t\<rparr>"
  have "run_state (pcm_test_init env) w = (r, ?w2)" by (simp add: pcm_test_init_def 1 2(1))
  moreover have "held env t = Some (h + {#Class cls, Memory p, Cdev p, Device cls ?dev#})"
    using 2(3) r by simp
  moreover have "held env (trace (snd (run_state (pcm_test_exit env) ?w2))) = None"
    using 2(3) r assms(1,6) held_after_exit [of ?w2 env] by (simp add: pcm_test_exit_def give_back_def)
  ultimately show ?thesis using r by (simp add: Let_def)
qed

section \<open>Witnesses\<close>

text \<open>A kernel that grants everything, refuses the device, or refuses the number region.\<close>

definition kernel_env :: "(string \<Rightarrow> u64) \<Rightarrow> env" where
  "kernel_env answer = calm_env\<lparr>env_call := \<lambda>t n a. if n = ''kmalloc'' then 0x1000 else answer n\<rparr>"

definition cdev_start :: cdev_world where
  "cdev_start = kworld.extend start_world \<lparr>pcm_cdev_major = 0, pcm_class = 0, pcm_cdev_t = 0\<rparr>"

lemma cdev_start_simps [simp]:
  "halted cdev_start = None" "trace cdev_start = []" "irq_on cdev_start" "pcm_cdev_major cdev_start = 0"
  by (simp_all add: cdev_start_def cdev_world.defs kworld.defs start_world_def)

lemma held_Nil [simp]: "held env [] = Some {#}"
  by (simp add: held_def)

lemma kernel_env_grants:
  "grants_memory (kernel_env answer)"
  "answer ''alloc_chrdev_region'' = 0 \<Longrightarrow> answer ''alloc_chrdev_region dev'' = 0 \<Longrightarrow> grants_region (kernel_env answer)"
  "answer ''cdev_add'' = 0 \<Longrightarrow> grants_cdev (kernel_env answer)"
  by (simp_all add: grants_memory_def grants_region_def grants_cdev_def kernel_env_def calm_env_def to_int_def Let_def)

lemma kernel_env_refuses [simp]:
  "env_call (kernel_env answer) t ''cdev_add'' args = answer ''cdev_add''"
  "env_call (kernel_env answer) t ''alloc_chrdev_region'' args = answer ''alloc_chrdev_region''"
  by (simp_all add: kernel_env_def)

lemma to_int_values [simp]: "to_int 0 = 0" "to_int (- 12) = - 12" "to_int (- 16) = - 16"
  by (simp_all add: to_int_def)

theorem failed_load_leaks_witness:
  "let env = kernel_env (\<lambda>n. if n = ''cdev_add'' then - 12 else 0); (r, w1) = run_state (pcm_test_init env) cdev_start
    in r < 0 \<and> held env (trace w1) = Some {#Region (MKDEV (pcm_cdev_major w1) 0), Class (pcm_class w1),
      Memory (pcm_cdev_t w1)#}"
  using failed_load_leaks [of cdev_start "kernel_env (\<lambda>n. if n = ''cdev_add'' then - 12 else 0)" "{#}"]
  by (simp add: kernel_env_grants Let_def split: prod.splits)

theorem refused_region_ignored_witness:
  "let env = kernel_env (\<lambda>n. if n = ''alloc_chrdev_region'' then - 16 else 0);
      (r, w1) = run_state (pcm_test_init env) cdev_start
    in 0 \<le> r \<and> held env (trace (snd (run_state (pcm_test_exit env) w1))) = None"
  using refused_region_ignored [of cdev_start "kernel_env (\<lambda>n. if n = ''alloc_chrdev_region'' then - 16 else 0)" "{#}"]
  by (simp add: kernel_env_grants Let_def split: prod.splits)

end
