(* ===== verification/DriverContract.thy ===== *)
theory DriverContract
  imports Footprint CharDevLife
begin

text \<open>
  What a driver promises whose tests stay within their footprint: the hypervisor sees the tests as
  pairs of marks, and the module gives back what it took, whatever commands come in between.
\<close>

section \<open>Marks\<close>

text \<open>The hypercalls 102 and 103 mark the beginning and the end of a test for the hypervisor.\<close>

definition marks :: "ev list \<Rightarrow> ev list" where
  "marks es = filter is_vmcall es"

abbreviation begin_mark :: ev where "begin_mark \<equiv> Insn ''vmcall'' [AInt 102]"
abbreviation end_mark :: ev where "end_mark \<equiv> Insn ''vmcall'' [AInt 103]"

definition pairs :: "nat \<Rightarrow> ev list" where
  "pairs n = concat (replicate n [begin_mark, end_mark])"

lemma pairs_simps [simp]: "pairs 0 = []" "pairs (Suc n) = begin_mark # end_mark # pairs n"
  by (simp_all add: pairs_def)

lemma pairs_add: "pairs m @ pairs n = pairs (m + n)"
  by (simp add: pairs_def replicate_add)

lemma marks_simps [simp]:
  "marks [] = []" "marks (s @ t) = marks s @ marks t"
  "marks (e # t) = (if is_vmcall e then e # marks t else marks t)"
  by (simp_all add: marks_def)

lemma marks_none: "list_all test_event es \<Longrightarrow> marks es = []"
  by (induction es) (auto simp: test_event_def)

section \<open>Several commands\<close>

text \<open>A process that makes one ioctl after the other, and what they return.\<close>

fun ioctl_calls :: "(u32 \<Rightarrow> u64 \<Rightarrow> ('w, int) state) \<Rightarrow> (u32 \<times> u64) list \<Rightarrow> ('w, int list) state" where
  "ioctl_calls ioctl [] = State_Monad.return []"
| "ioctl_calls ioctl ((cmd, p) # cs) = do {
     r \<leftarrow> ioctl cmd p;
     rs \<leftarrow> ioctl_calls ioctl cs;
     State_Monad.return (r # rs) }"

locale quiet_driver = test_driver env maxnr switch
  for env :: env and maxnr :: u32 and switch :: "u32 \<Rightarrow> ('a cdev_world_scheme, unit) state" +
  assumes switch_within: "within test_event (switch cmd)"
begin

lemma calls_frozen: "frozen (ioctl_calls ioctl cs)"
  using ioctl_frozen by (induction cs) auto

text \<open>An accepted command: a pair, or the part of it that was made before the machine stopped.\<close>

lemma accepted_marks:
  assumes h: "halted w = None" and run: "run_state (accepted env switch cmd) w = (r, w')"
  shows "\<exists>es. trace w' = trace w @ es \<and> (if halted w' = None then marks es = pairs 1 \<and> irq_on w'
    else marks es \<in> {[], [begin_mark]})"
proof (cases "env_fault env (trace w @ [Cli]) ''vmcall''")
  case (Some e)
  then have "w' = w\<lparr>irq_on := False, trace := trace w @ [Cli, Fault ''vmcall'' e], halted := Some (Oops e)\<rparr>"
    using run h by (simp add: accepted_def hypercall_def insn_val_def run_frozen [OF switch_frozen] split_def frozenD)
  then show ?thesis by (intro exI [of _ "[Cli, Fault ''vmcall'' e]"]) simp
next
  case None
  let ?w1 = "w\<lparr>irq_on := False, trace := trace w @ [Cli, begin_mark]\<rparr>"
  define w2 where "w2 = snd (run_state (switch cmd) ?w1)"
  obtain es where es: "trace w2 = trace w @ [Cli, begin_mark] @ es" "marks es = []"
    using withinD [OF switch_within, of ?w1 cmd] marks_none by (auto simp: w2_def)
  have "run_state (switch cmd) ?w1 = ((), w2)" by (simp add: w2_def prod_eq_iff)
  then have w': "w' = snd (run_state (do { _ \<leftarrow> hypercall env 103; sti }) w2)"
    using run h None by (simp add: accepted_def hypercall_def run_insn_val split_def)
  show ?thesis
  proof (cases "halted w2")
    case None
    then show ?thesis
      using w' es run_hypercall [OF None, of env 103]
      by (cases "env_fault env (trace w2) ''vmcall''")
        (auto simp: run_frozen [of sti] hypercall_def insn_val_def)
  next
    case (Some x)
    then have "w' = w2" using w' by (simp add: run_frozen split_def frozenD)
    with es Some show ?thesis by (intro exI [of _ "[Cli, begin_mark] @ es"]) simp
  qed
qed

text \<open>One ioctl: a pair exactly when it returns 0.\<close>

lemma ioctl_marks:
  assumes h: "halted w = None" and run: "run_state (ioctl cmd p) w = (r, w')"
  shows "\<exists>es. trace w' = trace w @ es \<and> (if halted w' = None then marks es = pairs (of_bool (r = 0))
      \<and> (irq_on w \<longrightarrow> irq_on w') else marks es \<in> {[], [begin_mark]})"
proof -
  let ?w1 = "w\<lparr>trace := trace w @ [Printk ''%s()'' [AStr ''pcm_cdev_ioctl'']]\<rparr>"
  obtain err w2 where a: "run_state (access_err env cmd p) ?w1 = (err, w2)" by fastforce
  obtain es where es: "trace w2 = trace w @ es" "marks es = []" "halted w2 = None" "irq_on w2 = irq_on w"
    using a h by (auto simp: run_access_err split: if_splits)
  obtain r2 w3 where acc: "run_state (accepted env switch cmd) w2 = (r2, w3)" by fastforce
  from accepted_marks [OF es(3) acc] obtain fs where fs: "trace w3 = trace w2 @ fs"
    "if halted w3 = None then marks fs = pairs 1 \<and> irq_on w3 else marks fs \<in> {[], [begin_mark]}" by blast
  have r2: "r2 = 0" using acc by (simp add: accepted_def split_def)
  show ?thesis
  proof (cases "bad_command maxnr cmd \<or> err \<noteq> 0")
    case True
    then show ?thesis using run h a es by (auto simp: run_ioctl EINVAL_def EFAULT_def Let_def split: if_splits)
  next
    case False
    then have "w' = w3" "r = 0" using run h a acc r2 by (simp_all add: run_ioctl Let_def)
    with es fs show ?thesis by (intro exI [of _ "es @ fs"]) (auto split: if_splits)
  qed
qed

lemma calls_length: "run_state (ioctl_calls ioctl cs) w = (rs, w') \<Longrightarrow> length rs = length cs"
  by (induction cs arbitrary: w rs) (auto split: prod.splits)

text \<open>
  Any sequence of them: as many pairs as calls that returned 0; when the machine stopped on the way,
  at most the beginning of one more.
\<close>

lemma calls_marks:
  "halted w = None \<Longrightarrow> run_state (ioctl_calls ioctl cs) w = (rs, w') \<Longrightarrow>
    \<exists>es n. trace w' = trace w @ es \<and> length rs = length cs \<and> n \<le> length cs
      \<and> (if halted w' = None then marks es = pairs n \<and> n = count_list rs 0 \<and> (irq_on w \<longrightarrow> irq_on w')
         else marks es \<in> {pairs n, pairs n @ [begin_mark]})"
proof (induction cs arbitrary: w rs)
  case Nil
  then show ?case by (intro exI [of _ "[]"] exI [of _ 0]) simp
next
  case (Cons c cs)
  obtain cmd p where c: "c = (cmd, p)" by fastforce
  obtain r w1 where w1: "run_state (ioctl cmd p) w = (r, w1)" by fastforce
  obtain rs' where rs': "run_state (ioctl_calls ioctl cs) w1 = (rs', w')" and rs: "rs = r # rs'"
    using Cons.prems(2) by (auto simp: c w1 split: prod.splits)
  from ioctl_marks [OF Cons.prems(1) w1] obtain es where es: "trace w1 = trace w @ es"
    "if halted w1 = None then marks es = pairs (of_bool (r = 0)) \<and> (irq_on w \<longrightarrow> irq_on w1)
      else marks es \<in> {[], [begin_mark]}" by blast
  show ?case
  proof (cases "halted w1")
    case None
    from Cons.IH [OF None rs'] obtain fs n where fs: "trace w' = trace w1 @ fs" "length rs' = length cs" "n \<le> length cs"
      "if halted w' = None then marks fs = pairs n \<and> n = count_list rs' 0 \<and> (irq_on w1 \<longrightarrow> irq_on w')
       else marks fs \<in> {pairs n, pairs n @ [begin_mark]}" by blast
    then show ?thesis
      using es None rs pairs_add [of "of_bool (r = 0)" n]
      by (intro exI [of _ "es @ fs"] exI [of _ "of_bool (r = 0) + n"]) auto
  next
    case (Some h)
    have "length rs' = length cs" using rs' by (rule calls_length)
    moreover have "w' = w1" using rs' frozenD [OF calls_frozen Some, of cs] by simp
    ultimately show ?thesis
      using es Some rs rs' by (intro exI [of _ es] exI [of _ 0]) auto
  qed
qed

section \<open>The life of the module\<close>

lemma calls_within: "within keeps_resources (ioctl_calls ioctl cs)"
proof -
  have "within keeps_resources (ioctl cmd p)" for cmd p
    by (rule within_ioctl) (rule switch_within)
  then show ?thesis by (induction cs) auto
qed

end

lemma effect_keeps: "nm \<notin> set resource_calls \<Longrightarrow> effect env t nm args h = Some h"
  by (simp add: effect_def resource_calls_def)

lemma held_keeps: "list_all keeps_resources es \<Longrightarrow> held env (t @ es) = held env t"
proof (induction es rule: rev_induct)
  case (snoc e es)
  then have "held env (t @ es) = held env t" by simp
  moreover have "held env ((t @ es) @ [e]) = held env (t @ es)"
    using snoc.prems by (cases e) (auto simp: held_def effect_keeps split: option.splits)
  ultimately show ?case by simp
qed simp

text \<open>Loading: the five resources held after it.\<close>

definition module_resources :: "'a cdev_world_scheme \<Rightarrow> resource multiset" where
  "module_resources w = (let dev = MKDEV (pcm_cdev_major w) 0 in
     {#Region dev, Class (pcm_class w), Memory (pcm_cdev_t w), Cdev (pcm_cdev_t w), Device (pcm_class w) dev#})"

lemma load_takes:
  assumes "halted w = None" and "held env (trace w) = Some h"
    and "grants_region env" and "grants_memory env" and "grants_cdev env"
  shows "\<exists>r w1. run_state (pcm_test_init env) w = (r, w1) \<and> 0 \<le> r \<and> halted w1 = None
    \<and> held env (trace w1) = Some (h + module_resources w1)"
proof -
  obtain t1 ma r1 where 1: "run_state (pcm_cdev_init env) w = (r1, w\<lparr>trace := t1, pcm_cdev_major := ma\<rparr>)"
    "held env t1 = Some (add_mset (Region (MKDEV ma 0)) h)"
    using run_cdev_init_ok [OF assms(1,3,2)] by blast
  let ?w1 = "w\<lparr>trace := t1, pcm_cdev_major := ma\<rparr>"
  obtain t cls p m r t3 args where 2: "run_state (pcm_cdev_add env) ?w1
      = (r, ?w1\<lparr>pcm_class := cls, pcm_cdev_t := p, mem := m, trace := t\<rparr>)"
    "r = to_int (env_call env t3 ''cdev_add'' args)"
    "held env t = Some (add_mset (Class cls) (add_mset (Memory p) (if r < 0 then add_mset (Region (MKDEV ma 0)) h
        else add_mset (Cdev p) (add_mset (Device cls (MKDEV ma 0)) (add_mset (Region (MKDEV ma 0)) h)))))"
    using run_cdev_add [of ?w1 env] assms(1,4) 1(2) by auto
  have r: "0 \<le> r" using assms(5) 2(2) by (simp add: grants_cdev_def)
  let ?w2 = "?w1\<lparr>pcm_class := cls, pcm_cdev_t := p, mem := m, trace := t\<rparr>"
  have "run_state (pcm_test_init env) w = (r, ?w2)" by (simp add: pcm_test_init_def 1 2(1))
  moreover have "held env t = Some (h + module_resources ?w2)"
    using 2(3) r by (simp add: module_resources_def Let_def)
  ultimately show ?thesis using r assms(1) by (intro exI [of _ r] exI [of _ ?w2]) simp
qed

text \<open>Unloading gives them back.\<close>

lemma unload_gives_back:
  assumes "halted w = None" and "held env (trace w) = Some (h + module_resources w)"
  shows "held env (trace (snd (run_state (pcm_test_exit env) w))) = Some h"
  using assms held_after_exit [OF assms(1), of env]
  by (simp add: pcm_test_exit_def give_back_def module_resources_def Let_def)

context quiet_driver
begin

lemma life_cycle:
  assumes "halted w = None" and "held env (trace w) = Some h"
    and "grants_region env" and "grants_memory env" and "grants_cdev env"
  shows "let (r, w1) = run_state (pcm_test_init env) w; w2 = snd (run_state (ioctl_calls ioctl cs) w1);
      w3 = snd (run_state (pcm_test_exit env) w2)
    in 0 \<le> r \<and> held env (trace w1) = Some (h + module_resources w1) \<and> held env (trace w2) = held env (trace w1)
    \<and> (halted w2 = None \<longrightarrow> held env (trace w3) = Some h)"
proof -
  obtain r w1 where w1: "run_state (pcm_test_init env) w = (r, w1)" "0 \<le> r" "halted w1 = None"
    "held env (trace w1) = Some (h + module_resources w1)"
    using load_takes [OF assms] by blast
  define w2 where "w2 = snd (run_state (ioctl_calls ioctl cs) w1)"
  obtain es where es: "same_module w1 w2" "trace w2 = trace w1 @ es" "list_all keeps_resources es"
    using withinD [OF calls_within, of w1 cs] by (auto simp: w2_def)
  have "held env (trace w2) = held env (trace w1)" using es by (simp add: held_keeps)
  moreover have "module_resources w2 = module_resources w1"
    using es(1) by (simp add: module_resources_def same_module_def)
  ultimately show ?thesis
    using w1 unload_gives_back [of w2 env h] by (simp add: w2_def [symmetric] Let_def)
qed

end

end
