(* ===== verification/IoapicTests.thy ===== *)
theory IoapicTests
  imports IoapicRegs IoapicIdt CharDev
begin

text \<open>
  The interrupt tests of \<open>src/pcm-unit/driver/ioapic.c\<close>: the counters of the handlers, the handlers,
  what the CPU does when it takes an interrupt, and the tests.

  Interrupts are taken between the calls of a test, at an \<open>intr_window\<close>: as long as the flag
  RFLAGS.IF is set and the environment offers a vector (\<open>env_intr\<close>), the CPU takes it.  A gate is an
  interrupt gate, so a handler runs with the flag clear and no handler interrupts another.  The
  number of interrupts taken at one window is bounded by \<open>env_fuel\<close>; a window that would take more
  hangs, as an interrupt storm does.
\<close>

section \<open>The state of the tests\<close>

record ioapic_world = cdev_world +
  g_isr_76 :: u32
  g_isr_77 :: u32
  g_78 :: u32
  g_66 :: u32
  g_66_after_78 :: u32
  g_66_rip :: u64
  g_78_rip :: u64
  g_tmr_79 :: u32
  g_isr_98 :: u32
  g_isr_99 :: u32
  g_isr_9a :: u32
  g_isr_81 :: u32
  g_isr_82 :: u32
  g_isr_83 :: u32
  x2apic_mode :: bool
  remote_cpu :: "string list"

text \<open>
  The part of the saved registers that the handlers can use (none looks at the general registers).
\<close>

record isr_regs =
  isr_func :: u64
  isr_rip :: u64
  isr_cs :: u64
  isr_rflags :: u64

type_synonym 'a isr = "isr_regs \<Rightarrow> ('a ioapic_world_scheme, unit) state"

section \<open>The handlers\<close>

definition ioapic_isr_76 :: "env \<Rightarrow> 'a isr" where
  "ioapic_isr_76 env regs = do {
     modify (\<lambda>w. w\<lparr>g_isr_76 := g_isr_76 w + 1\<rparr>);
     eoi env }"

definition ioapic_isr_77 :: "env \<Rightarrow> 'a isr" where
  "ioapic_isr_77 env regs = do {
     modify (\<lambda>w. w\<lparr>g_isr_77 := g_isr_77 w + 1\<rparr>);
     set_irq_line 0x0e 0;
     eoi env }"

definition ioapic_isr_78 :: "env \<Rightarrow> 'a isr" where
  "ioapic_isr_78 env regs = do {
     modify (\<lambda>w. w\<lparr>g_78 := g_78 w + 1\<rparr>);
     modify (\<lambda>w. w\<lparr>g_78_rip := isr_rip regs\<rparr>);
     eoi env }"

definition ioapic_isr_66 :: "env \<Rightarrow> 'a isr" where
  "ioapic_isr_66 env regs = do {
     modify (\<lambda>w. w\<lparr>g_66 := g_66 w + 1\<rparr>);
     seen \<leftarrow> gets g_78;
     (if seen \<noteq> 0 then modify (\<lambda>w. w\<lparr>g_66_after_78 := g_66_after_78 w + 1\<rparr>) else skip);
     modify (\<lambda>w. w\<lparr>g_66_rip := isr_rip regs\<rparr>);
     eoi env }"

definition ioapic_isr_79 :: "env \<Rightarrow> 'a isr" where
  "ioapic_isr_79 env regs = do {
     b \<leftarrow> apic_read_bit env APIC_TMR 0x79;
     modify (\<lambda>w. w\<lparr>g_tmr_79 := of_bool b\<rparr>);
     set_irq_line 0x0e 0;
     eoi env }"

definition ioapic_isr_98 :: "env \<Rightarrow> 'a isr" where
  "ioapic_isr_98 env regs = do {
     modify (\<lambda>w. w\<lparr>g_isr_98 := g_isr_98 w + 1\<rparr>);
     n \<leftarrow> gets g_isr_98;
     (if n = 1 then do { set_irq_line 0x0e 0; set_irq_line 0x0e 1 } else skip);
     set_irq_line 0x0e 0;
     eoi env }"

definition ioapic_isr_99 :: "env \<Rightarrow> 'a isr" where
  "ioapic_isr_99 env regs = do {
     modify (\<lambda>w. w\<lparr>g_isr_99 := g_isr_99 w + 1\<rparr>);
     set_irq_line 0x0e 0;
     eoi env }"

definition ioapic_isr_9a :: "env \<Rightarrow> 'a isr" where
  "ioapic_isr_9a env regs = do {
     modify (\<lambda>w. w\<lparr>g_isr_9a := g_isr_9a w + 1\<rparr>);
     n \<leftarrow> gets g_isr_9a;
     (if n = 2 then set_irq_line 0x0e 0 else skip);
     eoi env }"

definition ioapic_isr_81 :: "env \<Rightarrow> 'a isr" where
  "ioapic_isr_81 env regs = do {
     modify (\<lambda>w. w\<lparr>g_isr_81 := g_isr_81 w + 1\<rparr>);
     set_irq_line 0x0e 0;
     eoi env }"

definition ioapic_isr_82 :: "env \<Rightarrow> 'a isr" where
  "ioapic_isr_82 env regs = do {
     modify (\<lambda>w. w\<lparr>g_isr_82 := g_isr_82 w + 1\<rparr>);
     set_irq_line 0x0e 0;
     eoi env }"

definition ioapic_isr_83 :: "env \<Rightarrow> 'a isr" where
  "ioapic_isr_83 env regs = do {
     modify (\<lambda>w. w\<lparr>g_isr_83 := g_isr_83 w + 1\<rparr>);
     set_mask env 0x0e 1;
     eoi env }"

section \<open>Taking an interrupt\<close>

text \<open>The handlers by the names of their symbols.\<close>

definition isr_table :: "env \<Rightarrow> (string \<times> 'a isr) list" where
  "isr_table env = [
     (''ioapic_isr_76'', ioapic_isr_76 env), (''ioapic_isr_77'', ioapic_isr_77 env),
     (''ioapic_isr_78'', ioapic_isr_78 env), (''ioapic_isr_66'', ioapic_isr_66 env),
     (''ioapic_isr_79'', ioapic_isr_79 env), (''ioapic_isr_98'', ioapic_isr_98 env),
     (''ioapic_isr_99'', ioapic_isr_99 env), (''ioapic_isr_9a'', ioapic_isr_9a env),
     (''ioapic_isr_81'', ioapic_isr_81 env), (''ioapic_isr_82'', ioapic_isr_82 env),
     (''ioapic_isr_83'', ioapic_isr_83 env)]"

text \<open>
  The CPU goes through the interrupt descriptor table that IDTR points to.  When the gate of the
  vector leads to one of the handlers above, it runs; any other gate is the kernel's, whose
  handlers do not touch the state of the tests.
\<close>

fun call_isr :: "env \<Rightarrow> (string \<times> 'a isr) list \<Rightarrow> u64 \<Rightarrow> isr_regs \<Rightarrow> ('a ioapic_world_scheme, unit) state" where
  "call_isr env [] f regs = skip"
| "call_isr env ((name, h) # hs) f regs =
     (if env_sym env name = f then h regs else call_isr env hs f regs)"

definition take_interrupt :: "env \<Rightarrow> u8 \<Rightarrow> ('a ioapic_world_scheme, unit) state" where
  "take_interrupt env v = do {
     ip \<leftarrow> ask (\<lambda>t. env_insn env t ''rip'');
     seg \<leftarrow> ask (\<lambda>t. env_insn env t ''cs'');
     flags \<leftarrow> ask (\<lambda>t. env_insn env t ''rflags'');
     emit (IntTaken v);
     modify (\<lambda>w. w\<lparr>irq_on := False\<rparr>);
     h \<leftarrow> gets (\<lambda>w. handler_of env (mem w) (unat v));
     (case h of
        Some f \<Rightarrow> call_isr env (isr_table env) f \<lparr>isr_func = f, isr_rip = ip, isr_cs = seg, isr_rflags = flags\<rparr>
      | None \<Rightarrow> skip);
     modify (\<lambda>w. w\<lparr>irq_on := True\<rparr>);
     emit Iret }"

fun deliver :: "nat \<Rightarrow> env \<Rightarrow> ('a ioapic_world_scheme, unit) state" where
  "deliver 0 env = halt Hang"
| "deliver (Suc n) env = do {
     on \<leftarrow> gets irq_on;
     pending \<leftarrow> ask (env_intr env);
     case pending of
       Some v \<Rightarrow> if on then do { take_interrupt env v; deliver n env } else skip
     | None \<Rightarrow> skip }"

definition intr_window :: "env \<Rightarrow> ('a ioapic_world_scheme, unit) state" where
  "intr_window env = deliver (Suc (env_fuel env)) env"

text \<open>The device accesses and instructions of a test, each followed by its window.\<close>

definition line_w :: "env \<Rightarrow> u32 \<Rightarrow> int \<Rightarrow> ('a ioapic_world_scheme, unit) state" where
  "line_w env line v = do { set_irq_line line v; intr_window env }"

definition redir_w :: "env \<Rightarrow> u32 \<Rightarrow> u32 \<Rightarrow> trigger_mode \<Rightarrow> ('a ioapic_world_scheme, unit) state" where
  "redir_w env line vec trig = do { set_ioapic_redir line vec trig; intr_window env }"

definition mask_w :: "env \<Rightarrow> u32 \<Rightarrow> int \<Rightarrow> ('a ioapic_world_scheme, unit) state" where
  "mask_w env line m = do { set_mask env line m; intr_window env }"

definition sti_w :: "env \<Rightarrow> ('a ioapic_world_scheme, unit) state" where
  "sti_w env = do { irq_enable; intr_window env }"

definition nop :: "env \<Rightarrow> ('a ioapic_world_scheme, unit) state" where
  "nop env = intr_window env"

definition install :: "env \<Rightarrow> nat \<Rightarrow> string \<Rightarrow> ('a ioapic_world_scheme, unit) state" where
  "install env vec name = handle_irq_local env vec (env_sym env name)"

definition toggle_irq_line :: "env \<Rightarrow> u32 \<Rightarrow> ('a ioapic_world_scheme, unit) state" where
  "toggle_irq_line env line = do { line_w env line 1; line_w env line 0 }"

section \<open>The tests on one CPU\<close>

definition test_ioapic_edge_intr :: "env \<Rightarrow> ('a ioapic_world_scheme, unit) state" where
  "test_ioapic_edge_intr env = do {
     install env 0x76 ''ioapic_isr_76'';
     redir_w env 0x0e 0x76 TRIGGER_EDGE;
     toggle_irq_line env 0x0e;
     nop env;
     n \<leftarrow> gets g_isr_76;
     printk ''edge triggered intr, g_isr_76=%x'' [arg_word n] }"

definition test_ioapic_level_intr :: "env \<Rightarrow> ('a ioapic_world_scheme, unit) state" where
  "test_ioapic_level_intr env = do {
     install env 0x77 ''ioapic_isr_77'';
     redir_w env 0x0e 0x77 TRIGGER_LEVEL;
     line_w env 0x0e 1;
     nop env;
     n \<leftarrow> gets g_isr_77;
     printk ''level triggered intr, g_isr_77=%x'' [arg_word n] }"

definition test_ioapic_simultaneous :: "env \<Rightarrow> ('a ioapic_world_scheme, unit) state" where
  "test_ioapic_simultaneous env = do {
     install env 0x78 ''ioapic_isr_78'';
     install env 0x66 ''ioapic_isr_66'';
     redir_w env 0x0e 0x78 TRIGGER_EDGE;
     redir_w env 0x0f 0x66 TRIGGER_EDGE;
     irq_disable;
     toggle_irq_line env 0x0f;
     toggle_irq_line env 0x0e;
     sti_w env;
     nop env;
     n66 \<leftarrow> gets g_66;
     n78 \<leftarrow> gets g_78;
     after \<leftarrow> gets g_66_after_78;
     rip66 \<leftarrow> gets g_66_rip;
     rip78 \<leftarrow> gets g_78_rip;
     printk ''ioapic simultaneous edge interrupts, g_66 && g_78 && g_66_after_78 && g_66_rip=Dec%d, g_78_rip=Dec%ld''
       [arg_bool (n66 \<noteq> 0 \<and> n78 \<noteq> 0 \<and> after \<noteq> 0 \<and> rip66 \<noteq> 0), arg_word rip78] }"

definition test_ioapic_edge_tmr :: "env \<Rightarrow> bool \<Rightarrow> ('a ioapic_world_scheme, unit) state" where
  "test_ioapic_edge_tmr env expected_tmr_before = do {
     install env 0x79 ''ioapic_isr_79'';
     redir_w env 0x0e 0x79 TRIGGER_EDGE;
     tmr_before \<leftarrow> apic_read_bit env APIC_TMR 0x79;
     toggle_irq_line env 0x0e;
     nop env;
     t \<leftarrow> gets g_tmr_79;
     printk ''TMR for ioapic edge interrupts, tmr_before=%x, expected_tmr_before=%x, g_tmr_79=%x''
       [arg_bool tmr_before, arg_bool expected_tmr_before, arg_word t] }"

definition test_ioapic_level_tmr :: "env \<Rightarrow> bool \<Rightarrow> ('a ioapic_world_scheme, unit) state" where
  "test_ioapic_level_tmr env expected_tmr_before = do {
     install env 0x79 ''ioapic_isr_79'';
     redir_w env 0x0e 0x79 TRIGGER_LEVEL;
     tmr_before \<leftarrow> apic_read_bit env APIC_TMR 0x79;
     line_w env 0x0e 1;
     nop env;
     t \<leftarrow> gets g_tmr_79;
     printk ''TMR for ioapic level interrupts, tmr_before=%x, expected_tmr_before=%x, g_tmr_79=%x''
       [arg_bool tmr_before, arg_bool expected_tmr_before, arg_word t] }"

definition test_ioapic_level_coalesce :: "env \<Rightarrow> ('a ioapic_world_scheme, unit) state" where
  "test_ioapic_level_coalesce env = do {
     install env 0x98 ''ioapic_isr_98'';
     redir_w env 0x0e 0x98 TRIGGER_LEVEL;
     line_w env 0x0e 1;
     nop env;
     n \<leftarrow> gets g_isr_98;
     printk ''coalesce simultaneous level interrupts g_isr_98=%x,'' [arg_word n] }"

definition test_ioapic_level_sequential :: "env \<Rightarrow> ('a ioapic_world_scheme, unit) state" where
  "test_ioapic_level_sequential env = do {
     install env 0x99 ''ioapic_isr_99'';
     redir_w env 0x0e 0x99 TRIGGER_LEVEL;
     line_w env 0x0e 1;
     line_w env 0x0e 1;
     nop env;
     n \<leftarrow> gets g_isr_99;
     printk ''sequential level interrupts g_isr_99=%x'' [arg_word n] }"

text \<open>
  \<open>sti; hlt; cli\<close>: the instruction after STI is still protected, so the window is after HLT, which
  an interrupt ends (the timer of the kernel at the latest).
\<close>

definition sti_hlt_cli :: "env \<Rightarrow> ('a ioapic_world_scheme, unit) state" where
  "sti_hlt_cli env = do { sti; emit (Insn ''hlt'' []); intr_window env; cli }"

fun retrigger_loop :: "nat \<Rightarrow> env \<Rightarrow> ('a ioapic_world_scheme, unit) state" where
  "retrigger_loop 0 env = skip"
| "retrigger_loop (Suc i) env = do {
     n \<leftarrow> gets g_isr_9a;
     if n = 2 then skip else do { sti_hlt_cli env; retrigger_loop i env } }"

definition test_ioapic_level_retrigger :: "env \<Rightarrow> ('a ioapic_world_scheme, unit) state" where
  "test_ioapic_level_retrigger env = do {
     install env 0x9a ''ioapic_isr_9a'';
     redir_w env 0x0e 0x9a TRIGGER_LEVEL;
     cli;
     line_w env 0x0e 1;
     retrigger_loop 10 env;
     sti_w env;
     n \<leftarrow> gets g_isr_9a;
     printk ''retriggered level interrupts without masking g_isr_9a=%x'' [arg_word n] }"

definition test_ioapic_edge_mask :: "env \<Rightarrow> ('a ioapic_world_scheme, unit) state" where
  "test_ioapic_edge_mask env = do {
     install env 0x81 ''ioapic_isr_81'';
     redir_w env 0x0e 0x81 TRIGGER_EDGE;
     mask_w env 0x0e 1;
     line_w env 0x0e 1;
     line_w env 0x0e 0;
     nop env;
     n \<leftarrow> gets g_isr_81;
     printk ''masked level interrupt g_isr_81=%x'' [arg_word n];
     mask_w env 0x0e 0;
     line_w env 0x0e 1;
     nop env;
     n \<leftarrow> gets g_isr_81;
     printk ''unmasked level interrupt g_isr_81=%x'' [arg_word n] }"

definition test_ioapic_level_mask :: "env \<Rightarrow> ('a ioapic_world_scheme, unit) state" where
  "test_ioapic_level_mask env = do {
     install env 0x82 ''ioapic_isr_82'';
     redir_w env 0x0e 0x82 TRIGGER_LEVEL;
     mask_w env 0x0e 1;
     line_w env 0x0e 1;
     nop env;
     n \<leftarrow> gets g_isr_82;
     printk ''masked level interrupt g_isr_82=%x'' [arg_word n];
     mask_w env 0x0e 0;
     nop env;
     n \<leftarrow> gets g_isr_82;
     printk ''unmasked level interrupt g_isr_82=%x'' [arg_word n] }"

definition test_ioapic_level_retrigger_mask :: "env \<Rightarrow> ('a ioapic_world_scheme, unit) state" where
  "test_ioapic_level_retrigger_mask env = do {
     install env 0x83 ''ioapic_isr_83'';
     redir_w env 0x0e 0x83 TRIGGER_LEVEL;
     line_w env 0x0e 1;
     nop env;
     mask_w env 0x0e 0;
     nop env;
     n \<leftarrow> gets g_isr_83;
     printk ''retriggered level interrupts with mask g_isr_83=%x'' [arg_word n];
     line_w env 0x0e 0;
     mask_w env 0x0e 0 }"

section \<open>The tests on two CPUs\<close>

definition IPI_DELAY :: nat where "IPI_DELAY = 1000000"

fun delay :: "nat \<Rightarrow> ('w, unit) state" where
  "delay 0 = skip"
| "delay (Suc count) = do { skip; delay count }"

text \<open>
  \<open>smp_call_function_single\<close> does not wait: CPU 1 runs the function while CPU 0 goes on.  The
  functions still to run are the queue \<open>remote_cpu\<close>; they are run with the interrupts of CPU 1
  off, so their accesses to the line are taken as one step, at a moment the environment chooses.
\<close>

definition smp_call_function_single :: "env \<Rightarrow> int \<Rightarrow> string \<Rightarrow> ('a ioapic_world_scheme, unit) state" where
  "smp_call_function_single env n name = do {
     _ \<leftarrow> kcall env ''smp_call_function_single'' [AInt n, AStr name, AInt 0, AInt 0];
     modify (\<lambda>w. w\<lparr>remote_cpu := remote_cpu w @ [name]\<rparr>) }"

definition toggle_irq_line_0x0e :: "('a ioapic_world_scheme, unit) state" where
  "toggle_irq_line_0x0e = do {
     emit (Insn ''cli on CPU 1'' []);
     delay IPI_DELAY;
     set_irq_line 0x0e 1;
     set_irq_line 0x0e 0;
     emit (Insn ''sti on CPU 1'' []) }"

definition set_irq_line_0x0e :: "('a ioapic_world_scheme, unit) state" where
  "set_irq_line_0x0e = do {
     emit (Insn ''cli on CPU 1'' []);
     delay IPI_DELAY;
     set_irq_line 0x0e 1;
     emit (Insn ''sti on CPU 1'' []) }"

definition remote_step :: "('a ioapic_world_scheme, unit) state" where
  "remote_step = do {
     q \<leftarrow> gets remote_cpu;
     case q of
       [] \<Rightarrow> skip
     | name # rest \<Rightarrow> do {
         modify (\<lambda>w. w\<lparr>remote_cpu := rest\<rparr>);
         if name = ''toggle_irq_line_0x0e'' then toggle_irq_line_0x0e
         else if name = ''set_irq_line_0x0e'' then set_irq_line_0x0e
         else skip } }"

text \<open>\<open>while (g_tmr_79 == -1) i++\<close>\<close>

definition wait_tmr :: "env \<Rightarrow> ('a ioapic_world_scheme, u32) state" where
  "wait_tmr env = loop (env_fuel env) 0 (\<lambda>i. do {
     t \<leftarrow> gets g_tmr_79;
     if t \<noteq> -1 then State_Monad.return (Inr i)
     else do {
       emit (Insn ''inc'' [arg_word i]);
       go \<leftarrow> ask (\<lambda>tr. env_insn env tr ''cpu1'');
       (if go \<noteq> 0 then remote_step else skip);
       intr_window env;
       State_Monad.return (Inl (i + 1)) } }) 0"

definition test_ioapic_edge_tmr_smp :: "env \<Rightarrow> bool \<Rightarrow> ('a ioapic_world_scheme, unit) state" where
  "test_ioapic_edge_tmr_smp env expected_tmr_before = do {
     modify (\<lambda>w. w\<lparr>g_tmr_79 := -1\<rparr>);
     install env 0x79 ''ioapic_isr_79'';
     redir_w env 0x0e 0x79 TRIGGER_EDGE;
     tmr_before \<leftarrow> apic_read_bit env APIC_TMR 0x79;
     smp_call_function_single env 1 ''toggle_irq_line_0x0e'';
     i \<leftarrow> wait_tmr env;
     printk ''%d iterations before interrupt received'' [arg_word i];
     t \<leftarrow> gets g_tmr_79;
     printk ''TMR for ioapic edge interrupts, tmr_before=%x, expected_tmr_before=%x, g_tmr_79=%x''
       [arg_bool tmr_before, arg_bool expected_tmr_before, arg_word t] }"

definition test_ioapic_level_tmr_smp :: "env \<Rightarrow> bool \<Rightarrow> ('a ioapic_world_scheme, unit) state" where
  "test_ioapic_level_tmr_smp env expected_tmr_before = do {
     modify (\<lambda>w. w\<lparr>g_tmr_79 := -1\<rparr>);
     install env 0x79 ''ioapic_isr_79'';
     redir_w env 0x0e 0x79 TRIGGER_LEVEL;
     tmr_before \<leftarrow> apic_read_bit env APIC_TMR 0x79;
     smp_call_function_single env 1 ''set_irq_line_0x0e'';
     i \<leftarrow> wait_tmr env;
     printk ''%d iterations before interrupt received'' [arg_word i];
     t \<leftarrow> gets g_tmr_79;
     printk ''TMR for ioapic level interrupts tmr_before=%x, expected_tmr_before=%x, g_tmr_79=%x''
       [arg_bool tmr_before, arg_bool expected_tmr_before, arg_word t] }"

section \<open>The whole test\<close>

definition MSR_IA32_APICBASE :: u32 where "MSR_IA32_APICBASE = 0x1b"

definition enable_x2apic_local :: "env \<Rightarrow> ('a ioapic_world_scheme, int) state" where
  "enable_x2apic_local env = do {
     (a, b, c, d) \<leftarrow> cpuid env 1 0;
     if c AND push_bit 21 1 \<noteq> 0 then do {
       v \<leftarrow> rdmsr env MSR_IA32_APICBASE;
       let a = (ucast v :: u32) OR push_bit 10 1;
       let d = (ucast (drop_bit 32 v) :: u32);
       wrmsr env MSR_IA32_APICBASE (ucast a OR push_bit 32 (ucast d));
       modify (\<lambda>w. w\<lparr>x2apic_mode := True\<rparr>);
       State_Monad.return 1 }
     else State_Monad.return 0 }"

text \<open>
  The code sets \<open>apic_ops\<close> to the MSR table here, and nothing calls through it: \<open>apic_read\<close> and
  \<open>apic_write\<close> are the kernel's.
\<close>

definition test_ioapic_one_cpu :: "env \<Rightarrow> ('a ioapic_world_scheme, unit) state" where
  "test_ioapic_one_cpu env = do {
     test_ioapic_edge_intr env;
     test_ioapic_level_intr env;
     test_ioapic_simultaneous env;
     test_ioapic_level_coalesce env;
     test_ioapic_level_sequential env;
     test_ioapic_level_retrigger env;
     test_ioapic_edge_mask env;
     test_ioapic_level_mask env;
     test_ioapic_level_retrigger_mask env;
     test_ioapic_edge_tmr env False;
     test_ioapic_level_tmr env False;
     test_ioapic_level_tmr env True;
     test_ioapic_edge_tmr env True }"

definition test_ioapic_registers :: "env \<Rightarrow> ('a ioapic_world_scheme, unit) state" where
  "test_ioapic_registers env = do {
     mask_pic_interrupts;
     x2 \<leftarrow> enable_x2apic_local env;
     (if x2 \<noteq> 0 then printk ''x2apic enabled'' [] else printk ''x2apic not detected'' []);
     sti_w env;
     ioapic_reg_version env;
     ioapic_reg_id env;
     ioapic_arbitration_id env }"

definition test_ioapic :: "env \<Rightarrow> ('a ioapic_world_scheme, unit) state" where
  "test_ioapic env = do {
     test_ioapic_registers env;
     test_ioapic_one_cpu env;
     n \<leftarrow> kcall env ''num_online_cpus'' [];
     if n > 1 then do {
       test_ioapic_edge_tmr_smp env False;
       test_ioapic_level_tmr_smp env False;
       test_ioapic_level_tmr_smp env True;
       test_ioapic_edge_tmr_smp env True }
     else skip }"

section \<open>The state after the module is loaded\<close>

definition ioapic_start :: ioapic_world where
  "ioapic_start = \<lparr>trace = [], halted = None, irq_on = True, cpu = 0, mem = (\<lambda>a. 0),
     pcm_cdev_major = 0, pcm_class = 0, pcm_cdev_t = 0,
     g_isr_76 = 0, g_isr_77 = 0, g_78 = 0, g_66 = 0, g_66_after_78 = 0, g_66_rip = 0, g_78_rip = 0,
     g_tmr_79 = -1, g_isr_98 = 0, g_isr_99 = 0, g_isr_9a = 0, g_isr_81 = 0, g_isr_82 = 0, g_isr_83 = 0,
     x2apic_mode = False, remote_cpu = []\<rparr>"

end
