(* ===== verification/IoapicDevice.thy ===== *)
theory IoapicDevice
  imports IoapicTests
begin

text \<open>
  What the interrupt tests of \<open>src/pcm-unit/driver/ioapic.c\<close> rely on: the documented behaviour of
  the I/O APIC and of the local APIC (82093AA data sheet; Intel SDM volume 3, the chapter on the
  APIC) with the test port \<open>0x2000 + line\<close> of the hypervisor, as a function of the events of a trace,
  and the hypothesis that an environment behaves so.
\<close>

section \<open>The device\<close>

text \<open>
  \<open>regs\<close> holds the indirect registers, \<open>line_on\<close> the levels of the input lines, \<open>remote_flag\<close> the Remote
  IRR flags, \<open>requested\<close> and \<open>in_service\<close> the vectors requested and in service (the latest first), \<open>tmr_bit\<close> the
  trigger mode register of the local APIC.
\<close>

record iodev =
  selected :: u32
  regs :: "u32 \<Rightarrow> u32"
  line_on :: "nat \<Rightarrow> bool"
  remote_flag :: "nat \<Rightarrow> bool"
  requested :: "u8 list"
  in_service :: "u8 list"
  tmr_bit :: "u8 \<Rightarrow> bool"

definition low_word :: "iodev \<Rightarrow> nat \<Rightarrow> u32" where
  "low_word d l = regs d (0x10 + 2 * of_nat l)"

definition line_vector :: "iodev \<Rightarrow> nat \<Rightarrow> u8" where
  "line_vector d l = ucast (low_word d l AND 0xff)"

definition line_level :: "iodev \<Rightarrow> nat \<Rightarrow> bool" where
  "line_level d l = bit (low_word d l) 15"

definition line_masked :: "iodev \<Rightarrow> nat \<Rightarrow> bool" where
  "line_masked d l = bit (low_word d l) 16"

text \<open>A request reaches the local APIC.\<close>

definition request :: "u8 \<Rightarrow> bool \<Rightarrow> iodev \<Rightarrow> iodev" where
  "request v level d = d\<lparr>requested := List.insert v (requested d), tmr_bit := (tmr_bit d)(v := level)\<rparr>"

text \<open>A level-triggered line that is high, unmasked and not waiting for its EOI sends a request.\<close>

definition check_level :: "nat \<Rightarrow> iodev \<Rightarrow> iodev" where
  "check_level l d =
     (if line_level d l \<and> line_on d l \<and> \<not> line_masked d l \<and> \<not> remote_flag d l
      then request (line_vector d l) True (d\<lparr>remote_flag := (remote_flag d)(l := True)\<rparr>) else d)"

definition set_line :: "nat \<Rightarrow> bool \<Rightarrow> iodev \<Rightarrow> iodev" where
  "set_line l b d =
     (let d' = d\<lparr>line_on := (line_on d)(l := b)\<rparr> in
      if line_level d l then check_level l d'
      else if b \<and> \<not> line_on d l \<and> \<not> line_masked d l then request (line_vector d l) False d'
      else d')"

text \<open>
  Register 0 is the identification, of which bits 24 to 27 can be written; registers 1 (the version)
  and 2 (the arbitration identification, which follows register 0) cannot.
\<close>

definition write_reg :: "u32 \<Rightarrow> u32 \<Rightarrow> iodev \<Rightarrow> iodev" where
  "write_reg r v d =
     (if r = 0 then d\<lparr>regs := (regs d)(0 := v AND 0x0f000000, 2 := v AND 0x0f000000)\<rparr>
      else if r < 0x10 then d
      else let d' = d\<lparr>regs := (regs d)(r := v)\<rparr> in
        if r < 0x40 \<and> \<not> bit r 0 then check_level (unat ((r - 0x10) div 2)) d' else d')"

definition read_reg :: "iodev \<Rightarrow> u32" where
  "read_reg d =
     (if 0x10 \<le> selected d \<and> selected d < 0x40 \<and> \<not> bit (selected d) 0
      then (if remote_flag d (unat ((selected d - 0x10) div 2)) then set_bit 14 (regs d (selected d))
        else unset_bit 14 (regs d (selected d)))
      else regs d (selected d))"

text \<open>
  End of interrupt: the vector leaves service, and when it was level-triggered the lines that use
  it lose their Remote IRR flag, to be checked again at once.
\<close>

definition end_of_interrupt :: "iodev \<Rightarrow> iodev" where
  "end_of_interrupt d = (case in_service d of
     [] \<Rightarrow> d
   | v # rest \<Rightarrow>
      (let d' = d\<lparr>in_service := rest\<rparr> in
       if tmr_bit d v
       then foldl (\<lambda>x l. if line_level x l \<and> line_vector x l = v
           then check_level l (x\<lparr>remote_flag := (remote_flag x)(l := False)\<rparr>) else x) d' [0..<24]
       else d'))"

fun dev_step :: "iodev \<Rightarrow> ev \<Rightarrow> iodev" where
  "dev_step d (MmioW a v) =
     (if a = g_ioapic then d\<lparr>selected := v\<rparr> else if a = g_ioapic + 0x10 then write_reg (selected d) v d else d)"
| "dev_step d (OutB port v) =
     (if 0x2000 \<le> port \<and> port < 0x2018 then set_line (unat (port - 0x2000)) (v \<noteq> 0) d else d)"
| "dev_step d (IntTaken v) =
     d\<lparr>requested := removeAll v (requested d), in_service := v # in_service d\<rparr>"
| "dev_step d (Call name args) =
     (if name = ''apic_write'' \<and> args = [AInt 0xB0, AInt 0] then end_of_interrupt d else d)"
| "dev_step d _ = d"

text \<open>The highest requested vector, if its class is above the one in service.\<close>

definition pending_vector :: "iodev \<Rightarrow> u8 option" where
  "pending_vector d = (case requested d of
     [] \<Rightarrow> None
   | v # vs \<Rightarrow>
      (let top = fold max vs v in
       case in_service d of
         [] \<Rightarrow> Some top
       | s # _ \<Rightarrow> if s div 16 < top div 16 then Some top else None))"

definition dev0 :: iodev where
  "dev0 = \<lparr>selected = 0, regs = (\<lambda>r. 0x10000)(0 := 0, 1 := 0x170011, 2 := 0), line_on = (\<lambda>l. False),
     remote_flag = (\<lambda>l. False), requested = [], in_service = [], tmr_bit = (\<lambda>v. False)\<rparr>"

definition dev :: "ev list \<Rightarrow> iodev" where
  "dev t = foldl dev_step dev0 t"

lemma dev_snoc [simp]: "dev (t @ [e]) = dev_step (dev t) e"
  by (simp add: dev_def)

lemma dev_append [simp]: "dev (t @ es) = foldl dev_step (dev t) es"
  by (simp add: dev_def)

section \<open>Facts about the device\<close>

text \<open>What holds of the identification registers after any trace.\<close>

lemma regs_kept [simp]:
  "regs (request v b d) = regs d" "regs (check_level l d) = regs d" "regs (set_line l b d) = regs d"
  by (simp_all add: request_def check_level_def set_line_def Let_def)

lemma regs_eoi [simp]: "regs (end_of_interrupt d) = regs d"
proof -
  have "regs (foldl (\<lambda>x l. if line_level x l \<and> line_vector x l = v
      then check_level l (x\<lparr>remote_flag := (remote_flag x)(l := False)\<rparr>) else x) x ls) = regs x" for v x ls
    by (induction ls arbitrary: x) auto
  then show ?thesis by (simp add: end_of_interrupt_def Let_def split: list.split)
qed

lemma dev_registers: "regs (dev t) 1 = 0x170011 \<and> regs (dev t) 0 AND NOT 0x0f000000 = 0"
proof (induction t rule: rev_induct)
  case (snoc e t)
  have "(v AND 0x0f000000) AND NOT 0x0f000000 = 0" for v :: u32
    by (rule bit_word_eqI) (auto simp: bit_simps)
  with snoc show ?case
    by (cases e) (auto simp: write_reg_def Let_def)
qed (simp add: dev_def dev0_def)

lemma const_upd [simp]: "(\<lambda>x. c)(a := c) = (\<lambda>x. c)"
  by (rule ext) simp

text \<open>At rest: no line is high, nothing is requested or in service.\<close>

definition idle :: "iodev \<Rightarrow> bool" where
  "idle d \<longleftrightarrow> line_on d = (\<lambda>l. False) \<and> remote_flag d = (\<lambda>l. False) \<and> requested d = [] \<and> in_service d = []"

lemma idle_cases:
  assumes "idle d"
  obtains s r t where "d = \<lparr>selected = s, regs = r, line_on = (\<lambda>l. False), remote_flag = (\<lambda>l. False), requested = [],
     in_service = [], tmr_bit = t\<rparr>"
  using assms by (cases d) (auto simp: idle_def)

text \<open>An end of interrupt when at most line 14 is busy.\<close>

lemma eoi_other_lines:
  assumes "\<And>l. l \<in> set ls \<Longrightarrow> \<not> line_on d l \<and> \<not> remote_flag d l"
  shows "foldl (\<lambda>x l. if line_level x l \<and> line_vector x l = v
      then check_level l (x\<lparr>remote_flag := (remote_flag x)(l := False)\<rparr>) else x) d ls = d"
  using assms
proof (induction ls)
  case Nil
  then show ?case by simp
next
  case (Cons l ls)
  then have "(remote_flag d)(l := False) = remote_flag d" by (intro ext) simp
  then have "check_level l (d\<lparr>remote_flag := (remote_flag d)(l := False)\<rparr>) = d"
    using Cons.prems [of l] by (simp add: check_level_def)
  with Cons show ?case by simp
qed

lemma end_of_level:
  assumes "in_service d = v # rest" and "tmr_bit d v"
    and "\<And>l. l \<noteq> 14 \<Longrightarrow> \<not> line_on d l \<and> \<not> remote_flag d l"
  shows "end_of_interrupt d =
    (if line_level d 14 \<and> line_vector d 14 = v
     then check_level 14 (d\<lparr>in_service := rest, remote_flag := (remote_flag d)(14 := False)\<rparr>)
     else d\<lparr>in_service := rest\<rparr>)"
proof -
  let ?f = "\<lambda>x l. if line_level x l \<and> line_vector x l = v
      then check_level l (x\<lparr>remote_flag := (remote_flag x)(l := False)\<rparr>) else x"
  let ?d = "d\<lparr>in_service := rest\<rparr>"
  have ls: "[0..<24] = [0..<14] @ [14] @ [15..<24::nat]"
    using upt_add_eq_append [of 0 14 10] by (simp add: upt_rec)
  have same: "\<And>x l. line_on (check_level 14 x) l = line_on x l \<and>
      (l \<noteq> 14 \<longrightarrow> remote_flag (check_level 14 x) l = remote_flag x l)"
    by (simp add: check_level_def request_def)
  have "foldl ?f ?d [0..<24] = foldl ?f (?f (foldl ?f ?d [0..<14]) 14) [15..<24]"
    by (simp only: ls foldl_append foldl.simps)
  also have "foldl ?f ?d [0..<14] = ?d"
    using assms(3) by (intro eoi_other_lines) auto
  also have "foldl ?f (?f ?d 14) [15..<24] = ?f ?d 14"
    using assms(3) same by (intro eoi_other_lines) auto
  finally show ?thesis
    using assms(1,2) by (simp add: end_of_interrupt_def line_level_def line_vector_def low_word_def)
qed

lemma end_of_edge:
  "in_service d = v # rest \<Longrightarrow> \<not> tmr_bit d v \<Longrightarrow> end_of_interrupt d = d\<lparr>in_service := rest\<rparr>"
  by (simp add: end_of_interrupt_def)

section \<open>The machine the tests are written for\<close>

definition stub_at :: "env \<Rightarrow> ev list \<Rightarrow> u64" where
  "stub_at env t = env_call env t ''vmalloc'' [AInt 50]"

definition isr_names :: "string list" where
  "isr_names = [''ioapic_isr_76'', ''ioapic_isr_77'', ''ioapic_isr_78'', ''ioapic_isr_66'',
     ''ioapic_isr_79'', ''ioapic_isr_98'', ''ioapic_isr_99'', ''ioapic_isr_9a'', ''ioapic_isr_81'',
     ''ioapic_isr_82'', ''ioapic_isr_83'']"

text \<open>
  The interrupt controllers behave as above.
\<close>

definition pic_machine :: "env \<Rightarrow> bool" where
  "pic_machine env \<longleftrightarrow>
     (\<forall>t. env_intr env t = pending_vector (dev t)) \<and>
     (\<forall>t. env_mmio env t (g_ioapic + 0x10) = read_reg (dev t)) \<and>
     (\<forall>t. bit (env_call env t ''apic_read'' [AInt 0x1b0]) 25 = tmr_bit (dev t) 0x79)"

text \<open>
  Handlers can be installed: the table of the module is the one in IDTR and can be written, the
  allocator returns writable memory outside the table, within reach of the jump, and two
  allocations in a row do not overlap; the handlers have different addresses.
\<close>

definition install_machine :: "env \<Rightarrow> bool" where
  "install_machine env \<longleftrightarrow>
     env_idtr env = boot_idt \<and>
     (\<forall>t v. v < 256 \<longrightarrow> install_ok env v t) \<and>
     (\<forall>t v. v < 256 \<longrightarrow> disjoint_ranges (stub_at env t) 24 (gate_address boot_idt v) 16) \<and>
     (\<forall>t v. v < 256 \<longrightarrow> disjoint_ranges (gate_address boot_idt v) 16 (stub_at env t) 24) \<and>
     (\<forall>t. fits32 (env_sym env ''isr_entry_point'' - (stub_at env t + 24))) \<and>
     (\<forall>t. disjoint_ranges (stub_at env (t @ [Call ''vmalloc'' [AInt 50], Insn ''mov %cs'' []])) 24
       (stub_at env t) 24) \<and>
     inj_on (env_sym env) (set isr_names)"

section \<open>Running the operations of the tests\<close>

lemma run_call_isr:
  assumes "install_machine env"
  shows "call_isr env (isr_table env) (env_sym env ''ioapic_isr_76'') = ioapic_isr_76 env"
    and "call_isr env (isr_table env) (env_sym env ''ioapic_isr_77'') = ioapic_isr_77 env"
    and "call_isr env (isr_table env) (env_sym env ''ioapic_isr_78'') = ioapic_isr_78 env"
    and "call_isr env (isr_table env) (env_sym env ''ioapic_isr_66'') = ioapic_isr_66 env"
    and "call_isr env (isr_table env) (env_sym env ''ioapic_isr_79'') = ioapic_isr_79 env"
    and "call_isr env (isr_table env) (env_sym env ''ioapic_isr_98'') = ioapic_isr_98 env"
    and "call_isr env (isr_table env) (env_sym env ''ioapic_isr_99'') = ioapic_isr_99 env"
    and "call_isr env (isr_table env) (env_sym env ''ioapic_isr_9a'') = ioapic_isr_9a env"
    and "call_isr env (isr_table env) (env_sym env ''ioapic_isr_81'') = ioapic_isr_81 env"
    and "call_isr env (isr_table env) (env_sym env ''ioapic_isr_82'') = ioapic_isr_82 env"
    and "call_isr env (isr_table env) (env_sym env ''ioapic_isr_83'') = ioapic_isr_83 env"
proof -
  have inj: "\<And>n m. n \<in> set isr_names \<Longrightarrow> m \<in> set isr_names \<Longrightarrow> env_sym env n = env_sym env m \<longleftrightarrow> n = m"
    using assms by (auto simp: install_machine_def inj_on_def)
  have mem: "''ioapic_isr_76'' \<in> set isr_names" "''ioapic_isr_77'' \<in> set isr_names"
    "''ioapic_isr_78'' \<in> set isr_names" "''ioapic_isr_66'' \<in> set isr_names"
    "''ioapic_isr_79'' \<in> set isr_names" "''ioapic_isr_98'' \<in> set isr_names"
    "''ioapic_isr_99'' \<in> set isr_names" "''ioapic_isr_9a'' \<in> set isr_names"
    "''ioapic_isr_81'' \<in> set isr_names" "''ioapic_isr_82'' \<in> set isr_names"
    "''ioapic_isr_83'' \<in> set isr_names"
    by (simp_all add: isr_names_def)
  note rules = isr_table_def inj mem fun_eq_iff
  show "call_isr env (isr_table env) (env_sym env ''ioapic_isr_76'') = ioapic_isr_76 env"
    "call_isr env (isr_table env) (env_sym env ''ioapic_isr_77'') = ioapic_isr_77 env"
    "call_isr env (isr_table env) (env_sym env ''ioapic_isr_78'') = ioapic_isr_78 env"
    "call_isr env (isr_table env) (env_sym env ''ioapic_isr_66'') = ioapic_isr_66 env"
    "call_isr env (isr_table env) (env_sym env ''ioapic_isr_79'') = ioapic_isr_79 env"
    "call_isr env (isr_table env) (env_sym env ''ioapic_isr_98'') = ioapic_isr_98 env"
    "call_isr env (isr_table env) (env_sym env ''ioapic_isr_99'') = ioapic_isr_99 env"
    "call_isr env (isr_table env) (env_sym env ''ioapic_isr_9a'') = ioapic_isr_9a env"
    "call_isr env (isr_table env) (env_sym env ''ioapic_isr_81'') = ioapic_isr_81 env"
    "call_isr env (isr_table env) (env_sym env ''ioapic_isr_82'') = ioapic_isr_82 env"
    "call_isr env (isr_table env) (env_sym env ''ioapic_isr_83'') = ioapic_isr_83 env"
    by (simp_all add: rules)
qed

text \<open>The low word of a new redirection entry.\<close>

definition entry_low :: "u8 \<Rightarrow> bool \<Rightarrow> u32" where
  "entry_low v level = ucast v OR push_bit 15 (of_bool level)"

lemma run_set_ioapic_redir:
  assumes "halted w = None"
  shows "run_state (set_ioapic_redir line vec trig) w = ((), w\<lparr>trace := trace w @
    [MmioW g_ioapic (0x10 + line * 2), MmioW (g_ioapic + 0x10) (entry_low (ucast vec) (trigger_bit trig)),
     MmioW g_ioapic (0x10 + line * 2 + 1), MmioW (g_ioapic + 0x10) 0]\<rparr>)"
proof -
  let ?e = "\<lparr>vector = ucast vec, delivery_mode = 0, dest_mode = False, delivery_status = False,
     polarity = False, remote_irr = False, trig_mode = trigger_bit trig, mask_bit = False,
     reserve = 0, reserved = 0, dest_id = 0\<rparr>"
  have lo: "(ucast (redir_to_u64 ?e) :: u32) = entry_low (ucast vec) (trigger_bit trig)"
    by (rule bit_word_eqI) (auto simp: redir_to_u64_def entry_low_def bit_simps)
  have hi: "(ucast (drop_bit 32 (redir_to_u64 ?e)) :: u32) = 0"
    by (rule bit_word_eqI) (auto simp: redir_to_u64_def bit_simps)
  show ?thesis
    using assms by (simp add: set_ioapic_redir_def ioapic_write_redir_def lo hi)
qed

text \<open>Memory after an installation at the end of a trace.\<close>

definition install_mem :: "env \<Rightarrow> nat \<Rightarrow> string \<Rightarrow> ev list \<Rightarrow> memory \<Rightarrow> memory" where
  "install_mem env v name t m = installed m (gate_address boot_idt v) (stub_at env t)
     (ucast (env_insn env (t @ [Call ''vmalloc'' [AInt 50]]) ''mov %cs'')) (env_sym env name)
     (ucast (env_sym env ''isr_entry_point'' - (stub_at env t + 24)))"

lemma run_install:
  assumes "install_machine env" and "halted w = None" and "v < 256"
  shows "run_state (install env v name) w = ((), w\<lparr>trace := trace w @
      [Call ''vmalloc'' [AInt 50], Insn ''mov %cs'' []], mem := install_mem env v name (trace w) (mem w)\<rparr>)"
  using assms by (simp add: install_machine_def install_def run_handle_irq_local Let_def stub_at_def
      install_mem_def)

lemma handler_of_install:
  assumes "install_machine env" and "v < 256"
  shows "handler_of env (install_mem env v name t m) v = Some (env_sym env name)"
proof -
  have "fits32 (env_sym env ''isr_entry_point'' - (stub_at env t + 24))"
    using assms by (simp add: install_machine_def)
  then have "stub_at env t + 24 + scast (ucast (env_sym env ''isr_entry_point'' - (stub_at env t + 24)) :: u32)
      = env_sym env ''isr_entry_point''"
    by (simp add: scast_ucast_fits [THEN iffD2])
  with assms show ?thesis
    using handler_of_installed [of "stub_at env t" env v] by (simp add: install_machine_def install_mem_def)
qed

text \<open>A second installation right after keeps the first handler.\<close>

lemma handler_of_install_two:
  assumes "install_machine env" and "v < 256" and "v' < 256" and "v \<noteq> v'"
  shows "handler_of env (install_mem env v' n' (t @ [Call ''vmalloc'' [AInt 50], Insn ''mov %cs'' []])
      (install_mem env v n t m)) v = Some (env_sym env n)"
proof -
  let ?m = "install_mem env v n t m"
  have d: "disjoint_ranges (stub_at env t) 24 (gate_address boot_idt v) 16"
      "disjoint_ranges (gate_address boot_idt v') 16 (stub_at env t) 24"
      "disjoint_ranges (stub_at env (t @ [Call ''vmalloc'' [AInt 50], Insn ''mov %cs'' []])) 24
        (stub_at env t) 24" and idt: "env_idtr env = boot_idt" for t
    using assms by (simp_all add: install_machine_def)
  have "decode_gate (load_bytes ?m (gate_address boot_idt v) 16) = Some (stub_at env t)"
    using d(1) by (simp add: install_mem_def load_gate decode_the_gate)
  then have "handler_of env (install_mem env v' n' (t @ [Call ''vmalloc'' [AInt 50], Insn ''mov %cs'' []]) ?m) v
      = handler_of env ?m v"
    unfolding install_mem_def [of env v'] idt [symmetric]
    using d idt assms by (intro handler_of_other) auto
  with handler_of_install [OF assms(1,2)] show ?thesis by simp
qed

lemma run_set_mask:
  assumes "pic_machine env" and "halted w = None"
  shows "run_state (set_mask env 0x0e m) w =
    (let l0 = (if remote_flag (dev (trace w)) 14 then set_bit 14 (low_word (dev (trace w)) 14)
            else unset_bit 14 (low_word (dev (trace w)) 14));
         l = (if odd m then set_bit 16 l0 else unset_bit 16 l0);
         hi = regs (dev (trace w)) 0x2d
     in ((), w\<lparr>trace := trace w @ [MmioW g_ioapic 0x2c, MmioR (g_ioapic + 0x10) l0,
       MmioW g_ioapic 0x2d, MmioR (g_ioapic + 0x10) hi,
       MmioW g_ioapic 0x2c, MmioW (g_ioapic + 0x10) l, MmioW g_ioapic 0x2d, MmioW (g_ioapic + 0x10) hi]\<rparr>))"
proof -
  have lo: "ucast (if odd m then set_bit 16 x else unset_bit 16 x)
      = (if odd m then set_bit 16 (ucast x) else unset_bit 16 (ucast x) :: u32)" for x :: u64
    by (rule bit_word_eqI) (auto simp: bit_simps)
  have hi: "ucast (drop_bit 32 (if odd m then set_bit 16 x else unset_bit 16 x))
      = (ucast (drop_bit 32 x) :: u32)" for x :: u64
    by (rule bit_word_eqI) (auto simp: bit_simps)
  have mm: "env_mmio env t (g_ioapic + 0x10) = read_reg (dev t)" for t 
    using assms by (simp add: pic_machine_def)
  show ?thesis
    using assms(2)
    by (simp add: set_mask_def ioapic_read_redir_def ioapic_write_redir_def Let_def
        redir_mask_bit mm read_reg_def lo hi low_word_def)
qed

lemma run_set_irq_line:
  "run_state (set_irq_line 0x0e 0) w = run_state (outb 0 0x200e) w"
  "run_state (set_irq_line 0x0e 1) w = run_state (outb 1 0x200e) w"
  "run_state (set_irq_line 0x0f 0) w = run_state (outb 0 0x200f) w"
  "run_state (set_irq_line 0x0f 1) w = run_state (outb 1 0x200f) w"
  by (simp_all add: set_irq_line_def)

lemma run_window:
  assumes "pic_machine env" and "halted w = None"
  shows "pending_vector (dev (trace w)) = None \<Longrightarrow> run_state (deliver (Suc n) env) w = ((), w)"
    and "\<not> irq_on w \<Longrightarrow> run_state (deliver (Suc n) env) w = ((), w)"
    and "pending_vector (dev (trace w)) = Some v \<Longrightarrow> irq_on w \<Longrightarrow>
       run_state (deliver (Suc n) env) w = run_state (deliver n env) (snd (run_state (take_interrupt env v) w))"
  using assms by (simp_all add: pic_machine_def split: option.splits prod.splits)

lemma run_eoi: "halted w = None \<Longrightarrow> run_state (eoi env) w =
   ((), w\<lparr>trace := trace w @ [Call ''apic_write'' [AInt 0xB0, AInt 0]]\<rparr>)"
  by (simp add: eoi_def apic_write_def APIC_EOI_def)

text \<open>The bit of the trigger mode register that the tests look at.\<close>

lemma run_tmr_79:
  assumes "pic_machine env" and "halted w = None"
  shows "run_state (apic_read_bit env APIC_TMR 0x79) w =
    (tmr_bit (dev (trace w)) 0x79, w\<lparr>trace := trace w @ [Call ''apic_read'' [AInt 0x1b0]]\<rparr>)"
proof -
  have one: "(x AND push_bit 25 1 \<noteq> 0) = bit x 25" for x :: u32
    by (simp add: bit_iff_and_push_bit_not_eq_0)
  have "bit (ucast (env_call env (trace w) ''apic_read'' [AInt 0x1b0]) :: u32) 25
      = tmr_bit (dev (trace w)) 0x79"
    using assms(1) by (simp add: pic_machine_def bit_simps)
  then show ?thesis
    using assms(2) one by (simp add: apic_read_bit_def apic_read_def Let_def APIC_TMR_def)
qed

lemmas test_ops =
  redir_w_def line_w_def mask_w_def sti_w_def nop_def intr_window_def toggle_irq_line_def
  sti_hlt_cli_def take_interrupt_def irq_enable_def irq_disable_def

lemmas isr_defs =
  ioapic_isr_76_def ioapic_isr_77_def ioapic_isr_78_def ioapic_isr_66_def ioapic_isr_79_def
  ioapic_isr_98_def ioapic_isr_99_def ioapic_isr_9a_def ioapic_isr_81_def ioapic_isr_82_def
  ioapic_isr_83_def

lemmas device_defs =
  entry_low_def write_reg_def check_level_def line_level_def low_word_def line_masked_def
  set_line_def line_vector_def request_def pending_vector_def end_of_edge end_of_level Let_def

text \<open>A machine the tests run on, and a state in which a test starts and ends.\<close>

definition test_machine :: "env \<Rightarrow> bool" where
  "test_machine env \<longleftrightarrow> pic_machine env \<and> install_machine env \<and> 4 \<le> env_fuel env"

definition ready :: "'a ioapic_world_scheme \<Rightarrow> bool" where
  "ready w \<longleftrightarrow> halted w = None \<and> irq_on w \<and> idle (dev (trace w))"

lemma test_setup:
  assumes "test_machine env" and "ready w" and "v < 256"
  obtains f s r t m where "pic_machine env" and "install_machine env"
    and "env_fuel env = Suc (Suc (Suc (Suc f)))" and "halted w = None" and "irq_on w"
    and "dev (trace w) = \<lparr>selected = s, regs = r, line_on = (\<lambda>l. False), remote_flag = (\<lambda>l. False),
      requested = [], in_service = [], tmr_bit = t\<rparr>"
    and "run_state (install env v name) w = ((), w\<lparr>trace := trace w @
      [Call ''vmalloc'' [AInt 50], Insn ''mov %cs'' []], mem := m\<rparr>)"
    and "handler_of env m v = Some (env_sym env name)"
proof -
  from assms have p: "pic_machine env" "install_machine env" and n: "4 \<le> env_fuel env"
    and h: "halted w = None" "irq_on w" and i: "idle (dev (trace w))"
    by (auto simp: test_machine_def ready_def)
  from n obtain f where f: "env_fuel env = Suc (Suc (Suc (Suc f)))"
    by (auto dest!: le_Suc_ex simp: numeral_eq_Suc)
  from i obtain s r t where "dev (trace w) = \<lparr>selected = s, regs = r, line_on = (\<lambda>l. False),
      remote_flag = (\<lambda>l. False), requested = [], in_service = [], tmr_bit = t\<rparr>"
    by (rule idle_cases)
  then show ?thesis
    using p f h that run_install [OF p(2) h(1) assms(3)] handler_of_install [OF p(2) assms(3)] by blast
qed

lemmas test_run =
  test_ops isr_defs device_defs run_set_ioapic_redir run_set_irq_line run_window run_call_isr
  run_eoi run_set_mask run_tmr_79 idle_def

end
