(* ===== verification/IoapicResults.thy ===== *)
theory IoapicResults
  imports IoapicDevice
begin

text \<open>
  What the interrupt tests of \<open>src/pcm-unit/driver/ioapic.c\<close> do on the machine of theory
  \<open>IoapicDevice\<close>: one lemma per test (what it prints, which counters it changes, that it leaves the
  interrupt controllers at rest), and from them the run of the whole sequence, the first time and
  the second.
\<close>

section \<open>Tests with one interrupt at a time\<close>

lemma edge_intr_result:
  assumes "test_machine env" and "ready w"
  shows "\<exists>t m. run_state (test_ioapic_edge_intr env) w = ((), w\<lparr>trace := t, mem := m, g_isr_76 := g_isr_76 w + 1\<rparr>)
    \<and> idle (dev t) \<and> tmr_bit (dev t) = (tmr_bit (dev (trace w)))(0x76 := False)
    \<and> messages t = messages (trace w) @ [Printk ''edge triggered intr, g_isr_76=%x'' [arg_word (g_isr_76 w + 1)]]"
  apply (rule test_setup [OF assms, of "0x76" "''ioapic_isr_76''"], simp)
  subgoal premises facts for f s r t m
    using facts by (intro exI [of _ "trace (snd (run_state (test_ioapic_edge_intr env) w))"] exI [of _ m])
      (simp add: test_ioapic_edge_intr_def test_run del: deliver.simps)
  done

lemma level_intr_result:
  assumes "test_machine env" and "ready w"
  shows "\<exists>t m. run_state (test_ioapic_level_intr env) w = ((), w\<lparr>trace := t, mem := m, g_isr_77 := g_isr_77 w + 1\<rparr>)
    \<and> idle (dev t) \<and> tmr_bit (dev t) = (tmr_bit (dev (trace w)))(0x77 := True)
    \<and> messages t = messages (trace w) @ [Printk ''level triggered intr, g_isr_77=%x'' [arg_word (g_isr_77 w + 1)]]"
  apply (rule test_setup [OF assms, of "0x77" "''ioapic_isr_77''"], simp)
  subgoal premises facts for f s r t m
    using facts by (intro exI [of _ "trace (snd (run_state (test_ioapic_level_intr env) w))"] exI [of _ m])
      (simp add: test_ioapic_level_intr_def test_run del: deliver.simps)
  done

lemma level_coalesce_result:
  assumes "test_machine env" and "ready w"
  shows "\<exists>t m. run_state (test_ioapic_level_coalesce env) w = ((), w\<lparr>trace := t, mem := m, g_isr_98 := g_isr_98 w + 1\<rparr>)
    \<and> idle (dev t) \<and> tmr_bit (dev t) = (tmr_bit (dev (trace w)))(0x98 := True)
    \<and> messages t = messages (trace w) @ [Printk ''coalesce simultaneous level interrupts g_isr_98=%x,'' [arg_word (g_isr_98 w + 1)]]"
  apply (rule test_setup [OF assms, of "0x98" "''ioapic_isr_98''"], simp)
  subgoal premises facts for f s r t m
    using facts by (intro exI [of _ "trace (snd (run_state (test_ioapic_level_coalesce env) w))"] exI [of _ m])
      (simp add: test_ioapic_level_coalesce_def test_run del: deliver.simps)
  done

lemma level_sequential_result:
  assumes "test_machine env" and "ready w"
  shows "\<exists>t m. run_state (test_ioapic_level_sequential env) w = ((), w\<lparr>trace := t, mem := m, g_isr_99 := g_isr_99 w + 2\<rparr>)
    \<and> idle (dev t) \<and> tmr_bit (dev t) = (tmr_bit (dev (trace w)))(0x99 := True)
    \<and> messages t = messages (trace w) @ [Printk ''sequential level interrupts g_isr_99=%x'' [arg_word (g_isr_99 w + 2)]]"
  apply (rule test_setup [OF assms, of "0x99" "''ioapic_isr_99''"], simp)
  subgoal premises facts for f s r t m
    using facts by (intro exI [of _ "trace (snd (run_state (test_ioapic_level_sequential env) w))"] exI [of _ m])
      (simp add: test_ioapic_level_sequential_def test_run add.commute [of _ 2] del: deliver.simps)
  done

lemma edge_mask_result:
  assumes "test_machine env" and "ready w"
  shows "\<exists>t m. run_state (test_ioapic_edge_mask env) w = ((), w\<lparr>trace := t, mem := m, g_isr_81 := g_isr_81 w + 1\<rparr>)
    \<and> idle (dev t) \<and> tmr_bit (dev t) = (tmr_bit (dev (trace w)))(0x81 := False)
    \<and> messages t = messages (trace w) @ [Printk ''masked level interrupt g_isr_81=%x'' [arg_word (g_isr_81 w)], Printk ''unmasked level interrupt g_isr_81=%x'' [arg_word (g_isr_81 w + 1)]]"
  apply (rule test_setup [OF assms, of "0x81" "''ioapic_isr_81''"], simp)
  subgoal premises facts for f s r t m
    using facts by (intro exI [of _ "trace (snd (run_state (test_ioapic_edge_mask env) w))"] exI [of _ m])
      (simp add: test_ioapic_edge_mask_def test_run del: deliver.simps)
  done

lemma level_mask_result:
  assumes "test_machine env" and "ready w"
  shows "\<exists>t m. run_state (test_ioapic_level_mask env) w = ((), w\<lparr>trace := t, mem := m, g_isr_82 := g_isr_82 w + 1\<rparr>)
    \<and> idle (dev t) \<and> tmr_bit (dev t) = (tmr_bit (dev (trace w)))(0x82 := True)
    \<and> messages t = messages (trace w) @ [Printk ''masked level interrupt g_isr_82=%x'' [arg_word (g_isr_82 w)], Printk ''unmasked level interrupt g_isr_82=%x'' [arg_word (g_isr_82 w + 1)]]"
  apply (rule test_setup [OF assms, of "0x82" "''ioapic_isr_82''"], simp)
  subgoal premises facts for f s r t m
    using facts by (intro exI [of _ "trace (snd (run_state (test_ioapic_level_mask env) w))"] exI [of _ m])
      (simp add: test_ioapic_level_mask_def test_run del: deliver.simps)
  done

lemma level_retrigger_mask_result:
  assumes "test_machine env" and "ready w"
  shows "\<exists>t m. run_state (test_ioapic_level_retrigger_mask env) w = ((), w\<lparr>trace := t, mem := m, g_isr_83 := g_isr_83 w + 2\<rparr>)
    \<and> idle (dev t) \<and> tmr_bit (dev t) = (tmr_bit (dev (trace w)))(0x83 := True)
    \<and> messages t = messages (trace w) @ [Printk ''retriggered level interrupts with mask g_isr_83=%x'' [arg_word (g_isr_83 w + 2)]]"
  apply (rule test_setup [OF assms, of "0x83" "''ioapic_isr_83''"], simp)
  subgoal premises facts for f s r t m
    using facts by (intro exI [of _ "trace (snd (run_state (test_ioapic_level_retrigger_mask env) w))"] exI [of _ m])
      (simp add: test_ioapic_level_retrigger_mask_def test_run add.commute [of _ 2] del: deliver.simps)
  done

lemma edge_tmr_result:
  assumes "test_machine env" and "ready w"
  shows "\<exists>t m. run_state (test_ioapic_edge_tmr env x) w = ((), w\<lparr>trace := t, mem := m, g_tmr_79 := 0\<rparr>)
    \<and> idle (dev t) \<and> tmr_bit (dev t) = (tmr_bit (dev (trace w)))(0x79 := False)
    \<and> messages t = messages (trace w) @ [Printk ''TMR for ioapic edge interrupts, tmr_before=%x, expected_tmr_before=%x, g_tmr_79=%x''
       [arg_bool (tmr_bit (dev (trace w)) 0x79), arg_bool x, AInt 0]]"
  apply (rule test_setup [OF assms, of "0x79" "''ioapic_isr_79''"], simp)
  subgoal premises facts for f s r t m
    using facts by (intro exI [of _ "trace (snd (run_state (test_ioapic_edge_tmr env x) w))"] exI [of _ m])
      (simp add: test_ioapic_edge_tmr_def test_run del: deliver.simps)
  done

lemma level_tmr_result:
  assumes "test_machine env" and "ready w"
  shows "\<exists>t m. run_state (test_ioapic_level_tmr env x) w = ((), w\<lparr>trace := t, mem := m, g_tmr_79 := 1\<rparr>)
    \<and> idle (dev t) \<and> tmr_bit (dev t) = (tmr_bit (dev (trace w)))(0x79 := True)
    \<and> messages t = messages (trace w) @ [Printk ''TMR for ioapic level interrupts, tmr_before=%x, expected_tmr_before=%x, g_tmr_79=%x''
       [arg_bool (tmr_bit (dev (trace w)) 0x79), arg_bool x, AInt 1]]"
  apply (rule test_setup [OF assms, of "0x79" "''ioapic_isr_79''"], simp)
  subgoal premises facts for f s r t m
    using facts by (intro exI [of _ "trace (snd (run_state (test_ioapic_level_tmr env x) w))"] exI [of _ m])
      (simp add: test_ioapic_level_tmr_def test_run del: deliver.simps)
  done

section \<open>Single interrupts\<close>

lemma take_78:
  assumes "install_machine env" "halted w = None" "irq_on w" "in_service (dev (trace w)) = []"
    "\<not> tmr_bit (dev (trace w)) 0x78"
    "handler_of env (mem w) 0x78 = Some (env_sym env ''ioapic_isr_78'')"
  obtains t r where "run_state (take_interrupt env 0x78) w = ((), w\<lparr>trace := t, g_78 := g_78 w + 1, g_78_rip := r\<rparr>)"
    and "dev t = (dev (trace w))\<lparr>requested := removeAll 0x78 (requested (dev (trace w))), in_service := []\<rparr>"
    and "messages t = messages (trace w)"
proof -
  let ?t = "trace w @ [IntTaken 0x78, Call ''apic_write'' [AInt 0xB0, AInt 0], Iret]"
  have "run_state (take_interrupt env 0x78) w
      = ((), w\<lparr>trace := ?t, g_78 := g_78 w + 1, g_78_rip := env_insn env (trace w) ''rip''\<rparr>)"
    using assms by (simp add: take_interrupt_def run_call_isr ioapic_isr_78_def run_eoi)
  moreover have "dev ?t = (dev (trace w))\<lparr>requested := removeAll 0x78 (requested (dev (trace w))), in_service := []\<rparr>"
    using assms by (simp add: end_of_edge)
  ultimately show ?thesis using that by fastforce
qed

lemma take_66:
  assumes "install_machine env" "halted w = None" "irq_on w" "in_service (dev (trace w)) = []"
    "\<not> tmr_bit (dev (trace w)) 0x66" "g_78 w \<noteq> 0"
    "handler_of env (mem w) 0x66 = Some (env_sym env ''ioapic_isr_66'')"
  obtains t r where "run_state (take_interrupt env 0x66) w = ((), w\<lparr>trace := t, g_66 := g_66 w + 1,
      g_66_after_78 := g_66_after_78 w + 1, g_66_rip := r\<rparr>)"
    and "dev t = (dev (trace w))\<lparr>requested := removeAll 0x66 (requested (dev (trace w))), in_service := []\<rparr>"
    and "messages t = messages (trace w)"
proof -
  let ?t = "trace w @ [IntTaken 0x66, Call ''apic_write'' [AInt 0xB0, AInt 0], Iret]"
  have "run_state (take_interrupt env 0x66) w = ((), w\<lparr>trace := ?t, g_66 := g_66 w + 1,
      g_66_after_78 := g_66_after_78 w + 1, g_66_rip := env_insn env (trace w) ''rip''\<rparr>)"
    using assms by (simp add: take_interrupt_def run_call_isr ioapic_isr_66_def run_eoi)
  moreover have "dev ?t = (dev (trace w))\<lparr>requested := removeAll 0x66 (requested (dev (trace w))), in_service := []\<rparr>"
    using assms by (simp add: end_of_edge)
  ultimately show ?thesis using that by fastforce
qed

text \<open>Line 14 high and level-triggered on vector 0x9a, its request pending.\<close>

definition raised_9a :: "u32 \<Rightarrow> (u32 \<Rightarrow> u32) \<Rightarrow> (u8 \<Rightarrow> bool) \<Rightarrow> iodev" where
  "raised_9a s r t = \<lparr>selected = s, regs = r(0x2c := 0x809a), line_on = (\<lambda>l. False)(14 := True),
     remote_flag = (\<lambda>l. False)(14 := True), requested = [0x9a], in_service = [], tmr_bit = t(0x9a := True)\<rparr>"

lemma take_9a:
  assumes "install_machine env" "halted w = None" "irq_on w" "dev (trace w) = raised_9a s r t"
    "handler_of env (mem w) 0x9a = Some (env_sym env ''ioapic_isr_9a'')"
  obtains t' where "run_state (take_interrupt env 0x9a) w = ((), w\<lparr>trace := t', g_isr_9a := g_isr_9a w + 1\<rparr>)"
    and "dev t' = (if g_isr_9a w + 1 = 2 then (raised_9a s r t)\<lparr>requested := [], line_on := (\<lambda>l. False),
       remote_flag := (\<lambda>l. False)\<rparr> else raised_9a s r t)"
    and "messages t' = messages (trace w)"
proof -
  let ?t = "trace w @ [IntTaken 0x9a] @ (if g_isr_9a w + 1 = 2 then [OutB 0x200e 0] else [])
     @ [Call ''apic_write'' [AInt 0xB0, AInt 0], Iret]"
  have "run_state (take_interrupt env 0x9a) w = ((), w\<lparr>trace := ?t, g_isr_9a := g_isr_9a w + 1\<rparr>)"
    using assms by (simp add: take_interrupt_def run_call_isr ioapic_isr_9a_def run_eoi run_set_irq_line)
  moreover have "dev ?t = (if g_isr_9a w + 1 = 2 then (raised_9a s r t)\<lparr>requested := [], line_on := (\<lambda>l. False),
       remote_flag := (\<lambda>l. False)\<rparr> else raised_9a s r t)"
    using assms by (simp add: raised_9a_def device_defs)
  ultimately show ?thesis using that by fastforce
qed

section \<open>The retrigger test, first run\<close>

lemma raise_9a:
  assumes p: "pic_machine env" and h: "halted w = None" "irq_on w"
    and d: "dev (trace w) = \<lparr>selected = s, regs = r, line_on = (\<lambda>l. False), remote_flag = (\<lambda>l. False),
        requested = [], in_service = [], tmr_bit = t\<rparr>"
  obtains t' where "run_state (do { redir_w env 0x0e 0x9a TRIGGER_LEVEL; cli; line_w env 0x0e 1 }) w
      = ((), w\<lparr>trace := t', irq_on := False\<rparr>)"
    and "dev t' = raised_9a 0x2d (r(0x2d := 0)) t" and "messages t' = messages (trace w)"
proof -
  let ?t = "trace w @ [MmioW g_ioapic 0x2c, MmioW (g_ioapic + 0x10) 0x809a, MmioW g_ioapic 0x2d,
    MmioW (g_ioapic + 0x10) 0, Cli, OutB 0x200e 1]"
  have "run_state (do { redir_w env 0x0e 0x9a TRIGGER_LEVEL; cli; line_w env 0x0e 1 }) w
      = ((), w\<lparr>trace := ?t, irq_on := False\<rparr>)"
    using p h d by (simp add: test_run del: deliver.simps)
  moreover have "dev ?t = raised_9a 0x2d (r(0x2d := 0)) t"
    using d by (simp add: raised_9a_def device_defs fun_upd_twist)
  ultimately show ?thesis using that by fastforce
qed

lemma run_deliver_take:
  assumes "pic_machine env" "halted w = None" "irq_on w" "pending_vector (dev (trace w)) = Some v"
    "run_state (take_interrupt env v) w = ((), w')"
  shows "run_state (deliver (Suc n) env) w = run_state (deliver n env) w'"
  using assms by (simp add: pic_machine_def)

lemma deliver_9a:
  assumes "pic_machine env" "install_machine env" "halted w = None" "irq_on w" "dev (trace w) = raised_9a s r t"
    "handler_of env (mem w) 0x9a = Some (env_sym env ''ioapic_isr_9a'')" "g_isr_9a w = 0"
  obtains t' where "run_state (deliver (Suc (Suc (Suc n))) env) w = ((), w\<lparr>trace := t', g_isr_9a := 2\<rparr>)"
    and "dev t' = (raised_9a s r t)\<lparr>requested := [], line_on := (\<lambda>l. False), remote_flag := (\<lambda>l. False)\<rparr>"
    and "messages t' = messages (trace w)"
proof -
  obtain t1 where t1: "run_state (take_interrupt env 0x9a) w = ((), w\<lparr>trace := t1, g_isr_9a := 1\<rparr>)"
    and d1: "dev t1 = raised_9a s r t" and m1: "messages t1 = messages (trace w)"
    using take_9a [OF assms(2-6)] assms(7) by auto
  let ?w1 = "w\<lparr>trace := t1, g_isr_9a := 1\<rparr>"
  obtain t2 where t2: "run_state (take_interrupt env 0x9a) ?w1 = ((), ?w1\<lparr>trace := t2, g_isr_9a := 2\<rparr>)"
    and d2: "dev t2 = (raised_9a s r t)\<lparr>requested := [], line_on := (\<lambda>l. False), remote_flag := (\<lambda>l. False)\<rparr>"
    and m2: "messages t2 = messages t1"
    using take_9a [of env ?w1 s r t] assms d1 by auto
  have p: "pending_vector (raised_9a s r t) = Some 0x9a" by (simp add: raised_9a_def pending_vector_def)
  have "run_state (deliver (Suc (Suc (Suc n))) env) w = run_state (deliver (Suc (Suc n)) env) ?w1"
    using assms p t1 by (intro run_deliver_take) auto
  also have "\<dots> = run_state (deliver (Suc n) env) (?w1\<lparr>trace := t2, g_isr_9a := 2\<rparr>)"
    using assms p t2 d1 by (intro run_deliver_take) auto
  also have "\<dots> = ((), w\<lparr>trace := t2, g_isr_9a := 2\<rparr>)"
    using assms d2 by (subst run_window(1)) (auto simp: pending_vector_def)
  finally show ?thesis using that d2 m1 m2 by simp
qed

lemma retrigger_loop_unfold: "0 < k \<Longrightarrow> retrigger_loop k env = do {
     n \<leftarrow> gets g_isr_9a;
     if n = 2 then skip else do { sti_hlt_cli env; retrigger_loop (k - 1) env } }"
  by (cases k) (simp, simp only: retrigger_loop.simps diff_Suc_1)

text \<open>The start of the test, up to the raised line with interrupts off.\<close>

definition start_9a :: "env \<Rightarrow> ('a ioapic_world_scheme, unit) state" where
  "start_9a env = do { install env 0x9a ''ioapic_isr_9a''; redir_w env 0x0e 0x9a TRIGGER_LEVEL; cli; line_w env 0x0e 1 }"

lemma retrigger_parts:
  "test_ioapic_level_retrigger env = do { start_9a env; retrigger_loop 10 env; sti_w env; n \<leftarrow> gets g_isr_9a;
     printk ''retriggered level interrupts without masking g_isr_9a=%x'' [arg_word n] }"
  by (simp add: test_ioapic_level_retrigger_def start_9a_def)

lemma run_start_9a:
  assumes "test_machine env" and "ready w"
  obtains f s r m t where "pic_machine env" and "install_machine env" and "env_fuel env = Suc (Suc (Suc (Suc f)))"
    and "run_state (start_9a env) w = ((), w\<lparr>mem := m, trace := t, irq_on := False\<rparr>)"
    and "dev t = raised_9a s r (tmr_bit (dev (trace w)))" and "messages t = messages (trace w)"
    and "handler_of env m 0x9a = Some (env_sym env ''ioapic_isr_9a'')"
  apply (rule test_setup [OF assms, of "0x9a" "''ioapic_isr_9a''"], simp)
  subgoal premises facts for f s r t m
  proof -
    let ?w1 = "w\<lparr>trace := trace w @ [Call ''vmalloc'' [AInt 50], Insn ''mov %cs'' []], mem := m\<rparr>"
    obtain t1 where "run_state (do { redir_w env 0x0e 0x9a TRIGGER_LEVEL; cli; line_w env 0x0e 1 }) ?w1
        = ((), ?w1\<lparr>trace := t1, irq_on := False\<rparr>)"
      and d1: "dev t1 = raised_9a 0x2d (r(0x2d := 0)) t" and m1: "messages t1 = messages (trace w)"
      by (rule raise_9a [of env ?w1 s r t]) (use facts in auto)
    from run_seq [OF facts(8) this(1)]
    have "run_state (start_9a env) w = ((), w\<lparr>mem := m, trace := t1, irq_on := False\<rparr>)"
      by (simp add: start_9a_def)
    with facts d1 m1 that show thesis by simp
  qed
  done

lemma level_retrigger_result:
  assumes "test_machine env" and "ready w" and "g_isr_9a w = 0"
  shows "\<exists>t m. run_state (test_ioapic_level_retrigger env) w = ((), w\<lparr>trace := t, mem := m, g_isr_9a := 2\<rparr>)
    \<and> idle (dev t) \<and> tmr_bit (dev t) = (tmr_bit (dev (trace w)))(0x9a := True)
    \<and> messages t = messages (trace w) @ [Printk ''retriggered level interrupts without masking g_isr_9a=%x'' [AInt 2]]"
proof -
  obtain f s r m t1 where facts: "pic_machine env" "install_machine env" "env_fuel env = Suc (Suc (Suc (Suc f)))"
    and start: "run_state (start_9a env) w = ((), w\<lparr>mem := m, trace := t1, irq_on := False\<rparr>)"
    and d1: "dev t1 = raised_9a s r (tmr_bit (dev (trace w)))" and m1: "messages t1 = messages (trace w)"
    and h: "handler_of env m 0x9a = Some (env_sym env ''ioapic_isr_9a'')"
    by (rule run_start_9a [OF assms(1,2)])
  have w: "halted w = None" "irq_on w" using assms(2) by (simp_all add: ready_def)
  let ?w2 = "w\<lparr>mem := m, irq_on := True, trace := t1 @ [Sti, Insn ''hlt'' []]\<rparr>"
  obtain t2 where r2: "run_state (deliver (Suc (Suc (Suc (Suc (Suc f))))) env) ?w2
      = ((), ?w2\<lparr>trace := t2, g_isr_9a := 2\<rparr>)"
    and d2: "dev t2 = (raised_9a s r (tmr_bit (dev (trace w))))\<lparr>requested := [], line_on := (\<lambda>l. False), remote_flag := (\<lambda>l. False)\<rparr>"
    and m2: "messages t2 = messages t1"
    by (rule deliver_9a [of env ?w2 s r "tmr_bit (dev (trace w))"]) (use facts w h assms d1 in auto)
  let ?fmt = "''retriggered level interrupts without masking g_isr_9a=%x''"
  have run: "run_state (do { retrigger_loop 10 env; sti_w env; n \<leftarrow> gets g_isr_9a; printk ?fmt [arg_word n] })
      (w\<lparr>mem := m, trace := t1, irq_on := False\<rparr>) = ((), w\<lparr>trace := t2 @ [Cli, Sti, Printk ?fmt [AInt 2]], mem := m, g_isr_9a := 2\<rparr>)"
    using facts w assms(3) r2 d2
    by (simp add: retrigger_loop_unfold [of 10] retrigger_loop_unfold [of 9] sti_hlt_cli_def sti_w_def intr_window_def irq_enable_def run_window(1,2) pending_vector_def del: deliver.simps)
  show ?thesis
    unfolding retrigger_parts using run_seq [OF start run] d2 m1 m2 by (intro exI) (auto simp: idle_def raised_9a_def)
qed

lemma storm_9a:
  assumes "pic_machine env" "install_machine env" "halted w = None" "irq_on w" "dev (trace w) = raised_9a s r t"
    "handler_of env (mem w) 0x9a = Some (env_sym env ''ioapic_isr_9a'')"
    and "2 \<le> unat (g_isr_9a w)" and "unat (g_isr_9a w) + n < 2 ^ 32"
  shows "\<exists>t'. run_state (deliver n env) w
      = ((), w\<lparr>trace := t', g_isr_9a := g_isr_9a w + of_nat n, halted := Some Hang\<rparr>)
    \<and> messages t' = messages (trace w)"
  using assms
proof (induction n arbitrary: w)
  case 0
  then show ?case by (intro exI [of _ "trace w"]) simp
next
  case (Suc n)
  let ?g = "g_isr_9a w"
  have unat_numeral_two: "unat (2 :: u32) = 2" by simp
  have g: "unat (?g + 1) = unat ?g + 1"
    using Suc.prems(8) by (simp add: unat_word_ariths)
  then have "?g + 1 \<noteq> 2"
    using Suc.prems(7) by (metis Suc_eq_plus1 Suc_n_not_le_n unat_numeral_two)
  then obtain t1 where t1: "run_state (take_interrupt env 0x9a) w = ((), w\<lparr>trace := t1, g_isr_9a := ?g + 1\<rparr>)"
    and d1: "dev t1 = raised_9a s r t" and m1: "messages t1 = messages (trace w)"
    using take_9a [OF Suc.prems(2-6)] by auto
  have p: "pending_vector (raised_9a s r t) = Some 0x9a" by (simp add: raised_9a_def pending_vector_def)
  let ?w1 = "w\<lparr>trace := t1, g_isr_9a := ?g + 1\<rparr>"
  have "run_state (deliver (Suc n) env) w = run_state (deliver n env) ?w1"
    using Suc.prems p t1 by (intro run_deliver_take) auto
  moreover obtain t2 where "run_state (deliver n env) ?w1
      = ((), ?w1\<lparr>trace := t2, g_isr_9a := ?g + 1 + of_nat n, halted := Some Hang\<rparr>)"
    and "messages t2 = messages t1"
    using Suc.IH [of ?w1] Suc.prems d1 g by auto
  ultimately show ?case
    using m1 by (intro exI [of _ t2]) (simp add: ac_simps)
qed

section \<open>The retrigger test, later runs\<close>

lemma frozen_regs [simp]:
  "frozen (eoi env)" "frozen (set_irq_line l v)" "frozen (set_mask env l m)"
  "frozen (apic_read_bit env reg n)" "frozen (set_ioapic_redir l vec trig)"
  "frozen irq_enable" "frozen irq_disable"
  by (auto simp: eoi_def apic_write_def set_irq_line_def set_mask_def ioapic_read_redir_def
      ioapic_write_redir_def ioapic_read_reg_def ioapic_write_reg_def apic_read_bit_def apic_read_def
      set_ioapic_redir_def irq_enable_def irq_disable_def Let_def)

lemma frozen_isr: "\<forall>(n, h) \<in> set (isr_table env). frozen (h rs)"
  by (auto simp: isr_table_def isr_defs)

lemma frozen_call_isr: "\<forall>(n, h) \<in> set hs. frozen (h rs) \<Longrightarrow> frozen (call_isr env hs f rs)"
  by (induction hs) auto

lemma frozen_take_interrupt [simp]: "frozen (take_interrupt env v)"
  by (auto simp: take_interrupt_def split: option.splits intro!: frozen_call_isr frozen_isr)

lemma frozen_deliver [simp]: "frozen (deliver n env)"
  by (induction n) (auto split: option.splits)

lemma frozen_test_ops [simp]:
  "frozen (intr_window env)" "frozen (line_w env l v)" "frozen (redir_w env l vec trig)"
  "frozen (mask_w env l m)" "frozen (sti_w env)" "frozen (nop env)" "frozen (toggle_irq_line env l)"
  "frozen (sti_hlt_cli env)" "frozen (retrigger_loop k env)" "frozen (install env n name)"
  subgoal by (simp add: intr_window_def del: deliver.simps)
  subgoal by (auto simp: line_w_def intr_window_def simp del: deliver.simps)
  subgoal by (auto simp: redir_w_def intr_window_def simp del: deliver.simps)
  subgoal by (auto simp: mask_w_def intr_window_def simp del: deliver.simps)
  subgoal by (auto simp: sti_w_def intr_window_def simp del: deliver.simps)
  subgoal by (auto simp: nop_def intr_window_def simp del: deliver.simps)
  subgoal by (auto simp: toggle_irq_line_def line_w_def intr_window_def simp del: deliver.simps)
  subgoal by (auto simp: sti_hlt_cli_def intr_window_def simp del: deliver.simps)
  subgoal by (induction k) (auto simp: sti_hlt_cli_def intr_window_def simp del: deliver.simps)
  subgoal by (auto simp: install_def handle_irq_local_def set_idt_entry_def read_cs_def Let_def)
  done

lemma level_retrigger_storm:
  assumes "test_machine env" and "ready w" and "2 \<le> unat (g_isr_9a w)"
    and "unat (g_isr_9a w) + Suc (env_fuel env) < 2 ^ 32"
  shows "halted (snd (run_state (test_ioapic_level_retrigger env) w)) = Some Hang
    \<and> messages (trace (snd (run_state (test_ioapic_level_retrigger env) w))) = messages (trace w)"
proof -
  obtain f s r m t1 where facts: "pic_machine env" "install_machine env" "env_fuel env = Suc (Suc (Suc (Suc f)))"
    and start: "run_state (start_9a env) w = ((), w\<lparr>mem := m, trace := t1, irq_on := False\<rparr>)" (is "_ = ((), ?w2)")
    and d1: "dev t1 = raised_9a s r (tmr_bit (dev (trace w)))" and m1: "messages t1 = messages (trace w)"
    and h: "handler_of env m 0x9a = Some (env_sym env ''ioapic_isr_9a'')"
    by (rule run_start_9a [OF assms(1,2)])
  have w: "halted w = None" using assms(2) by (simp add: ready_def)
  let ?fmt = "''retriggered level interrupts without masking g_isr_9a=%x''"
  let ?rest = "do { sti_w env; n \<leftarrow> gets g_isr_9a; printk ?fmt [arg_word n] }"
  let ?after = "\<lambda>w'. halted w' = Some Hang \<and> messages (trace w') = messages (trace w)"
  have storm: "?after (snd (run_state (intr_window env) w'))"
    if "halted w' = None" "irq_on w'" "dev (trace w') = raised_9a s r (tmr_bit (dev (trace w)))" "mem w' = m"
      "g_isr_9a w' = g_isr_9a w" "messages (trace w') = messages (trace w)"
    for w' :: "'a ioapic_world_scheme"
    using storm_9a [of env w' s r "tmr_bit (dev (trace w))" "Suc (env_fuel env)"] that facts(1,2) h assms(3,4)
    by (auto simp: intr_window_def simp del: deliver.simps)
  have rest: "?after (snd (run_state ?rest w'))" if "?after w'" for w' :: "'a ioapic_world_scheme"
    using that by (simp add: run_frozen split_def)
  have "?after (snd (run_state (do { retrigger_loop 10 env; ?rest }) ?w2))"
  proof (cases "g_isr_9a w = 2")
    case True
    then have "run_state (retrigger_loop 10 env) ?w2 = ((), ?w2)"
      by (simp add: retrigger_loop_unfold [of 10])
    moreover have "?after (snd (run_state ?rest ?w2))"
      using storm w d1 m1 by (auto simp: sti_w_def irq_enable_def run_frozen split_def)
    ultimately show ?thesis by simp
  next
    case False
    have "?after (snd (run_state (retrigger_loop 10 env) ?w2))"
      using False storm w d1 m1
      by (auto simp: retrigger_loop_unfold [of 10] sti_hlt_cli_def run_frozen split_def)
    with rest show ?thesis by (simp add: split_def)
  qed
  then show ?thesis
    unfolding retrigger_parts using start by simp
qed

section \<open>The simultaneous test\<close>

lemma toggle_both:
  assumes p: "pic_machine env" and h: "halted w = None" "irq_on w"
    and d: "dev (trace w) = \<lparr>selected = s, regs = r, line_on = (\<lambda>l. False), remote_flag = (\<lambda>l. False),
        requested = [], in_service = [], tmr_bit = t\<rparr>"
  obtains t' where "run_state (do { redir_w env 0x0e 0x78 TRIGGER_EDGE; redir_w env 0x0f 0x66 TRIGGER_EDGE;
      irq_disable; toggle_irq_line env 0x0f; toggle_irq_line env 0x0e; irq_enable }) w
      = ((), w\<lparr>trace := t', irq_on := True\<rparr>)"
    and "dev t' = \<lparr>selected = 0x2f, regs = r(0x2c := 0x78, 0x2d := 0, 0x2e := 0x66, 0x2f := 0),
      line_on = (\<lambda>l. False), remote_flag = (\<lambda>l. False), requested = [0x78, 0x66], in_service = [],
      tmr_bit = t(0x66 := False, 0x78 := False)\<rparr>"
    and "messages t' = messages (trace w)"
proof -
  let ?t = "trace w @ [MmioW g_ioapic 0x2c, MmioW (g_ioapic + 0x10) 0x78, MmioW g_ioapic 0x2d,
    MmioW (g_ioapic + 0x10) 0, MmioW g_ioapic 0x2e, MmioW (g_ioapic + 0x10) 0x66, MmioW g_ioapic 0x2f,
    MmioW (g_ioapic + 0x10) 0, Cli, OutB 0x200f 1, OutB 0x200f 0, OutB 0x200e 1, OutB 0x200e 0, Sti]"
  have "run_state (do { redir_w env 0x0e 0x78 TRIGGER_EDGE; redir_w env 0x0f 0x66 TRIGGER_EDGE;
      irq_disable; toggle_irq_line env 0x0f; toggle_irq_line env 0x0e; irq_enable }) w
      = ((), w\<lparr>trace := ?t, irq_on := True\<rparr>)"
    using p h d by (simp add: test_ops device_defs run_set_ioapic_redir run_set_irq_line run_window(1,2) del: deliver.simps)
  moreover have "dev ?t = \<lparr>selected = 0x2f, regs = r(0x2c := 0x78, 0x2d := 0, 0x2e := 0x66, 0x2f := 0),
      line_on = (\<lambda>l. False), remote_flag = (\<lambda>l. False), requested = [0x78, 0x66], in_service = [],
      tmr_bit = t(0x66 := False, 0x78 := False)\<rparr>"
    using d by (simp add: device_defs)
  ultimately show ?thesis using that by fastforce
qed

lemma deliver_both:
  assumes "pic_machine env" "install_machine env" "halted w = None" "irq_on w"
    and d: "dev (trace w) = \<lparr>selected = s, regs = r, line_on = (\<lambda>l. False), remote_flag = (\<lambda>l. False),
        requested = [0x78, 0x66], in_service = [], tmr_bit = t\<rparr>"
    and "\<not> t 0x78" "\<not> t 0x66" "g_78 w + 1 \<noteq> 0"
    and "handler_of env (mem w) 0x78 = Some (env_sym env ''ioapic_isr_78'')"
    and "handler_of env (mem w) 0x66 = Some (env_sym env ''ioapic_isr_66'')"
  obtains t' r66 r78 where "run_state (deliver (Suc (Suc (Suc n))) env) w = ((), w\<lparr>trace := t',
      g_78 := g_78 w + 1, g_78_rip := r78, g_66 := g_66 w + 1, g_66_after_78 := g_66_after_78 w + 1, g_66_rip := r66\<rparr>)"
    and "dev t' = \<lparr>selected = s, regs = r, line_on = (\<lambda>l. False), remote_flag = (\<lambda>l. False),
        requested = [], in_service = [], tmr_bit = t\<rparr>"
    and "messages t' = messages (trace w)"
proof -
  obtain t1 r78 where t1: "run_state (take_interrupt env 0x78) w
      = ((), w\<lparr>trace := t1, g_78 := g_78 w + 1, g_78_rip := r78\<rparr>)"
    and d1: "dev t1 = (dev (trace w))\<lparr>requested := [0x66], in_service := []\<rparr>"
    and m1: "messages t1 = messages (trace w)"
    by (rule take_78 [of env w]) (use assms in auto)
  let ?w1 = "w\<lparr>trace := t1, g_78 := g_78 w + 1, g_78_rip := r78\<rparr>"
  obtain t2 r66 where t2: "run_state (take_interrupt env 0x66) ?w1
      = ((), ?w1\<lparr>trace := t2, g_66 := g_66 w + 1, g_66_after_78 := g_66_after_78 w + 1, g_66_rip := r66\<rparr>)"
    and d2: "dev t2 = (dev t1)\<lparr>requested := [], in_service := []\<rparr>"
    and m2: "messages t2 = messages t1"
    by (rule take_66 [of env ?w1]) (use assms d1 in auto)
  let ?w2 = "?w1\<lparr>trace := t2, g_66 := g_66 w + 1, g_66_after_78 := g_66_after_78 w + 1, g_66_rip := r66\<rparr>"
  have "run_state (deliver (Suc (Suc (Suc n))) env) w = run_state (deliver (Suc (Suc n)) env) ?w1"
    using assms t1 by (intro run_deliver_take) (auto simp: pending_vector_def)
  also have "\<dots> = run_state (deliver (Suc n) env) ?w2"
    using assms t2 d1 by (intro run_deliver_take) (auto simp: pending_vector_def)
  also have "\<dots> = ((), ?w2)"
    using assms d1 d2 by (subst run_window(1)) (auto simp: pending_vector_def)
  finally have "run_state (deliver (Suc (Suc (Suc n))) env) w = ((), ?w2)" .
  then have "run_state (deliver (Suc (Suc (Suc n))) env) w = ((), w\<lparr>trace := t2, g_78 := g_78 w + 1,
      g_78_rip := r78, g_66 := g_66 w + 1, g_66_after_78 := g_66_after_78 w + 1, g_66_rip := r66\<rparr>)"
    by simp
  then show ?thesis by (rule that) (use d1 d2 d m1 m2 in simp_all)
qed

text \<open>Both handlers run at the window after STI, the one for the higher vector first.\<close>

lemma simultaneous_interrupts:
  assumes "test_machine env" and "ready w" and "g_78 w + 1 \<noteq> 0"
  obtains t m r66 r78 where "run_state (do {
      install env 0x78 ''ioapic_isr_78''; install env 0x66 ''ioapic_isr_66'';
      redir_w env 0x0e 0x78 TRIGGER_EDGE; redir_w env 0x0f 0x66 TRIGGER_EDGE;
      irq_disable; toggle_irq_line env 0x0f; toggle_irq_line env 0x0e; sti_w env; nop env }) w
      = ((), w\<lparr>trace := t, mem := m, g_78 := g_78 w + 1, g_78_rip := r78, g_66 := g_66 w + 1,
        g_66_after_78 := g_66_after_78 w + 1, g_66_rip := r66\<rparr>)"
    and "idle (dev t)" and "tmr_bit (dev t) = (tmr_bit (dev (trace w)))(0x66 := False, 0x78 := False)"
    and "messages t = messages (trace w)"
proof -
  let ?t1 = "trace w @ [Call ''vmalloc'' [AInt 50], Insn ''mov %cs'' []]"
  let ?m = "install_mem env 0x66 ''ioapic_isr_66'' ?t1 (install_mem env 0x78 ''ioapic_isr_78'' (trace w) (mem w))"
  obtain f s r t where facts: "pic_machine env" "install_machine env"
      "env_fuel env = Suc (Suc (Suc (Suc f)))" "halted w = None" "irq_on w"
      "dev (trace w) = \<lparr>selected = s, regs = r, line_on = (\<lambda>l. False), remote_flag = (\<lambda>l. False),
        requested = [], in_service = [], tmr_bit = t\<rparr>"
    by (rule test_setup [OF assms(1,2), of "0x78" "''ioapic_isr_78''"]) (simp, blast)
  let ?w1 = "w\<lparr>trace := ?t1 @ [Call ''vmalloc'' [AInt 50], Insn ''mov %cs'' []], mem := ?m\<rparr>"
  have h: "handler_of env ?m 0x78 = Some (env_sym env ''ioapic_isr_78'')"
    "handler_of env ?m 0x66 = Some (env_sym env ''ioapic_isr_66'')"
    using facts(2) by (simp_all add: handler_of_install handler_of_install_two)
  have i: "run_state (do { install env 0x78 ''ioapic_isr_78''; install env 0x66 ''ioapic_isr_66'' }) w = ((), ?w1)"
    using facts by (simp add: run_install)
  obtain t2 where r2: "run_state (do { redir_w env 0x0e 0x78 TRIGGER_EDGE; redir_w env 0x0f 0x66 TRIGGER_EDGE;
      irq_disable; toggle_irq_line env 0x0f; toggle_irq_line env 0x0e; irq_enable }) ?w1
      = ((), ?w1\<lparr>trace := t2, irq_on := True\<rparr>)"
    and d2: "dev t2 = \<lparr>selected = 0x2f, regs = r(0x2c := 0x78, 0x2d := 0, 0x2e := 0x66, 0x2f := 0),
      line_on = (\<lambda>l. False), remote_flag = (\<lambda>l. False), requested = [0x78, 0x66], in_service = [],
      tmr_bit = t(0x66 := False, 0x78 := False)\<rparr>" and m2: "messages t2 = messages (trace w)"
    by (rule toggle_both [of env ?w1 s r t]) (use facts in auto)
  have on: "?w1\<lparr>trace := t2, irq_on := True\<rparr> = ?w1\<lparr>trace := t2\<rparr>" using facts(5) by simp
  obtain t3 r66 r78 where r3: "run_state (intr_window env) (?w1\<lparr>trace := t2\<rparr>) = ((), ?w1\<lparr>trace := t3,
      g_78 := g_78 w + 1, g_78_rip := r78, g_66 := g_66 w + 1, g_66_after_78 := g_66_after_78 w + 1, g_66_rip := r66\<rparr>)"
    and d3: "dev t3 = (dev t2)\<lparr>requested := []\<rparr>" and m3: "messages t3 = messages t2"
    unfolding intr_window_def facts(3)
    by (rule deliver_both [of env "?w1\<lparr>trace := t2\<rparr>" "0x2f"
          "r(0x2c := 0x78, 0x2d := 0, 0x2e := 0x66, 0x2f := 0)" "t(0x66 := False, 0x78 := False)", where n = "Suc (Suc f)"])
      (use facts assms(3) d2 h in \<open>auto simp del: deliver.simps\<close>)
  let ?w3 = "?w1\<lparr>trace := t3,
      g_78 := g_78 w + 1, g_78_rip := r78, g_66 := g_66 w + 1, g_66_after_78 := g_66_after_78 w + 1, g_66_rip := r66\<rparr>"
  have n: "run_state (nop env) ?w3 = ((), ?w3)"
    using facts d2 d3 unfolding nop_def intr_window_def by (subst run_window(1)) (auto simp: pending_vector_def)
  have "run_state (do { do { install env 0x78 ''ioapic_isr_78''; install env 0x66 ''ioapic_isr_66'' };
      do { redir_w env 0x0e 0x78 TRIGGER_EDGE; redir_w env 0x0f 0x66 TRIGGER_EDGE;
        irq_disable; toggle_irq_line env 0x0f; toggle_irq_line env 0x0e; irq_enable };
      intr_window env; nop env }) w = ((), ?w3)"
    by (intro run_seq [OF i] run_seq [OF r2 [unfolded on]] run_seq [OF r3] n)
  then show ?thesis
    using d2 d3 m2 m3 facts(6) that [of r66 r78 ?m t3] by (simp add: sti_w_def idle_def)
qed

lemma simultaneous_result:
  assumes "test_machine env" and "ready w" and "g_78 w + 1 \<noteq> 0"
  shows "\<exists>t m r66 r78. run_state (test_ioapic_simultaneous env) w = ((), w\<lparr>trace := t, mem := m,
      g_78 := g_78 w + 1, g_78_rip := r78, g_66 := g_66 w + 1, g_66_after_78 := g_66_after_78 w + 1,
      g_66_rip := r66\<rparr>)
    \<and> idle (dev t) \<and> tmr_bit (dev t) = (tmr_bit (dev (trace w)))(0x66 := False, 0x78 := False)
    \<and> messages t = messages (trace w) @ [Printk ''ioapic simultaneous edge interrupts, g_66 && g_78 && g_66_after_78 && g_66_rip=Dec%d, g_78_rip=Dec%ld''
       [arg_bool (g_66 w + 1 \<noteq> 0 \<and> g_66_after_78 w + 1 \<noteq> 0 \<and> r66 \<noteq> 0), arg_word r78]]"
proof -
  obtain t m r66 r78 where run: "run_state (do {
      install env 0x78 ''ioapic_isr_78''; install env 0x66 ''ioapic_isr_66'';
      redir_w env 0x0e 0x78 TRIGGER_EDGE; redir_w env 0x0f 0x66 TRIGGER_EDGE;
      irq_disable; toggle_irq_line env 0x0f; toggle_irq_line env 0x0e; sti_w env; nop env }) w
      = ((), w\<lparr>trace := t, mem := m, g_78 := g_78 w + 1, g_78_rip := r78, g_66 := g_66 w + 1,
        g_66_after_78 := g_66_after_78 w + 1, g_66_rip := r66\<rparr>)" (is "_ = ((), ?w3)")
    and t: "idle (dev t)" "tmr_bit (dev t) = (tmr_bit (dev (trace w)))(0x66 := False, 0x78 := False)"
      "messages t = messages (trace w)"
    by (rule simultaneous_interrupts [OF assms])
  let ?fmt = "''ioapic simultaneous edge interrupts, g_66 && g_78 && g_66_after_78 && g_66_rip=Dec%d, g_78_rip=Dec%ld''"
  let ?msg = "Printk ?fmt [arg_bool (g_66 w + 1 \<noteq> 0 \<and> g_66_after_78 w + 1 \<noteq> 0 \<and> r66 \<noteq> 0), arg_word r78]"
  have "run_state (do { n66 \<leftarrow> gets g_66; n78 \<leftarrow> gets g_78; after \<leftarrow> gets g_66_after_78;
     rip66 \<leftarrow> gets g_66_rip; rip78 \<leftarrow> gets g_78_rip;
     printk ?fmt [arg_bool (n66 \<noteq> 0 \<and> n78 \<noteq> 0 \<and> after \<noteq> 0 \<and> rip66 \<noteq> 0), arg_word rip78] }) ?w3
      = ((), ?w3\<lparr>trace := t @ [?msg]\<rparr>)"
    using assms by (simp add: ready_def)
  from run_seq [OF run this] show ?thesis
    using t by (intro exI [of _ "t @ [?msg]"] exI [of _ m] exI [of _ r66] exI [of _ r78])
      (simp add: test_ioapic_simultaneous_def idle_def)
qed

end
