(* ===== verification/IoapicRuns.thy ===== *)
theory IoapicRuns
  imports IoapicResults
begin

text \<open>
  The sequence of interrupt tests of \<open>src/pcm-unit/driver/ioapic.c\<close> as a whole: what a first run
  reports, that a second run does not end, that nothing of it runs when the first page is not
  mapped; and a machine on which the hypotheses hold.
\<close>

section \<open>A machine the tests run on\<close>

definition stub_count :: "ev list \<Rightarrow> nat" where
  "stub_count t = length (filter (\<lambda>e. e = Call ''vmalloc'' [AInt 50]) t)"

definition pc_env :: env where
  "pc_env = calm_env\<lparr>
     env_intr := (\<lambda>t. pending_vector (dev t)),
     env_mmio := (\<lambda>t a. read_reg (dev t)),
     env_call := (\<lambda>t n a.
       if n = ''vmalloc'' then (if even (stub_count t) then 0x10000 else 0x10040)
       else if n = ''apic_read'' then (if tmr_bit (dev t) 0x79 then push_bit 25 1 else 0)
       else 0),
     env_sym := (\<lambda>n. of_nat (length (takeWhile (\<lambda>m. m \<noteq> n) isr_names)))\<rparr>"

lemma pc_env_test_machine: "test_machine pc_env"
proof -
  have pic: "pic_machine pc_env"
    by (simp add: pic_machine_def pc_env_def calm_env_def bit_simps)
  have stub: "stub_at pc_env t = of_nat (if even (stub_count t) then 0x10000 else 0x10040)" for t
    by (simp add: stub_at_def pc_env_def)
  have d: "disjoint_ranges (of_nat x) n (of_nat y) m"
    if "x + n \<le> y \<or> y + m \<le> x" "x + n \<le> 2 ^ 63" "y + m \<le> 2 ^ 63" for x n y m
    using disjoint_offsets [OF that, of 0] by simp
  have gate: "gate_address boot_idt v = of_nat (16 * v)" for v
    by (simp add: gate_address_def boot_idt_def)
  have fits: "fits32 (env_sym pc_env ''isr_entry_point'' - (stub_at pc_env t + 24))" for t
    by (simp add: pc_env_def isr_names_def stub_at_def fits32_def sint_uint)
  have inj: "inj_on (env_sym pc_env) (set isr_names)"
    by (simp add: pc_env_def isr_names_def)
  have two: "disjoint_ranges (stub_at pc_env (t @ [Call ''vmalloc'' [AInt 50], Insn ''mov %cs'' []])) 24
      (stub_at pc_env t) 24" for t
    unfolding stub by (rule d) (auto simp: stub_count_def)
  have g1: "disjoint_ranges (stub_at pc_env t) 24 (gate_address boot_idt v) 16" if "v < 256" for t v
    unfolding stub gate by (rule d) (use that in auto)
  have g2: "disjoint_ranges (gate_address boot_idt v) 16 (stub_at pc_env t) 24" if "v < 256" for t v
    unfolding stub gate by (rule d) (use that in auto)
  have ok: "install_ok pc_env v t" for v t
    by (simp add: install_ok_def mapped_range_def pc_env_def calm_env_def)
  have "env_idtr pc_env = boot_idt" by (simp add: pc_env_def calm_env_def boot_idt_def)
  with inj two g1 g2 ok fits have "install_machine pc_env" by (simp add: install_machine_def)
  moreover have "4 \<le> env_fuel pc_env" by (simp add: pc_env_def calm_env_def)
  ultimately show ?thesis using pic by (simp add: test_machine_def)
qed

lemma ioapic_start_ready: "ready ioapic_start" "ready (ioapic_start\<lparr>g_isr_9a := 2\<rparr>)"
  by (simp_all add: ready_def ioapic_start_def idle_def dev_def dev0_def)

section \<open>What the tests report\<close>

definition report_intr :: "u32 \<Rightarrow> u32 \<Rightarrow> ev list" where
  "report_intr n76 n77 = [
     Printk ''edge triggered intr, g_isr_76=%x'' [arg_word n76],
     Printk ''level triggered intr, g_isr_77=%x'' [arg_word n77]]"

definition report_simultaneous :: "bool \<Rightarrow> u64 \<Rightarrow> ev list" where
  "report_simultaneous ok r78 = [Printk ''ioapic simultaneous edge interrupts, g_66 && g_78 && g_66_after_78 && g_66_rip=Dec%d, g_78_rip=Dec%ld''
     [arg_bool ok, arg_word r78]]"

definition report_level :: "u32 \<Rightarrow> u32 \<Rightarrow> ev list" where
  "report_level n98 n99 = [
     Printk ''coalesce simultaneous level interrupts g_isr_98=%x,'' [arg_word n98],
     Printk ''sequential level interrupts g_isr_99=%x'' [arg_word n99]]"

definition report_mask :: "u32 \<Rightarrow> u32 \<Rightarrow> u32 \<Rightarrow> ev list" where
  "report_mask n81 n82 n83 = [
     Printk ''masked level interrupt g_isr_81=%x'' [arg_word n81],
     Printk ''unmasked level interrupt g_isr_81=%x'' [arg_word (n81 + 1)],
     Printk ''masked level interrupt g_isr_82=%x'' [arg_word n82],
     Printk ''unmasked level interrupt g_isr_82=%x'' [arg_word (n82 + 1)],
     Printk ''retriggered level interrupts with mask g_isr_83=%x'' [arg_word (n83 + 2)]]"

definition report_tmr :: "bool \<Rightarrow> ev list" where
  "report_tmr before = [
     Printk ''TMR for ioapic edge interrupts, tmr_before=%x, expected_tmr_before=%x, g_tmr_79=%x'' [arg_bool before, AInt 0, AInt 0],
     Printk ''TMR for ioapic level interrupts, tmr_before=%x, expected_tmr_before=%x, g_tmr_79=%x'' [AInt 0, AInt 0, AInt 1],
     Printk ''TMR for ioapic level interrupts, tmr_before=%x, expected_tmr_before=%x, g_tmr_79=%x'' [AInt 1, AInt 1, AInt 1],
     Printk ''TMR for ioapic edge interrupts, tmr_before=%x, expected_tmr_before=%x, g_tmr_79=%x'' [AInt 1, AInt 1, AInt 0]]"

section \<open>Groups of tests\<close>

lemma first_group:
  assumes e: "test_machine env" and r: "ready w" and g: "g_78 w + 1 \<noteq> 0"
  shows "\<exists>t m r66 r78. run_state (do {
      test_ioapic_edge_intr env; test_ioapic_level_intr env; test_ioapic_simultaneous env;
      test_ioapic_level_coalesce env; test_ioapic_level_sequential env }) w = ((), w\<lparr>
        g_isr_76 := g_isr_76 w + 1, g_isr_77 := g_isr_77 w + 1,
        g_78 := g_78 w + 1, g_78_rip := r78, g_66 := g_66 w + 1, g_66_after_78 := g_66_after_78 w + 1, g_66_rip := r66,
        g_isr_98 := g_isr_98 w + 1, g_isr_99 := g_isr_99 w + 2, trace := t, mem := m\<rparr>)
    \<and> idle (dev t) \<and> tmr_bit (dev t) 0x79 = tmr_bit (dev (trace w)) 0x79
    \<and> messages t = messages (trace w) @ report_intr (g_isr_76 w + 1) (g_isr_77 w + 1)
       @ report_simultaneous (g_66 w + 1 \<noteq> 0 \<and> g_66_after_78 w + 1 \<noteq> 0 \<and> r66 \<noteq> 0) r78
       @ report_level (g_isr_98 w + 1) (g_isr_99 w + 2)"
proof -
  obtain t1 m1 where 1: "run_state (test_ioapic_edge_intr env) w
      = ((), w\<lparr>trace := t1, mem := m1, g_isr_76 := g_isr_76 w + 1\<rparr>)" (is "_ = ((), ?w1)")
    "idle (dev t1)" "tmr_bit (dev t1) 0x79 = tmr_bit (dev (trace w)) 0x79"
    "messages t1 = messages (trace w) @ [Printk ''edge triggered intr, g_isr_76=%x'' [arg_word (g_isr_76 w + 1)]]"
    using edge_intr_result [OF e r] by auto
  have r1: "ready ?w1" using r 1(2) by (simp add: ready_def)
  obtain t2 m2 where 2: "run_state (test_ioapic_level_intr env) ?w1
      = ((), ?w1\<lparr>trace := t2, mem := m2, g_isr_77 := g_isr_77 w + 1\<rparr>)" (is "_ = ((), ?w2)")
    "idle (dev t2)" "tmr_bit (dev t2) 0x79 = tmr_bit (dev t1) 0x79"
    "messages t2 = messages t1 @ [Printk ''level triggered intr, g_isr_77=%x'' [arg_word (g_isr_77 w + 1)]]"
    using level_intr_result [OF e r1] by auto
  have r2: "ready ?w2" using r 2(2) by (simp add: ready_def)
  obtain t3 m3 r66 r78 where 3: "run_state (test_ioapic_simultaneous env) ?w2
      = ((), ?w2\<lparr>trace := t3, mem := m3, g_78 := g_78 w + 1, g_78_rip := r78, g_66 := g_66 w + 1,
          g_66_after_78 := g_66_after_78 w + 1, g_66_rip := r66\<rparr>)" (is "_ = ((), ?w3)")
    "idle (dev t3)" "tmr_bit (dev t3) 0x79 = tmr_bit (dev t2) 0x79"
    "messages t3 = messages t2 @ report_simultaneous (g_66 w + 1 \<noteq> 0 \<and> g_66_after_78 w + 1 \<noteq> 0 \<and> r66 \<noteq> 0) r78"
    using simultaneous_result [OF e r2] g by (auto simp: report_simultaneous_def)
  have r3: "ready ?w3" using r 3(2) by (simp add: ready_def)
  obtain t4 m4 where 4: "run_state (test_ioapic_level_coalesce env) ?w3
      = ((), ?w3\<lparr>trace := t4, mem := m4, g_isr_98 := g_isr_98 w + 1\<rparr>)" (is "_ = ((), ?w4)")
    "idle (dev t4)" "tmr_bit (dev t4) 0x79 = tmr_bit (dev t3) 0x79"
    "messages t4 = messages t3 @ [Printk ''coalesce simultaneous level interrupts g_isr_98=%x,'' [arg_word (g_isr_98 w + 1)]]"
    using level_coalesce_result [OF e r3] by auto
  have r4: "ready ?w4" using r 4(2) by (simp add: ready_def)
  obtain t5 m5 where 5: "run_state (test_ioapic_level_sequential env) ?w4
      = ((), ?w4\<lparr>trace := t5, mem := m5, g_isr_99 := g_isr_99 w + 2\<rparr>)" (is "_ = ((), ?w5)")
    "idle (dev t5)" "tmr_bit (dev t5) 0x79 = tmr_bit (dev t4) 0x79"
    "messages t5 = messages t4 @ [Printk ''sequential level interrupts g_isr_99=%x'' [arg_word (g_isr_99 w + 2)]]"
    using level_sequential_result [OF e r4] by auto
  have "?w5 = w\<lparr>g_isr_76 := g_isr_76 w + 1, g_isr_77 := g_isr_77 w + 1,
        g_78 := g_78 w + 1, g_78_rip := r78, g_66 := g_66 w + 1, g_66_after_78 := g_66_after_78 w + 1, g_66_rip := r66,
        g_isr_98 := g_isr_98 w + 1, g_isr_99 := g_isr_99 w + 2, trace := t5, mem := m5\<rparr>"
    by simp
  then show ?thesis
    using run_seq [OF 1(1) run_seq [OF 2(1) run_seq [OF 3(1) run_seq [OF 4(1) 5(1)]]]]
      1(2-4) 2(2-4) 3(2-4) 4(2-4) 5(2-4)
    by (intro exI [of _ t5] exI [of _ m5] exI [of _ r66] exI [of _ r78] conjI)
      (simp_all only: report_intr_def report_level_def append_assoc append.simps)
qed

lemma mask_group:
  assumes e: "test_machine env" and r: "ready w"
  shows "\<exists>t m. run_state (do { test_ioapic_edge_mask env; test_ioapic_level_mask env;
        test_ioapic_level_retrigger_mask env }) w = ((), w\<lparr>
        g_isr_81 := g_isr_81 w + 1, g_isr_82 := g_isr_82 w + 1, g_isr_83 := g_isr_83 w + 2, trace := t, mem := m\<rparr>)
    \<and> idle (dev t) \<and> tmr_bit (dev t) 0x79 = tmr_bit (dev (trace w)) 0x79
    \<and> messages t = messages (trace w) @ report_mask (g_isr_81 w) (g_isr_82 w) (g_isr_83 w)"
proof -
  obtain t1 m1 where 1: "run_state (test_ioapic_edge_mask env) w
      = ((), w\<lparr>trace := t1, mem := m1, g_isr_81 := g_isr_81 w + 1\<rparr>)" (is "_ = ((), ?w1)")
    "idle (dev t1)" "tmr_bit (dev t1) 0x79 = tmr_bit (dev (trace w)) 0x79"
    "messages t1 = messages (trace w) @ take 2 (report_mask (g_isr_81 w) (g_isr_82 w) (g_isr_83 w))"
    using edge_mask_result [OF e r] by (auto simp: report_mask_def)
  have r1: "ready ?w1" using r 1(2) by (simp add: ready_def)
  obtain t2 m2 where 2: "run_state (test_ioapic_level_mask env) ?w1
      = ((), ?w1\<lparr>trace := t2, mem := m2, g_isr_82 := g_isr_82 w + 1\<rparr>)" (is "_ = ((), ?w2)")
    "idle (dev t2)" "tmr_bit (dev t2) 0x79 = tmr_bit (dev t1) 0x79"
    "messages t2 = messages t1 @ take 2 (drop 2 (report_mask (g_isr_81 w) (g_isr_82 w) (g_isr_83 w)))"
    using level_mask_result [OF e r1] by (auto simp: report_mask_def)
  have r2: "ready ?w2" using r 2(2) by (simp add: ready_def)
  obtain t3 m3 where 3: "run_state (test_ioapic_level_retrigger_mask env) ?w2
      = ((), ?w2\<lparr>trace := t3, mem := m3, g_isr_83 := g_isr_83 w + 2\<rparr>)" (is "_ = ((), ?w3)")
    "idle (dev t3)" "tmr_bit (dev t3) 0x79 = tmr_bit (dev t2) 0x79"
    "messages t3 = messages t2 @ drop 4 (report_mask (g_isr_81 w) (g_isr_82 w) (g_isr_83 w))"
    using level_retrigger_mask_result [OF e r2] by (auto simp: report_mask_def)
  have "?w3 = w\<lparr>g_isr_81 := g_isr_81 w + 1, g_isr_82 := g_isr_82 w + 1, g_isr_83 := g_isr_83 w + 2,
      trace := t3, mem := m3\<rparr>"
    by simp
  then show ?thesis
    using run_seq [OF 1(1) run_seq [OF 2(1) 3(1)]] 1(2-4) 2(2-4) 3(2-4)
    by (intro exI [of _ t3] exI [of _ m3] conjI) (simp_all add: report_mask_def)
qed

lemma tmr_group:
  assumes e: "test_machine env" and r: "ready w"
  shows "\<exists>t m. run_state (do { test_ioapic_edge_tmr env False; test_ioapic_level_tmr env False;
        test_ioapic_level_tmr env True; test_ioapic_edge_tmr env True }) w
        = ((), w\<lparr>g_tmr_79 := 0, trace := t, mem := m\<rparr>)
    \<and> idle (dev t) \<and> \<not> tmr_bit (dev t) 0x79
    \<and> messages t = messages (trace w) @ report_tmr (tmr_bit (dev (trace w)) 0x79)"
proof -
  let ?rep = "report_tmr (tmr_bit (dev (trace w)) 0x79)"
  obtain t1 m1 where 1: "run_state (test_ioapic_edge_tmr env False) w
      = ((), w\<lparr>trace := t1, mem := m1, g_tmr_79 := 0\<rparr>)" (is "_ = ((), ?w1)")
    "idle (dev t1)" "\<not> tmr_bit (dev t1) 0x79" "messages t1 = messages (trace w) @ take 1 ?rep"
    using edge_tmr_result [OF e r, of False] by (auto simp: report_tmr_def)
  have r1: "ready ?w1" using r 1(2) by (simp add: ready_def)
  obtain t2 m2 where 2: "run_state (test_ioapic_level_tmr env False) ?w1
      = ((), ?w1\<lparr>trace := t2, mem := m2, g_tmr_79 := 1\<rparr>)" (is "_ = ((), ?w2)")
    "idle (dev t2)" "tmr_bit (dev t2) 0x79" "messages t2 = messages t1 @ take 1 (drop 1 ?rep)"
    using level_tmr_result [OF e r1, of False] 1(3) by (auto simp: report_tmr_def)
  have r2: "ready ?w2" using r 2(2) by (simp add: ready_def)
  obtain t3 m3 where 3: "run_state (test_ioapic_level_tmr env True) ?w2
      = ((), ?w2\<lparr>trace := t3, mem := m3, g_tmr_79 := 1\<rparr>)" (is "_ = ((), ?w3)")
    "idle (dev t3)" "tmr_bit (dev t3) 0x79" "messages t3 = messages t2 @ take 1 (drop 2 ?rep)"
    using level_tmr_result [OF e r2, of True] 2(3) by (auto simp: report_tmr_def)
  have r3: "ready ?w3" using r 3(2) by (simp add: ready_def)
  obtain t4 m4 where 4: "run_state (test_ioapic_edge_tmr env True) ?w3
      = ((), ?w3\<lparr>trace := t4, mem := m4, g_tmr_79 := 0\<rparr>)" (is "_ = ((), ?w4)")
    "idle (dev t4)" "\<not> tmr_bit (dev t4) 0x79" "messages t4 = messages t3 @ drop 3 ?rep"
    using edge_tmr_result [OF e r3, of True] 3(3) by (auto simp: report_tmr_def)
  have "?w4 = w\<lparr>g_tmr_79 := 0, trace := t4, mem := m4\<rparr>" by simp
  then show ?thesis
    using run_seq [OF 1(1) run_seq [OF 2(1) run_seq [OF 3(1) 4(1)]]] 1(4) 2(4) 3(4) 4(2-4)
    by (intro exI [of _ t4] exI [of _ m4] conjI) (simp_all add: report_tmr_def)
qed

section \<open>The whole sequence\<close>

lemma one_cpu_groups:
  "test_ioapic_one_cpu env = do {
     do { test_ioapic_edge_intr env; test_ioapic_level_intr env; test_ioapic_simultaneous env;
       test_ioapic_level_coalesce env; test_ioapic_level_sequential env };
     test_ioapic_level_retrigger env;
     do { test_ioapic_edge_mask env; test_ioapic_level_mask env; test_ioapic_level_retrigger_mask env };
     do { test_ioapic_edge_tmr env False; test_ioapic_level_tmr env False;
        test_ioapic_level_tmr env True; test_ioapic_edge_tmr env True } }"
  by (simp add: test_ioapic_one_cpu_def)

lemma frozen_delay [simp]: "frozen (delay n)"
  by (induction n) auto

lemma frozen_remote [simp]: "frozen remote_step"
  by (auto simp: remote_step_def toggle_irq_line_0x0e_def set_irq_line_0x0e_def split: list.splits)

lemma frozen_wait [simp]: "frozen (wait_tmr env)"
  by (auto simp: wait_tmr_def intro!: frozen_loop)

lemma frozen_smp_call [simp]: "frozen (smp_call_function_single env n name)"
  by (auto simp: smp_call_function_single_def)

lemma frozen_tests:
  "frozen (test_ioapic_level_intr env)" "frozen (test_ioapic_simultaneous env)"
  "frozen (test_ioapic_level_coalesce env)" "frozen (test_ioapic_level_sequential env)"
  "frozen (test_ioapic_level_retrigger env)" "frozen (test_ioapic_edge_mask env)"
  "frozen (test_ioapic_level_mask env)" "frozen (test_ioapic_level_retrigger_mask env)"
  "frozen (test_ioapic_edge_tmr env x)" "frozen (test_ioapic_level_tmr env x)"
  "frozen (test_ioapic_edge_tmr_smp env x)" "frozen (test_ioapic_level_tmr_smp env x)"
  by (auto simp: test_ioapic_level_intr_def test_ioapic_simultaneous_def test_ioapic_level_coalesce_def
      test_ioapic_level_sequential_def test_ioapic_level_retrigger_def test_ioapic_edge_mask_def
      test_ioapic_level_mask_def test_ioapic_level_retrigger_mask_def test_ioapic_edge_tmr_def
      test_ioapic_level_tmr_def test_ioapic_edge_tmr_smp_def test_ioapic_level_tmr_smp_def)

lemma test_ioapic_frozen_rest:
  "\<exists>rest. frozen rest \<and> test_ioapic env = do {
     test_ioapic_registers env; install env 0x76 ''ioapic_isr_76''; rest }"
  unfolding test_ioapic_def test_ioapic_one_cpu_def test_ioapic_edge_intr_def bind_assoc
  by (rule exI, rule conjI [rotated], rule refl)
    (auto simp: frozen_tests toggle_irq_line_def [symmetric])

text \<open>The first run on one CPU: exactly the interrupts that the comments of the tests promise.\<close>

lemma one_cpu_first_run:
  assumes "test_machine env" and "ready w" and "\<not> tmr_bit (dev (trace w)) 0x79"
    and "g_isr_76 w = 0" "g_isr_77 w = 0" "g_78 w = 0" "g_66 w = 0" "g_66_after_78 w = 0"
      "g_isr_98 w = 0" "g_isr_99 w = 0" "g_isr_9a w = 0" "g_isr_81 w = 0" "g_isr_82 w = 0" "g_isr_83 w = 0"
  obtains w' where "run_state (test_ioapic_one_cpu env) w = ((), w')" and "ready w'"
    and "remote_cpu w' = remote_cpu w" and "g_isr_9a w' = 2" and "g_78 w' = 1"
    and "g_isr_76 w' = 1" and "g_isr_77 w' = 1" and "g_isr_98 w' = 1" and "g_isr_99 w' = 2"
    and "\<not> tmr_bit (dev (trace w')) 0x79"
    and "messages (trace w') = messages (trace w) @ report_intr 1 1
      @ report_simultaneous (g_66_rip w' \<noteq> 0) (g_78_rip w') @ report_level 1 2
      @ [Printk ''retriggered level interrupts without masking g_isr_9a=%x'' [AInt 2]]
      @ report_mask 0 0 0 @ report_tmr False"
proof -
  obtain t1 m1 r66 r78 where 1: "run_state (do { test_ioapic_edge_intr env; test_ioapic_level_intr env;
      test_ioapic_simultaneous env; test_ioapic_level_coalesce env; test_ioapic_level_sequential env }) w
      = ((), w\<lparr>g_isr_76 := 1, g_isr_77 := 1, g_78 := 1, g_78_rip := r78, g_66 := 1, g_66_after_78 := 1,
        g_66_rip := r66, g_isr_98 := 1, g_isr_99 := 2, trace := t1, mem := m1\<rparr>)" (is "_ = ((), ?w1)")
    "idle (dev t1)" "\<not> tmr_bit (dev t1) 0x79"
    "messages t1 = messages (trace w) @ report_intr 1 1 @ report_simultaneous (r66 \<noteq> 0) r78 @ report_level 1 2"
    using first_group [OF assms(1,2)] assms(3-) by auto
  have r1: "ready ?w1" and z1: "g_isr_9a ?w1 = 0" using assms 1(2) by (simp_all add: ready_def)
  obtain t2 m2 where 2: "run_state (test_ioapic_level_retrigger env) ?w1
      = ((), ?w1\<lparr>trace := t2, mem := m2, g_isr_9a := 2\<rparr>)" (is "_ = ((), ?w2)")
    "idle (dev t2)" "tmr_bit (dev t2) 0x79 = tmr_bit (dev t1) 0x79"
    "messages t2 = messages t1 @ [Printk ''retriggered level interrupts without masking g_isr_9a=%x'' [AInt 2]]"
    using level_retrigger_result [OF assms(1) r1 z1] by auto
  have r2: "ready ?w2" using assms(2) 2(2) by (simp add: ready_def)
  obtain t3 m3 where 3: "run_state (do { test_ioapic_edge_mask env; test_ioapic_level_mask env;
      test_ioapic_level_retrigger_mask env }) ?w2 = ((), ?w2\<lparr>g_isr_81 := 1, g_isr_82 := 1, g_isr_83 := 2,
        trace := t3, mem := m3\<rparr>)" (is "_ = ((), ?w3)")
    "idle (dev t3)" "tmr_bit (dev t3) 0x79 = tmr_bit (dev t2) 0x79"
    "messages t3 = messages t2 @ report_mask 0 0 0"
    using mask_group [OF assms(1) r2] assms by auto
  have r3: "ready ?w3" using assms(2) 3(2) by (simp add: ready_def)
  obtain t4 m4 where 4: "run_state (do { test_ioapic_edge_tmr env False; test_ioapic_level_tmr env False;
        test_ioapic_level_tmr env True; test_ioapic_edge_tmr env True }) ?w3
        = ((), ?w3\<lparr>g_tmr_79 := 0, trace := t4, mem := m4\<rparr>)" (is "_ = ((), ?w4)")
    "idle (dev t4)" "messages t4 = messages t3 @ report_tmr False" "\<not> tmr_bit (dev t4) 0x79"
    using tmr_group [OF assms(1) r3] 1(3) 2(3) 3(3) by auto
  have run: "run_state (test_ioapic_one_cpu env) w = ((), ?w4)"
    unfolding one_cpu_groups by (rule run_seq [OF 1(1) run_seq [OF 2(1) run_seq [OF 3(1) 4(1)]]])
  have "ready ?w4" using assms(2) 4(2) by (simp add: ready_def)
  with run show ?thesis
    using 1(4) 2(4) 3(4) 4(3,4) by (intro that [of ?w4]) simp_all
qed

text \<open>
  A second run: the counter of the retrigger test is not reset, its handler lowers the line only when
  the counter is 2, and so the interrupt is delivered again and again.
\<close>

lemma one_cpu_second_run:
  assumes "test_machine env" and "ready w" and "g_78 w + 1 \<noteq> 0" and "2 \<le> unat (g_isr_9a w)"
    and "unat (g_isr_9a w) + Suc (env_fuel env) < 2 ^ 32"
  obtains w' ok r78 where "run_state (test_ioapic_one_cpu env) w = ((), w')" and "halted w' = Some Hang"
    and "messages (trace w') = messages (trace w)
      @ report_intr (g_isr_76 w + 1) (g_isr_77 w + 1) @ report_simultaneous ok r78
      @ report_level (g_isr_98 w + 1) (g_isr_99 w + 2)"
proof -
  obtain t1 m1 r66 r78 ok where 1: "run_state (do { test_ioapic_edge_intr env; test_ioapic_level_intr env;
      test_ioapic_simultaneous env; test_ioapic_level_coalesce env; test_ioapic_level_sequential env }) w
      = ((), w\<lparr>g_isr_76 := g_isr_76 w + 1, g_isr_77 := g_isr_77 w + 1,
        g_78 := g_78 w + 1, g_78_rip := r78, g_66 := g_66 w + 1, g_66_after_78 := g_66_after_78 w + 1, g_66_rip := r66,
        g_isr_98 := g_isr_98 w + 1, g_isr_99 := g_isr_99 w + 2, trace := t1, mem := m1\<rparr>)" (is "_ = ((), ?w1)")
    "idle (dev t1)"
    "messages t1 = messages (trace w) @ report_intr (g_isr_76 w + 1) (g_isr_77 w + 1)
       @ report_simultaneous ok r78 @ report_level (g_isr_98 w + 1) (g_isr_99 w + 2)"
    using first_group [OF assms(1-3)] by blast
  have r1: "ready ?w1" using assms 1(2) by (simp_all add: ready_def)
  let ?w2 = "snd (run_state (test_ioapic_level_retrigger env) ?w1)"
  have 2: "run_state (test_ioapic_level_retrigger env) ?w1 = ((), ?w2)" by (simp add: prod_eq_iff)
  have h: "halted ?w2 = Some Hang" and m: "messages (trace ?w2) = messages t1"
    using level_retrigger_storm [OF assms(1) r1] assms(4,5) by simp_all
  let ?rest = "do { do { test_ioapic_edge_mask env; test_ioapic_level_mask env; test_ioapic_level_retrigger_mask env };
     do { test_ioapic_edge_tmr env False; test_ioapic_level_tmr env False;
        test_ioapic_level_tmr env True; test_ioapic_edge_tmr env True } }"
  have "frozen ?rest"
    by (auto simp: test_ioapic_edge_mask_def test_ioapic_level_mask_def test_ioapic_level_retrigger_mask_def
        test_ioapic_edge_tmr_def test_ioapic_level_tmr_def)
  then have "run_state ?rest ?w2 = ((), ?w2)" using h by (rule run_frozen)
  then have "run_state (test_ioapic_one_cpu env) w = ((), ?w2)"
    unfolding one_cpu_groups by (rule run_seq [OF 1(1) run_seq [OF 2]])
  then show ?thesis using h m 1(3) that [of ?w2 ok r78] by simp
qed



end
