(* ===== verification/Kvmclock.thy ===== *)
theory Kvmclock
  imports IoapicTests
begin

text \<open>
  The paravirtual clock test \<open>src/pcm-unit/driver/kvmclock_test.c\<close>: reading the clock and the wall
  clock, the checks that run on every CPU, and the stress test \<open>kvm_clock_test\<close>, whose instances on
  several CPUs are threads that take turns between their accesses to shared data.
\<close>

section \<open>Data\<close>

definition DEFAULT_TEST_LOOPS :: int where "DEFAULT_TEST_LOOPS = 100000000"
definition DEFAULT_THRESHOLD :: int where "DEFAULT_THRESHOLD = 5"
definition PVCLOCK_RAW_CYCLE_BIT :: u8 where "PVCLOCK_RAW_CYCLE_BIT = 0x80"
definition PVCLOCK_TSC_STABLE_BIT :: u8 where "PVCLOCK_TSC_STABLE_BIT = 1"
definition MAX_CPU :: int where "MAX_CPU = 64"
definition MSR_KVM_WALL_CLOCK_NEW :: u32 where "MSR_KVM_WALL_CLOCK_NEW = 0x4b564d00"
definition MSR_KVM_SYSTEM_TIME_NEW :: u32 where "MSR_KVM_SYSTEM_TIME_NEW = 0x4b564d01"
definition NSEC_PER_SEC :: u64 where "NSEC_PER_SEC = 1000000000"

record test_info =
  ti_lock :: bool
  warps :: u64
  stalls :: u64
  worst :: u64
  last :: u64
  ncpus :: u32
  check :: bool

text \<open>The flags and the last value that all readers of the clock share.\<close>

record clock =
  valid_flags :: u8
  last_value :: u64

record pcm_world = ioapic_world +
  clk :: clock
  loops :: int
  sec :: int
  threshold :: int
  ti :: "nat \<Rightarrow> test_info"

definition pvclock_set_flags :: "u8 \<Rightarrow> ('a pcm_world_scheme, unit) state" where
  "pvclock_set_flags flags = modify (\<lambda>w. w\<lparr>clk := clk w\<lparr>valid_flags := flags\<rparr>\<rparr>)"

definition smp_id :: "('a kworld_scheme, nat) state" where
  "smp_id = gets cpu"

text \<open>\<open>&hv_clock[i]\<close>; an entry has 32 bytes.\<close>

definition hv_clock :: "env \<Rightarrow> nat \<Rightarrow> u64" where
  "hv_clock env i = env_sym env ''hv_clock'' + 32 * of_nat i"

section \<open>Reading the clock\<close>

text \<open>
  The structures \<open>hv_clock[i]\<close> and \<open>wall_clock\<close> are written by the hypervisor: a load from them is a
  question to the environment.
\<close>

definition hv_load :: "env \<Rightarrow> string \<Rightarrow> nat \<Rightarrow> ('a kworld_scheme, u64) state" where
  "hv_load env field i = kcall env field [AInt (int i)]"

text \<open>\<open>__pvclock_read_cycles\<close> is the kernel's: a version, a time and the flags.\<close>

definition pvclock_read_cycles :: "env \<Rightarrow> nat \<Rightarrow> ('a kworld_scheme, u32 \<times> u64 \<times> u8) state" where
  "pvclock_read_cycles env i = do {
     ret \<leftarrow> ask (\<lambda>t. env_call env t ''__pvclock_read_cycles cycles'' [AInt (int i)]);
     flags \<leftarrow> ask (\<lambda>t. env_call env t ''__pvclock_read_cycles flags'' [AInt (int i)]);
     version \<leftarrow> kcall env ''__pvclock_read_cycles'' [AInt (int i)];
     State_Monad.return (ucast version, ret, ucast flags) }"

definition read_consistent :: "env \<Rightarrow> nat \<Rightarrow> ('a kworld_scheme, u64 \<times> u8) state" where
  "read_consistent env i = loop (env_fuel env) (0, 0) (\<lambda>_. do {
     (version, ret, flags) \<leftarrow> pvclock_read_cycles env i;
     v1 \<leftarrow> hv_load env ''hv_clock.version'' i;
     if v1 AND 1 \<noteq> 0 then State_Monad.return (Inl ())
     else do {
       v2 \<leftarrow> hv_load env ''hv_clock.version'' i;
       State_Monad.return (if version \<noteq> ucast v2 then Inl () else Inr (ret, flags)) } }) ()"

text \<open>\<open>atomic64_cmpxchg(&last_value, old, new)\<close>: the value found, replaced when it is \<open>old\<close>.\<close>

definition cmpxchg :: "u64 \<Rightarrow> u64 \<Rightarrow> clock \<Rightarrow> u64 \<times> clock" where
  "cmpxchg old new c = (last_value c, if last_value c = old then c\<lparr>last_value := new\<rparr> else c)"

definition cmpxchg_last_value :: "u64 \<Rightarrow> u64 \<Rightarrow> ('a pcm_world_scheme, u64) state" where
  "cmpxchg_last_value old new = do {
     c \<leftarrow> gets clk;
     modify (\<lambda>w. w\<lparr>clk := snd (cmpxchg old new (clk w))\<rparr>);
     State_Monad.return (fst (cmpxchg old new c)) }"

definition pvclock_clocksource_read :: "env \<Rightarrow> nat \<Rightarrow> ('a pcm_world_scheme, u64) state" where
  "pvclock_clocksource_read env i = do {
     (ret, flags) \<leftarrow> read_consistent env i;
     valid \<leftarrow> gets (valid_flags \<circ> clk);
     if valid AND PVCLOCK_TSC_STABLE_BIT \<noteq> 0 \<and> flags AND PVCLOCK_TSC_STABLE_BIT \<noteq> 0
     then State_Monad.return ret
     else do {
       lst \<leftarrow> gets (last_value \<circ> clk);
       loop (env_fuel env) 0 (\<lambda>lst.
         if ret < lst then State_Monad.return (Inr lst)
         else do {
           lst \<leftarrow> cmpxchg_last_value lst ret;
           State_Monad.return (if lst \<noteq> ret then Inl lst else Inr ret) }) lst } }"

definition kvm_clock_read :: "env \<Rightarrow> ('a pcm_world_scheme, u64) state" where
  "kvm_clock_read env = do { index \<leftarrow> smp_id; pvclock_clocksource_read env index }"

text \<open>
  \<open>do_div\<close> leaves the quotient and returns the remainder; \<open>set_normalized_timespec\<close> is the kernel's.
\<close>

definition pvclock_read_wallclock :: "env \<Rightarrow> nat \<Rightarrow> ('a pcm_world_scheme, int) state" where
  "pvclock_read_wallclock env i = do {
     (s, n) \<leftarrow> loop (env_fuel env) (0, 0) (\<lambda>_. do {
       version \<leftarrow> hv_load env ''wall_clock.version'' 0;
       s \<leftarrow> hv_load env ''wall_clock.sec'' 0;
       n \<leftarrow> hv_load env ''wall_clock.nsec'' 0;
       v1 \<leftarrow> hv_load env ''wall_clock.version'' 0;
       if v1 AND 1 \<noteq> 0 then State_Monad.return (Inl ())
       else do {
         v2 \<leftarrow> hv_load env ''wall_clock.version'' 0;
         State_Monad.return (if (ucast version :: u32) \<noteq> ucast v2 then Inl ()
           else Inr (ucast s :: u32, ucast n :: u32)) } }) ();
     delta \<leftarrow> pvclock_clocksource_read env i;
     let delta = delta + (ucast s * NSEC_PER_SEC + ucast n);
     let nsec = delta mod NSEC_PER_SEC;
     let secs = delta div NSEC_PER_SEC;
     r \<leftarrow> kcall env ''set_normalized_timespec'' [arg_word secs, arg_word nsec];
     State_Monad.return (sint r) }"

definition kvm_get_wallclock :: "env \<Rightarrow> ('a pcm_world_scheme, int) state" where
  "kvm_get_wallclock env = do {
     index \<leftarrow> smp_id;
     _ \<leftarrow> wrmsrl_safe env MSR_KVM_WALL_CLOCK_NEW (env_sym env ''wall_clock'');
     pvclock_read_wallclock env index }"

section \<open>The checks on each CPU\<close>

definition wallclock_test :: "env \<Rightarrow> int \<Rightarrow> ('a pcm_world_scheme, int) state" where
  "wallclock_test env err = do {
     ksec \<leftarrow> kvm_get_wallclock env;
     s \<leftarrow> gets sec;
     let offset = ksec - s;
     raw \<leftarrow> kvm_clock_read env;
     id \<leftarrow> smp_id;
     printk ''Raw nanoseconds value from kvmclock: %llu (cpu %d)'' [arg_word raw, AInt (int id)];
     printk ''Seconds get from kvmclock: %ld (cpu %d, offset: %ld)'' [AInt ksec, AInt (int id), AInt offset];
     th \<leftarrow> gets threshold;
     if offset > th \<or> offset < - th
     then do { printk ''offset too large!'' []; State_Monad.return (err + 1) }
     else State_Monad.return err }"

definition kvm_clock_init :: "env \<Rightarrow> ('a pcm_world_scheme, unit) state" where
  "kvm_clock_init env = do {
     index \<leftarrow> smp_id;
     let hvc = hv_clock env index;
     printk ''kvm-clock: cpu %d, msr %p'' [AInt (int index), arg_word hvc];
     _ \<leftarrow> wrmsrl_safe env MSR_KVM_SYSTEM_TIME_NEW (hvc OR 1);
     skip }"

definition kvm_clock_clear :: "env \<Rightarrow> ('a pcm_world_scheme, unit) state" where
  "kvm_clock_clear env = do { _ \<leftarrow> wrmsrl_safe env MSR_KVM_SYSTEM_TIME_NEW 0; skip }"

text \<open>\<open>smp_call_function_single(i, f, info, 1)\<close>: run \<open>f\<close> on CPU \<open>i\<close> and wait for it.\<close>

definition on_cpu :: "env \<Rightarrow> nat \<Rightarrow> string \<Rightarrow> ('a kworld_scheme, 'b) state \<Rightarrow> ('a kworld_scheme, 'b) state" where
  "on_cpu env i name f = do {
     me \<leftarrow> gets cpu;
     _ \<leftarrow> kcall env ''smp_call_function_single'' [AInt (int i), AStr name, AInt 0, AInt 1];
     modify (\<lambda>w. w\<lparr>cpu := i\<rparr>);
     r \<leftarrow> f;
     modify (\<lambda>w. w\<lparr>cpu := me\<rparr>);
     State_Monad.return r }"

section \<open>The stress test as a thread\<close>

text \<open>
  The body of \<open>kvm_clock_test\<close>, cut between its accesses to shared data: the lock, the clock's last
  value, the fields of the \<open>test_info\<close>.  A read of the clock has three places: the consistent read
  of the hypervisor's structure, the load of the last value, and a round of the exchange loop.
\<close>

datatype read_pc = Cycles | LoadLast | Exchange

datatype pc =
    LoopHead | ReadFree read_pc | Lock1 | ReadT1 read_pc | LoadT0 | ReadLast read_pc | Unlock1 | Judge
  | Lock2 | Warp | Unlock2 | StallLoad | StallStore | NextRound | Finish | Done

record thread =
  place :: pc
  round :: int
  ret :: u64
  seen :: u64
  t1 :: u64
  t0 :: u64
  tmp :: u64

definition new_thread :: thread where
  "new_thread = \<lparr>place = LoopHead, round = 0, ret = 0, seen = 0, t1 = 0, t0 = 0, tmp = 0\<rparr>"

text \<open>
  One step of a read: \<open>Inl\<close> the next place, or \<open>Inr\<close> the value the read returns.  \<open>raw\<close> is the time
  and the flags that a consistent read finds.
\<close>

fun read_step :: "u64 \<times> u8 \<Rightarrow> read_pc \<Rightarrow> clock \<Rightarrow> u64 \<times> u64 \<Rightarrow> clock \<times> (u64 \<times> u64) \<times> (read_pc + u64)" where
  "read_step raw Cycles c (r, l) =
     (c, (fst raw, l),
      if valid_flags c AND PVCLOCK_TSC_STABLE_BIT \<noteq> 0 \<and> snd raw AND PVCLOCK_TSC_STABLE_BIT \<noteq> 0
      then Inr (fst raw) else Inl LoadLast)"
| "read_step raw LoadLast c (r, l) = (c, (r, last_value c), Inl Exchange)"
| "read_step raw Exchange c (r, l) =
     (if r < l then (c, (r, l), Inr l)
      else let (found, c') = cmpxchg l r c in
        (c', (r, found), if found \<noteq> r then Inl Exchange else Inr r))"

definition do_read :: "u64 \<times> u8 \<Rightarrow> read_pc \<Rightarrow> (read_pc \<Rightarrow> pc) \<Rightarrow> (u64 \<Rightarrow> test_info \<times> thread \<Rightarrow> test_info \<times> thread)
    \<Rightarrow> clock \<times> test_info \<times> thread \<Rightarrow> clock \<times> test_info \<times> thread" where
  "do_read raw p again finish = (\<lambda>(c, i, th).
     let (c', (r, l), out) = read_step raw p c (ret th, seen th);
         th' = th\<lparr>ret := r, seen := l\<rparr>
     in case out of
          Inl p' \<Rightarrow> (c', i, th'\<lparr>place := again p'\<rparr>)
        | Inr v \<Rightarrow> (c', finish v (i, th')))"

text \<open>\<open>long long delta = t1 - t0\<close>\<close>

definition delta_of :: "thread \<Rightarrow> int" where
  "delta_of th = sint (t1 th - t0 th)"

fun thread_step :: "int \<Rightarrow> u64 \<times> u8 \<Rightarrow> clock \<times> test_info \<times> thread \<Rightarrow> clock \<times> test_info \<times> thread" where
  "thread_step n raw (c, i, th) = (case place th of
     LoopHead \<Rightarrow> (c, i, th\<lparr>place := (if round th < n then if check i then Lock1 else ReadFree Cycles else Finish)\<rparr>)
   | ReadFree p \<Rightarrow> do_read raw p ReadFree
       (\<lambda>v (i, th). (i, th\<lparr>round := round th + 1, place := LoopHead\<rparr>)) (c, i, th)
   | Lock1 \<Rightarrow> if ti_lock i then (c, i, th) else (c, i\<lparr>ti_lock := True\<rparr>, th\<lparr>place := ReadT1 Cycles\<rparr>)
   | ReadT1 p \<Rightarrow> do_read raw p ReadT1 (\<lambda>v (i, th). (i, th\<lparr>t1 := v, place := LoadT0\<rparr>)) (c, i, th)
   | LoadT0 \<Rightarrow> (c, i, th\<lparr>t0 := last i, place := ReadLast Cycles\<rparr>)
   | ReadLast p \<Rightarrow> do_read raw p ReadLast (\<lambda>v (i, th). (i\<lparr>last := v\<rparr>, th\<lparr>place := Unlock1\<rparr>)) (c, i, th)
   | Unlock1 \<Rightarrow> (c, i\<lparr>ti_lock := False\<rparr>, th\<lparr>place := Judge\<rparr>)
   | Judge \<Rightarrow> (c, i, th\<lparr>place := (if delta_of th < 0 then Lock2 else if delta_of th = 0 then StallLoad else NextRound)\<rparr>)
   | Lock2 \<Rightarrow> if ti_lock i then (c, i, th) else (c, i\<lparr>ti_lock := True\<rparr>, th\<lparr>place := Warp\<rparr>)
   | Warp \<Rightarrow> (c, i\<lparr>warps := warps i + 1,
         worst := (if delta_of th < sint (worst i) then t1 th - t0 th else worst i)\<rparr>, th\<lparr>place := Unlock2\<rparr>)
   | Unlock2 \<Rightarrow> (c, i\<lparr>ti_lock := False\<rparr>, th\<lparr>place := NextRound\<rparr>)
   | StallLoad \<Rightarrow> (c, i, th\<lparr>tmp := stalls i, place := StallStore\<rparr>)
   | StallStore \<Rightarrow> (c, i\<lparr>stalls := tmp th + 1\<rparr>, th\<lparr>place := NextRound\<rparr>)
   | NextRound \<Rightarrow> (c, i, th\<lparr>round := round th + 1, place := LoopHead\<rparr>)
   | Finish \<Rightarrow> (c, i\<lparr>ncpus := ncpus i - 1\<rparr>, th\<lparr>place := Done\<rparr>)
   | Done \<Rightarrow> (c, i, th))"

text \<open>Whether the step is one that looks at the hypervisor's structure, or one that prints.\<close>

definition at_cycles :: "thread \<Rightarrow> bool" where
  "at_cycles th \<longleftrightarrow> place th \<in> {ReadFree Cycles, ReadT1 Cycles, ReadLast Cycles}"

definition prints_worst :: "test_info \<Rightarrow> thread \<Rightarrow> bool" where
  "prints_worst i th \<longleftrightarrow> place th = Warp \<and> delta_of th < sint (worst i)"

section \<open>The whole test\<close>

text \<open>
  One step of the thread on CPU \<open>j\<close> of the test on \<open>ti[k]\<close>.
\<close>

definition kvm_clock_test_step :: "env \<Rightarrow> nat \<Rightarrow> nat \<Rightarrow> thread list \<Rightarrow> ('a pcm_world_scheme, thread list) state" where
  "kvm_clock_test_step env k j ths = do {
     let th = ths ! j;
     raw \<leftarrow> (if at_cycles th then read_consistent env j else State_Monad.return (0, 0));
     n \<leftarrow> gets loops;
     c \<leftarrow> gets clk;
     i \<leftarrow> gets (\<lambda>w. ti w k);
     let (c', i', th') = thread_step n raw (c, i, th);
     modify (\<lambda>w. w\<lparr>clk := c', ti := (ti w)(k := i')\<rparr>);
     (if prints_worst i th then printk ''Worst warp %lld'' [AInt (sint (worst i'))] else skip);
     emit (Insn ''thread step'' [AInt (int j)]);
     State_Monad.return (ths[j := th']) }"

text \<open>\<open>while (atomic_read(&ti->ncpus));\<close> while the threads run, in an order the environment chooses.\<close>

definition wait_for_threads :: "env \<Rightarrow> nat \<Rightarrow> thread list \<Rightarrow> ('a pcm_world_scheme, unit) state" where
  "wait_for_threads env k ths = loop (env_fuel env) () (\<lambda>ths. do {
     n \<leftarrow> gets (\<lambda>w. ncpus (ti w k));
     if n = 0 then State_Monad.return (Inr ())
     else do {
       j \<leftarrow> ask (\<lambda>t. env_insn env t ''scheduler'');
       ths' \<leftarrow> kvm_clock_test_step env k (unat j mod length ths) ths;
       State_Monad.return (Inl ths') } }) ths"

definition cycle_test :: "env \<Rightarrow> nat \<Rightarrow> bool \<Rightarrow> nat \<Rightarrow> ('a pcm_world_scheme, int) state" where
  "cycle_test env cpus chk k = do {
     begin \<leftarrow> rdtsc env;
     modify (\<lambda>w. w\<lparr>ti := (ti w)(k := (ti w k)\<lparr>ncpus := of_nat cpus\<rparr>)\<rparr>);
     modify (\<lambda>w. w\<lparr>ti := (ti w)(k := (ti w k)\<lparr>check := chk\<rparr>)\<rparr>);
     for_each (rev [0..<cpus]) (\<lambda>i. do {
       _ \<leftarrow> kcall env ''smp_call_function_single''
         [AInt (int i), AStr ''kvm_clock_test'', AInt (int k), AInt 0];
       skip });
     wait_for_threads env k (replicate cpus new_thread);
     end' \<leftarrow> rdtsc env;
     n \<leftarrow> gets loops;
     i \<leftarrow> gets (\<lambda>w. ti w k);
     printk ''Total vcpus: %d'' [AInt (int cpus)];
     printk ''Test  loops: %ld'' [AInt n];
     (if chk then do {
        printk ''Total warps:  %lld'' [AInt (sint (warps i))];
        printk ''Total stalls: %lld'' [AInt (sint (stalls i))];
        printk ''Worst warp:   %lld'' [AInt (sint (worst i))] }
      else printk ''TSC cycles:  %lld'' [AInt (sint (end' - begin))]);
     State_Monad.return (if warps i \<noteq> 0 then 1 else 0) }"

fun wallclock_tests :: "env \<Rightarrow> nat list \<Rightarrow> int \<Rightarrow> ('a pcm_world_scheme, int) state" where
  "wallclock_tests env [] nerr = State_Monad.return nerr"
| "wallclock_tests env (i # is) nerr = do {
     nerr \<leftarrow> on_cpu env i ''wallclock_test'' (wallclock_test env nerr);
     wallclock_tests env is nerr }"

definition test_kvm_clock :: "env \<Rightarrow> ('a pcm_world_scheme, unit) state" where
  "test_kvm_clock env = do {
     modify (\<lambda>w. w\<lparr>sec := 2\<rparr>);
     online \<leftarrow> kcall env ''num_online_cpus'' [];
     let cpus = nat (if sint (ucast online :: u32) > MAX_CPU then MAX_CPU else sint (ucast online :: u32));
     for_each [0..<cpus] (\<lambda>i. on_cpu env i ''kvm_clock_init'' (kvm_clock_init env));
     th \<leftarrow> gets threshold;
     s \<leftarrow> gets sec;
     printk ''Wallclock test, threshold %ld'' [AInt th];
     printk ''Seconds get from host:     %ld'' [AInt s];
     nerr \<leftarrow> wallclock_tests env [0..<cpus] 0;
     printk ''Check the stability of raw cycle ...'' [];
     pvclock_set_flags (PVCLOCK_TSC_STABLE_BIT OR PVCLOCK_RAW_CYCLE_BIT);
     r \<leftarrow> cycle_test env cpus True 0;
     (if r \<noteq> 0 then printk ''Raw cycle is not stable'' [] else printk ''Raw cycle is stable'' []);
     pvclock_set_flags PVCLOCK_TSC_STABLE_BIT;
     printk ''Monotonic cycle test:'' [];
     r \<leftarrow> cycle_test env cpus True 1;
     let nerr = nerr + r;
     printk ''Measure the performance of raw cycle ...'' [];
     pvclock_set_flags (PVCLOCK_TSC_STABLE_BIT OR PVCLOCK_RAW_CYCLE_BIT);
     _ \<leftarrow> cycle_test env cpus False 2;
     printk ''Measure the performance of adjusted cycle ...'' [];
     pvclock_set_flags PVCLOCK_TSC_STABLE_BIT;
     _ \<leftarrow> cycle_test env cpus False 3;
     for_each [0..<cpus] (\<lambda>i. on_cpu env i ''kvm_clock_clear'' (kvm_clock_clear env)) }"

end
