(* ===== verification/KvmclockRuns.thy ===== *)
theory KvmclockRuns
  imports Kvmclock
begin

text \<open>
  Interleavings of the threads of \<open>kvm_clock_test\<close> (\<open>src/pcm-unit/driver/kvmclock_test.c\<close>): the step
  relation, mutual exclusion, and that the adjusted clock never goes backwards.
\<close>

section \<open>The step relation\<close>

type_synonym state3 = "clock \<times> test_info \<times> thread list"

text \<open>Any thread takes the next step; \<open>ok\<close> says which consistent reads can occur.\<close>

inductive clock_step :: "int \<Rightarrow> (u64 \<times> u8 \<Rightarrow> bool) \<Rightarrow> state3 \<Rightarrow> state3 \<Rightarrow> bool" for n ok where
  step: "j < length ths \<Longrightarrow> ok raw \<Longrightarrow> thread_step n raw (c, i, ths ! j) = (c', i', th') \<Longrightarrow>
    clock_step n ok (c, i, ths) (c', i', ths[j := th'])"

inductive_cases clock_stepE: "clock_step n ok (c, i, ths) s"

inductive reachable :: "int \<Rightarrow> (u64 \<times> u8 \<Rightarrow> bool) \<Rightarrow> state3 \<Rightarrow> state3 \<Rightarrow> bool" for n ok s0 where
  start: "reachable n ok s0 s0"
| next': "reachable n ok s0 s \<Longrightarrow> clock_step n ok s s' \<Longrightarrow> reachable n ok s0 s'"

section \<open>The invariant of the adjusted clock\<close>

definition in_critical :: "pc \<Rightarrow> bool" where
  "in_critical p = (case p of ReadT1 r \<Rightarrow> True | LoadT0 \<Rightarrow> True | ReadLast r \<Rightarrow> True | Unlock1 \<Rightarrow> True
     | Warp \<Rightarrow> True | Unlock2 \<Rightarrow> True | _ \<Rightarrow> False)"

abbreviation small :: "u64 \<Rightarrow> bool" where
  "small x \<equiv> x < 2 ^ 63"

text \<open>What holds of one thread: \<open>l\<close> is the clock's last value, \<open>m\<close> the last value the test has seen.\<close>

fun pc_ok :: "u64 \<Rightarrow> u64 \<Rightarrow> thread \<Rightarrow> pc \<Rightarrow> bool" where
  "pc_ok l m th (ReadFree Exchange) = (seen th \<le> l)"
| "pc_ok l m th (ReadT1 Exchange) = (m \<le> seen th \<and> seen th \<le> l)"
| "pc_ok l m th LoadT0 = (m \<le> t1 th \<and> t1 th \<le> l)"
| "pc_ok l m th (ReadLast p) = (t0 th \<le> t1 th \<and> t1 th \<le> l \<and> (p = Exchange \<longrightarrow> seen th \<le> l))"
| "pc_ok l m th Unlock1 = (t0 th \<le> t1 th \<and> small (t1 th))"
| "pc_ok l m th Judge = (t0 th \<le> t1 th \<and> small (t1 th))"
| "pc_ok l m th Lock2 = False"
| "pc_ok l m th Warp = False"
| "pc_ok l m th Unlock2 = False"
| "pc_ok l m th _ = True"

definition thread_ok :: "clock \<Rightarrow> test_info \<Rightarrow> thread \<Rightarrow> bool" where
  "thread_ok c i th \<longleftrightarrow> small (ret th) \<and> pc_ok (last_value c) (last i) th (place th)
     \<and> (in_critical (place th) \<longrightarrow> ti_lock i)"

definition exclusive :: "thread list \<Rightarrow> bool" where
  "exclusive ths \<longleftrightarrow> (\<forall>j k. j < length ths \<and> k < length ths \<and> in_critical (place (ths ! j))
     \<and> in_critical (place (ths ! k)) \<longrightarrow> j = k)"

definition clock_inv :: "state3 \<Rightarrow> bool" where
  "clock_inv = (\<lambda>(c, i, ths). last i \<le> last_value c \<and> small (last_value c)
     \<and> (\<forall>j < length ths. thread_ok c i (ths ! j)) \<and> exclusive ths)"

text \<open>Readings that go through the last value: the structure does not promise a stable counter.\<close>

definition adjusted :: "u64 \<times> u8 \<Rightarrow> bool" where
  "adjusted raw \<longleftrightarrow> small (fst raw) \<and> snd raw AND PVCLOCK_TSC_STABLE_BIT = 0"

lemma small_diff: "a \<le> b \<Longrightarrow> small b \<Longrightarrow> 0 \<le> sint (b - a)"
  for a b :: u64
proof -
  assume a: "a \<le> b" and b: "small b"
  have "uint (b - a) = uint b - uint a" using a by (simp add: uint_minus_simple_alt)
  moreover have "uint b < 2 ^ 63" using b by (simp add: word_less_def)
  moreover have "0 \<le> uint a" by simp
  ultimately have "uint (b - a) < 2 ^ 63" by linarith
  then show ?thesis by (simp add: sint_small)
qed

text \<open>One step of a thread on its own.\<close>

lemma own_step:
  assumes "thread_step n raw (c, i, th) = (c', i', th')" and "adjusted raw"
    and "last i \<le> last_value c" and "small (last_value c)" and "thread_ok c i th"
  shows "last i' \<le> last_value c' \<and> small (last_value c') \<and> last_value c \<le> last_value c' \<and> thread_ok c' i' th'
    \<and> warps i' = warps i \<and> worst i' = worst i
    \<and> (\<not> in_critical (place th) \<longrightarrow> last i' = last i)
    \<and> (\<not> in_critical (place th) \<longrightarrow> ti_lock i \<longrightarrow> ti_lock i')
    \<and> (\<not> in_critical (place th) \<and> in_critical (place th') \<longrightarrow> \<not> ti_lock i)"
proof (cases "place th")
  case (ReadFree p)
  with assms show ?thesis
    by (cases p) (auto simp: do_read_def thread_ok_def adjusted_def cmpxchg_def Let_def in_critical_def
        split: if_splits)
next
  case (ReadT1 p)
  with assms show ?thesis
    by (cases p) (auto simp: do_read_def thread_ok_def adjusted_def cmpxchg_def Let_def in_critical_def
        split: if_splits)
next
  case (ReadLast p)
  with assms show ?thesis
    by (cases p) (auto simp: do_read_def thread_ok_def adjusted_def cmpxchg_def Let_def in_critical_def
        split: if_splits)
next
  case Judge
  with assms small_diff [of "t0 th" "t1 th"] show ?thesis
    by (auto simp: thread_ok_def in_critical_def delta_of_def split: if_splits)
qed (use assms in \<open>auto simp: thread_ok_def in_critical_def split: if_splits\<close>)

text \<open>The others while one moves.\<close>

lemma other_thread:
  assumes "thread_ok c i th" and "last_value c \<le> last_value c'"
    and "in_critical (place th) \<Longrightarrow> last i' = last i \<and> ti_lock i'"
  shows "thread_ok c' i' th"
proof -
  have "pc_ok (last_value c') (last i') th (place th)"
  proof (cases "in_critical (place th)")
    case True
    with assms show ?thesis
      by (cases "place th" rule: pc.exhaust; cases "case place th of ReadT1 p \<Rightarrow> p | ReadLast p \<Rightarrow> p | _ \<Rightarrow> Cycles")
        (auto simp: thread_ok_def in_critical_def intro: order_trans)
  next
    case False
    with assms show ?thesis
      by (cases "place th" rule: pc.exhaust; cases "case place th of ReadFree p \<Rightarrow> p | _ \<Rightarrow> Cycles")
        (auto simp: thread_ok_def in_critical_def intro: order_trans)
  qed
  with assms show ?thesis by (auto simp: thread_ok_def)
qed

lemma exclusive_update:
  assumes ex: "exclusive ths" and j: "j < length ths"
    and enter: "\<And>k. k < length ths \<Longrightarrow> k \<noteq> j \<Longrightarrow> in_critical (place (ths ! k)) \<Longrightarrow>
      in_critical (place th') \<Longrightarrow> in_critical (place (ths ! j))"
  shows "exclusive (ths[j := th'])"
  unfolding exclusive_def
proof (intro allI impI, elim conjE)
  fix k l assume kl: "k < length (ths[j := th'])" "l < length (ths[j := th'])"
    and ck: "in_critical (place (ths[j := th'] ! k))" and cl: "in_critical (place (ths[j := th'] ! l))"
  have clash: False if "m < length ths" "m \<noteq> j" "in_critical (place (ths ! m))" "in_critical (place th')" for m
    using enter [OF that] ex j that unfolding exclusive_def by blast
  show "k = l"
  proof (cases "k = j \<or> l = j")
    case True
    then show ?thesis
      using kl ck cl j clash [of k] clash [of l] by (auto simp: nth_list_update split: if_splits)
  next
    case False
    then have "in_critical (place (ths ! k))" "in_critical (place (ths ! l))" using ck cl by simp_all
    with ex kl show ?thesis by (simp add: exclusive_def)
  qed
qed

text \<open>The lock alone: these facts hold whatever the clock does.\<close>

definition lock_inv :: "state3 \<Rightarrow> bool" where
  "lock_inv = (\<lambda>(c, i, ths).
     (\<forall>k < length ths. in_critical (place (ths ! k)) \<longrightarrow> ti_lock i) \<and> exclusive ths)"

lemma lock_step:
  assumes "thread_step n raw (c, i, th) = (c', i', th')"
  shows "(in_critical (place th') \<longrightarrow> in_critical (place th) \<or> \<not> ti_lock i)
    \<and> (in_critical (place th') \<longrightarrow> (in_critical (place th) \<longrightarrow> ti_lock i) \<longrightarrow> ti_lock i')
    \<and> (\<not> in_critical (place th) \<longrightarrow> ti_lock i \<longrightarrow> ti_lock i')"
proof (cases "place th")
  case (ReadFree p)
  with assms show ?thesis
    by (cases p) (auto simp: do_read_def cmpxchg_def Let_def in_critical_def split: if_splits)
next
  case (ReadT1 p)
  with assms show ?thesis
    by (cases p) (auto simp: do_read_def cmpxchg_def Let_def in_critical_def split: if_splits)
next
  case (ReadLast p)
  with assms show ?thesis
    by (cases p) (auto simp: do_read_def cmpxchg_def Let_def in_critical_def split: if_splits)
qed (use assms in \<open>auto simp: in_critical_def split: if_splits\<close>)

lemma lock_inv_step:
  assumes "lock_inv s" and "clock_step n ok s s'"
  shows "lock_inv s'"
proof -
  from assms(2) obtain j ths raw c i c' i' th' where s: "s = (c, i, ths)" "s' = (c', i', ths[j := th'])"
    and j: "j < length ths" and st: "thread_step n raw (c, i, ths ! j) = (c', i', th')"
    by (cases rule: clock_step.cases) auto
  from assms(1) have all: "\<And>k. k < length ths \<Longrightarrow> in_critical (place (ths ! k)) \<Longrightarrow> ti_lock i"
    and ex: "exclusive ths"
    by (auto simp: lock_inv_def s)
  note own = lock_step [OF st]
  have "exclusive (ths[j := th'])"
    by (rule exclusive_update [OF ex j]) (use own all in blast)
  moreover have "ti_lock i'" if k: "k < length ths" "in_critical (place (ths[j := th'] ! k))" for k
  proof (cases "k = j")
    case True
    with k own all [OF j] show ?thesis by auto
  next
    case False
    then have ck: "in_critical (place (ths ! k))" using k by simp
    then have "\<not> in_critical (place (ths ! j))"
      using False ex j k(1) by (auto simp: exclusive_def)
    with own all [OF k(1) ck] show ?thesis by simp
  qed
  ultimately show ?thesis by (simp add: lock_inv_def s)
qed

lemma clock_inv_step:
  assumes "clock_inv s" and "clock_step n adjusted s s'"
  shows "clock_inv s' \<and> warps (fst (snd s')) = warps (fst (snd s)) \<and> worst (fst (snd s')) = worst (fst (snd s))
    \<and> last_value (fst s) \<le> last_value (fst s')"
proof -
  from assms(2) obtain j ths raw c i c' i' th' where s: "s = (c, i, ths)" "s' = (c', i', ths[j := th'])"
    and j: "j < length ths" and raw: "adjusted raw" and st: "thread_step n raw (c, i, ths ! j) = (c', i', th')"
    by (cases rule: clock_step.cases) auto
  let ?th = "ths ! j"
  from assms(1) have inv: "last i \<le> last_value c" "small (last_value c)" "thread_ok c i ?th"
    and all: "\<And>k. k < length ths \<Longrightarrow> thread_ok c i (ths ! k)" and ex: "exclusive ths"
    using j by (auto simp: clock_inv_def s)
  note own = own_step [OF st raw inv]
  have not_both: "\<not> in_critical (place ?th)" if "k < length ths" "k \<noteq> j" "in_critical (place (ths ! k))" for k
    using ex j that unfolding exclusive_def by blast
  have "exclusive (ths[j := th'])"
    by (rule exclusive_update [OF ex j]) (use own all in \<open>auto simp: thread_ok_def\<close>)
  moreover have "thread_ok c' i' (ths[j := th'] ! k)" if k: "k < length (ths[j := th'])" for k
  proof (cases "k = j")
    case True
    with own j show ?thesis by simp
  next
    case False
    with k have k': "k < length ths" by simp
    have "thread_ok c' i' (ths ! k)"
    proof (rule other_thread [OF all [OF k']])
      show "last_value c \<le> last_value c'" using own by simp
      assume "in_critical (place (ths ! k))"
      with own not_both [OF k' False] all [OF k'] show "last i' = last i \<and> ti_lock i'"
        by (auto simp: thread_ok_def)
    qed
    with False show ?thesis by simp
  qed
  ultimately show ?thesis using own by (simp add: clock_inv_def s)
qed

lemma clock_inv_start:
  assumes "last i \<le> last_value c" and "small (last_value c)"
  shows "clock_inv (c, i, replicate m new_thread)"
  using assms by (auto simp: clock_inv_def exclusive_def thread_ok_def new_thread_def in_critical_def)

lemma clock_inv_reachable:
  assumes "reachable n adjusted s0 s" and "clock_inv s0"
  shows "clock_inv s \<and> warps (fst (snd s)) = warps (fst (snd s0)) \<and> worst (fst (snd s)) = worst (fst (snd s0))
    \<and> last_value (fst s0) \<le> last_value (fst s)"
  using assms
proof (induction rule: reachable.induct)
  case start
  then show ?case by simp
next
  case (next' s s')
  then show ?case using clock_inv_step [of s n s'] by auto
qed

section \<open>Schedules\<close>

text \<open>A schedule says which thread moves next and what a consistent read finds then.\<close>

fun run_schedule :: "int \<Rightarrow> (nat \<times> u64 \<times> u8) list \<Rightarrow> state3 \<Rightarrow> state3" where
  "run_schedule n [] s = s"
| "run_schedule n ((j, raw) # sch) (c, i, ths) =
     (let (c', i', th') = thread_step n raw (c, i, ths ! j) in run_schedule n sch (c', i', ths[j := th']))"

lemma reachable_schedule:
  assumes "reachable n ok s0 s" and "\<forall>(j, raw) \<in> set sch. j < length (snd (snd s)) \<and> ok raw"
  shows "reachable n ok s0 (run_schedule n sch s)"
  using assms
proof (induction sch arbitrary: s)
  case Nil
  then show ?case by simp
next
  case (Cons x sch)
  obtain j raw c i ths where x: "x = (j, raw)" "s = (c, i, ths)" by (metis prod.exhaust)
  obtain c' i' th' where t: "thread_step n raw (c, i, ths ! j) = (c', i', th')" by (metis prod.exhaust)
  have "reachable n ok s0 (c', i', ths[j := th'])"
    using Cons.prems x t by (intro reachable.next' [OF Cons.prems(1)]) (auto intro: clock_step.step)
  then show ?case using Cons.IH Cons.prems(2) x t by simp
qed

definition fresh_info :: test_info where
  "fresh_info = \<lparr>ti_lock = False, warps = 0, stalls = 0, worst = 0, last = 0, ncpus = 2, check = True\<rparr>"

section \<open>Properties\<close>

text \<open>C1. The adjusted clock passes its own test under every schedule: whatever number of CPUs run
  \<open>kvm_clock_test\<close>, in whatever order their accesses to the lock, the last value and the test data
  are interleaved, and however the times read from the hypervisor jump (below 2^63, without the
  stability flag), no run ever counts a warp, and the clock's last value never decreases.\<close>

theorem adjusted_clock_never_warps:
  assumes "reachable n adjusted (c, i, replicate m new_thread) (c', i', ths)"
    and "last i \<le> last_value c" and "small (last_value c)"
  shows "warps i' = warps i \<and> worst i' = worst i \<and> last_value c \<le> last_value c'"
  using clock_inv_reachable [OF assms(1) clock_inv_start] assms(2,3) by simp

theorem adjusted_clock_never_warps_witness:
  "warps (fst (snd (run_schedule 1 (map (\<lambda>j. (j mod 2, 100 - of_nat j, 0)) [0..<60])
      (\<lparr>valid_flags = 1, last_value = 50\<rparr>, fresh_info, replicate 2 new_thread)))) = 0"
proof -
  let ?s0 = "(\<lparr>valid_flags = 1, last_value = 50\<rparr>, fresh_info, replicate 2 new_thread)"
  let ?sch = "map (\<lambda>j. (j mod 2, 100 - of_nat j, 0)) [0..<60]"
  have "reachable 1 adjusted ?s0 (run_schedule 1 ?sch ?s0)"
    by (rule reachable_schedule [OF reachable.start])
      (auto simp: adjusted_def word_less_nat_alt unat_sub_if' unat_of_nat_u64)
  then show ?thesis
    using adjusted_clock_never_warps [of 1 _ fresh_info 2]
    by (cases "run_schedule 1 ?sch ?s0") (fastforce simp: fresh_info_def)
qed

text \<open>C17. A clock that does step back is counted: with the stability flag on both sides the reading is
  taken as it is, and when it lies before the last one seen, one round of the test adds one warp and
  keeps the worst.\<close>

theorem backward_clock_is_counted:
  assumes "valid_flags c AND PVCLOCK_TSC_STABLE_BIT \<noteq> 0" and "flags AND PVCLOCK_TSC_STABLE_BIT \<noteq> 0"
    and "check i" and "\<not> ti_lock i" and "sint (r - last i) < 0" and "0 < n"
  shows "\<exists>th. run_schedule n (replicate 4 (0, r, flags) @ replicate 6 (0, r', flags)) (c, i, [new_thread])
    = (c, i\<lparr>warps := warps i + 1, last := r',
        worst := (if sint (r - last i) < sint (worst i) then r - last i else worst i)\<rparr>, [th])
    \<and> place th = NextRound"
  using assms by (simp add: numeral_eq_Suc new_thread_def do_read_def delta_of_def)

theorem backward_clock_is_counted_witness:
  "warps (fst (snd (run_schedule 1 (replicate 4 (0, 10, 1) @ replicate 6 (0, 20, 1))
      (\<lparr>valid_flags = 1, last_value = 0\<rparr>, fresh_info\<lparr>last := 12\<rparr>, [new_thread])))) = 1"
  using backward_clock_is_counted [of "\<lparr>valid_flags = 1, last_value = 0\<rparr>" 1 "fresh_info\<lparr>last := 12\<rparr>" 10 1 20]
  by (fastforce simp: PVCLOCK_TSC_STABLE_BIT_def fresh_info_def sint_uint)

text \<open>C31. Stalls can be lost: the counter is incremented after the lock is released, by a load and a
  store, so two threads that both see a reading equal to the last one can add one to it together.\<close>

theorem stalls_can_be_lost:
  "\<exists>c i ths. reachable 1 adjusted (\<lparr>valid_flags = 1, last_value = 50\<rparr>, fresh_info\<lparr>last := 50\<rparr>,
      replicate 2 new_thread) (c, i, ths)
    \<and> stalls i = 1 \<and> map place ths = [Done, Done] \<and> map round ths = [1, 1] \<and> map delta_of ths = [0, 0]"
proof -
  let ?s0 = "(\<lparr>valid_flags = 1, last_value = 50\<rparr>, fresh_info\<lparr>last := 50\<rparr>, replicate 2 new_thread)"
  let ?sch = "replicate 12 (0, 50, 0) @ replicate 12 (1, 50, 0) @ replicate 4 (0, 50, 0) @ replicate 4 (1, 50, 0)"
  have r: "reachable 1 adjusted ?s0 (run_schedule 1 ?sch ?s0)"
    by (rule reachable_schedule [OF reachable.start]) (auto simp: adjusted_def)
  have "stalls (fst (snd (run_schedule 1 ?sch ?s0))) = 1
      \<and> map place (snd (snd (run_schedule 1 ?sch ?s0))) = [Done, Done]
      \<and> map round (snd (snd (run_schedule 1 ?sch ?s0))) = [1, 1]
      \<and> map delta_of (snd (snd (run_schedule 1 ?sch ?s0))) = [0, 0]"
    by (simp add: numeral_eq_Suc new_thread_def do_read_def delta_of_def fresh_info_def cmpxchg_def)
  with r show ?thesis by (metis prod.collapse)
qed

text \<open>C12. The lock of the test data is held by at most one thread: whatever the clock does, two threads
  are never both between taking and releasing it.\<close>

theorem kvm_clock_test_exclusive:
  assumes "reachable n ok (c, i, replicate m new_thread) (c', i', ths)"
    and "j < length ths" "k < length ths" "in_critical (place (ths ! j))" "in_critical (place (ths ! k))"
  shows "j = k \<and> ti_lock i'"
proof -
  have "lock_inv s" if "reachable n ok (c, i, replicate m new_thread) s" for s
    using that
  proof (induction rule: reachable.induct)
    case start
    then show ?case by (auto simp: lock_inv_def exclusive_def new_thread_def in_critical_def)
  next
    case (next' s s')
    then show ?case using lock_inv_step by blast
  qed
  from this [OF assms(1)] assms(2-) show ?thesis
    by (auto simp: lock_inv_def exclusive_def)
qed

theorem kvm_clock_test_exclusive_witness:
  "\<exists>c i ths. reachable 1 (\<lambda>raw. True) (\<lparr>valid_flags = 1, last_value = 50\<rparr>, fresh_info, replicate 2 new_thread) (c, i, ths)
    \<and> in_critical (place (ths ! 1)) \<and> ti_lock i"
proof -
  let ?s0 = "(\<lparr>valid_flags = 1, last_value = 50\<rparr>, fresh_info, replicate 2 new_thread)"
  let ?sch = "[(1, 5, 1), (0, 5, 1), (1, 5, 1), (0, 5, 1)]"
  have r: "reachable 1 (\<lambda>raw. True) ?s0 (run_schedule 1 ?sch ?s0)"
    by (rule reachable_schedule [OF reachable.start]) simp
  have e: "\<exists>c i ths. run_schedule 1 ?sch ?s0 = (c, i, ths) \<and> length ths = 2 \<and> in_critical (place (ths ! 1))"
    by (simp add: numeral_eq_Suc new_thread_def fresh_info_def in_critical_def)
  then obtain c i ths where s: "run_schedule 1 ?sch ?s0 = (c, i, ths)" "length ths = 2"
    "in_critical (place (ths ! 1))" by blast
  have "reachable 1 (\<lambda>raw. True) ?s0 (c, i, ths)" using r s(1) by simp
  from kvm_clock_test_exclusive [OF this, of 1 1] s this show ?thesis by auto
qed

end
