(* ===== verification/KvmclockTest.thy ===== *)
theory KvmclockTest
  imports KvmclockRuns
begin

text \<open>
  The clock test of \<open>src/pcm-unit/driver/kvmclock_test.c\<close> on the machine: what a read of the clock
  returns, what the checks print, and the stress test \<open>cycle_test\<close> as a run of its threads.
\<close>

text \<open>The last line of the log.\<close>

definition last_message :: "ev list \<Rightarrow> ev option" where
  "last_message t = (case rev (messages t) of [] \<Rightarrow> None | m # _ \<Rightarrow> Some m)"

section \<open>Code that changes nothing but the trace\<close>

definition retrace :: "'a kworld_scheme \<Rightarrow> 'a kworld_scheme \<Rightarrow> 'a kworld_scheme" where
  "retrace w w' = w\<lparr>trace := trace w', halted := halted w'\<rparr>"

definition trace_only :: "('a kworld_scheme, 'b) state \<Rightarrow> bool" where
  "trace_only m \<longleftrightarrow> (\<forall>w. snd (run_state m w) = retrace w (snd (run_state m w)))"

lemma trace_only_basic [simp]:
  "trace_only (State_Monad.return x)" "trace_only (gets f)" "trace_only (ask q)" "trace_only (emit e)"
  "trace_only (halt h)" "trace_only skip" "trace_only (printk fmt args)" "trace_only (kcall env name args)"
  by (simp_all add: trace_only_def retrace_def emit_def halt_def modify_def printk_def kcall_def)

lemma trace_only_bind [intro!]:
  assumes "trace_only m" and "\<And>x. trace_only (f x)"
  shows "trace_only (State_Monad.bind m f)"
  unfolding trace_only_def
proof
  fix w
  let ?w1 = "snd (run_state m w)"
  let ?w2 = "snd (run_state (f (fst (run_state m w))) ?w1)"
  have "?w1 = retrace w ?w1" "?w2 = retrace ?w1 ?w2"
    using assms unfolding trace_only_def by blast+
  then have "?w2 = retrace (retrace w ?w1) ?w2" by metis
  then have "?w2 = retrace w ?w2" by (simp add: retrace_def)
  then show "snd (run_state (State_Monad.bind m f) w) = retrace w (snd (run_state (State_Monad.bind m f) w))"
    by (simp add: split_def)
qed

lemma trace_only_loop: "(\<And>s. trace_only (body s)) \<Longrightarrow> trace_only (loop n d body s)"
  by (induction n arbitrary: s) (auto split: sum.splits)

lemma trace_only_read_consistent [simp]: "trace_only (read_consistent env i)"
  by (auto simp: read_consistent_def pvclock_read_cycles_def hv_load_def split: prod.splits
      intro!: trace_only_loop)

lemma run_read_consistent:
  "snd (run_state (read_consistent env i) w) = retrace w (snd (run_state (read_consistent env i) w))"
  using trace_only_read_consistent unfolding trace_only_def by blast

section \<open>A read of the clock\<close>

text \<open>The value of a read and the clock after it, when nobody interferes.\<close>

definition read_value :: "u64 \<times> u8 \<Rightarrow> clock \<Rightarrow> u64" where
  "read_value raw c =
     (if valid_flags c AND PVCLOCK_TSC_STABLE_BIT \<noteq> 0 \<and> snd raw AND PVCLOCK_TSC_STABLE_BIT \<noteq> 0
      then fst raw else max (fst raw) (last_value c))"

definition read_clock :: "u64 \<times> u8 \<Rightarrow> clock \<Rightarrow> clock" where
  "read_clock raw c =
     (if valid_flags c AND PVCLOCK_TSC_STABLE_BIT \<noteq> 0 \<and> snd raw AND PVCLOCK_TSC_STABLE_BIT \<noteq> 0
      then c else c\<lparr>last_value := max (fst raw) (last_value c)\<rparr>)"

lemma run_clocksource_read:
  assumes "run_state (read_consistent env i) w = (raw, w1)" and "halted w1 = None" and "2 \<le> env_fuel env"
  shows "run_state (pvclock_clocksource_read env i) w
    = (read_value raw (clk w1), w1\<lparr>clk := read_clock raw (clk w1)\<rparr>)"
proof -
  obtain f where f: "env_fuel env = Suc (Suc f)"
    using assms(3) by (metis Suc_le_D numeral_2_eq_2 Suc_le_mono)
  obtain r fl where raw: "raw = (r, fl)" by fastforce
  let ?l = "last_value (clk w1)"
  consider "r < ?l" | "r = ?l" | "?l < r" by fastforce
  then show ?thesis
    using assms(1,2) f raw
    by cases (auto simp: pvclock_clocksource_read_def cmpxchg_last_value_def cmpxchg_def read_value_def
        read_clock_def max_def not_less)
qed

section \<open>The interface of a clock source\<close>

text \<open>
  What the users of a clock rely on: a read is never below the floor of the clock, and the floor
  rises to it.  \<open>ok\<close> restricts what the hardware may report.
\<close>

locale clock_source =
  fixes val :: "'r \<Rightarrow> 's \<Rightarrow> u64"
    and after :: "'r \<Rightarrow> 's \<Rightarrow> 's"
    and floor_of :: "'s \<Rightarrow> u64"
    and ok :: "'r \<Rightarrow> 's \<Rightarrow> bool"
  assumes above: "ok r s \<Longrightarrow> floor_of s \<le> val r s"
    and raises: "ok r s \<Longrightarrow> floor_of (after r s) = val r s"
begin

fun reads :: "'r list \<Rightarrow> 's \<Rightarrow> u64 list" where
  "reads [] s = []"
| "reads (r # rs) s = val r s # reads rs (after r s)"

fun all_ok :: "'r list \<Rightarrow> 's \<Rightarrow> bool" where
  "all_ok [] s = True"
| "all_ok (r # rs) s = (ok r s \<and> all_ok rs (after r s))"

lemma reads_above: "all_ok rs s \<Longrightarrow> x \<in> set (reads rs s) \<Longrightarrow> floor_of s \<le> x"
proof (induction rs arbitrary: s)
  case Nil
  then show ?case by simp
next
  case (Cons r rs)
  then show ?case using above [of r s] raises [of r s] Cons.IH [of "after r s"] by (auto intro: order_trans)
qed

lemma reads_sorted: "all_ok rs s \<Longrightarrow> sorted (reads rs s)"
proof (induction rs arbitrary: s)
  case Nil
  then show ?case by simp
next
  case (Cons r rs)
  then show ?case using reads_above [of rs "after r s"] raises [of r s] by auto
qed

end

text \<open>The adjusted clock is one, whatever times the hypervisor reports.\<close>

interpretation adjusted: clock_source read_value read_clock last_value
  "\<lambda>raw c. snd raw AND PVCLOCK_TSC_STABLE_BIT = 0"
  by unfold_locales (auto simp: read_value_def read_clock_def)

text \<open>
  A stable counter is one as far as the times it reports do not decrease; the floor is then the
  last time reported.
\<close>

interpretation stable: clock_source "\<lambda>raw (c, l). read_value raw c" "\<lambda>raw (c, l). (read_clock raw c, fst raw)" snd
  "\<lambda>raw (c, l). valid_flags c AND PVCLOCK_TSC_STABLE_BIT \<noteq> 0 \<and> snd raw AND PVCLOCK_TSC_STABLE_BIT \<noteq> 0
     \<and> l \<le> fst raw"
  by unfold_locales (auto simp: read_value_def read_clock_def)

section \<open>A hypervisor at rest\<close>

text \<open>
  The structures do not change while they are read: one even version, one time and flags, one wall
  clock; and the documented behaviour of \<open>set_normalized_timespec\<close> on a normalized time.
\<close>

definition quiet_hv :: "env \<Rightarrow> u32 \<Rightarrow> u64 \<times> u8 \<Rightarrow> u32 \<Rightarrow> u32 \<Rightarrow> bool" where
  "quiet_hv env v raw s n \<longleftrightarrow> \<not> bit v 0 \<and> 2 \<le> env_fuel env \<and> (\<forall>t i.
     env_call env t ''__pvclock_read_cycles'' [AInt i] = ucast v
     \<and> env_call env t ''__pvclock_read_cycles cycles'' [AInt i] = fst raw
     \<and> ucast (env_call env t ''__pvclock_read_cycles flags'' [AInt i]) = snd raw
     \<and> env_call env t ''hv_clock.version'' [AInt i] = ucast v
     \<and> env_call env t ''wall_clock.version'' [AInt i] = ucast v
     \<and> env_call env t ''wall_clock.sec'' [AInt i] = ucast s
     \<and> env_call env t ''wall_clock.nsec'' [AInt i] = ucast n)
   \<and> (\<forall>t x y. y < NSEC_PER_SEC \<longrightarrow>
     env_call env t ''set_normalized_timespec'' [arg_word x, arg_word y] = x)"

lemma even_version: "\<not> bit v 0 \<Longrightarrow> (ucast v :: u64) AND 1 = 0" for v :: u32
  by (rule bit_word_eqI) (auto simp: bit_simps intro: gr0I)

lemma run_read_consistent_quiet:
  assumes "quiet_hv env v raw s n" and "halted w = None"
  shows "run_state (read_consistent env i) w = (raw, w\<lparr>trace := trace w @
    [Call ''__pvclock_read_cycles'' [AInt (int i)], Call ''hv_clock.version'' [AInt (int i)],
     Call ''hv_clock.version'' [AInt (int i)]]\<rparr>)"
proof -
  obtain f where f: "env_fuel env = Suc (Suc f)"
    using assms(1) unfolding quiet_hv_def by (metis Suc_le_D numeral_2_eq_2 Suc_le_mono)
  have e: "(ucast v :: u64) AND 1 = 0" using assms(1) by (intro even_version) (simp add: quiet_hv_def)
  show ?thesis
    using assms f e
    by (simp add: read_consistent_def pvclock_read_cycles_def hv_load_def quiet_hv_def prod_eq_iff)
qed

lemma run_kvm_clock_read_quiet:
  assumes "quiet_hv env v raw s n" and "halted w = None"
  shows "\<exists>t. run_state (kvm_clock_read env) w
      = (read_value raw (clk w), w\<lparr>trace := t, clk := read_clock raw (clk w)\<rparr>)
    \<and> messages t = messages (trace w)"
  using assms(2) run_clocksource_read [OF run_read_consistent_quiet [OF assms]] assms(1)
  by (intro exI [of _ "trace w @ [Call ''__pvclock_read_cycles'' [AInt (int (cpu w))],
      Call ''hv_clock.version'' [AInt (int (cpu w))], Call ''hv_clock.version'' [AInt (int (cpu w))]]"])
    (simp add: kvm_clock_read_def smp_id_def quiet_hv_def)

text \<open>The seconds a read of the wall clock returns.\<close>

definition wall_seconds :: "u64 \<Rightarrow> u32 \<Rightarrow> u32 \<Rightarrow> int" where
  "wall_seconds c s n = sint ((c + (ucast s * NSEC_PER_SEC + ucast n)) div NSEC_PER_SEC)"

lemma run_kvm_get_wallclock_quiet:
  assumes q: "quiet_hv env v raw s n" and h: "halted w = None"
  shows "\<exists>t. run_state (kvm_get_wallclock env) w
      = (wall_seconds (read_value raw (clk w)) s n, w\<lparr>trace := t, clk := read_clock raw (clk w)\<rparr>)
    \<and> messages t = messages (trace w)"
proof -
  obtain f where f: "env_fuel env = Suc (Suc f)"
    using q unfolding quiet_hv_def by (metis Suc_le_D numeral_2_eq_2 Suc_le_mono)
  have e: "(ucast v :: u64) AND 1 = 0" using q by (intro even_version) (simp add: quiet_hv_def)
  have lt: "x mod NSEC_PER_SEC < NSEC_PER_SEC" for x
    by (rule word_mod_less_divisor) (simp add: NSEC_PER_SEC_def)
  let ?err = "env_wrmsr_safe env (trace w) MSR_KVM_WALL_CLOCK_NEW (env_sym env ''wall_clock'')"
  let ?t1 = "trace w @ [MsrWrSafe MSR_KVM_WALL_CLOCK_NEW (env_sym env ''wall_clock'') ?err,
    Call ''wall_clock.version'' [AInt 0], Call ''wall_clock.sec'' [AInt 0], Call ''wall_clock.nsec'' [AInt 0],
    Call ''wall_clock.version'' [AInt 0], Call ''wall_clock.version'' [AInt 0]]"
  let ?w1 = "w\<lparr>trace := ?t1\<rparr>"
  have r: "run_state (pvclock_clocksource_read env (cpu w)) ?w1
      = (read_value raw (clk w), ?w1\<lparr>trace := ?t1 @ [Call ''__pvclock_read_cycles'' [AInt (int (cpu w))],
      Call ''hv_clock.version'' [AInt (int (cpu w))], Call ''hv_clock.version'' [AInt (int (cpu w))]],
      clk := read_clock raw (clk w)\<rparr>)"
    using h q by (subst run_clocksource_read [OF run_read_consistent_quiet [OF q]]) (simp_all add: quiet_hv_def)
  show ?thesis
    using h q f e lt r
    by (intro exI [of _ "trace (snd (run_state (kvm_get_wallclock env) w))"])
      (simp add: kvm_get_wallclock_def smp_id_def pvclock_read_wallclock_def hv_load_def quiet_hv_def
        wall_seconds_def Let_def)
qed

lemma wall_seconds_exact:
  assumes "uint c + uint s * 1000000000 + uint n < 2 ^ 64"
  shows "wall_seconds c s n = uint s + (uint c + uint n) div 1000000000"
proof -
  have pos: "0 \<le> uint c" "0 \<le> uint s" "0 \<le> uint n" by simp_all
  have N: "uint NSEC_PER_SEC = 1000000000" by (simp add: NSEC_PER_SEC_def)
  have us: "uint (ucast s :: u64) = uint s" "uint (ucast n :: u64) = uint n"
    by (simp_all add: unsigned_ucast_eq take_bit_int_eq_self order_less_trans [OF uint_bounded])
  have "uint (ucast s :: u64) * uint NSEC_PER_SEC < 2 ^ 64" unfolding N us using assms pos by linarith
  from uint_mult_u64 [OF this] have m: "uint (ucast s * NSEC_PER_SEC) = uint s * 1000000000"
    unfolding N us .
  have "uint (ucast s * NSEC_PER_SEC) + uint (ucast n :: u64) < 2 ^ 64"
    unfolding m us using assms pos by linarith
  from uint_add_u64 [OF this] have a: "uint (ucast s * NSEC_PER_SEC + ucast n) = uint s * 1000000000 + uint n"
    unfolding m us .
  have "uint c + uint (ucast s * NSEC_PER_SEC + ucast n) < 2 ^ 64"
    unfolding a using assms pos by linarith
  from uint_add_u64 [OF this] have t: "uint (c + (ucast s * NSEC_PER_SEC + ucast n))
      = uint c + uint s * 1000000000 + uint n"
    unfolding a by simp
  have d: "uint ((c + (ucast s * NSEC_PER_SEC + ucast n)) div NSEC_PER_SEC)
      = (uint c + uint s * 1000000000 + uint n) div 1000000000"
    by (simp add: uint_div t N)
  have q: "(uint c + uint s * 1000000000 + uint n) div 1000000000
      = uint s + (uint c + uint n) div 1000000000"
    using div_mult_self1 [of 1000000000 "uint c + uint n" "uint s"] by (simp add: ac_simps)
  have "(uint c + uint s * 1000000000 + uint n) div 1000000000 < 2 ^ 63"
    using assms pos by (simp add: div_less_iff_less_mult)
  then have "sint ((c + (ucast s * NSEC_PER_SEC + ucast n)) div NSEC_PER_SEC)
      = uint ((c + (ucast s * NSEC_PER_SEC + ucast n)) div NSEC_PER_SEC)"
    using d by (intro sint_small) simp
  then show ?thesis using d q by (simp add: wall_seconds_def)
qed

lemma read_clock_twice: "read_value raw (read_clock raw c) = read_value raw c" "read_clock raw (read_clock raw c) = read_clock raw c"
  by (auto simp: read_value_def read_clock_def)

lemma run_wallclock_test_quiet:
  assumes q: "quiet_hv env v raw s n" and h: "halted w = None"
  shows "\<exists>t. run_state (wallclock_test env err) w =
      (let ksec = wall_seconds (read_value raw (clk w)) s n; offset = ksec - sec w
       in (if threshold w < \<bar>offset\<bar> then err + 1 else err, w\<lparr>trace := t, clk := read_clock raw (clk w)\<rparr>))
    \<and> messages t = messages (trace w) @
      (let ksec = wall_seconds (read_value raw (clk w)) s n; offset = ksec - sec w
       in [Printk ''Raw nanoseconds value from kvmclock: %llu (cpu %d)'' [arg_word (read_value raw (clk w)), AInt (int (cpu w))],
           Printk ''Seconds get from kvmclock: %ld (cpu %d, offset: %ld)'' [AInt ksec, AInt (int (cpu w)), AInt offset]]
         @ (if threshold w < \<bar>offset\<bar> then [Printk ''offset too large!'' []] else []))"
proof -
  obtain t1 where 1: "run_state (kvm_get_wallclock env) w
      = (wall_seconds (read_value raw (clk w)) s n, w\<lparr>trace := t1, clk := read_clock raw (clk w)\<rparr>)"
    and m1: "messages t1 = messages (trace w)"
    using run_kvm_get_wallclock_quiet [OF q h] by blast
  let ?w1 = "w\<lparr>trace := t1, clk := read_clock raw (clk w)\<rparr>"
  obtain t2 where 2: "run_state (kvm_clock_read env) ?w1
      = (read_value raw (clk w), ?w1\<lparr>trace := t2, clk := read_clock raw (clk w)\<rparr>)"
    and m2: "messages t2 = messages t1"
    using run_kvm_clock_read_quiet [OF q, of ?w1] h by (auto simp: read_clock_twice)
  have abs: "(threshold w < offset \<or> offset < - threshold w) = (threshold w < \<bar>offset\<bar>)" for offset :: int
    by auto
  show ?thesis
    using h 1 2 m1 m2
    by (intro exI [of _ "trace (snd (run_state (wallclock_test env err) w))"])
      (simp add: wallclock_test_def smp_id_def Let_def abs)
qed

section \<open>Properties\<close>



text \<open>C14. A read of the clock that gets a consistent reading returns that reading when both sides
  promise a stable counter, and otherwise the larger of the reading and the last value, which it
  leaves as the new last value; two rounds of the exchange loop are enough.\<close>

theorem pvclock_clocksource_read_result:
  assumes "run_state (read_consistent env i) w = (raw, w1)" and "halted w1 = None" and "2 \<le> env_fuel env"
  shows "run_state (pvclock_clocksource_read env i) w =
    (if valid_flags (clk w1) AND PVCLOCK_TSC_STABLE_BIT \<noteq> 0 \<and> snd raw AND PVCLOCK_TSC_STABLE_BIT \<noteq> 0
     then (fst raw, w1)
     else (max (fst raw) (last_value (clk w1)),
       w1\<lparr>clk := (clk w1)\<lparr>last_value := max (fst raw) (last_value (clk w1))\<rparr>\<rparr>))"
  using run_clocksource_read [OF assms] by (auto simp: read_value_def read_clock_def)

text \<open>C18. The wall clock test compares with the constant 2: on a machine whose wall clock started
  more than seven seconds after the epoch, it reports an offset that is too large on every CPU
  that runs it, however exact the clock is.\<close>

theorem wallclock_test_always_too_large:
  assumes "quiet_hv env v raw s n" and "halted w = None" and "sec w = 2" and "threshold w = DEFAULT_THRESHOLD"
    and "uint (read_value raw (clk w)) + uint s * 1000000000 + uint n < 2 ^ 64" and "7 < s"
  shows "fst (run_state (wallclock_test env err) w) = err + 1 \<and>
    last_message (trace (snd (run_state (wallclock_test env err) w))) = Some (Printk ''offset too large!'' [])"
proof -
  let ?c = "read_value raw (clk w)"
  have k: "wall_seconds ?c s n = uint s + (uint ?c + uint n) div 1000000000"
    using assms(5) by (rule wall_seconds_exact)
  have "7 < uint s" using assms(6) by (simp add: word_less_def)
  moreover have "0 \<le> (uint ?c + uint n) div 1000000000" by (simp add: pos_imp_zdiv_nonneg_iff)
  ultimately have "5 < \<bar>wall_seconds ?c s n - 2\<bar>" unfolding k by linarith
  then show ?thesis
    using run_wallclock_test_quiet [OF assms(1,2), of err] assms(3,4)
    by (auto simp: Let_def DEFAULT_THRESHOLD_def last_message_def)
qed

end
