(* ===== verification/KvmclockCycle.thy ===== *)
theory KvmclockCycle
  imports KvmclockTest
begin

text \<open>
  \<open>cycle_test\<close> of \<open>src/pcm-unit/driver/kvmclock_test.c\<close>: its threads take the steps of the relation of
  theory \<open>KvmclockRuns\<close>, so it inherits their invariant.
\<close>

section \<open>The threads of a run\<close>

lemma read_consistent_keeps:
  "clk (snd (run_state (read_consistent env i) w)) = clk w"
  "ti (snd (run_state (read_consistent env i) w)) = ti w"
  "loops (snd (run_state (read_consistent env i) w)) = loops w"
  by (subst run_read_consistent, simp add: retrace_def)+

lemma read_consistent_silent:
  "messages (trace (snd (run_state (read_consistent env i) w))) = messages (trace w)"
  unfolding read_consistent_def
proof (rule loop_rule [where I = "\<lambda>_ w'. messages (trace w') = messages (trace w)"
      and Q = "\<lambda>_ w'. messages (trace w') = messages (trace w)"])
  fix u and w1 :: "'a kworld_scheme" and r w2
  assume "messages (trace w1) = messages (trace w)"
    and "run_state (do { (version, ret, flags) \<leftarrow> pvclock_read_cycles env i;
      v1 \<leftarrow> hv_load env ''hv_clock.version'' i;
      if v1 AND 1 \<noteq> 0 then State_Monad.return (Inl ())
      else do {
        v2 \<leftarrow> hv_load env ''hv_clock.version'' i;
        State_Monad.return (if version \<noteq> ucast v2 then Inl () else Inr (ret, flags)) } }) w1 = (r, w2)"
  then show "case r of Inl s' \<Rightarrow> messages (trace w2) = messages (trace w)
      | Inr x \<Rightarrow> messages (trace w2) = messages (trace w)"
    by (cases "halted w1")
      (auto simp: pvclock_read_cycles_def hv_load_def kcall_def emit_def modify_def split: if_splits)
next
  fix u and w1 :: "'a kworld_scheme"
  assume "messages (trace w1) = messages (trace w)"
  then show "messages (trace (snd (run_state (halt Hang) w1))) = messages (trace w)"
    by (simp add: halt_def modify_def)
qed simp

text \<open>The hypervisor never promises a stable counter.\<close>

definition unstable_hv :: "env \<Rightarrow> bool" where
  "unstable_hv env \<longleftrightarrow> (\<forall>t i. adjusted
     (env_call env t ''__pvclock_read_cycles cycles'' [AInt i],
      ucast (env_call env t ''__pvclock_read_cycles flags'' [AInt i])))"

lemma read_consistent_adjusted:
  assumes "unstable_hv env"
  shows "adjusted (fst (run_state (read_consistent env i) w))"
  unfolding read_consistent_def
proof (rule loop_rule [where I = "\<lambda>_ _. True" and Q = "\<lambda>raw _. adjusted raw"])
  show "adjusted (0, 0)" by (simp add: adjusted_def)
qed (use assms in \<open>auto simp: pvclock_read_cycles_def hv_load_def unstable_hv_def split: prod.splits if_splits\<close>)

lemma run_kvm_clock_test_step:
  assumes "run_state (if at_cycles (ths ! j) then read_consistent env j else State_Monad.return (0, 0)) w = (raw, w1)"
    and "halted w1 = None" and "thread_step (loops w1) raw (clk w1, ti w1 k, ths ! j) = (c', i', th')"
  shows "\<exists>t. run_state (kvm_clock_test_step env k j ths) w
    = (ths[j := th'], w1\<lparr>clk := c', ti := (ti w1)(k := i'), trace := t\<rparr>)
    \<and> (\<not> prints_worst (ti w1 k) (ths ! j) \<longrightarrow> messages t = messages (trace w1))"
  using assms by (auto simp: kvm_clock_test_step_def Let_def split: prod.splits simp del: thread_step.simps)

lemma frozen_read_consistent [simp]: "frozen (read_consistent env i)"
  by (auto simp: read_consistent_def pvclock_read_cycles_def hv_load_def split: prod.splits
      intro!: frozen_loop)

lemma frozen_kvm_clock_test_step [simp]: "frozen (kvm_clock_test_step env k j ths)"
  by (auto simp: kvm_clock_test_step_def Let_def split: prod.splits simp del: thread_step.simps)

lemma frozen_wait_for_threads [simp]: "frozen (wait_for_threads env k ths)"
  by (auto simp: wait_for_threads_def intro!: frozen_loop)

text \<open>The invariant of the threads, as long as the machine runs, and the counts so far.\<close>

definition run_inv :: "nat \<Rightarrow> nat \<Rightarrow> u64 \<Rightarrow> u64 \<Rightarrow> ev list \<Rightarrow> u64 \<Rightarrow> thread list \<Rightarrow> 'a pcm_world_scheme \<Rightarrow> bool" where
  "run_inv k m W V M L ths w \<longleftrightarrow>
     (halted w = None \<longrightarrow> clock_inv (clk w, ti w k, ths) \<and> L \<le> last_value (clk w)) \<and> length ths = m
     \<and> warps (ti w k) = W \<and> worst (ti w k) = V \<and> messages (trace w) = M"

lemma run_inv_step:
  assumes "unstable_hv env" and "run_inv k m W V M L ths w" and "j < m"
    and "run_state (kvm_clock_test_step env k j ths) w = (ths', w')"
  shows "run_inv k m W V M L ths' w'"
proof (cases "halted w")
  case (Some h)
  then have "w' = w" using assms(4) frozenD [of "kvm_clock_test_step env k j ths" w h] by simp
  moreover have "length ths' = length ths"
    using assms(4) by (auto simp: kvm_clock_test_step_def Let_def split: prod.splits simp del: thread_step.simps)
  ultimately show ?thesis using assms(2) Some by (simp add: run_inv_def)
next
  case None
  let ?read = "if at_cycles (ths ! j) then read_consistent env j else State_Monad.return (0, 0)"
  obtain raw w1 where r: "run_state ?read w = (raw, w1)" by fastforce
  have raw: "adjusted raw"
    using r read_consistent_adjusted [OF assms(1), of j w]
    by (auto simp: adjusted_def split: if_splits)
  have w1: "clk w1 = clk w" "ti w1 = ti w" "loops w1 = loops w" "messages (trace w1) = messages (trace w)"
    using r read_consistent_keeps [of env j w] read_consistent_silent [of env j w] by (auto split: if_splits)
  obtain c' i' th' where st: "thread_step (loops w1) raw (clk w1, ti w1 k, ths ! j) = (c', i', th')"
    by (metis prod.exhaust)
  show ?thesis
  proof (cases "halted w1")
    case None
    have "thread_ok (clk w) (ti w k) (ths ! j)"
      using assms(2,3) \<open>halted w = None\<close> by (simp add: run_inv_def clock_inv_def)
    then have "\<not> prints_worst (ti w1 k) (ths ! j)"
      by (auto simp: thread_ok_def prints_worst_def)
    then obtain t where "w' = w1\<lparr>clk := c', ti := (ti w1)(k := i'), trace := t\<rparr>" "ths' = ths[j := th']"
      "messages t = messages (trace w1)"
      using run_kvm_clock_test_step [OF r None st] assms(4) by auto
    moreover have "clock_step (loops w1) adjusted (clk w, ti w k, ths) (c', i', ths[j := th'])"
      using assms(2,3) raw st w1 by (intro clock_step.step) (auto simp: run_inv_def)
    ultimately show ?thesis
      using clock_inv_step assms(2) \<open>halted w = None\<close> w1 by (fastforce simp: run_inv_def)
  next
    case (Some h)
    then have "w' = w1" "length ths' = length ths"
      using assms(4) r by (auto simp: kvm_clock_test_step_def Let_def run_frozen split: prod.splits if_splits
        simp del: thread_step.simps)
    then show ?thesis using assms(2) w1 Some by (simp add: run_inv_def)
  qed
qed

text \<open>What waiting for the threads leaves: the counts as they were, and no message.\<close>

definition counts_kept :: "nat \<Rightarrow> 'a pcm_world_scheme \<Rightarrow> 'a pcm_world_scheme \<Rightarrow> bool" where
  "counts_kept k w w' \<longleftrightarrow> warps (ti w' k) = warps (ti w k) \<and> worst (ti w' k) = worst (ti w k)
     \<and> messages (trace w') = messages (trace w)
     \<and> (halted w' = None \<longrightarrow> last_value (clk w) \<le> last_value (clk w') \<and> small (last_value (clk w')))"

lemma wait_for_threads_counts:
  assumes "unstable_hv env" and "clock_inv (clk w, ti w k, ths)" and "ths \<noteq> []"
  shows "counts_kept k w (snd (run_state (wait_for_threads env k ths) w))"
  unfolding wait_for_threads_def
proof (rule loop_rule [where I = "run_inv k (length ths) (warps (ti w k)) (worst (ti w k)) (messages (trace w)) (last_value (clk w))"
      and Q = "\<lambda>_. counts_kept k w"])
  let ?I = "run_inv k (length ths) (warps (ti w k)) (worst (ti w k)) (messages (trace w)) (last_value (clk w))"
  show "?I ths w" using assms(2) by (simp add: run_inv_def)
  show "counts_kept k w (snd (run_state (halt Hang) w'))" if "?I s w'" for s w'
    using that by (cases "halted w'") (auto simp: run_inv_def counts_kept_def run_frozen clock_inv_def)
  fix s :: "thread list" and w1 :: "'a pcm_world_scheme" and r w2
  assume I: "?I s w1" and r: "run_state (do {
       n \<leftarrow> gets (\<lambda>w. ncpus (ti w k));
       if n = 0 then State_Monad.return (Inr ())
       else do {
         j \<leftarrow> ask (\<lambda>t. env_insn env t ''scheduler'');
         ths' \<leftarrow> kvm_clock_test_step env k (unat j mod length s) s;
         State_Monad.return (Inl ths') } }) w1 = (r, w2)"
  show "case r of Inl s' \<Rightarrow> ?I s' w2 | Inr x \<Rightarrow> counts_kept k w w2"
  proof (cases "ncpus (ti w1 k) = 0")
    case True
    with I r show ?thesis by (auto simp: run_inv_def counts_kept_def clock_inv_def)
  next
    case False
    have "unat (env_insn env (trace w1) ''scheduler'') mod length s < length ths"
      using I assms(3) by (simp add: run_inv_def)
    with False r run_inv_step [OF assms(1) I] show ?thesis by (auto split: prod.splits)
  qed
qed

text \<open>The start of a run: the calls on the other CPUs change nothing but the trace.\<close>

definition cycle_start :: "env \<Rightarrow> nat \<Rightarrow> bool \<Rightarrow> nat \<Rightarrow> ('a pcm_world_scheme, unit) state" where
  "cycle_start env cpus chk k = do {
     modify (\<lambda>w. w\<lparr>ti := (ti w)(k := (ti w k)\<lparr>ncpus := of_nat cpus\<rparr>)\<rparr>);
     modify (\<lambda>w. w\<lparr>ti := (ti w)(k := (ti w k)\<lparr>check := chk\<rparr>)\<rparr>);
     for_each (rev [0..<cpus]) (\<lambda>i. do {
       _ \<leftarrow> kcall env ''smp_call_function_single''
         [AInt (int i), AStr ''kvm_clock_test'', AInt (int k), AInt 0];
       skip }) }"

lemma run_calls:
  assumes "halted w = None"
  shows "\<exists>t. run_state (for_each xs (\<lambda>i. do { _ \<leftarrow> kcall env name (f i); skip })) w = ((), w\<lparr>trace := t\<rparr>)
    \<and> messages t = messages (trace w)"
  using assms
proof (induction xs arbitrary: w)
  case Nil
  then show ?case by (intro exI [of _ "trace w"]) simp
next
  case (Cons x xs)
  then show ?case using Cons.IH [of "w\<lparr>trace := trace w @ [Call name (f x)]\<rparr>"] by simp
qed

lemma run_cycle_start:
  assumes "halted w = None"
  shows "\<exists>t. run_state (cycle_start env cpus chk k) w = ((), w\<lparr>
      ti := (ti w)(k := (ti w k)\<lparr>ncpus := of_nat cpus, check := chk\<rparr>), trace := t\<rparr>)
    \<and> messages t = messages (trace w)"
proof -
  let ?w1 = "w\<lparr>ti := (ti w)(k := (ti w k)\<lparr>ncpus := of_nat cpus, check := chk\<rparr>)\<rparr>"
  show ?thesis
    using run_calls [of ?w1 "rev [0..<cpus]" env "''smp_call_function_single''"
        "\<lambda>i. [AInt (int i), AStr ''kvm_clock_test'', AInt (int k), AInt 0]"] assms
    by (simp add: cycle_start_def)
qed

text \<open>The end of a run.\<close>

definition cycle_report :: "env \<Rightarrow> nat \<Rightarrow> bool \<Rightarrow> nat \<Rightarrow> u64 \<Rightarrow> ('a pcm_world_scheme, int) state" where
  "cycle_report env cpus chk k begin = do {
     end' \<leftarrow> rdtsc env;
     n \<leftarrow> gets loops;
     i \<leftarrow> gets (\<lambda>w. ti w k);
     printk ''Total vcpus: %d'' [AInt (int cpus)];
     printk ''Test  loops: %ld'' [AInt n];
     (if chk then do {
        printk ''Total warps:  %lld'' [AInt (sint (warps i))];
        printk ''Total stalls: %lld'' [AInt (sint (stalls i))];
        printk ''Worst warp:   %lld'' [AInt (sint (worst i))] }
      else printk ''TSC cycles:  %lld'' [AInt (sint (end' - begin))]);
     State_Monad.return (if warps i \<noteq> 0 then 1 else 0) }"

lemma cycle_test_parts:
  "cycle_test env cpus chk k = do {
     begin \<leftarrow> rdtsc env;
     cycle_start env cpus chk k;
     wait_for_threads env k (replicate cpus new_thread);
     cycle_report env cpus chk k begin }"
  by (simp add: cycle_test_def cycle_start_def cycle_report_def)

lemma cycle_report_keeps:
  "fst (run_state (cycle_report env cpus chk k b) w) = (if warps (ti w k) \<noteq> 0 then 1 else 0)"
  "ti (snd (run_state (cycle_report env cpus chk k b) w)) = ti w"
proof -
  have "ti (snd (run_state (emit e) w')) = ti w'" for e and w' :: "'a pcm_world_scheme"
    by (simp add: emit_def modify_def)
  then show "fst (run_state (cycle_report env cpus chk k b) w) = (if warps (ti w k) \<noteq> 0 then 1 else 0)"
    "ti (snd (run_state (cycle_report env cpus chk k b) w)) = ti w"
    by (cases chk; simp add: cycle_report_def split_def printk_def rdtsc_def)+
qed

lemma cycle_report_runs:
  "halted w = None \<Longrightarrow> halted (snd (run_state (cycle_report env cpus chk k b) w)) = None"
  by (cases chk) (simp_all add: cycle_report_def)

lemma run_cycle_test:
  assumes "halted w = None"
  obtains t where "run_state (cycle_test env cpus chk k) w
      = run_state (cycle_report env cpus chk k (env_rdtsc env (trace w)))
          (snd (run_state (wait_for_threads env k (replicate cpus new_thread))
            (w\<lparr>ti := (ti w)(k := (ti w k)\<lparr>ncpus := of_nat cpus, check := chk\<rparr>), trace := t\<rparr>)))"
    and "messages t = messages (trace w)"
proof -
  let ?w0 = "w\<lparr>trace := trace w @ [Rdtsc (env_rdtsc env (trace w))]\<rparr>"
  obtain t where "run_state (cycle_start env cpus chk k) ?w0 = ((), ?w0\<lparr>
      ti := (ti w)(k := (ti w k)\<lparr>ncpus := of_nat cpus, check := chk\<rparr>), trace := t\<rparr>)"
    and "messages t = messages (trace w)"
    using run_cycle_start [of ?w0 env cpus chk k] assms by (auto simp del: One_nat_def)
  with that [of t] assms show ?thesis
    by (simp add: cycle_test_parts split_def del: One_nat_def)
qed

section \<open>Properties\<close>


section \<open>Machines on which the hypotheses hold\<close>

text \<open>A hypervisor at rest.\<close>

definition hv_env :: "u64 \<times> u8 \<Rightarrow> u32 \<Rightarrow> u32 \<Rightarrow> nat \<Rightarrow> env" where
  "hv_env raw s n f = calm_env\<lparr>env_fuel := f, env_call := (\<lambda>t name args.
     if name = ''__pvclock_read_cycles cycles'' then fst raw
     else if name = ''__pvclock_read_cycles flags'' then ucast (snd raw)
     else if name = ''wall_clock.sec'' then ucast s
     else if name = ''wall_clock.nsec'' then ucast n
     else if name = ''set_normalized_timespec'' then (case args of AInt x # _ \<Rightarrow> word_of_int x | _ \<Rightarrow> 0)
     else 0)\<rparr>"

lemma byte_word [simp]: "ucast (ucast (b :: u8) :: u64) = b"
  by (rule bit_word_eqI) (auto simp: bit_simps)

lemma hv_env_quiet: "2 \<le> f \<Longrightarrow> quiet_hv (hv_env raw s n f) 0 raw s n"
  by (simp add: quiet_hv_def hv_env_def)

lemma hv_env_unstable: "adjusted raw \<Longrightarrow> unstable_hv (hv_env raw s n f)"
  by (simp add: unstable_hv_def hv_env_def)

definition pcm_start :: pcm_world where
  "pcm_start = ioapic_world.extend ioapic_start
     (pcm_world.fields \<lparr>valid_flags = 1, last_value = 7\<rparr> 3 2 DEFAULT_THRESHOLD (\<lambda>k. fresh_info\<lparr>ncpus := 0\<rparr>))"

lemma pcm_start_simps [simp]:
  "halted pcm_start = None" "trace pcm_start = []" "loops pcm_start = 3" "sec pcm_start = 2"
  "threshold pcm_start = DEFAULT_THRESHOLD" "clk pcm_start = \<lparr>valid_flags = 1, last_value = 7\<rparr>"
  "ti pcm_start k = fresh_info\<lparr>ncpus := 0\<rparr>" "cpu pcm_start = 0"
  by (simp_all add: pcm_start_def ioapic_start_def ioapic_world.defs pcm_world.defs)


theorem pvclock_clocksource_read_result_witness:
  "fst (run_state (pvclock_clocksource_read (hv_env (5, 0) 8 9 100) 0) pcm_start) = 7"
  by (subst pvclock_clocksource_read_result [OF run_read_consistent_quiet [OF hv_env_quiet]])
    (simp_all add: hv_env_def)

theorem wallclock_test_always_too_large_witness:
  "fst (run_state (wallclock_test (hv_env (5, 0) 8 9 100) 0) pcm_start) = 1"
  using wallclock_test_always_too_large [OF hv_env_quiet, of 100 pcm_start "(5, 0)" 8 9 0]
  by (simp add: read_value_def)

end
