(* ===== verification/UnitFootprint.thy ===== *)
theory UnitFootprint
  imports DriverContract IoapicRuns KvmclockCycle Msr Tsc Setjmp
begin

text \<open>
  The tests of the pcm-unit driver stay within their footprint: no hypercall, no resource of the module
  taken or given back, its variables untouched, also by the interrupt handlers and the other CPUs.
\<close>

lemma within_tsc [simp]: "within test_event (test_tsc env)" "within test_event (test_tsc_adjust env)"
  unfolding test_tsc_def test_tsc_adjust_def test_wrtsc_def test_rdtscp_def native_write_msr_safe_def Let_def
  by (auto split: prod.splits simp: resource_calls_def)

lemma within_after_setjmp: "within test_event (after_setjmp v i)"
  by (induction v i rule: after_setjmp.induct) (subst after_setjmp.simps, auto simp: Let_def)

lemma within_setjmp [simp]: "within test_event (test_setjmp i)"
  by (simp add: test_setjmp_def within_after_setjmp)

lemma within_msr [simp]: "within test_event (test_msr env)"
  unfolding test_msr_def test_msr_rw_def test_syscall_lazy_load_def Msr.read_cs_def read_ss_def write_ss_def Let_def
  by (auto intro!: within_for_each split: prod.splits simp: resource_calls_def)

lemma within_regs [simp]:
  "within test_event (eoi env)" "within test_event (set_irq_line l v)" "within test_event (set_mask env l m)"
  "within test_event (apic_read_bit env reg n)" "within test_event (set_ioapic_redir l vec trig)"
  "within test_event irq_enable" "within test_event irq_disable"
  by (auto simp: eoi_def apic_write_def set_irq_line_def set_mask_def ioapic_read_redir_def
      ioapic_write_redir_def ioapic_read_reg_def ioapic_write_reg_def apic_read_bit_def apic_read_def
      set_ioapic_redir_def irq_enable_def irq_disable_def Let_def resource_calls_def)

lemma within_isr: "\<forall>(n, h) \<in> set (isr_table env). within test_event (h rs)"
  by (auto simp: isr_table_def isr_defs same_module_def)

lemma within_call_isr: "\<forall>(n, h) \<in> set hs. within P (h rs) \<Longrightarrow> within P (call_isr env hs f rs)"
  by (induction hs) auto

lemma within_deliver [simp]: "within test_event (deliver n env)"
proof (induction n)
  case (Suc n)
  have "within test_event (take_interrupt env v)" for v
    by (auto simp: take_interrupt_def same_module_def split: option.splits intro!: within_call_isr within_isr)
  with Suc show ?case by (auto split: option.splits)
qed auto

lemma within_install [simp]: "within test_event (install env n nm)"
  by (auto simp: install_def handle_irq_local_def set_idt_entry_def IoapicIdt.read_cs_def Let_def resource_calls_def split: prod.splits)

lemma within_window [simp]:
  "within test_event (intr_window env)" "within test_event (line_w env l v)" "within test_event (redir_w env l vec trig)"
  "within test_event (mask_w env l m)" "within test_event (sti_w env)" "within test_event (nop env)"
  "within test_event (toggle_irq_line env l)" "within test_event (sti_hlt_cli env)"
  by (auto simp: intr_window_def line_w_def redir_w_def mask_w_def sti_w_def nop_def toggle_irq_line_def
      sti_hlt_cli_def simp del: deliver.simps)

lemma within_ioapic_registers [simp]: "within test_event (test_ioapic_registers env)"
  unfolding test_ioapic_registers_def enable_x2apic_local_def mask_pic_interrupts_def
    ioapic_read_reg_def ioapic_write_reg_def ioapic_reg_version_def ioapic_reg_id_def ioapic_arbitration_id_def Let_def
  by (auto split: prod.splits simp: resource_calls_def same_module_def)

lemma within_retrigger [simp]: "within test_event (retrigger_loop k env)"
  by (induction k) auto

lemma within_delay [simp]: "within P (delay n)"
  by (induction n) auto

lemma within_remote [simp]: "within test_event remote_step"
  by (auto simp: remote_step_def toggle_irq_line_0x0e_def set_irq_line_0x0e_def same_module_def split: list.splits)

lemma within_wait [simp]: "within test_event (wait_tmr env)"
  by (auto simp: wait_tmr_def intro!: within_loop)

lemma within_smp_call [simp]: "within test_event (smp_call_function_single env n nm)"
  by (auto simp: smp_call_function_single_def resource_calls_def same_module_def)

lemma within_ioapic_tests:
  "within test_event (test_ioapic_level_intr env)" "within test_event (test_ioapic_simultaneous env)"
  "within test_event (test_ioapic_level_coalesce env)" "within test_event (test_ioapic_level_sequential env)"
  "within test_event (test_ioapic_level_retrigger env)" "within test_event (test_ioapic_edge_mask env)"
  "within test_event (test_ioapic_level_mask env)" "within test_event (test_ioapic_level_retrigger_mask env)"
  "within test_event (test_ioapic_edge_tmr env x)" "within test_event (test_ioapic_level_tmr env x)"
  "within test_event (test_ioapic_edge_tmr_smp env x)" "within test_event (test_ioapic_level_tmr_smp env x)"
  "within test_event (test_ioapic_edge_intr env)"
  by (auto simp: test_ioapic_level_intr_def test_ioapic_simultaneous_def test_ioapic_level_coalesce_def
      test_ioapic_level_sequential_def test_ioapic_level_retrigger_def test_ioapic_edge_mask_def
      test_ioapic_level_mask_def test_ioapic_level_retrigger_mask_def test_ioapic_edge_tmr_def
      test_ioapic_level_tmr_def test_ioapic_edge_tmr_smp_def test_ioapic_level_tmr_smp_def test_ioapic_edge_intr_def
      same_module_def)

lemma within_ioapic [simp]: "within test_event (test_ioapic env)"
  unfolding test_ioapic_def test_ioapic_one_cpu_def
  by (auto simp: within_ioapic_tests resource_calls_def)

lemma within_clock_read [simp]:
  "within test_event smp_id" "within test_event (pvclock_clocksource_read env i)"
  "within test_event (pvclock_read_wallclock env i)" "within test_event (read_consistent env i)"
proof -
  show id: "within test_event smp_id" by (simp add: smp_id_def)
  show c: "within test_event (read_consistent env i)"
    unfolding read_consistent_def pvclock_read_cycles_def hv_load_def
    by (auto intro!: within_loop simp: resource_calls_def split: prod.splits)
  show r: "within test_event (pvclock_clocksource_read env i)"
    unfolding pvclock_clocksource_read_def cmpxchg_last_value_def
    using c by (auto intro!: within_loop simp: same_module_def split: prod.splits)
  show "within test_event (pvclock_read_wallclock env i)"
    unfolding pvclock_read_wallclock_def hv_load_def Let_def
    using r by (auto intro!: within_loop simp: resource_calls_def split: prod.splits)
qed

lemma within_clock [simp]:
  "within test_event (wallclock_test env n)" "within test_event (kvm_clock_init env)" "within test_event (kvm_clock_clear env)"
  unfolding wallclock_test_def kvm_get_wallclock_def kvm_clock_read_def kvm_clock_init_def
    kvm_clock_clear_def Let_def
  by (auto split: prod.splits)

lemma within_on_cpu [simp]: "within test_event f \<Longrightarrow> within test_event (on_cpu env i nm f)"
  by (auto simp: on_cpu_def resource_calls_def)

lemma within_wallclock_tests [simp]: "within test_event (wallclock_tests env xs n)"
  by (induction xs arbitrary: n) auto

lemma within_cycle_test [simp]: "within test_event (cycle_test env n chk k)"
proof -
  have "within test_event (kvm_clock_test_step env k j ths)" for j ths
    by (auto simp: kvm_clock_test_step_def Let_def same_module_def split: prod.splits simp del: thread_step.simps)
  then have "within test_event (wait_for_threads env k ths)" for ths
    unfolding wait_for_threads_def by (auto intro!: within_loop)
  then show ?thesis
    unfolding cycle_test_def Let_def by (auto intro!: within_for_each simp: resource_calls_def same_module_def)
qed

lemma within_kvm_clock [simp]: "within test_event (test_kvm_clock env)"
  unfolding test_kvm_clock_def pvclock_set_flags_def Let_def
  by (auto intro!: within_for_each simp: resource_calls_def same_module_def)

end
