(* ===== verification/UnitDriver.thy ===== *)
theory UnitDriver
  imports UserApi UnitFootprint
begin

text \<open>
  The driver of the pcm-unit tests: the commands of \<open>src/pcm-unit/driver/pcm_test_ioctl.h\<close>, the \<open>switch\<close>
  of the ioctl in \<open>src/pcm-unit/driver/pcm_test_mod.c\<close>, and the program
  \<open>src/pcm-unit/app/pcmtest.c\<close> that opens the device.  The ioctl itself is \<open>pcm_cdev_ioctl\<close>.
\<close>

section \<open>Commands\<close>

definition TSC_RW :: u32 where "TSC_RW = IO PCM_TEST_IOC_MAGIC 1"
definition SETJMP :: u32 where "SETJMP = IO PCM_TEST_IOC_MAGIC 2"
definition MSR_RW :: u32 where "MSR_RW = IO PCM_TEST_IOC_MAGIC 3"
definition KVMCLOCK_TEST :: u32 where "KVMCLOCK_TEST = IO PCM_TEST_IOC_MAGIC 4"
definition IOAPIC_TEST :: u32 where "IOAPIC_TEST = IO PCM_TEST_IOC_MAGIC 5"
definition TSC_ADJUST :: u32 where "TSC_ADJUST = IO PCM_TEST_IOC_MAGIC 6"

definition PCM_TEST_IOC_MAXNR :: u32 where "PCM_TEST_IOC_MAXNR = 6"

lemmas unit_commands = TSC_RW_def SETJMP_def MSR_RW_def KVMCLOCK_TEST_def IOAPIC_TEST_def TSC_ADJUST_def

text \<open>
  The cases of the \<open>switch\<close>; those for KVMCLOCK_TEST and IOAPIC_TEST have no \<open>break\<close> and run on.  \<open>junk\<close> is
  what the uninitialised variable of the setjmp test holds.
\<close>

definition case_tsc_adjust :: "env \<Rightarrow> ('a pcm_world_scheme, unit) state" where
  "case_tsc_adjust env = test_tsc_adjust env"

definition case_ioapic :: "env \<Rightarrow> ('a pcm_world_scheme, unit) state" where
  "case_ioapic env = do { test_ioapic env; case_tsc_adjust env }"

definition case_kvmclock :: "env \<Rightarrow> ('a pcm_world_scheme, unit) state" where
  "case_kvmclock env = do { test_kvm_clock env; case_ioapic env }"

definition unit_switch :: "env \<Rightarrow> int \<Rightarrow> u32 \<Rightarrow> ('a pcm_world_scheme, unit) state" where
  "unit_switch env junk cmd =
     (if cmd = TSC_RW then test_tsc env
      else if cmd = SETJMP then test_setjmp junk
      else if cmd = MSR_RW then test_msr env
      else if cmd = KVMCLOCK_TEST then case_kvmclock env
      else if cmd = IOAPIC_TEST then case_ioapic env
      else if cmd = TSC_ADJUST then case_tsc_adjust env
      else skip)"

abbreviation unit_ioctl :: "env \<Rightarrow> int \<Rightarrow> u32 \<Rightarrow> u64 \<Rightarrow> ('a pcm_world_scheme, int) state" where
  "unit_ioctl env junk \<equiv> pcm_cdev_ioctl env PCM_TEST_IOC_MAXNR (unit_switch env junk)"

section \<open>The tests are frozen on a halted machine\<close>

lemma frozen_tsc [simp]: "frozen (test_tsc env)" "frozen (test_tsc_adjust env)"
  unfolding test_tsc_def test_tsc_adjust_def test_wrtsc_def test_rdtscp_def native_write_msr_safe_def Let_def
  by (auto split: prod.splits)

lemma frozen_after_setjmp: "frozen (after_setjmp v i)"
  by (induction v i rule: after_setjmp.induct) (subst after_setjmp.simps, auto simp: Let_def)

lemma frozen_setjmp [simp]: "frozen (test_setjmp i)"
  by (simp add: test_setjmp_def frozen_after_setjmp)

lemma frozen_msr [simp]: "frozen (test_msr env)"
  unfolding test_msr_def test_msr_rw_def test_syscall_lazy_load_def Msr.read_cs_def read_ss_def write_ss_def Let_def
  by (auto intro!: frozen_for_each split: prod.splits)

lemma frozen_ioapic_registers [simp]: "frozen (test_ioapic_registers env)"
  unfolding test_ioapic_registers_def enable_x2apic_local_def mask_pic_interrupts_def
    ioapic_read_reg_def ioapic_write_reg_def ioapic_reg_version_def ioapic_reg_id_def ioapic_arbitration_id_def Let_def
  by (auto split: prod.splits)

lemma frozen_ioapic [simp]: "frozen (test_ioapic env)"
proof -
  obtain rest :: "('a ioapic_world_scheme, unit) state" where "frozen rest"
    "test_ioapic env = do { test_ioapic_registers env; install env 0x76 ''ioapic_isr_76''; rest }"
    using test_ioapic_frozen_rest by blast
  then show ?thesis by auto
qed

lemma frozen_clock_read [simp]:
  "frozen smp_id" "frozen (pvclock_clocksource_read env i)" "frozen (pvclock_read_wallclock env i)"
proof -
  show id: "frozen smp_id" by (simp add: smp_id_def)
  show r: "frozen (pvclock_clocksource_read env i)"
    unfolding pvclock_clocksource_read_def cmpxchg_last_value_def
    by (auto intro!: frozen_loop split: prod.splits)
  show "frozen (pvclock_read_wallclock env i)"
    unfolding pvclock_read_wallclock_def hv_load_def Let_def
    using r by (auto intro!: frozen_loop split: prod.splits)
qed

lemma frozen_clock [simp]:
  "frozen (wallclock_test env n)" "frozen (kvm_clock_init env)" "frozen (kvm_clock_clear env)"
  unfolding wallclock_test_def kvm_get_wallclock_def kvm_clock_read_def kvm_clock_init_def
    kvm_clock_clear_def Let_def
  by (auto split: prod.splits)

lemma frozen_on_cpu [simp]: "frozen f \<Longrightarrow> frozen (on_cpu env i nm f)"
  by (auto simp: on_cpu_def)

lemma frozen_wallclock_tests [simp]: "frozen (wallclock_tests env is n)"
  by (induction "is" arbitrary: n) auto

lemma frozen_cycle_test [simp]: "frozen (cycle_test env n chk k)"
  unfolding cycle_test_def Let_def by (auto intro!: frozen_for_each)

lemma frozen_kvm_clock [simp]: "frozen (test_kvm_clock env)"
  unfolding test_kvm_clock_def pvclock_set_flags_def Let_def
  by (auto intro!: frozen_for_each)

lemma frozen_unit_switch [simp]: "frozen (unit_switch env junk cmd)"
  unfolding unit_switch_def case_kvmclock_def case_ioapic_def case_tsc_adjust_def by auto

text \<open>The driver keeps the contract.\<close>

lemma within_unit_switch: "within test_event (unit_switch env junk cmd)"
  unfolding unit_switch_def case_kvmclock_def case_ioapic_def case_tsc_adjust_def by auto

interpretation unit: quiet_driver env PCM_TEST_IOC_MAXNR "unit_switch env junk" for env junk
  by unfold_locales (simp_all add: within_unit_switch)

section \<open>The program\<close>

text \<open>\<open>main\<close> of \<open>pcmtest.c\<close>; \<open>strerror(errno)\<close> is printed as the error number.\<close>

definition unit_main :: "env \<Rightarrow> int \<Rightarrow> ('a pcm_world_scheme, int) state" where
  "unit_main env junk = do {
     (fd, errno) \<leftarrow> sys_open env;
     if fd < 0 then do { printf ''%s'' [AInt errno]; State_Monad.return 1 }
     else do {
       (err, errno) \<leftarrow> sys_ioctl env (unit_ioctl env junk) [fd] fd TSC_RW;
       if err \<noteq> 0 then do { printf ''%s'' [AInt errno]; State_Monad.return 1 }
       else do {
         sys_close env [fd] fd;
         State_Monad.return 0 } } }"

section \<open>Properties\<close>

lemma good_commands [simp]:
  "\<not> bad_command PCM_TEST_IOC_MAXNR TSC_RW" "IOC_DIR TSC_RW = 0"
  by (simp_all add: bad_command_def PCM_TEST_IOC_MAXNR_def PCM_TEST_IOC_MAGIC_def unit_commands ioc_defs)

text \<open>C9. The program, the driver and the TSC test together: on a machine under the hypervisor whose
  counter behaves as documented, when the device can be opened, the program exits with 0 and prints
  nothing, and the kernel log shows, in this order, the opening, the ioctl, the six messages of the
  TSC test (with elapsed times of at most one step each) and the closing.\<close>

theorem unit_main_runs_tsc:
  assumes "halted w = None" and "tsc_machine env cyc adj aux" and "ticks_within cyc c"
    and "\<And>t. env_fault env t ''vmcall'' = None" and "\<And>t args. 0 \<le> to_int (env_call env t ''open'' args)"
  shows "\<exists>d0 d1 d2 w'. d0 \<le> c \<and> d1 \<le> c \<and> d2 \<le> c \<and> run_state (unit_main env junk) w = (0, w') \<and>
    messages (trace w') = messages (trace w)
      @ [Printk ''%s()'' [AStr ''pcm_cdev_open''], Printk ''%s()'' [AStr ''pcm_cdev_ioctl'']]
      @ [Printk ''rdtsc latency %u'' [arg_word (ucast d0 :: u32)],
         Printk ''rdtsc after wrtsc%lld : %lld '' [arg_word (0 :: u64), arg_word d1],
         Printk ''rdtsc after wrtsc%lld : %lld ''
           [arg_word (100000000000 :: u64), arg_word (100000000000 + d2)],
         Printk ''Test RDTSCP eax=%d, aux=%lld'' [AInt 0, AInt 0],
         Printk ''Test RDTSCP eax=%d, aux=%lld'' [AInt 10, AInt 10],
         Printk ''Test RDTSCP eax=%d, aux=%lld'' [AInt 0x100, AInt 0x100]]
      @ [Printk ''%s()'' [AStr ''pcm_cdev_release'']]"
proof -
  define fd where "fd = to_int (env_call env (trace w) ''open'' [AStr ''/dev/pcm_test''])"
  have fd: "0 \<le> fd" using assms(5) by (simp add: fd_def)
  define w1 where "w1 = w\<lparr>trace := trace w @ [Call ''open'' [AStr ''/dev/pcm_test''],
    Printk ''%s()'' [AStr ''pcm_cdev_open'']]\<rparr>"
  have open_: "run_state (sys_open env) w = ((fd, 0), w1)"
    using assms(1) fd by (simp add: sys_open_def pcm_cdev_open_def libc_result_def fd_def w1_def)
  define w2 where "w2 = w1\<lparr>trace := trace w1 @ [Printk ''%s()'' [AStr ''pcm_cdev_ioctl'']]\<rparr>"
  let ?w3 = "w2\<lparr>irq_on := False, trace := trace w2 @ [Cli, Insn ''vmcall'' [AInt 102]]\<rparr>"
  have h: "halted w1 = None" "halted w2 = None" "halted ?w3 = None" using assms(1) by (simp_all add: w1_def w2_def)
  obtain d0 d1 d2 t where d: "d0 \<le> c" "d1 \<le> c" "d2 \<le> c"
    and t: "run_state (test_tsc env) ?w3 = ((), ?w3\<lparr>trace := t\<rparr>)"
      "messages t = messages (trace ?w3) @ tsc_messages d0 d1 d2"
    using test_tsc_run [OF h(3) assms(2,3)] by blast
  have "run_state (unit_switch env junk TSC_RW) ?w3 = ((), ?w3\<lparr>trace := t\<rparr>)"
    by (simp add: unit_switch_def t(1))
  from run_accepted [where switch = "unit_switch env junk", OF h(2) assms(4) this]
  have "run_state (unit_ioctl env junk TSC_RW (env_sym env ''rdx'')) w1
      = (0, ?w3\<lparr>trace := t @ [Insn ''vmcall'' [AInt 103], Sti], irq_on := True\<rparr>)"
    using h by (simp add: run_ioctl run_access_err Let_def w2_def)
  then have "run_state (unit_main env junk) w = (0, ?w3\<lparr>trace := (t @ [Insn ''vmcall'' [AInt 103], Sti])
      @ [Printk ''%s()'' [AStr ''pcm_cdev_release'']], irq_on := True\<rparr>)"
    using fd h by (simp add: unit_main_def open_ sys_ioctl_def libc_result_def sys_close_def pcm_cdev_release_def)
  moreover have "messages (t @ [Insn ''vmcall'' [AInt 103], Sti] @ [Printk ''%s()'' [AStr ''pcm_cdev_release'']])
      = messages (trace w) @ [Printk ''%s()'' [AStr ''pcm_cdev_open''], Printk ''%s()'' [AStr ''pcm_cdev_ioctl'']]
        @ tsc_messages d0 d1 d2 @ [Printk ''%s()'' [AStr ''pcm_cdev_release'']]"
    by (simp add: t(2) w2_def w1_def)
  ultimately show ?thesis using d unfolding tsc_messages_def
    by (intro exI [of _ d0] exI [of _ d1] exI [of _ d2]) simp
qed

theorem unit_main_runs_tsc_witness:
  "fst (run_state (unit_main tick_env 0) pcm_start) = 0"
proof -
  have "env_fault tick_env t ''vmcall'' = None" "0 \<le> to_int (env_call tick_env t ''open'' args)" for t args
    by (simp_all add: tick_env_def calm_env_def to_int_def)
  from unit_main_runs_tsc [OF _ tick_machine tick_within this, where w = pcm_start and junk = 0]
  show ?thesis by (auto)
qed

text \<open>C10. What the hypervisor sees of any sequence of commands to the pcm-unit driver.  While the machine
  runs, the marks are exactly as many pairs (102, then 103) as there are calls that returned 0, none
  nested and none for a refused command, and interrupts are enabled again at the end; when the machine
  stops in one of the tests, the marks so far are pairs and at most the beginning of one more.\<close>

theorem unit_marks:
  assumes "halted w = None" and "run_state (ioctl_calls (unit_ioctl env junk) cs) w = (rs, w')"
  shows "\<exists>es n. trace w' = trace w @ es \<and> length rs = length cs \<and> n \<le> length cs
    \<and> (if halted w' = None then marks es = pairs n \<and> n = count_list rs 0 \<and> (irq_on w \<longrightarrow> irq_on w')
       else marks es \<in> {pairs n, pairs n @ [begin_mark]})"
  by (rule unit.calls_marks [OF assms])

text \<open>The first command is refused, the second accepted (number 0).\<close>

theorem unit_marks_witness:
  "marks (trace (snd (run_state (ioctl_calls (unit_ioctl calm_env 0) [(0, 0), (0x6b00, 0)]) pcm_start))) = pairs 1"
proof -
  have bad: "bad_command PCM_TEST_IOC_MAXNR 0" "\<not> bad_command PCM_TEST_IOC_MAXNR 0x6b00" "IOC_DIR 0x6b00 = 0"
    by (simp_all add: bad_command_def PCM_TEST_IOC_MAXNR_def PCM_TEST_IOC_MAGIC_def ioc_defs)
  have none: "unit_switch calm_env 0 0x6b00 = skip"
    by (simp add: unit_switch_def unit_commands ioc_defs PCM_TEST_IOC_MAGIC_def)
  have calm: "env_fault calm_env t ''vmcall'' = None" for t by (simp add: calm_env_def)
  obtain w' where run: "run_state (ioctl_calls (unit_ioctl calm_env 0) [(0, 0), (0x6b00, 0)]) pcm_start = ([- 22, 0], w')"
    "halted w' = None"
    by (simp add: run_ioctl bad run_access_err accepted_def hypercall_def run_insn_val calm none EINVAL_def Let_def)
  from unit_marks [OF _ run(1)] run show ?thesis by auto
qed



end
