(* ===== verification/IoapicSmp.thy ===== *)
theory IoapicSmp
  imports IoapicRuns
begin

text \<open>
  The interrupt tests of \<open>src/pcm-unit/driver/ioapic.c\<close> in which CPU 1 moves the line while CPU 0 waits,
  and the whole of \<open>test_ioapic\<close>: the register tests, the tests on one CPU, and, when there are more,
  the tests on two.
\<close>

section \<open>The wait\<close>

text \<open>One round of the wait, and the trace of \<open>n\<close> rounds in which CPU 1 did nothing.\<close>

definition poll :: "env \<Rightarrow> u32 \<Rightarrow> ('a ioapic_world_scheme, u32 + u32) state" where
  "poll env i = do {
     t \<leftarrow> gets g_tmr_79;
     if t \<noteq> -1 then State_Monad.return (Inr i)
     else do {
       emit (Insn ''inc'' [arg_word i]);
       go \<leftarrow> ask (\<lambda>tr. env_insn env tr ''cpu1'');
       (if go \<noteq> 0 then remote_step else skip);
       intr_window env;
       State_Monad.return (Inl (i + 1)) } }"

definition spins :: "nat \<Rightarrow> ev list" where
  "spins n = map (\<lambda>i. Insn ''inc'' [arg_word (of_nat i :: u32)]) [0..<n]"

lemma spins_simps [simp]:
  "spins 0 = []" "spins (Suc n) = spins n @ [Insn ''inc'' [arg_word (of_nat n :: u32)]]"
  by (simp_all add: spins_def)

lemma dev_spins [simp]: "foldl dev_step d (spins n) = d" "messages (spins n) = []"
  by (induction n) simp_all

text \<open>CPU 1 gets to run its queue while the other waits.\<close>

definition prompt :: "env \<Rightarrow> bool" where
  "prompt env \<longleftrightarrow> (\<forall>t. \<exists>k. k + 2 \<le> env_fuel env \<and> env_insn env (t @ spins (Suc k)) ''cpu1'' \<noteq> 0)"

lemma poll_spins:
  assumes "pic_machine env" and "halted w = None" and "g_tmr_79 w = -1"
    and "pending_vector (dev (trace w)) = None"
    and "\<And>j. j < k \<Longrightarrow> env_insn env (trace w @ spins (Suc j)) ''cpu1'' = 0"
  shows "k \<le> f \<Longrightarrow> run_state (loop f 0 (poll env) 0) w
    = run_state (loop (f - k) 0 (poll env) (of_nat k)) (w\<lparr>trace := trace w @ spins k\<rparr>)"
  using assms(5)
proof (induction k)
  case (Suc k)
  let ?w = "w\<lparr>trace := trace w @ spins k\<rparr>"
  obtain g where g: "f - k = Suc g" "f - Suc k = g" using Suc.prems(1) by (cases "f - k") simp_all
  have "run_state (poll env (of_nat k)) ?w = (Inl (of_nat k + 1), w\<lparr>trace := trace w @ spins (Suc k)\<rparr>)"
    using assms(1-4) Suc.prems(2) [of k] by (simp add: poll_def intr_window_def run_window del: deliver.simps)
  with Suc.IH Suc.prems g show ?case by (simp add: add.commute)
qed simp

lemma run_wait_tmr:
  assumes "pic_machine env" and "prompt env" and "halted w = None" and "g_tmr_79 w = -1"
    and "pending_vector (dev (trace w)) = None"
    and "\<And>k. \<exists>w'. run_state (do { remote_step; intr_window env }) (w\<lparr>trace := trace w @ spins (Suc k)\<rparr>) = ((), w')
      \<and> g_tmr_79 w' \<noteq> -1 \<and> Q w'"
  shows "\<exists>n w'. run_state (wait_tmr env) w = (n, w') \<and> Q w'"
proof -
  define go where "go k \<longleftrightarrow> env_insn env (trace w @ spins (Suc k)) ''cpu1'' \<noteq> 0" for k
  obtain k0 where k0: "k0 + 2 \<le> env_fuel env" "go k0"
    using assms(2) unfolding prompt_def go_def by blast
  define k where "k = (LEAST k. go k)"
  have k: "go k" "k \<le> k0" "\<And>j. j < k \<Longrightarrow> \<not> go j"
    unfolding k_def by (rule LeastI [of go, OF k0(2)], rule Least_le [of go, OF k0(2)], rule not_less_Least)
  obtain g where g: "env_fuel env = k + Suc (Suc g)"
    using le_trans [OF add_le_mono1 [OF k(2), of 2] k0(1)] by (auto simp: le_iff_add)
  let ?w = "w\<lparr>trace := trace w @ spins k\<rparr>"
  obtain w' where w': "run_state (do { remote_step; intr_window env }) (w\<lparr>trace := trace w @ spins (Suc k)\<rparr>) = ((), w')"
    "g_tmr_79 w' \<noteq> -1" "Q w'" using assms(6) by blast
  have "run_state (poll env (of_nat k)) ?w = (Inl (of_nat k + 1), w')"
    using assms(3,4) k(1) w'(1) by (simp add: poll_def split_def go_def)
  moreover have "run_state (poll env i) w' = (Inr i, w')" for i
    using w'(2) by (simp add: poll_def)
  moreover have "run_state (wait_tmr env) w = run_state (loop (env_fuel env - k) 0 (poll env) (of_nat k)) ?w"
    using poll_spins [OF assms(1,3-5), of k "env_fuel env"] k(3) g
    by (simp add: wait_tmr_def poll_def [abs_def] go_def)
  ultimately have "run_state (wait_tmr env) w = (of_nat k + 1, w')"
    by (simp add: g)
  with w'(3) show ?thesis by blast
qed

lemma run_delay [simp]: "run_state (delay n) w = ((), w)"
  by (induction n) simp_all

section \<open>The tests on two CPUs\<close>

definition smp_start :: "env \<Rightarrow> trigger_mode \<Rightarrow> string \<Rightarrow> ('a ioapic_world_scheme, bool) state" where
  "smp_start env trig name = do {
     modify (\<lambda>w. w\<lparr>g_tmr_79 := -1\<rparr>);
     install env 0x79 ''ioapic_isr_79'';
     redir_w env 0x0e 0x79 trig;
     before \<leftarrow> apic_read_bit env APIC_TMR 0x79;
     smp_call_function_single env 1 name;
     State_Monad.return before }"

definition smp_report :: "env \<Rightarrow> string \<Rightarrow> bool \<Rightarrow> bool \<Rightarrow> ('a ioapic_world_scheme, unit) state" where
  "smp_report env msg expected before = do {
     i \<leftarrow> wait_tmr env;
     printk ''%d iterations before interrupt received'' [arg_word i];
     t \<leftarrow> gets g_tmr_79;
     printk msg [arg_bool before, arg_bool expected, arg_word t] }"

lemma smp_test_parts:
  "test_ioapic_edge_tmr_smp env x = do {
     before \<leftarrow> smp_start env TRIGGER_EDGE ''toggle_irq_line_0x0e'';
     smp_report env ''TMR for ioapic edge interrupts, tmr_before=%x, expected_tmr_before=%x, g_tmr_79=%x'' x before }"
  "test_ioapic_level_tmr_smp env x = do {
     before \<leftarrow> smp_start env TRIGGER_LEVEL ''set_irq_line_0x0e'';
     smp_report env ''TMR for ioapic level interrupts tmr_before=%x, expected_tmr_before=%x, g_tmr_79=%x'' x before }"
  by (simp_all add: test_ioapic_edge_tmr_smp_def test_ioapic_level_tmr_smp_def smp_start_def smp_report_def)

lemma run_smp_start:
  assumes "test_machine env" and "ready w" and "remote_cpu w = []"
  obtains f s r m t where "pic_machine env" and "install_machine env" and "env_fuel env = Suc (Suc (Suc (Suc f)))"
    and "run_state (smp_start env trig name) w = (tmr_bit (dev (trace w)) 0x79,
      w\<lparr>g_tmr_79 := -1, mem := m, remote_cpu := [name], trace := t\<rparr>)"
    and "dev t = \<lparr>selected = s, regs = r(0x2c := entry_low 0x79 (trigger_bit trig)), line_on = (\<lambda>l. False),
      remote_flag = (\<lambda>l. False), requested = [], in_service = [], tmr_bit = tmr_bit (dev (trace w))\<rparr>"
    and "messages t = messages (trace w)"
    and "handler_of env m 0x79 = Some (env_sym env ''ioapic_isr_79'')"
proof -
  let ?w0 = "w\<lparr>g_tmr_79 := -1\<rparr>"
  have "ready ?w0" using assms(2) by (simp add: ready_def)
  then obtain f s r t m where facts: "pic_machine env" "install_machine env"
      "env_fuel env = Suc (Suc (Suc (Suc f)))" "halted w = None" "irq_on w"
      "dev (trace w) = \<lparr>selected = s, regs = r, line_on = (\<lambda>l. False), remote_flag = (\<lambda>l. False),
        requested = [], in_service = [], tmr_bit = t\<rparr>"
      "run_state (install env 0x79 ''ioapic_isr_79'') ?w0 = ((), ?w0\<lparr>trace := trace w @
        [Call ''vmalloc'' [AInt 50], Insn ''mov %cs'' []], mem := m\<rparr>)"
      "handler_of env m 0x79 = Some (env_sym env ''ioapic_isr_79'')"
    by (rule test_setup [OF assms(1), of ?w0 "0x79" "''ioapic_isr_79''"]) simp_all
  let ?t = "trace w @ [Call ''vmalloc'' [AInt 50], Insn ''mov %cs'' [], MmioW g_ioapic 0x2c,
    MmioW (g_ioapic + 0x10) (entry_low 0x79 (trigger_bit trig)), MmioW g_ioapic 0x2d, MmioW (g_ioapic + 0x10) 0,
    Call ''apic_read'' [AInt 0x1b0], Call ''smp_call_function_single'' [AInt 1, AStr name, AInt 0, AInt 0]]"
  have dev: "dev ?t = \<lparr>selected = 0x2d, regs = (r(0x2d := 0))(0x2c := entry_low 0x79 (trigger_bit trig)),
      line_on = (\<lambda>l. False), remote_flag = (\<lambda>l. False), requested = [], in_service = [], tmr_bit = t\<rparr>"
    using facts(6) by (simp add: write_reg_def check_level_def Let_def fun_upd_twist)
  moreover have "run_state (smp_start env trig name) w = (t 0x79,
      w\<lparr>g_tmr_79 := -1, mem := m, remote_cpu := [name], trace := ?t\<rparr>)"
    using facts assms(3) 
    by (simp add: smp_start_def smp_call_function_single_def redir_w_def intr_window_def run_set_ioapic_redir
      run_window run_tmr_79 write_reg_def check_level_def Let_def pending_vector_def del: deliver.simps)
  ultimately show ?thesis
    using that [of f ?t m "0x2d" "r(0x2d := 0)"] facts by simp
qed

definition report_smp :: "string \<Rightarrow> u32 \<Rightarrow> bool \<Rightarrow> bool \<Rightarrow> bool \<Rightarrow> ev list" where
  "report_smp msg n before expected after = [
     Printk ''%d iterations before interrupt received'' [arg_word n],
     Printk msg [arg_bool before, arg_bool expected, arg_bool after]]"

text \<open>A test whose remote function leads to one interrupt that finds the trigger mode \<open>lev\<close>.\<close>

lemma run_smp_test:
  fixes w :: "'a ioapic_world_scheme"
  assumes "test_machine env" and "prompt env" and "ready w" and "remote_cpu w = []"
    and step: "\<And>f s r (v :: 'a ioapic_world_scheme).
      pic_machine env \<Longrightarrow> install_machine env \<Longrightarrow> env_fuel env = Suc (Suc (Suc (Suc f))) \<Longrightarrow> halted v = None \<Longrightarrow>
      irq_on v \<Longrightarrow> remote_cpu v = [name] \<Longrightarrow> handler_of env (mem v) 0x79 = Some (env_sym env ''ioapic_isr_79'') \<Longrightarrow>
      dev (trace v) = \<lparr>selected = s, regs = r(0x2c := entry_low 0x79 (trigger_bit trig)), line_on = (\<lambda>l. False),
        remote_flag = (\<lambda>l. False), requested = [], in_service = [], tmr_bit = tmr_bit (dev (trace w))\<rparr> \<Longrightarrow>
      \<exists>t. run_state (do { remote_step; intr_window env }) v
        = ((), v\<lparr>g_tmr_79 := of_bool lev, remote_cpu := [], trace := t\<rparr>)
        \<and> idle (dev t) \<and> tmr_bit (dev t) = (tmr_bit (dev (trace w)))(0x79 := lev) \<and> messages t = messages (trace v)"
  shows "\<exists>t m n. run_state (do { before \<leftarrow> smp_start env trig name; smp_report env msg x before }) w
      = ((), w\<lparr>g_tmr_79 := of_bool lev, mem := m, trace := t\<rparr>)
    \<and> idle (dev t) \<and> tmr_bit (dev t) = (tmr_bit (dev (trace w)))(0x79 := lev)
    \<and> messages t = messages (trace w) @ report_smp msg n (tmr_bit (dev (trace w)) 0x79) x lev"
proof -
  obtain f s r m t where facts: "pic_machine env" "install_machine env" "env_fuel env = Suc (Suc (Suc (Suc f)))"
      "run_state (smp_start env trig name) w = (tmr_bit (dev (trace w)) 0x79,
        w\<lparr>g_tmr_79 := -1, mem := m, remote_cpu := [name], trace := t\<rparr>)"
      "dev t = \<lparr>selected = s, regs = r(0x2c := entry_low 0x79 (trigger_bit trig)), line_on = (\<lambda>l. False),
        remote_flag = (\<lambda>l. False), requested = [], in_service = [], tmr_bit = tmr_bit (dev (trace w))\<rparr>"
      "messages t = messages (trace w)" "handler_of env m 0x79 = Some (env_sym env ''ioapic_isr_79'')"
    using run_smp_start [OF assms(1,3,4), where trig = trig and name = name] .
  have h: "halted w = None" "irq_on w" using assms(3) by (simp_all add: ready_def)
  let ?w1 = "w\<lparr>g_tmr_79 := -1, mem := m, remote_cpu := [name], trace := t\<rparr>"
  let ?Q = "\<lambda>w'. \<exists>t'. w' = w\<lparr>g_tmr_79 := of_bool lev, mem := m, trace := t'\<rparr> \<and> idle (dev t')
    \<and> tmr_bit (dev t') = (tmr_bit (dev (trace w)))(0x79 := lev) \<and> messages t' = messages (trace w)"
  have "\<exists>w'. run_state (do { remote_step; intr_window env }) (?w1\<lparr>trace := trace ?w1 @ spins (Suc k)\<rparr>) = ((), w')
      \<and> g_tmr_79 w' \<noteq> -1 \<and> ?Q w'" for k
  proof -
    obtain t' where "run_state (do { remote_step; intr_window env }) (?w1\<lparr>trace := trace ?w1 @ spins (Suc k)\<rparr>)
        = ((), w\<lparr>mem := m, g_tmr_79 := of_bool lev, remote_cpu := [], trace := t'\<rparr>)"
      and "idle (dev t')" "tmr_bit (dev t') = (tmr_bit (dev (trace w)))(0x79 := lev)" "messages t' = messages (trace w)"
      using step [of f "?w1\<lparr>trace := trace ?w1 @ spins (Suc k)\<rparr>" s r] facts h by (auto simp del: spins_simps)
    moreover have "w\<lparr>mem := m, g_tmr_79 := of_bool lev, remote_cpu := [], trace := t'\<rparr>
        = w\<lparr>g_tmr_79 := of_bool lev, mem := m, trace := t'\<rparr>"
      using assms(4) by simp
    ultimately show ?thesis by (cases lev) auto
  qed
  from run_wait_tmr [OF facts(1) assms(2), of ?w1 ?Q, OF _ _ _ this] facts(5) h(1) obtain n t' where
    wait: "run_state (wait_tmr env) ?w1 = (n, w\<lparr>g_tmr_79 := of_bool lev, mem := m, trace := t'\<rparr>)"
    "idle (dev t')" "tmr_bit (dev t') = (tmr_bit (dev (trace w)))(0x79 := lev)" "messages t' = messages (trace w)"
    by (auto simp: pending_vector_def)
  let ?t = "t' @ report_smp msg n (tmr_bit (dev (trace w)) 0x79) x lev"
  have "run_state (do { before \<leftarrow> smp_start env trig name; smp_report env msg x before }) w
      = ((), w\<lparr>g_tmr_79 := of_bool lev, mem := m, trace := ?t\<rparr>)"
    using facts(4) wait(1) h by (simp add: smp_report_def report_smp_def)
  then show ?thesis
    using wait(2-4) by (intro exI [of _ ?t] exI [of _ m] exI [of _ n]) (simp add: report_smp_def idle_def)
qed

lemma edge_tmr_smp_result:
  assumes "test_machine env" and "prompt env" and "ready w" and "remote_cpu w = []"
  shows "\<exists>t m n. run_state (test_ioapic_edge_tmr_smp env x) w = ((), w\<lparr>g_tmr_79 := 0, mem := m, trace := t\<rparr>)
    \<and> idle (dev t) \<and> tmr_bit (dev t) = (tmr_bit (dev (trace w)))(0x79 := False)
    \<and> messages t = messages (trace w) @ report_smp ''TMR for ioapic edge interrupts, tmr_before=%x, expected_tmr_before=%x, g_tmr_79=%x'' n (tmr_bit (dev (trace w)) 0x79) x False"
proof -
  have "\<exists>t. run_state (do { remote_step; intr_window env }) v
        = ((), v\<lparr>g_tmr_79 := of_bool False, remote_cpu := [], trace := t\<rparr>)
        \<and> idle (dev t) \<and> tmr_bit (dev t) = (tmr_bit (dev (trace w)))(0x79 := False) \<and> messages t = messages (trace v)"
    if "pic_machine env" "install_machine env" "env_fuel env = Suc (Suc (Suc (Suc f)))" "halted v = None" "irq_on v"
      "remote_cpu v = [''toggle_irq_line_0x0e'']" "handler_of env (mem v) 0x79 = Some (env_sym env ''ioapic_isr_79'')"
      "dev (trace v) = \<lparr>selected = s, regs = r(0x2c := entry_low 0x79 (trigger_bit TRIGGER_EDGE)), line_on = (\<lambda>l. False),
        remote_flag = (\<lambda>l. False), requested = [], in_service = [], tmr_bit = tmr_bit (dev (trace w))\<rparr>"
    for f s r and v :: "'a ioapic_world_scheme"
    using that by (intro exI [of _ "trace (snd (run_state (do { remote_step; intr_window env }) v))"])
      (simp add: remote_step_def toggle_irq_line_0x0e_def test_run del: deliver.simps)
  note smp = run_smp_test [where env = env and name = "''toggle_irq_line_0x0e''" and trig = TRIGGER_EDGE and lev = False
      and x = x and msg = "''TMR for ioapic edge interrupts, tmr_before=%x, expected_tmr_before=%x, g_tmr_79=%x''", OF assms this]
  show ?thesis unfolding smp_test_parts using smp unfolding of_bool_eq .
qed

lemma level_tmr_smp_result:
  assumes "test_machine env" and "prompt env" and "ready w" and "remote_cpu w = []"
  shows "\<exists>t m n. run_state (test_ioapic_level_tmr_smp env x) w = ((), w\<lparr>g_tmr_79 := 1, mem := m, trace := t\<rparr>)
    \<and> idle (dev t) \<and> tmr_bit (dev t) = (tmr_bit (dev (trace w)))(0x79 := True)
    \<and> messages t = messages (trace w) @ report_smp ''TMR for ioapic level interrupts tmr_before=%x, expected_tmr_before=%x, g_tmr_79=%x'' n (tmr_bit (dev (trace w)) 0x79) x True"
proof -
  have "\<exists>t. run_state (do { remote_step; intr_window env }) v
        = ((), v\<lparr>g_tmr_79 := of_bool True, remote_cpu := [], trace := t\<rparr>)
        \<and> idle (dev t) \<and> tmr_bit (dev t) = (tmr_bit (dev (trace w)))(0x79 := True) \<and> messages t = messages (trace v)"
    if "pic_machine env" "install_machine env" "env_fuel env = Suc (Suc (Suc (Suc f)))" "halted v = None" "irq_on v"
      "remote_cpu v = [''set_irq_line_0x0e'']" "handler_of env (mem v) 0x79 = Some (env_sym env ''ioapic_isr_79'')"
      "dev (trace v) = \<lparr>selected = s, regs = r(0x2c := entry_low 0x79 (trigger_bit TRIGGER_LEVEL)), line_on = (\<lambda>l. False),
        remote_flag = (\<lambda>l. False), requested = [], in_service = [], tmr_bit = tmr_bit (dev (trace w))\<rparr>"
    for f s r and v :: "'a ioapic_world_scheme"
    using that by (intro exI [of _ "trace (snd (run_state (do { remote_step; intr_window env }) v))"])
      (simp add: remote_step_def set_irq_line_0x0e_def test_run del: deliver.simps)
  note smp = run_smp_test [where env = env and name = "''set_irq_line_0x0e''" and trig = TRIGGER_LEVEL and lev = True
      and x = x and msg = "''TMR for ioapic level interrupts tmr_before=%x, expected_tmr_before=%x, g_tmr_79=%x''", OF assms this]
  show ?thesis unfolding smp_test_parts using smp unfolding of_bool_eq .
qed


text \<open>The four tests on two CPUs, one after the other.\<close>

definition report_two_cpus :: "bool \<Rightarrow> (nat \<Rightarrow> u32) \<Rightarrow> ev list" where
  "report_two_cpus b n =
     report_smp ''TMR for ioapic edge interrupts, tmr_before=%x, expected_tmr_before=%x, g_tmr_79=%x'' (n 1) b False False
   @ report_smp ''TMR for ioapic level interrupts tmr_before=%x, expected_tmr_before=%x, g_tmr_79=%x'' (n 2) False False True
   @ report_smp ''TMR for ioapic level interrupts tmr_before=%x, expected_tmr_before=%x, g_tmr_79=%x'' (n 3) True True True
   @ report_smp ''TMR for ioapic edge interrupts, tmr_before=%x, expected_tmr_before=%x, g_tmr_79=%x'' (n 4) True True False"

lemma smp_group:
  assumes e: "test_machine env" "prompt env" and r: "ready w" and q: "remote_cpu w = []"
  shows "\<exists>t m n. run_state (do { test_ioapic_edge_tmr_smp env False; test_ioapic_level_tmr_smp env False;
        test_ioapic_level_tmr_smp env True; test_ioapic_edge_tmr_smp env True }) w
        = ((), w\<lparr>g_tmr_79 := 0, mem := m, trace := t\<rparr>)
    \<and> idle (dev t) \<and> messages t = messages (trace w) @ report_two_cpus (tmr_bit (dev (trace w)) 0x79) n"
proof -
  note report = report_two_cpus_def
  obtain t1 m1 n1 where 1: "run_state (test_ioapic_edge_tmr_smp env False) w
      = ((), w\<lparr>g_tmr_79 := 0, mem := m1, trace := t1\<rparr>)" (is "_ = ((), ?w1)")
    "idle (dev t1)" "tmr_bit (dev t1) = (tmr_bit (dev (trace w)))(0x79 := False)"
    "messages t1 = messages (trace w) @ report_smp ''TMR for ioapic edge interrupts, tmr_before=%x, expected_tmr_before=%x, g_tmr_79=%x'' n1
      (tmr_bit (dev (trace w)) 0x79) False False"
    using edge_tmr_smp_result [OF e r q, of False] by blast
  have r1: "ready ?w1" "remote_cpu ?w1 = []" using r q 1(2) by (simp_all add: ready_def)
  obtain t2 m2 n2 where 2: "run_state (test_ioapic_level_tmr_smp env False) ?w1
      = ((), ?w1\<lparr>g_tmr_79 := 1, mem := m2, trace := t2\<rparr>)" (is "_ = ((), ?w2)")
    "idle (dev t2)" "tmr_bit (dev t2) = (tmr_bit (dev t1))(0x79 := True)"
    "messages t2 = messages t1 @ report_smp ''TMR for ioapic level interrupts tmr_before=%x, expected_tmr_before=%x, g_tmr_79=%x'' n2
      (tmr_bit (dev t1) 0x79) False True"
    using level_tmr_smp_result [OF e r1, of False] by auto
  have r2: "ready ?w2" "remote_cpu ?w2 = []" using r q 2(2) by (simp_all add: ready_def)
  obtain t3 m3 n3 where 3: "run_state (test_ioapic_level_tmr_smp env True) ?w2
      = ((), ?w2\<lparr>g_tmr_79 := 1, mem := m3, trace := t3\<rparr>)" (is "_ = ((), ?w3)")
    "idle (dev t3)" "tmr_bit (dev t3) = (tmr_bit (dev t2))(0x79 := True)"
    "messages t3 = messages t2 @ report_smp ''TMR for ioapic level interrupts tmr_before=%x, expected_tmr_before=%x, g_tmr_79=%x'' n3
      (tmr_bit (dev t2) 0x79) True True"
    using level_tmr_smp_result [OF e r2, of True] by auto
  have r3: "ready ?w3" "remote_cpu ?w3 = []" using r q 3(2) by (simp_all add: ready_def)
  obtain t4 m4 n4 where 4: "run_state (test_ioapic_edge_tmr_smp env True) ?w3
      = ((), ?w3\<lparr>g_tmr_79 := 0, mem := m4, trace := t4\<rparr>)" (is "_ = ((), ?w4)")
    "idle (dev t4)"
    "messages t4 = messages t3 @ report_smp ''TMR for ioapic edge interrupts, tmr_before=%x, expected_tmr_before=%x, g_tmr_79=%x'' n4
      (tmr_bit (dev t3) 0x79) True False"
    using edge_tmr_smp_result [OF e r3, of True] by auto
  have "?w4 = w\<lparr>g_tmr_79 := 0, mem := m4, trace := t4\<rparr>" by simp
  then show ?thesis
    using run_seq [OF 1(1) run_seq [OF 2(1) run_seq [OF 3(1) 4(1)]]] 1(3,4) 2(3,4) 3(3,4) 4(2,3)
    by (intro exI [of _ t4] exI [of _ m4] exI [of _ "(\<lambda>i. 0)(1 := n1, 2 := n2, 3 := n3, 4 := n4)"] conjI)
      (simp_all add: report)
qed

section \<open>The register tests\<close>

definition report_registers :: "bool \<Rightarrow> ev list" where
  "report_registers x2apic = [
     Printk (if x2apic then ''x2apic enabled'' else ''x2apic not detected'') [],
     Printk ''version register read only test, version0=%d, version1=%d'' [AInt 0x170011, AInt 0x170011],
     Printk ''id register only bits [24:27] writable, diff=%x'' [AInt 0x0f000000],
     Printk ''arbitration register set by id, write=%x, ioapic_read_reg(arb_offset)=%x'' [AInt 0x0f000000, AInt 0x0f000000],
     Printk ''arbtration register read only, write=%x, ioapic_read_reg(arb_offset)=%x'' [AInt 0x0f000000, AInt 0x0f000000]]"

text \<open>The processor reports \<open>c\<close> in ECX of CPUID leaf 1, and its MSRs can be accessed.\<close>

definition apic_cpu :: "env \<Rightarrow> u32 \<Rightarrow> bool" where
  "apic_cpu env c \<longleftrightarrow> (\<forall>t. fst (snd (snd (env_cpuid env t 1 0))) = c) \<and>
     (\<forall>t. env_fault env t ''rdmsr'' = None \<and> env_fault env t ''wrmsr'' = None)"

lemma run_reg_version:
  assumes "pic_machine env" and "halted w = None"
  shows "\<exists>t. run_state (ioapic_reg_version env) w = ((), w\<lparr>trace := t\<rparr>) \<and>
    messages t = messages (trace w) @ [Printk ''version register read only test, version0=%d, version1=%d''
      [AInt 0x170011, AInt 0x170011]] \<and> dev t = (dev (trace w))\<lparr>selected := 1\<rparr>"
proof -
  have "env_mmio env t (g_ioapic + 0x10) = read_reg (dev t)" for t
    using assms(1) by (simp add: pic_machine_def)
  then show ?thesis
    using assms(2) dev_registers [of "trace w"]
    by (intro exI [of _ "trace (snd (run_state (ioapic_reg_version env) w))"])
      (simp add: ioapic_reg_version_def Let_def read_reg_def write_reg_def)
qed

lemma run_reg_id:
  assumes "pic_machine env" and "halted w = None"
  shows "\<exists>t r. run_state (ioapic_reg_id env) w = ((), w\<lparr>trace := t\<rparr>) \<and>
    messages t = messages (trace w) @ [Printk ''id register only bits [24:27] writable, diff=%x'' [AInt 0x0f000000]]
    \<and> dev t = (dev (trace w))\<lparr>selected := 0, regs := r\<rparr>"
proof -
  have mm: "env_mmio env t (g_ioapic + 0x10) = read_reg (dev t)" for t
    using assms(1) by (simp add: pic_machine_def)
  let ?v = "regs (dev (trace w)) 0"
  have "bit (?v AND NOT 0x0f000000) n = bit (0 :: u32) n" for n
    using dev_registers [of "trace w"] by simp
  then have "?v XOR (NOT ?v AND 0x0f000000) = 0x0f000000"
    by (intro bit_word_eqI) (auto simp: bit_simps)
  moreover have "(0xffffffff :: u32) = - 1" by simp
  ultimately have diff: "?v XOR ((?v XOR 0xffffffff) AND 0x0f000000) = 0x0f000000"
    by (simp only:) simp
  then show ?thesis
    using assms(2) mm
    by (intro exI [of _ "trace (snd (run_state (ioapic_reg_id env) w))"]
        exI [of _ "regs (dev (trace (snd (run_state (ioapic_reg_id env) w))))"])
      (simp add: diff ioapic_reg_id_def Let_def read_reg_def write_reg_def)
qed

lemma run_reg_arbitration:
  assumes "pic_machine env" and "halted w = None"
  shows "\<exists>t r. run_state (ioapic_arbitration_id env) w = ((), w\<lparr>trace := t\<rparr>) \<and>
    messages t = messages (trace w) @ drop 3 (report_registers x)
    \<and> dev t = (dev (trace w))\<lparr>selected := 2, regs := r\<rparr>"
proof -
  have mm: "env_mmio env t (g_ioapic + 0x10) = read_reg (dev t)" for t
    using assms(1) by (simp add: pic_machine_def)
  then show ?thesis
    using assms(2)
    by (intro exI [of _ "trace (snd (run_state (ioapic_arbitration_id env) w))"]
        exI [of _ "regs (dev (trace (snd (run_state (ioapic_arbitration_id env) w))))"])
      (simp add: ioapic_arbitration_id_def Let_def read_reg_def write_reg_def report_registers_def)
qed


lemma run_enable_x2apic:
  assumes "apic_cpu env c" and "halted w = None"
  shows "\<exists>t v. run_state (enable_x2apic_local env) w
      = (of_bool (bit c 21), w\<lparr>x2apic_mode := v, trace := t\<rparr>)
    \<and> messages t = messages (trace w) \<and> dev t = dev (trace w)"
proof -
  have c: "fst (snd (snd (env_cpuid env t 1 0))) = c" "env_fault env t ''rdmsr'' = None" "env_fault env t ''wrmsr'' = None" for t
    using assms(1) by (simp_all add: apic_cpu_def)
  obtain a b d where abd: "env_cpuid env (trace w) 1 0 = (a, b, c, d)"
    using c(1) [of "trace w"] by (cases "env_cpuid env (trace w) 1 0") auto
  have two: "(c AND 0x200000 \<noteq> 0) = bit c 21"
    using bit_iff_and_push_bit_not_eq_0 [of c 21] by simp
  show ?thesis
  proof (cases "bit c 21")
    case True
    with two c abd assms(2) show ?thesis
      by (intro exI [of _ "trace (snd (run_state (enable_x2apic_local env) w))"] exI [of _ True])
        (simp add: enable_x2apic_local_def rdmsr_def wrmsr_def Let_def)
  next
    case False
    with two abd assms(2) show ?thesis
      by (intro exI [of _ "trace w @ [Cpuid 1 0]"] exI [of _ "x2apic_mode w"])
        (simp add: enable_x2apic_local_def)
  qed
qed

lemma registers_result:
  assumes "test_machine env" and "apic_cpu env c" and "halted w = None" and "idle (dev (trace w))"
  shows "\<exists>t v. run_state (test_ioapic_registers env) w = ((), w\<lparr>irq_on := True, x2apic_mode := v, trace := t\<rparr>)
    \<and> idle (dev t) \<and> tmr_bit (dev t) = tmr_bit (dev (trace w))
    \<and> messages t = messages (trace w) @ report_registers (bit c 21)"
proof -
  have pic: "pic_machine env" and h: "halted w = None" "idle (dev (trace w))"
    using assms by (simp_all add: test_machine_def)
  let ?w0 = "w\<lparr>trace := trace w @ [OutB 0x21 0xff, OutB 0xa1 0xff]\<rparr>"
  obtain t1 v where x: "run_state (enable_x2apic_local env) ?w0
      = (of_bool (bit c 21), ?w0\<lparr>x2apic_mode := v, trace := t1\<rparr>)" "messages t1 = messages (trace w)"
    "dev t1 = dev (trace w)"
    using run_enable_x2apic [OF assms(2), of ?w0] h by auto
  let ?t2 = "t1 @ [hd (report_registers (bit c 21)), Sti]"
  let ?w2 = "w\<lparr>irq_on := True, x2apic_mode := v, trace := ?t2\<rparr>"
  have d2: "dev ?t2 = dev (trace w)" using x(3) by (simp add: report_registers_def)
  have start: "run_state (do { mask_pic_interrupts; x2 \<leftarrow> enable_x2apic_local env;
     (if x2 \<noteq> 0 then printk ''x2apic enabled'' [] else printk ''x2apic not detected'' []); sti_w env }) w = ((), ?w2)"
    using x h d2 pic by (simp add: mask_pic_interrupts_def sti_w_def irq_enable_def intr_window_def run_window
        report_registers_def pending_vector_def idle_def del: deliver.simps)
  obtain t3 where 3: "run_state (ioapic_reg_version env) ?w2 = ((), ?w2\<lparr>trace := t3\<rparr>)"
    "messages t3 = messages ?t2 @ [report_registers (bit c 21) ! 1]" "dev t3 = (dev ?t2)\<lparr>selected := 1\<rparr>"
    using run_reg_version [OF pic, of ?w2] h by (auto simp: report_registers_def)
  obtain t4 r4 where 4: "run_state (ioapic_reg_id env) (?w2\<lparr>trace := t3\<rparr>) = ((), ?w2\<lparr>trace := t4\<rparr>)"
    "messages t4 = messages t3 @ [report_registers (bit c 21) ! 2]" "dev t4 = (dev t3)\<lparr>selected := 0, regs := r4\<rparr>"
    using run_reg_id [OF pic, of "?w2\<lparr>trace := t3\<rparr>"] h by (auto simp: report_registers_def)
  obtain t5 r5 where 5: "run_state (ioapic_arbitration_id env) (?w2\<lparr>trace := t4\<rparr>) = ((), ?w2\<lparr>trace := t5\<rparr>)"
    "messages t5 = messages t4 @ drop 3 (report_registers (bit c 21))" "dev t5 = (dev t4)\<lparr>selected := 2, regs := r5\<rparr>"
    using run_reg_arbitration [OF pic, of "?w2\<lparr>trace := t4\<rparr>" "bit c 21"] h by auto
  have "run_state (test_ioapic_registers env) w = ((), ?w2\<lparr>trace := t5\<rparr>)"
    using run_seq [OF start run_seq [OF 3(1) run_seq [OF 4(1) 5(1)]]] by (simp add: test_ioapic_registers_def)
  then show ?thesis
    using h(2) x(2) d2 3(2,3) 4(2,3) 5(2,3)
    by (intro exI [of _ t5] exI [of _ v]) (simp add: idle_def report_registers_def)
qed


section \<open>The whole test\<close>

lemma whole_parts:
  "test_ioapic env = do {
     test_ioapic_registers env;
     test_ioapic_one_cpu env;
     n \<leftarrow> kcall env ''num_online_cpus'' [];
     if n > 1 then do { test_ioapic_edge_tmr_smp env False; test_ioapic_level_tmr_smp env False;
        test_ioapic_level_tmr_smp env True; test_ioapic_edge_tmr_smp env True }
     else skip }"
  by (simp add: test_ioapic_def)

definition fresh :: "'a ioapic_world_scheme \<Rightarrow> bool" where
  "fresh w \<longleftrightarrow> halted w = None \<and> idle (dev (trace w)) \<and> \<not> tmr_bit (dev (trace w)) 0x79 \<and> remote_cpu w = [] \<and>
     g_isr_76 w = 0 \<and> g_isr_77 w = 0 \<and> g_78 w = 0 \<and> g_66 w = 0 \<and> g_66_after_78 w = 0 \<and> g_isr_98 w = 0 \<and>
     g_isr_99 w = 0 \<and> g_isr_9a w = 0 \<and> g_isr_81 w = 0 \<and> g_isr_82 w = 0 \<and> g_isr_83 w = 0"

text \<open>The documented machine, with \<open>ncpu\<close> CPUs that report \<open>c\<close> in ECX of CPUID leaf 1.\<close>

definition whole_machine :: "env \<Rightarrow> u32 \<Rightarrow> u64 \<Rightarrow> bool" where
  "whole_machine env c ncpu \<longleftrightarrow> test_machine env \<and> apic_cpu env c \<and> prompt env \<and>
     (\<forall>t. env_call env t ''num_online_cpus'' [] = ncpu)"

lemma first_run:
  assumes "whole_machine env c ncpu" and "fresh w"
  obtains w' n where "run_state (test_ioapic env) w = ((), w')" and "ready w'" and "remote_cpu w' = []"
    and "g_isr_9a w' = 2" and "g_78 w' = 1"
    and "g_isr_76 w' = 1" and "g_isr_77 w' = 1" and "g_isr_98 w' = 1" and "g_isr_99 w' = 2"
    and "messages (trace w') = messages (trace w) @ report_registers (bit c 21) @ report_intr 1 1
      @ report_simultaneous (g_66_rip w' \<noteq> 0) (g_78_rip w') @ report_level 1 2
      @ [Printk ''retriggered level interrupts without masking g_isr_9a=%x'' [AInt 2]]
      @ report_mask 0 0 0 @ report_tmr False @ (if ncpu > 1 then report_two_cpus False n else [])"
proof -
  have e: "test_machine env" "apic_cpu env c" "prompt env" and cpus: "env_call env t ''num_online_cpus'' [] = ncpu" for t
    using assms(1) by (simp_all add: whole_machine_def)
  have r: "halted w = None" "idle (dev (trace w))" using assms(2) by (simp_all add: fresh_def)
  obtain t1 v where 1: "run_state (test_ioapic_registers env) w = ((), w\<lparr>irq_on := True, x2apic_mode := v, trace := t1\<rparr>)" (is "_ = ((), ?w1)")
    "idle (dev t1)" "tmr_bit (dev t1) = tmr_bit (dev (trace w))"
    "messages t1 = messages (trace w) @ report_registers (bit c 21)"
    using registers_result [OF e(1,2) r] by blast
  have r1: "ready ?w1" using r 1(2) by (simp add: ready_def)
  from assms(2) 1(3) obtain w2 where 2: "run_state (test_ioapic_one_cpu env) ?w1 = ((), w2)" "ready w2" "remote_cpu w2 = []"
    "g_isr_9a w2 = 2" "g_78 w2 = 1" "g_isr_76 w2 = 1" "g_isr_77 w2 = 1" "g_isr_98 w2 = 1" "g_isr_99 w2 = 2"
    "\<not> tmr_bit (dev (trace w2)) 0x79"
    "messages (trace w2) = messages t1 @ report_intr 1 1
      @ report_simultaneous (g_66_rip w2 \<noteq> 0) (g_78_rip w2) @ report_level 1 2
      @ [Printk ''retriggered level interrupts without masking g_isr_9a=%x'' [AInt 2]]
      @ report_mask 0 0 0 @ report_tmr False"
    by (rule_tac one_cpu_first_run [OF e(1) r1]) (simp_all add: fresh_def)
  let ?w3 = "w2\<lparr>trace := trace w2 @ [Call ''num_online_cpus'' []]\<rparr>"
  have h: "halted w2 = None" and r3: "ready ?w3" "remote_cpu ?w3 = []" using 2(2,3) by (simp_all add: ready_def)
  show ?thesis
  proof (cases "ncpu > 1")
    case True
    obtain t m n where 3: "run_state (do { test_ioapic_edge_tmr_smp env False; test_ioapic_level_tmr_smp env False;
        test_ioapic_level_tmr_smp env True; test_ioapic_edge_tmr_smp env True }) ?w3
        = ((), ?w3\<lparr>g_tmr_79 := 0, mem := m, trace := t\<rparr>)" (is "_ = ((), ?w4)")
      "idle (dev t)" "messages t = messages (trace w2) @ report_two_cpus False n"
      using smp_group [OF e(1,3) r3] 2(10) by auto
    have "run_state (test_ioapic env) w = ((), ?w4)"
      unfolding whole_parts by (rule run_seq [OF 1(1) run_seq [OF 2(1)]]) (use h cpus True 3(1) in simp)
    moreover have "ready ?w4" using 2(2) 3(2) by (simp add: ready_def)
    ultimately show ?thesis
      using that [of ?w4 n] True 1(4) 2(3-11) 3(3) by simp
  next
    case False
    have "run_state (test_ioapic env) w = ((), ?w3)"
      unfolding whole_parts by (rule run_seq [OF 1(1) run_seq [OF 2(1)]]) (use h cpus False in simp)
    then show ?thesis
      using that [of ?w3 "\<lambda>i. 0"] False 1(4) 2(3-11) r3 by simp
  qed
qed

lemma second_run:
  assumes "test_machine env" and "apic_cpu env c" and "halted w = None" and "idle (dev (trace w))" and "g_78 w + 1 \<noteq> 0" and "2 \<le> unat (g_isr_9a w)"
    and "unat (g_isr_9a w) + Suc (env_fuel env) < 2 ^ 32"
  obtains w' ok r78 where "run_state (test_ioapic env) w = ((), w')" and "halted w' = Some Hang"
    and "messages (trace w') = messages (trace w) @ report_registers (bit c 21)
      @ report_intr (g_isr_76 w + 1) (g_isr_77 w + 1) @ report_simultaneous ok r78
      @ report_level (g_isr_98 w + 1) (g_isr_99 w + 2)"
proof -
  obtain t1 v where 1: "run_state (test_ioapic_registers env) w = ((), w\<lparr>irq_on := True, x2apic_mode := v, trace := t1\<rparr>)" (is "_ = ((), ?w1)")
    "idle (dev t1)" "messages t1 = messages (trace w) @ report_registers (bit c 21)"
    using registers_result [OF assms(1-4)] by blast
  have "ready ?w1" using assms(3) 1(2) by (simp add: ready_def)
  then obtain w2 ok r78 where 2: "run_state (test_ioapic_one_cpu env) ?w1 = ((), w2)" "halted w2 = Some Hang"
    "messages (trace w2) = messages t1 @ report_intr (g_isr_76 w + 1) (g_isr_77 w + 1) @ report_simultaneous ok r78
      @ report_level (g_isr_98 w + 1) (g_isr_99 w + 2)"
    using one_cpu_second_run [OF assms(1), of ?w1] assms(5-7) by auto
  let ?rest = "do { n \<leftarrow> kcall env ''num_online_cpus'' [];
     if n > 1 then do { test_ioapic_edge_tmr_smp env False; test_ioapic_level_tmr_smp env False;
        test_ioapic_level_tmr_smp env True; test_ioapic_edge_tmr_smp env True }
     else skip } :: ('a ioapic_world_scheme, unit) state"
  have "frozen ?rest" by (auto simp: frozen_tests)
  then have "run_state ?rest w2 = ((), w2)" using 2(2) by (rule run_frozen)
  then have "run_state (test_ioapic env) w = ((), w2)"
    unfolding whole_parts by (rule run_seq [OF 1(1) run_seq [OF 2(1)]])
  then show ?thesis using that [of w2 ok r78] 1(3) 2(2,3) by simp
qed

text \<open>A machine with two CPUs for the witnesses; CPU 1 gets to run at every third moment.\<close>

definition pair_env :: env where
  "pair_env = pc_env\<lparr>
     env_insn := (\<lambda>t n. if n = ''cpu1'' \<and> length t mod 3 = 0 then 1 else 0),
     env_call := (\<lambda>t n a. if n = ''num_online_cpus'' then 2 else env_call pc_env t n a)\<rparr>"

lemma pair_env_machine: "whole_machine pair_env 0 2"
proof -
  have "test_machine pair_env"
    using pc_env_test_machine
    by (simp add: test_machine_def pic_machine_def install_machine_def stub_at_def install_ok_def
        mapped_range_def pair_env_def)
  moreover have "apic_cpu pair_env 0"
    by (simp add: apic_cpu_def pair_env_def pc_env_def calm_env_def)
  moreover have "prompt pair_env"
  proof (unfold prompt_def, intro allI)
    fix t :: "ev list"
    have len: "length (spins n) = n" for n by (simp add: spins_def)
    let ?k = "2 - length t mod 3"
    have "(length t + Suc ?k) mod 3 = 0"
      by presburger
    moreover have "?k + 2 \<le> env_fuel pair_env" by (simp add: pair_env_def pc_env_def calm_env_def)
    ultimately have "?k + 2 \<le> env_fuel pair_env \<and> env_insn pair_env (t @ spins (Suc ?k)) ''cpu1'' \<noteq> 0"
      by (simp add: pair_env_def len del: spins_simps)
    then show "\<exists>k. k + 2 \<le> env_fuel pair_env \<and> env_insn pair_env (t @ spins (Suc k)) ''cpu1'' \<noteq> 0" by blast
  qed
  moreover have "env_call pair_env t ''num_online_cpus'' [] = 2" for t
    by (simp add: pair_env_def)
  ultimately show ?thesis by (simp add: whole_machine_def)
qed

lemma fresh_start: "fresh ioapic_start"
  using ioapic_start_ready(1) by (simp add: ready_def fresh_def ioapic_start_def dev_def dev0_def)



end
