(* ===== verification/IoapicCommand.thy ===== *)
theory IoapicCommand
  imports UnitDriver IoapicSmp
begin

text \<open>
  The command IOAPIC_TEST of the pcm-unit driver, from the ioctl down to the interrupt controllers:
  the interrupt test and, because the \<open>case\<close> has no \<open>break\<close>, the TSC_ADJUST test.
\<close>

section \<open>The TSC_ADJUST test next to the interrupt controllers\<close>

text \<open>It always ends, whatever the counter does, and leaves the interrupt controllers alone.\<close>

definition unrelated :: "('a kworld_scheme, 'b) state \<Rightarrow> bool" where
  "unrelated m \<longleftrightarrow> (\<forall>w. halted w = None \<longrightarrow> (\<exists>x es. run_state m w = (x, w\<lparr>trace := trace w @ es\<rparr>)
    \<and> (\<forall>d. foldl dev_step d es = d)))"

lemma unrelatedI:
  assumes "\<And>w. halted w = None \<Longrightarrow> snd (run_state m w) = w\<lparr>trace := trace w @ es w\<rparr>"
    and "\<And>w d. foldl dev_step d (es w) = d"
  shows "unrelated m"
  using assms unfolding unrelated_def by (metis prod.collapse)

lemma unrelated_machine [simp]:
  "unrelated (State_Monad.return x)" "unrelated (printk fmt args)" "unrelated (cpuid env l s)" "unrelated (rdtsc env)"
  "unrelated (rdmsrl_safe env i)" "unrelated (wrmsrl_safe env i v)"
proof -
  show "unrelated (State_Monad.return x)" by (rule unrelatedI [where es = "\<lambda>w. []"]) simp_all
  show "unrelated (printk fmt args)" by (rule unrelatedI [where es = "\<lambda>w. [Printk fmt args]"]) simp_all
  show "unrelated (cpuid env l s)" by (rule unrelatedI [where es = "\<lambda>w. [Cpuid l s]"]) simp_all
  show "unrelated (rdtsc env)"
    by (rule unrelatedI [where es = "\<lambda>w. [Rdtsc (env_rdtsc env (trace w))]"]) simp_all
  show "unrelated (rdmsrl_safe env i)"
    by (rule unrelatedI [where es = "\<lambda>w. [MsrRdSafe i (fst (env_rdmsr_safe env (trace w) i))]"]) simp_all
  show "unrelated (wrmsrl_safe env i v)"
    by (rule unrelatedI [where es = "\<lambda>w. [MsrWrSafe i v (env_wrmsr_safe env (trace w) i v)]"]) simp_all
qed

lemma unrelated_bind [intro!]:
  fixes m :: "('a kworld_scheme, 'b) state"
  assumes "unrelated m" and "\<And>x. unrelated (f x)"
  shows "unrelated (State_Monad.bind m f)"
  unfolding unrelated_def
proof (intro allI impI)
  fix w :: "'a kworld_scheme" assume h: "halted w = None"
  obtain x es where m: "run_state m w = (x, w\<lparr>trace := trace w @ es\<rparr>)" "\<And>d. foldl dev_step d es = d"
    using assms(1) h unfolding unrelated_def by blast
  have "halted (w\<lparr>trace := trace w @ es\<rparr>) = None" using h by simp
  then obtain y fs where "run_state (f x) (w\<lparr>trace := trace w @ es\<rparr>)
      = (y, w\<lparr>trace := trace w @ es\<rparr>\<lparr>trace := trace (w\<lparr>trace := trace w @ es\<rparr>) @ fs\<rparr>)"
      "\<And>d. foldl dev_step d fs = d"
    using assms(2) unfolding unrelated_def by blast
  with m show "\<exists>y gs. run_state (State_Monad.bind m f) w = (y, w\<lparr>trace := trace w @ gs\<rparr>)
      \<and> (\<forall>d. foldl dev_step d gs = d)"
    by (intro exI [of _ y] exI [of _ "es @ fs"]) simp
qed

lemma unrelated_tsc_adjust: "unrelated (test_tsc_adjust env)"
  unfolding test_tsc_adjust_def Let_def by (auto split: prod.splits)

lemma run_tsc_adjust:
  assumes "halted w = None"
  shows "\<exists>es. run_state (test_tsc_adjust env) w = ((), w\<lparr>trace := trace w @ es\<rparr>) \<and> (\<forall>d. foldl dev_step d es = d)"
  using unrelated_tsc_adjust [of env] assms by (auto simp: unrelated_def)

section \<open>One command\<close>

lemma good_ioapic [simp]: "\<not> bad_command PCM_TEST_IOC_MAXNR IOAPIC_TEST" "IOC_DIR IOAPIC_TEST = 0"
  by (simp_all add: bad_command_def PCM_TEST_IOC_MAXNR_def PCM_TEST_IOC_MAGIC_def unit_commands ioc_defs)

lemma run_accepted_halted:
  assumes "halted w = None" and "\<And>t. env_fault env t ''vmcall'' = None"
    and "run_state (switch cmd) (w\<lparr>irq_on := False, trace := trace w @ [Cli, Insn ''vmcall'' [AInt 102]]\<rparr>) = ((), w')"
    and "halted w' = Some h"
  shows "snd (run_state (accepted env switch cmd) w) = w'"
proof -
  have "snd (run_state (do { _ \<leftarrow> hypercall env 103; sti; State_Monad.return (0 :: int) }) w') = w'"
    by (rule frozenD [OF _ assms(4)]) (auto simp: hypercall_def)
  then show ?thesis
    using assms(1-3) by (simp add: accepted_def hypercall_def run_insn_val split_def)
qed



end
