(* ===== verification/Progress.thy ===== *)
theory Progress
  imports Main
begin

text \<open>
  Processes that take turns: the executions of a system in which a scheduler chooses the process that
  moves, what it means for the scheduler to be fair, and the progress argument, a rank that every move
  that does anything lowers, with a process that can lower it as long as the work is not done.
\<close>

section \<open>Executions\<close>

text \<open>\<open>sched k\<close> is the process that makes the \<open>k\<close>-th move, \<open>inp k\<close> what it reads from outside then.\<close>

primrec execution :: "(nat \<Rightarrow> 'i \<Rightarrow> 's \<Rightarrow> 's) \<Rightarrow> (nat \<Rightarrow> nat) \<Rightarrow> (nat \<Rightarrow> 'i) \<Rightarrow> 's \<Rightarrow> nat \<Rightarrow> 's" where
  "execution step sched inp s 0 = s"
| "execution step sched inp s (Suc k) = step (sched k) (inp k) (execution step sched inp s k)"

lemma execution_shift:
  "execution step sched inp s (Suc k)
    = execution step (\<lambda>i. sched (Suc i)) (\<lambda>i. inp (Suc i)) (step (sched 0) (inp 0) s) k"
  by (induction k) simp_all

text \<open>Every process moves again and again; and every process moves within any \<open>B\<close> moves.\<close>

definition fair :: "nat \<Rightarrow> (nat \<Rightarrow> nat) \<Rightarrow> bool" where
  "fair m sched \<longleftrightarrow> (\<forall>k. sched k < m) \<and> (\<forall>j < m. \<forall>k. \<exists>d. sched (k + d) = j)"

definition fair_within :: "nat \<Rightarrow> nat \<Rightarrow> (nat \<Rightarrow> nat) \<Rightarrow> bool" where
  "fair_within B m sched \<longleftrightarrow> (\<forall>k. sched k < m) \<and> (\<forall>j < m. \<forall>k. \<exists>d < B. sched (k + d) = j)"

lemma fair_within_fair: "fair_within B m sched \<Longrightarrow> fair m sched"
  unfolding fair_def fair_within_def by blast

lemma fair_round_robin: "0 < m \<Longrightarrow> fair_within m m (\<lambda>k. k mod m)"
proof -
  assume m: "0 < m"
  have "\<exists>d < m. (k + d) mod m = j" if "j < m" for j k
  proof (cases "k mod m \<le> j")
    case True
    have "(k + (j - k mod m)) mod m = (k mod m + (j - k mod m)) mod m" by (simp add: mod_add_left_eq)
    then show ?thesis using True that by (intro exI [of _ "j - k mod m"]) simp
  next
    case False
    obtain r where r: "k mod m = r" "r < m" using m by simp
    then have "(k + (m + j - r)) mod m = (r + (m + j - r)) mod m" by (metis mod_add_left_eq)
    then have "(k + (m + j - r)) mod m = j" "m + j - r < m" using r False that by simp_all
    then show ?thesis by blast
  qed
  with m show ?thesis by (simp add: fair_within_def)
qed

section \<open>Progress\<close>

locale progress =
  fixes step :: "nat \<Rightarrow> 'i \<Rightarrow> 's \<Rightarrow> 's"
    and m :: nat
    and inv :: "'s \<Rightarrow> bool"
    and finished :: "'s \<Rightarrow> bool"
    and rank :: "'s \<Rightarrow> nat"
  assumes inv_step: "inv s \<Longrightarrow> j < m \<Longrightarrow> inv (step j x s)"
    and rank_step: "inv s \<Longrightarrow> j < m \<Longrightarrow> step j x s = s \<or> rank (step j x s) < rank s"
    and helpful: "inv s \<Longrightarrow> \<not> finished s \<Longrightarrow> \<exists>j < m. \<forall>x. rank (step j x s) < rank s"
    and finished_step: "inv s \<Longrightarrow> finished s \<Longrightarrow> j < m \<Longrightarrow> finished (step j x s)"
begin

definition helper :: "'s \<Rightarrow> nat" where
  "helper s = (SOME j. j < m \<and> (\<forall>x. rank (step j x s) < rank s))"

definition due :: "(nat \<Rightarrow> nat) \<Rightarrow> nat \<Rightarrow> 's \<Rightarrow> nat" where
  "due sched k s = (LEAST d. sched (k + d) = helper s)"

lemma helper: "inv s \<Longrightarrow> \<not> finished s \<Longrightarrow> helper s < m \<and> rank (step (helper s) x s) < rank s"
  using someI_ex [OF helpful [of s]] unfolding helper_def by blast

lemma progress_step:
  assumes "fair m sched" and "inv s" and "\<not> finished s"
  shows "rank (step (sched k) x s) < rank s
    \<or> step (sched k) x s = s \<and> due sched (Suc k) s < due sched k s"
proof (cases "step (sched k) x s = s")
  case True
  note h = helper [OF assms(2,3), of x]
  then obtain d where d: "sched (k + d) = helper s" using assms(1) unfolding fair_def by blast
  have ne: "sched k \<noteq> helper s" using h True by auto
  have l: "sched (k + due sched k s) = helper s" unfolding due_def by (rule LeastI [of _ d]) (rule d)
  then have "due sched k s \<noteq> 0" using ne by (metis add_0_right)
  then obtain e where e: "due sched k s = Suc e" using not0_implies_Suc by blast
  have "sched (Suc k + e) = helper s" using l e by simp
  then have "due sched (Suc k) s \<le> e" unfolding due_def by (rule Least_le)
  with True e show ?thesis by simp
next
  case False
  then show ?thesis using rank_step [of s "sched k" x] assms by (auto simp: fair_def)
qed

text \<open>Under a fair scheduler the work is done at some time.\<close>

lemma execution_inv: "fair m sched \<Longrightarrow> inv s \<Longrightarrow> inv (execution step sched inp s k)"
  by (induction k) (auto simp: fair_def intro: inv_step)

lemma stays_finished:
  assumes "fair m sched" and "inv s" and "finished (execution step sched inp s k)" and "k \<le> l"
  shows "finished (execution step sched inp s l)"
  using assms(4)
proof (induction l rule: dec_induct)
  case base
  show ?case by (rule assms(3))
next
  case (step n)
  then show ?case using assms(1,2) execution_inv [of sched s inp n] by (auto simp: fair_def intro: finished_step)
qed

lemma eventually_finished:
  assumes fair: "fair m sched" and inv: "inv s"
  shows "\<exists>k. finished (execution step sched inp s k)"
proof -
  let ?at = "execution step sched inp s"
  have "\<exists>l. finished (?at l)" if "\<exists>k. rank (?at k) = r \<and> due sched k (?at k) = d" for r d
    using that
  proof (induction "(r, d)" arbitrary: r d rule: wf_induct_rule [OF wf_lex_prod [OF wf_less_than wf_less_than]])
    case (1 r d)
    from 1(2) obtain k where k: "rank (?at k) = r" "due sched k (?at k) = d" by blast
    show ?case
    proof (cases "finished (?at k)")
      case False
      from progress_step [OF fair execution_inv [OF fair inv] False, of k "inp k"] k
      have "((rank (?at (Suc k)), due sched (Suc k) (?at (Suc k))), r, d) \<in> less_than <*lex*> less_than"
        by auto
      from 1(1) [OF this] show ?thesis by blast
    qed blast
  qed
  then show ?thesis by blast
qed

text \<open>When every process has its turn within \<open>B\<close> moves, \<open>B\<close> moves for each unit of the rank suffice.\<close>

definition potential :: "nat \<Rightarrow> (nat \<Rightarrow> nat) \<Rightarrow> nat \<Rightarrow> 's \<Rightarrow> nat" where
  "potential B sched k s = rank s * B + due sched k s"

lemma due_within:
  assumes "fair_within B m sched" and "inv s" and "\<not> finished s"
  shows "due sched k s < B"
proof -
  have "helper s < m" using helper [OF assms(2,3)] by blast
  then obtain d where "d < B" "sched (k + d) = helper s" using assms(1) unfolding fair_within_def by blast
  then show ?thesis unfolding due_def by (blast intro: order_le_less_trans Least_le)
qed

lemma potential_step:
  assumes "fair_within B m sched" and "inv s" and "\<not> finished s"
    and "\<not> finished (step (sched k) x s)"
  shows "potential B sched (Suc k) (step (sched k) x s) < potential B sched k s"
  using progress_step [OF fair_within_fair [OF assms(1)] assms(2,3), of k x]
proof
  let ?t = "step (sched k) x s"
  assume "rank ?t < rank s"
  then have "Suc (rank ?t) * B \<le> rank s * B" by (intro mult_le_mono1) simp
  moreover have "due sched (Suc k) ?t < B"
    using due_within [OF assms(1) _ assms(4)] inv_step [OF assms(2)] assms(1) by (simp add: fair_within_def)
  ultimately show ?thesis by (simp add: potential_def)
qed (simp add: potential_def)

end

end
