(* ===== verification/KvmclockFair.thy ===== *)
theory KvmclockFair
  imports KvmclockCycle Progress
begin

text \<open>
  The stress test of \<open>src/pcm-unit/driver/kvmclock_test.c\<close> comes to an end: under a fair scheduler all
  instances of \<open>kvm_clock_test\<close> finish, on any number of CPUs and whatever the clock reports.
\<close>

section \<open>What is left to do\<close>

text \<open>
  A round of the exchange loop either raises the last value, or finds that somebody else did.  A read
  raises it at most once, so \<open>read_work\<close> counts a raise as progress and a round that only learns the new
  last value as the end of being \<open>stale\<close>.  \<open>l\<close> is the last value.
\<close>

definition at_exchange :: "pc \<Rightarrow> bool" where
  "at_exchange p \<longleftrightarrow> p \<in> {ReadFree Exchange, ReadT1 Exchange, ReadLast Exchange}"

fun read_work :: "u64 \<Rightarrow> thread \<Rightarrow> read_pc \<Rightarrow> nat" where
  "read_work l th Cycles = 5"
| "read_work l th LoadLast = 4"
| "read_work l th Exchange = (if ret th < seen th then 1 else if ret th \<le> l then 2 else 3)"

definition place_work :: "u64 \<Rightarrow> thread \<Rightarrow> nat" where
  "place_work l th = (case place th of
     Lock1 \<Rightarrow> 28 | ReadT1 p \<Rightarrow> 22 + read_work l th p | LoadT0 \<Rightarrow> 22
   | ReadLast p \<Rightarrow> 16 + read_work l th p | Unlock1 \<Rightarrow> 16 | Judge \<Rightarrow> 15 | Lock2 \<Rightarrow> 14 | Warp \<Rightarrow> 13 | Unlock2 \<Rightarrow> 12
   | StallLoad \<Rightarrow> 4 | StallStore \<Rightarrow> 3 | ReadFree p \<Rightarrow> 22 + read_work l th p | _ \<Rightarrow> 1)"

definition work :: "int \<Rightarrow> u64 \<Rightarrow> thread \<Rightarrow> nat" where
  "work n l th = (case place th of
     LoopHead \<Rightarrow> 30 * nat (n - round th) + 2 | Finish \<Rightarrow> 1 | Done \<Rightarrow> 0
   | _ \<Rightarrow> 30 * nat (n - round th - 1) + 2 + place_work l th)"

definition stale :: "u64 \<Rightarrow> thread \<Rightarrow> bool" where
  "stale l th \<longleftrightarrow> at_exchange (place th) \<and> seen th \<le> ret th \<and> ret th > l \<and> seen th \<noteq> l"

definition blocked :: "test_info \<Rightarrow> thread \<Rightarrow> bool" where
  "blocked i th \<longleftrightarrow> place th = Done \<or> place th \<in> {Lock1, Lock2} \<and> ti_lock i"

text \<open>What a step of a thread does to the work left.\<close>

definition advances :: "int \<Rightarrow> clock \<times> test_info \<times> thread \<Rightarrow> clock \<times> test_info \<times> thread \<Rightarrow> bool" where
  "advances n = (\<lambda>(c, i, th) (c', i', th').
     work n (last_value c') th' < work n (last_value c) th \<and> last_value c \<le> last_value c'
   \<or> work n (last_value c') th' = work n (last_value c) th \<and> c' = c \<and> stale (last_value c) th
     \<and> \<not> stale (last_value c) th')"

lemma thread_advances:
  assumes "thread_step n raw (c, i, th) = (c', i', th')" and "\<not> blocked i th"
    and "at_exchange (place th) \<longrightarrow> seen th \<le> last_value c"
  shows "advances n (c, i, th) (c', i', th') \<and> (at_exchange (place th') \<longrightarrow> seen th' \<le> last_value c')"
proof (cases "place th")
  case (ReadFree p)
  with assms show ?thesis
    by (cases p) (auto simp: do_read_def cmpxchg_def Let_def advances_def work_def place_work_def stale_def
        at_exchange_def not_less split: if_splits)
next
  case (ReadT1 p)
  with assms show ?thesis
    by (cases p) (auto simp: do_read_def cmpxchg_def Let_def advances_def work_def place_work_def stale_def
        at_exchange_def not_less split: if_splits)
next
  case (ReadLast p)
  with assms show ?thesis
    by (cases p) (auto simp: do_read_def cmpxchg_def Let_def advances_def work_def place_work_def stale_def
        at_exchange_def not_less split: if_splits)
next
  case LoopHead
  with assms show ?thesis
    by (auto simp: advances_def work_def place_work_def at_exchange_def split: if_splits)
next
  case NextRound
  with assms show ?thesis
    by (auto simp: advances_def work_def place_work_def at_exchange_def algebra_simps split: if_splits)
qed (use assms in \<open>auto simp: advances_def work_def place_work_def at_exchange_def blocked_def split: if_splits\<close>)

lemma blocked_step: "blocked i th \<Longrightarrow> thread_step n raw (c, i, th) = (c, i, th)"
  by (auto simp: blocked_def)

text \<open>A rising last value leaves no other thread with more to do.\<close>

lemma work_rises: "l \<le> l' \<Longrightarrow> work n l' th \<le> work n l th"
proof -
  assume "l \<le> l'"
  then have "read_work l' th p \<le> read_work l th p" for p
    by (cases p) (auto intro: order_trans)
  then show ?thesis by (simp add: work_def place_work_def split: pc.split)
qed

section \<open>The rank of the threads together\<close>

definition rank_of :: "int \<Rightarrow> state3 \<Rightarrow> nat" where
  "rank_of n = (\<lambda>(c, i, ths). (\<Sum>j<length ths. work n (last_value c) (ths ! j)) * Suc (length ths)
     + card {j. j < length ths \<and> stale (last_value c) (ths ! j)})"

lemma sum_update:
  fixes f :: "'a \<Rightarrow> nat"
  assumes "j < length xs" and "\<And>k. k < length xs \<Longrightarrow> k \<noteq> j \<Longrightarrow> g (xs ! k) \<le> f (xs ! k)"
  shows "(\<Sum>k<length xs. g (xs[j := y] ! k)) + f (xs ! j) \<le> (\<Sum>k<length xs. f (xs ! k)) + g y"
proof -
  have "(\<Sum>k<length xs. g (xs[j := y] ! k)) = g y + (\<Sum>k\<in>{..<length xs} - {j}. g (xs[j := y] ! k))"
    using assms(1) by (subst sum.remove [of _ j]) simp_all
  moreover have "(\<Sum>k<length xs. f (xs ! k)) = f (xs ! j) + (\<Sum>k\<in>{..<length xs} - {j}. f (xs ! k))"
    using assms(1) by (subst sum.remove [of _ j]) simp_all
  moreover have "(\<Sum>k\<in>{..<length xs} - {j}. g (xs[j := y] ! k)) \<le> (\<Sum>k\<in>{..<length xs} - {j}. f (xs ! k))"
    using assms(2) by (intro sum_mono) auto
  ultimately show ?thesis by simp
qed

lemma card_below: "card {j. j < m \<and> P j} \<le> m"
  using card_mono [of "{..<m}" "{j. j < m \<and> P j}"] by auto

lemma rank_step:
  assumes adv: "advances n (c, i, ths ! j) (c', i', th')" and j: "j < length ths"
  shows "rank_of n (c', i', ths[j := th']) < rank_of n (c, i, ths)"
proof -
  let ?l = "last_value c" and ?l' = "last_value c'" and ?m = "length ths"
  let ?W = "\<Sum>k<?m. work n ?l (ths ! k)" and ?W' = "\<Sum>k<?m. work n ?l' (ths[j := th'] ! k)"
  let ?S = "{k. k < ?m \<and> stale ?l (ths ! k)}" and ?S' = "{k. k < ?m \<and> stale ?l' (ths[j := th'] ! k)}"
  have le: "?l \<le> ?l'" using adv by (auto simp: advances_def)
  have W: "?W' + work n ?l (ths ! j) \<le> ?W + work n ?l' th'"
    by (rule sum_update [OF j work_rises [OF le]])
  show ?thesis
  proof (cases "work n ?l' th' < work n ?l (ths ! j)")
    case True
    with W have "Suc ?W' * Suc ?m \<le> ?W * Suc ?m" by (intro mult_le_mono1) simp
    moreover have "card ?S' \<le> ?m" by (rule card_below)
    ultimately show ?thesis by (simp add: rank_of_def)
  next
    case False
    with adv have e: "work n ?l' th' = work n ?l (ths ! j)" "c' = c" "stale ?l (ths ! j)" "\<not> stale ?l th'"
      by (auto simp: advances_def)
    have "?S' = ?S - {j}" using e j by (auto simp: nth_list_update split: if_splits)
    moreover have "j \<in> ?S" using e j by simp
    ultimately have "card ?S' < card ?S" by (simp only:) (intro card_Diff1_less, simp_all)
    moreover have "?W' * Suc ?m \<le> ?W * Suc ?m" using W e(1) by (intro mult_le_mono1) simp
    ultimately show ?thesis by (simp add: rank_of_def)
  qed
qed

section \<open>Progress\<close>

text \<open>
  The step of the thread on CPU \<open>j\<close>, and what holds throughout: a thread in the exchange loop knows a
  last value that was one, and when the lock is taken, somebody is between taking and releasing it.
\<close>

definition turn :: "int \<Rightarrow> nat \<Rightarrow> u64 \<times> u8 \<Rightarrow> state3 \<Rightarrow> state3" where
  "turn n j raw = (\<lambda>(c, i, ths). let (c', i', th') = thread_step n raw (c, i, ths ! j) in (c', i', ths[j := th']))"

definition live_inv :: "nat \<Rightarrow> state3 \<Rightarrow> bool" where
  "live_inv m = (\<lambda>(c, i, ths). length ths = m
     \<and> (\<forall>j < m. at_exchange (place (ths ! j)) \<longrightarrow> seen (ths ! j) \<le> last_value c)
     \<and> (ti_lock i \<longrightarrow> (\<exists>j < m. in_critical (place (ths ! j)))))"

definition all_done :: "state3 \<Rightarrow> bool" where
  "all_done = (\<lambda>(c, i, ths). \<forall>th \<in> set ths. place th = Done)"

text \<open>Who leaves the critical section releases the lock; who takes the lock enters it.\<close>

lemma lock_held:
  assumes "thread_step n raw (c, i, th) = (c', i', th')" and "ti_lock i'"
  shows "in_critical (place th') \<or> ti_lock i \<and> \<not> in_critical (place th)"
proof (cases "place th")
  case (ReadFree p)
  with assms show ?thesis
    by (cases p) (auto simp: do_read_def cmpxchg_def Let_def in_critical_def split: if_splits)
next
  case (ReadT1 p)
  with assms show ?thesis
    by (cases p) (auto simp: do_read_def cmpxchg_def Let_def in_critical_def split: if_splits)
next
  case (ReadLast p)
  with assms show ?thesis
    by (cases p) (auto simp: do_read_def cmpxchg_def Let_def in_critical_def split: if_splits)
qed (use assms in \<open>auto simp: in_critical_def split: if_splits\<close>)

lemma turn_rank:
  assumes "live_inv m (c, i, ths)" and "j < m" and "\<not> blocked i (ths ! j)"
  shows "rank_of n (turn n j raw (c, i, ths)) < rank_of n (c, i, ths)"
proof -
  obtain c' i' th' where st: "thread_step n raw (c, i, ths ! j) = (c', i', th')" by (metis prod.exhaust)
  show ?thesis
    using assms thread_advances [OF st assms(3)] rank_step [of n c i ths j c' i' th']
    by (simp add: turn_def st live_inv_def del: thread_step.simps)
qed

lemma turn_blocked: "blocked i (ths ! j) \<Longrightarrow> turn n j raw (c, i, ths) = (c, i, ths)"
  by (simp add: turn_def blocked_step del: thread_step.simps)

lemma live_inv_turn:
  assumes inv: "live_inv m s" and j: "j < m"
  shows "live_inv m (turn n j raw s)"
proof -
  obtain c i ths where s: "s = (c, i, ths)" by (metis prod.exhaust)
  show ?thesis
  proof (cases "blocked i (ths ! j)")
    case True
    then show ?thesis using inv by (simp add: s turn_blocked)
  next
    case False
    obtain c' i' th' where st: "thread_step n raw (c, i, ths ! j) = (c', i', th')" by (metis prod.exhaust)
    have m: "length ths = m" and seen: "\<And>k. k < m \<Longrightarrow> at_exchange (place (ths ! k)) \<Longrightarrow> seen (ths ! k) \<le> last_value c"
      and held: "ti_lock i \<Longrightarrow> \<exists>k < m. in_critical (place (ths ! k))"
      using inv by (auto simp: live_inv_def s)
    have adv: "advances n (c, i, ths ! j) (c', i', th')" "at_exchange (place th') \<longrightarrow> seen th' \<le> last_value c'"
      using thread_advances [OF st False] seen [OF j] by auto
    have le: "last_value c \<le> last_value c'" using adv(1) by (auto simp: advances_def)
    have "at_exchange (place (ths[j := th'] ! k)) \<longrightarrow> seen (ths[j := th'] ! k) \<le> last_value c'" if "k < m" for k
      using adv(2) seen [OF that] le m that by (cases "k = j") (auto intro: order_trans)
    moreover have "\<exists>k < m. in_critical (place (ths[j := th'] ! k))" if "ti_lock i'"
      using lock_held [OF st that]
    proof
      assume "in_critical (place th')"
      then show ?thesis using j m by (intro exI [of _ j]) simp
    next
      assume "ti_lock i \<and> \<not> in_critical (place (ths ! j))"
      with held obtain k where "k < m" "in_critical (place (ths ! k))" "k \<noteq> j" by blast
      then show ?thesis by (intro exI [of _ k]) simp
    qed
    ultimately show ?thesis using st m by (simp add: live_inv_def turn_def s del: thread_step.simps)
  qed
qed

lemma someone_moves:
  assumes "live_inv m (c, i, ths)" and "\<not> all_done (c, i, ths)"
  shows "\<exists>j < m. \<not> blocked i (ths ! j)"
proof (cases "ti_lock i")
  case True
  then obtain j where "j < m" "in_critical (place (ths ! j))" using assms(1) by (auto simp: live_inv_def)
  then show ?thesis by (intro exI [of _ j]) (auto simp: blocked_def in_critical_def)
next
  case False
  from assms(2) obtain j where "j < length ths" "place (ths ! j) \<noteq> Done"
    by (auto simp: all_done_def in_set_conv_nth)
  with False assms(1) show ?thesis by (auto simp: blocked_def live_inv_def)
qed

text \<open>The threads of the stress test make progress.\<close>

interpretation threads: progress "turn n" m "live_inv m" all_done "rank_of n" for n m
proof
  fix s j x assume inv: "live_inv m s" and j: "j < m"
  show "live_inv m (turn n j x s)" by (rule live_inv_turn [OF inv j])
  show "turn n j x s = s \<or> rank_of n (turn n j x s) < rank_of n s"
    using turn_rank [of m "fst s" "fst (snd s)" "snd (snd s)" j n x] inv j
      turn_blocked [of "fst (snd s)" "snd (snd s)" j n x "fst s"] by auto
  show "all_done (turn n j x s)" if "all_done s"
  proof -
    obtain c i ths where s: "s = (c, i, ths)" by (metis prod.exhaust)
    have "blocked i (ths ! j)" using that inv j by (auto simp: s all_done_def live_inv_def blocked_def)
    with that show ?thesis by (simp add: s turn_blocked)
  qed
next
  fix s assume inv: "live_inv m s" and nd: "\<not> all_done s"
  obtain c i ths where s: "s = (c, i, ths)" by (metis prod.exhaust)
  from someone_moves [of m c i ths] inv nd obtain j where "j < m" "\<not> blocked i (ths ! j)" by (auto simp: s)
  then show "\<exists>j < m. \<forall>x. rank_of n (turn n j x s) < rank_of n s"
    using turn_rank [of m c i ths j n] inv by (auto simp: s)
qed


section \<open>The counter of running threads\<close>

definition running :: "thread list \<Rightarrow> nat" where
  "running ths = length (filter (\<lambda>th. place th \<noteq> Done) ths)"

definition counted :: "u32 \<Rightarrow> state3 \<Rightarrow> bool" where
  "counted r = (\<lambda>(c, i, ths). ncpus i = r + of_nat (running ths))"

lemma filter_update:
  "j < length xs \<Longrightarrow> length (filter P (xs[j := y])) + of_bool (P (xs ! j)) = length (filter P xs) + of_bool (P y)"
proof (induction xs arbitrary: j)
  case (Cons x xs)
  then show ?case using Cons.IH [of "j - 1"] by (cases j) auto
qed simp

lemma thread_count:
  assumes "thread_step n raw (c, i, th) = (c', i', th')"
  shows "ncpus i' + of_bool (place th \<noteq> Done) = ncpus i + of_bool (place th' \<noteq> Done)"
proof (cases "place th")
  case (ReadFree p)
  with assms show ?thesis by (cases p) (auto simp: do_read_def cmpxchg_def Let_def split: if_splits)
next
  case (ReadT1 p)
  with assms show ?thesis by (cases p) (auto simp: do_read_def cmpxchg_def Let_def split: if_splits)
next
  case (ReadLast p)
  with assms show ?thesis by (cases p) (auto simp: do_read_def cmpxchg_def Let_def split: if_splits)
qed (use assms in \<open>auto split: if_splits\<close>)

lemma counted_turn:
  assumes "counted r (c, i, ths)" and "j < length ths"
  shows "counted r (turn n j raw (c, i, ths))"
proof -
  obtain c' i' th' where st: "thread_step n raw (c, i, ths ! j) = (c', i', th')" by (metis prod.exhaust)
  have "running (ths[j := th']) + of_bool (place (ths ! j) \<noteq> Done) = running ths + of_bool (place th' \<noteq> Done)"
    using filter_update [OF assms(2), of "\<lambda>th. place th \<noteq> Done" th'] by (simp add: running_def)
  then have "(of_nat (running (ths[j := th'])) :: u32) + of_bool (place (ths ! j) \<noteq> Done)
      = of_nat (running ths) + of_bool (place th' \<noteq> Done)"
    by (metis of_nat_add of_nat_of_bool)
  then have "ncpus i' + of_bool (place (ths ! j) \<noteq> Done)
      = r + of_nat (running (ths[j := th'])) + of_bool (place (ths ! j) \<noteq> Done)"
    using thread_count [OF st] assms(1) by (simp only: counted_def prod.case add.assoc)
  then show ?thesis by (simp add: counted_def turn_def st del: thread_step.simps)
qed

lemma running_none: "running ths = 0 \<longleftrightarrow> (\<forall>th \<in> set ths. place th = Done)"
  by (simp add: running_def filter_empty_conv)

lemma running_le: "running ths \<le> length ths"
  by (simp add: running_def)

lemma of_nat_zero: "unat (of_nat r :: u32) = r \<Longrightarrow> (of_nat r :: u32) = 0 \<longleftrightarrow> r = 0"
proof
  assume u: "unat (of_nat r :: u32) = r" and z: "(of_nat r :: u32) = 0"
  show "r = 0" using u [unfolded z] by simp
qed simp

lemma start_live: "\<not> ti_lock i \<Longrightarrow> live_inv m (c, i, replicate m new_thread)"
  by (simp add: live_inv_def new_thread_def at_exchange_def)

lemma start_counted: "counted (ncpus i - of_nat m) (c, i, replicate m new_thread)"
  by (simp add: counted_def running_def new_thread_def)

lemma start_rank: "rank_of n (c, i, replicate m new_thread) = m * (30 * nat n + 2) * Suc m"
  by (simp add: rank_of_def new_thread_def work_def stale_def at_exchange_def)

lemma execution_counted:
  assumes "fair m sched" and "live_inv m s" and "counted r s"
  shows "counted r (execution (turn n) sched raws s k)"
proof (induction k)
  case 0
  show ?case using assms(3) by simp
next
  case (Suc k)
  obtain c i ths where e: "execution (turn n) sched raws s k = (c, i, ths)" by (metis prod.exhaust)
  have "length ths = m"
    using threads.execution_inv [OF assms(1,2), of n raws k] by (simp add: e live_inv_def)
  then show ?case
    using counted_turn [of r c i ths "sched k" n "raws k"] Suc assms(1) by (simp add: e fair_def)
qed

section \<open>The wait for the threads\<close>

text \<open>
  The hypervisor keeps one even version, so that every read of its structure succeeds; the time and
  the flags it reports are free.  The scheduler follows \<open>sched\<close>: the thread that moves is chosen by
  the number of moves made before.
\<close>

definition steady_hv :: "env \<Rightarrow> u32 \<Rightarrow> bool" where
  "steady_hv env v \<longleftrightarrow> \<not> bit v 0 \<and> 2 \<le> env_fuel env \<and> (\<forall>t i.
     env_call env t ''__pvclock_read_cycles'' [AInt i] = ucast v
     \<and> env_call env t ''hv_clock.version'' [AInt i] = ucast v)"

fun is_turn :: "ev \<Rightarrow> bool" where
  "is_turn (Insn nm args) = (nm = ''thread step'')"
| "is_turn _ = False"

definition turns :: "ev list \<Rightarrow> nat" where
  "turns t = length (filter is_turn t)"

lemma turns_simps [simp]: "turns [] = 0" "turns (t @ u) = turns t + turns u" "turns (e # t) = of_bool (is_turn e) + turns t"
  by (simp_all add: turns_def)

definition follows :: "env \<Rightarrow> nat \<Rightarrow> (nat \<Rightarrow> nat) \<Rightarrow> bool" where
  "follows env m sched \<longleftrightarrow> (\<forall>t. unat (env_insn env t ''scheduler'') mod m = sched (turns t))"

lemma run_read_consistent_steady:
  assumes "steady_hv env v" and "halted w = None"
  shows "\<exists>raw. run_state (read_consistent env i) w = (raw, w\<lparr>trace := trace w @
    [Call ''__pvclock_read_cycles'' [AInt (int i)], Call ''hv_clock.version'' [AInt (int i)],
     Call ''hv_clock.version'' [AInt (int i)]]\<rparr>)"
proof -
  obtain f where f: "env_fuel env = Suc (Suc f)"
    using assms(1) unfolding steady_hv_def by (metis Suc_le_D numeral_2_eq_2 Suc_le_mono)
  have e: "(ucast v :: u64) AND 1 = 0" using assms(1) by (intro even_version) (simp add: steady_hv_def)
  show ?thesis
    using assms f e
    by (simp add: read_consistent_def pvclock_read_cycles_def hv_load_def steady_hv_def)
qed

lemma run_turn:
  assumes "steady_hv env v" and "halted w = None"
  shows "\<exists>raw t c' i' ths'. turn (loops w) j raw (clk w, ti w k, ths) = (c', i', ths')
    \<and> run_state (kvm_clock_test_step env k j ths) w = (ths', w\<lparr>clk := c', ti := (ti w)(k := i'), trace := t\<rparr>)
    \<and> turns t = Suc (turns (trace w))"
proof -
  let ?read = "if at_cycles (ths ! j) then read_consistent env j else State_Monad.return (0, 0)"
  obtain raw u where r: "run_state ?read w = (raw, w\<lparr>trace := u\<rparr>)" and u: "turns u = turns (trace w)"
  proof (cases "at_cycles (ths ! j)")
    case True
    with that show thesis using run_read_consistent_steady [OF assms, of j] by fastforce
  next
    case False
    with that [of "(0, 0)" "trace w"] show thesis by simp
  qed
  obtain c' i' th' where st: "thread_step (loops w) raw (clk w, ti w k, ths ! j) = (c', i', th')"
    by (metis prod.exhaust)
  let ?t = "u @ (if prints_worst (ti w k) (ths ! j) then [Printk ''Worst warp %lld'' [AInt (sint (worst i'))]] else [])
    @ [Insn ''thread step'' [AInt (int j)]]"
  have "run_state (kvm_clock_test_step env k j ths) w = (ths[j := th'], w\<lparr>clk := c', ti := (ti w)(k := i'), trace := ?t\<rparr>)"
    using r assms(2) st by (simp add: kvm_clock_test_step_def Let_def printk_def del: thread_step.simps)
  moreover have "turn (loops w) j raw (clk w, ti w k, ths) = (c', i', ths[j := th'])"
    by (simp add: turn_def st del: thread_step.simps)
  moreover have "turns ?t = Suc (turns (trace w))" using u by simp
  ultimately show ?thesis by blast
qed

text \<open>One pass of the waiting loop.\<close>

definition wait_pass :: "env \<Rightarrow> nat \<Rightarrow> thread list \<Rightarrow> ('a pcm_world_scheme, thread list + unit) state" where
  "wait_pass env k ths = do {
     n \<leftarrow> gets (\<lambda>w. ncpus (ti w k));
     if n = 0 then State_Monad.return (Inr ())
     else do {
       j \<leftarrow> ask (\<lambda>t. env_insn env t ''scheduler'');
       ths' \<leftarrow> kvm_clock_test_step env k (unat j mod length ths) ths;
       State_Monad.return (Inl ths') } }"

lemma no_cpu_left:
  assumes "counted 0 s" and "s = (c, i, ths)" and "length ths = m" and "m < 2 ^ 32"
  shows "ncpus i = 0 \<longleftrightarrow> all_done s"
proof -
  have "unat (of_nat (running ths) :: u32) = running ths"
    using running_le [of ths] assms(3,4) by (simp add: unat_of_nat take_bit_eq_mod)
  then have "(of_nat (running ths) :: u32) = 0 \<longleftrightarrow> running ths = 0" by (rule of_nat_zero)
  then show ?thesis using assms(1,2) by (simp add: counted_def all_done_def running_none)
qed

text \<open>One round of the wait while a thread is left: a turn, which lowers the potential.\<close>

lemma wait_round:
  fixes w :: "'a pcm_world_scheme"
  assumes steady: "steady_hv env v" and fol: "follows env m sched" and fair: "fair_within B m sched" and m: "m < 2 ^ 32"
    and h: "halted w = None" and inv: "live_inv m (clk w, ti w k, ths)" and cnt: "counted 0 (clk w, ti w k, ths)"
    and left: "\<not> all_done (clk w, ti w k, ths)"
  obtains ths' t c' i' where
    "run_state (loop (Suc n) () (wait_pass env k) ths) w
      = run_state (loop n () (wait_pass env k) ths') (w\<lparr>clk := c', ti := (ti w)(k := i'), trace := t\<rparr>)"
    and "live_inv m (c', i', ths')" and "counted 0 (c', i', ths')"
    and "all_done (c', i', ths') \<or> threads.potential (loops w) m B sched (turns t) (c', i', ths')
      < threads.potential (loops w) m B sched (turns (trace w)) (clk w, ti w k, ths)"
proof -
  have len: "length ths = m" using inv by (simp add: live_inv_def)
  let ?j = "unat (env_insn env (trace w) ''scheduler'') mod m"
  have j: "?j = sched (turns (trace w))" "?j < m"
    using fol fair by (simp_all add: follows_def fair_within_def)
  obtain raw t c' i' ths' where tu: "turn (loops w) ?j raw (clk w, ti w k, ths) = (c', i', ths')"
    and run: "run_state (kvm_clock_test_step env k ?j ths) w = (ths', w\<lparr>clk := c', ti := (ti w)(k := i'), trace := t\<rparr>)"
    and t: "turns t = Suc (turns (trace w))"
    using run_turn [OF steady h] by blast
  have "live_inv m (c', i', ths')" "counted 0 (c', i', ths')"
    using live_inv_turn [OF inv j(2), of "loops w" raw] counted_turn [OF cnt, of ?j "loops w" raw] j(2) len
    by (simp_all add: tu)
  moreover have "all_done (c', i', ths') \<or> threads.potential (loops w) m B sched (turns t) (c', i', ths')
      < threads.potential (loops w) m B sched (turns (trace w)) (clk w, ti w k, ths)"
    using threads.potential_step [OF fair inv left, of "loops w" "turns (trace w)" raw] by (auto simp: tu t j(1) [symmetric])
  moreover have "run_state (loop (Suc n) () (wait_pass env k) ths) w
      = run_state (loop n () (wait_pass env k) ths') (w\<lparr>clk := c', ti := (ti w)(k := i'), trace := t\<rparr>)"
    using run len no_cpu_left [OF cnt refl len m] left by (simp add: wait_pass_def)
  ultimately show ?thesis using that by blast
qed

lemma waiting_ends:
  fixes w :: "'a pcm_world_scheme"
  assumes steady: "steady_hv env v" and fol: "follows env m sched" and fair: "fair_within B m sched"
    and m: "m < 2 ^ 32"
  shows "\<lbrakk>halted w = None; live_inv m (clk w, ti w k, ths); counted 0 (clk w, ti w k, ths);
      all_done (clk w, ti w k, ths) \<or>
        threads.potential (loops w) m B sched (turns (trace w)) (clk w, ti w k, ths) < f\<rbrakk> \<Longrightarrow>
    \<exists>t c i. run_state (loop (Suc f) () (wait_pass env k) ths) w = ((), w\<lparr>clk := c, ti := (ti w)(k := i), trace := t\<rparr>)
      \<and> ncpus i = 0"
proof (induction f arbitrary: w ths)
  case 0
  then have "running ths = 0" by (simp add: all_done_def running_none)
  with 0 have "ncpus (ti w k) = 0" by (simp add: counted_def)
  then show ?case using 0
    by (intro exI [of _ "trace w"] exI [of _ "clk w"] exI [of _ "ti w k"]) (simp add: wait_pass_def)
next
  case (Suc f)
  show ?case
  proof (cases "all_done (clk w, ti w k, ths)")
    case True
    have "length ths = m" using Suc.prems(2) by (simp add: live_inv_def)
    with True show ?thesis using Suc.prems(1) no_cpu_left [OF Suc.prems(3) refl _ m]
      by (intro exI [of _ "trace w"] exI [of _ "clk w"] exI [of _ "ti w k"]) (simp add: wait_pass_def)
  next
    case False
    obtain ths' t c' i' where round: "run_state (loop (Suc (Suc f)) () (wait_pass env k) ths) w
        = run_state (loop (Suc f) () (wait_pass env k) ths') (w\<lparr>clk := c', ti := (ti w)(k := i'), trace := t\<rparr>)"
      and inv: "live_inv m (c', i', ths')" "counted 0 (c', i', ths')"
      and less: "all_done (c', i', ths') \<or> threads.potential (loops w) m B sched (turns t) (c', i', ths')
        < threads.potential (loops w) m B sched (turns (trace w)) (clk w, ti w k, ths)"
      by (rule wait_round [OF steady fol fair m Suc.prems(1-3) False])
    let ?w = "w\<lparr>clk := c', ti := (ti w)(k := i'), trace := t\<rparr>"
    have "halted ?w = None" "live_inv m (clk ?w, ti ?w k, ths')" "counted 0 (clk ?w, ti ?w k, ths')"
      "all_done (clk ?w, ti ?w k, ths') \<or>
        threads.potential (loops ?w) m B sched (turns (trace ?w)) (clk ?w, ti ?w k, ths') < f"
      using Suc.prems(1,4) inv less False by auto
    from Suc.IH [OF this] obtain t2 c2 i2 where "run_state (loop (Suc f) () (wait_pass env k) ths') ?w
        = ((), ?w\<lparr>clk := c2, ti := (ti ?w)(k := i2), trace := t2\<rparr>) \<and> ncpus i2 = 0" by blast
    moreover have "?w\<lparr>clk := c2, ti := (ti ?w)(k := i2), trace := t2\<rparr>
        = w\<lparr>clk := c2, ti := (ti w)(k := i2), trace := t2\<rparr>" by simp
    ultimately show ?thesis using round by metis
  qed
qed

text \<open>Enough passes for a whole run of \<open>m\<close> threads.\<close>

definition enough_fuel :: "nat \<Rightarrow> nat \<Rightarrow> int \<Rightarrow> nat" where
  "enough_fuel B m n = (m * (30 * nat n + 2) * Suc m + 1) * B + 1"

lemma run_wait_for_threads:
  fixes w :: "'a pcm_world_scheme"
  assumes "steady_hv env v" and "follows env m sched" and "fair_within B m sched" and "0 < m" and "m < 2 ^ 32"
    and "halted w = None" and "\<not> ti_lock (ti w k)" and "ncpus (ti w k) = of_nat m"
    and "enough_fuel B m (loops w) \<le> env_fuel env"
  shows "\<exists>t c i. run_state (wait_for_threads env k (replicate m new_thread)) w
      = ((), w\<lparr>clk := c, ti := (ti w)(k := i), trace := t\<rparr>) \<and> ncpus i = 0"
proof -
  let ?s = "(clk w, ti w k, replicate m new_thread)"
  obtain f where f: "env_fuel env = Suc f" and le: "(m * (30 * nat (loops w) + 2) * Suc m + 1) * B \<le> f"
    using assms(9) by (cases "env_fuel env") (simp_all add: enough_fuel_def)
  have live: "live_inv m ?s" using assms(7) by (rule start_live)
  have "threads.due (loops w) m sched (turns (trace w)) ?s < B"
    by (rule threads.due_within [OF assms(3) live]) (use assms(4) in \<open>simp add: all_done_def new_thread_def\<close>)
  then have "threads.potential (loops w) m B sched (turns (trace w)) ?s < (rank_of (loops w) ?s + 1) * B"
    unfolding threads.potential_def distrib_right by simp
  then have "threads.potential (loops w) m B sched (turns (trace w)) ?s < f"
    using le unfolding start_rank by (rule order_less_le_trans)
  with waiting_ends [OF assms(1,2,3,5,6) live, of f] start_counted [of "ti w k" m "clk w"] assms(8)
  show ?thesis by (simp add: wait_for_threads_def f wait_pass_def [abs_def])
qed

section \<open>Properties\<close>

text \<open>C3. The stress test comes to an end: on any number of CPUs, when the scheduler is fair (every
  CPU gets to move again and again), all instances of \<open>kvm_clock_test\<close> finish, and the counter the
  starter waits on has been lowered once for each of them, whatever the clock reports and however the
  exchange loops and the lock make them wait for each other.\<close>

theorem stress_test_finishes:
  assumes "fair m sched" and "\<not> ti_lock i"
  shows "\<exists>k. \<forall>l \<ge> k. \<exists>c' i' ths.
    execution (turn n) sched raws (c, i, replicate m new_thread) l = (c', i', ths)
    \<and> (\<forall>th \<in> set ths. place th = Done) \<and> ncpus i' = ncpus i - of_nat m"
proof -
  let ?s = "(c, i, replicate m new_thread)"
  have live: "live_inv m ?s" using assms(2) by (rule start_live)
  obtain k where k: "all_done (execution (turn n) sched raws ?s k)"
    using threads.eventually_finished [OF assms(1) live] by blast
  have "\<exists>c' i' ths. execution (turn n) sched raws ?s l = (c', i', ths) \<and> (\<forall>th \<in> set ths. place th = Done)
      \<and> ncpus i' = ncpus i - of_nat m" if l: "k \<le> l" for l
  proof -
    obtain c' i' ths where e: "execution (turn n) sched raws ?s l = (c', i', ths)" by (metis prod.exhaust)
    have "\<forall>th \<in> set ths. place th = Done"
      using threads.stays_finished [OF assms(1) live k l] by (simp add: e all_done_def)
    moreover from this have "ncpus i' = ncpus i - of_nat m"
      using execution_counted [OF assms(1) live start_counted, of n raws l] running_none [of ths]
      by (simp add: e counted_def)
    ultimately show ?thesis using e by blast
  qed
  then show ?thesis by blast
qed

theorem stress_test_finishes_witness:
  "\<exists>k. \<forall>l \<ge> k. \<exists>c' i' ths.
    execution (turn 3) (\<lambda>k. k mod 2) (\<lambda>k. (of_nat (k mod 7), 1)) (\<lparr>valid_flags = 1, last_value = 9\<rparr>, fresh_info,
      replicate 2 new_thread) l = (c', i', ths)
    \<and> (\<forall>th \<in> set ths. place th = Done) \<and> ncpus i' = 0"
  using stress_test_finishes [OF fair_within_fair [OF fair_round_robin], of 2 fresh_info 3]
  by (simp add: fresh_info_def)

text \<open>C8. \<open>cycle_test\<close> ends on any number of CPUs: when every read of the hypervisor's structure
  succeeds and every CPU gets a turn within \<open>B\<close> turns, the wait for the threads is over after a number
  of passes that is quadratic in the CPUs and linear in the loops, whatever time the clock reports, and
  the counter it waits on is 0.\<close>

theorem cycle_test_ends:
  assumes "steady_hv env v" and "follows env cpus sched" and "fair_within B cpus sched"
    and "0 < cpus" and "cpus < 2 ^ 32" and "halted w = None" and "\<not> ti_lock (ti w k)"
    and "enough_fuel B cpus (loops w) \<le> env_fuel env"
  shows "halted (snd (run_state (cycle_test env cpus chk k) w)) = None
    \<and> ncpus (ti (snd (run_state (cycle_test env cpus chk k) w)) k) = 0"
proof -
  obtain t where run: "run_state (cycle_test env cpus chk k) w
      = run_state (cycle_report env cpus chk k (env_rdtsc env (trace w)))
          (snd (run_state (wait_for_threads env k (replicate cpus new_thread))
            (w\<lparr>ti := (ti w)(k := (ti w k)\<lparr>ncpus := of_nat cpus, check := chk\<rparr>), trace := t\<rparr>)))"
    (is "_ = run_state _ (snd (run_state _ ?w1))")
    using run_cycle_test [OF assms(6)] by blast
  obtain t' c i where "run_state (wait_for_threads env k (replicate cpus new_thread)) ?w1
      = ((), ?w1\<lparr>clk := c, ti := (ti ?w1)(k := i), trace := t'\<rparr>) \<and> ncpus i = 0"
    using run_wait_for_threads [OF assms(1-5), of ?w1 k] assms(6-8) by auto
  then show ?thesis
    unfolding run using assms(6) by (simp add: cycle_report_runs cycle_report_keeps)
qed

end
