(* ===== verification/KvmclockMain.thy ===== *)
theory KvmclockMain
  imports KvmclockFair
begin

text \<open>
  The whole of \<open>test_kvm_clock\<close> (\<open>src/pcm-unit/driver/kvmclock_test.c\<close>): the checks on every CPU and
  the four runs of the stress test, on any number of CPUs.
\<close>

section \<open>The checks on every CPU\<close>

text \<open>What the clock may do: the last value does not fall, and stays in the range of the test.\<close>

definition rises :: "clock \<Rightarrow> clock \<Rightarrow> bool" where
  "rises c c' \<longleftrightarrow> last_value c \<le> last_value c' \<and> (small (last_value c) \<longrightarrow> small (last_value c'))"

lemma rises_refl [simp]: "rises c c"
  by (simp add: rises_def)

lemma rises_trans: "rises a b \<Longrightarrow> rises b c \<Longrightarrow> rises a c"
  by (auto simp: rises_def)

lemma rises_read: "adjusted raw \<Longrightarrow> rises c (read_clock raw c)"
  by (auto simp: rises_def read_clock_def adjusted_def max_def)

definition steady_wall :: "env \<Rightarrow> u32 \<Rightarrow> bool" where
  "steady_wall env v \<longleftrightarrow> (\<forall>t. env_call env t ''wall_clock.version'' [AInt 0] = ucast v)"

text \<open>Code that reads the clock, says \<open>ms\<close> and returns \<open>r\<close>.\<close>

definition clock_code :: "('a pcm_world_scheme, 'b) state \<Rightarrow> 'a pcm_world_scheme \<Rightarrow> 'b \<Rightarrow> ev list \<Rightarrow> bool" where
  "clock_code m w r ms \<longleftrightarrow> (\<exists>t c. run_state m w = (r, w\<lparr>trace := t, clk := c\<rparr>) \<and> rises (clk w) c
     \<and> messages t = messages (trace w) @ ms)"

lemma run_pvclock_clocksource_read:
  assumes "steady_hv env v" and "unstable_hv env" and "halted w = None"
  shows "\<exists>x. clock_code (pvclock_clocksource_read env i) w x []"
proof -
  obtain raw where r: "run_state (read_consistent env i) w = (raw, w\<lparr>trace := trace w @
    [Call ''__pvclock_read_cycles'' [AInt (int i)], Call ''hv_clock.version'' [AInt (int i)],
     Call ''hv_clock.version'' [AInt (int i)]]\<rparr>)"
    using run_read_consistent_steady [OF assms(1,3)] by blast
  have "adjusted raw" using read_consistent_adjusted [OF assms(2), of i w] r by simp
  then have "clock_code (pvclock_clocksource_read env i) w (read_value raw (clk w)) []"
    unfolding clock_code_def using run_clocksource_read [OF r] assms(1,3)
    by (intro exI [of _ "trace w @ [Call ''__pvclock_read_cycles'' [AInt (int i)],
        Call ''hv_clock.version'' [AInt (int i)], Call ''hv_clock.version'' [AInt (int i)]]"]
      exI [of _ "read_clock raw (clk w)"]) (simp add: steady_hv_def rises_read)
  then show ?thesis by blast
qed

lemma run_kvm_get_wallclock:
  assumes "steady_hv env v" and "steady_wall env v" and "unstable_hv env" and "halted w = None"
  shows "\<exists>x. clock_code (kvm_get_wallclock env) w x []"
proof -
  obtain f where f: "env_fuel env = Suc (Suc f)"
    using assms(1) unfolding steady_hv_def by (metis Suc_le_D numeral_2_eq_2 Suc_le_mono)
  have e: "(ucast v :: u64) AND 1 = 0" using assms(1) by (intro even_version) (simp add: steady_hv_def)
  let ?err = "env_wrmsr_safe env (trace w) MSR_KVM_WALL_CLOCK_NEW (env_sym env ''wall_clock'')"
  let ?w1 = "w\<lparr>trace := trace w @ [MsrWrSafe MSR_KVM_WALL_CLOCK_NEW (env_sym env ''wall_clock'') ?err,
    Call ''wall_clock.version'' [AInt 0], Call ''wall_clock.sec'' [AInt 0], Call ''wall_clock.nsec'' [AInt 0],
    Call ''wall_clock.version'' [AInt 0], Call ''wall_clock.version'' [AInt 0]]\<rparr>"
  obtain x t c where "run_state (pvclock_clocksource_read env (cpu w)) ?w1 = (x, ?w1\<lparr>trace := t, clk := c\<rparr>)"
    and "rises (clk w) c" "messages t = messages (trace w)"
    using run_pvclock_clocksource_read [OF assms(1,3), of ?w1 "cpu w"] assms(4) by (auto simp: clock_code_def)
  then have "\<exists>y t'. run_state (kvm_get_wallclock env) w = (y, w\<lparr>trace := t', clk := c\<rparr>) \<and> messages t' = messages (trace w)"
    using assms(2,4) f e
    by (intro exI [of _ "fst (run_state (kvm_get_wallclock env) w)"]
        exI [of _ "trace (snd (run_state (kvm_get_wallclock env) w))"])
      (simp add: kvm_get_wallclock_def smp_id_def pvclock_read_wallclock_def hv_load_def steady_wall_def Let_def)
  then show ?thesis using \<open>rises (clk w) c\<close> by (auto simp: clock_code_def)
qed

definition wall_line :: "ev \<Rightarrow> bool" where
  "wall_line e \<longleftrightarrow> (case e of Printk fmt args \<Rightarrow> fmt \<in> {''Raw nanoseconds value from kvmclock: %llu (cpu %d)'',
     ''Seconds get from kvmclock: %ld (cpu %d, offset: %ld)'', ''offset too large!''} | _ \<Rightarrow> False)"

lemma run_wallclock_test:
  assumes "steady_hv env v" and "steady_wall env v" and "unstable_hv env" and "halted w = None"
  shows "\<exists>x ms. clock_code (wallclock_test env err) w x ms \<and> list_all wall_line ms"
proof -
  obtain ks t1 c1 where 1: "run_state (kvm_get_wallclock env) w = (ks, w\<lparr>trace := t1, clk := c1\<rparr>)"
    and m1: "rises (clk w) c1" "messages t1 = messages (trace w)"
    using run_kvm_get_wallclock [OF assms] by (auto simp: clock_code_def)
  let ?w1 = "w\<lparr>trace := t1, clk := c1\<rparr>"
  obtain raw t2 c2 where 2: "run_state (pvclock_clocksource_read env (cpu w)) ?w1 = (raw, ?w1\<lparr>trace := t2, clk := c2\<rparr>)"
    and m2: "rises c1 c2" "messages t2 = messages t1"
    using run_pvclock_clocksource_read [OF assms(1,3), of ?w1 "cpu w"] assms(4) by (auto simp: clock_code_def)
  let ?ms = "[Printk ''Raw nanoseconds value from kvmclock: %llu (cpu %d)'' [arg_word raw, AInt (int (cpu w))],
    Printk ''Seconds get from kvmclock: %ld (cpu %d, offset: %ld)'' [AInt ks, AInt (int (cpu w)), AInt (ks - sec w)]]
    @ (if ks - sec w > threshold w \<or> ks - sec w < - threshold w then [Printk ''offset too large!'' []] else [])"
  have "clock_code (wallclock_test env err) w
      (if ks - sec w > threshold w \<or> ks - sec w < - threshold w then err + 1 else err) ?ms"
    unfolding clock_code_def
    using assms(4) 1 2 m1 m2
    by (intro exI [of _ "t2 @ ?ms"] exI [of _ c2])
      (simp add: wallclock_test_def kvm_clock_read_def smp_id_def Let_def rises_trans [of "clk w" c1 c2] printk_def)
  moreover have "list_all wall_line ?ms" by (simp add: wall_line_def)
  ultimately show ?thesis by blast
qed

lemma run_on_cpu:
  assumes "halted w = None" and "\<And>w'. halted w' = None \<Longrightarrow> \<exists>x ms. clock_code m w' x ms \<and> list_all P ms"
  shows "\<exists>x ms. clock_code (on_cpu env i nm m) w x ms \<and> list_all P ms"
proof -
  let ?w1 = "w\<lparr>trace := trace w @ [Call ''smp_call_function_single'' [AInt (int i), AStr nm, AInt 0, AInt 1]], cpu := i\<rparr>"
  obtain x ms t c where "run_state m ?w1 = (x, ?w1\<lparr>trace := t, clk := c\<rparr>)"
    and "rises (clk w) c" "messages t = messages (trace w) @ ms" and P: "list_all P ms"
    using assms(2) [of ?w1] assms(1) by (auto simp: clock_code_def)
  then have "clock_code (on_cpu env i nm m) w x ms"
    unfolding clock_code_def using assms(1) by (intro exI [of _ t] exI [of _ c]) (simp add: on_cpu_def)
  with P show ?thesis by blast
qed

lemma run_wallclock_tests:
  assumes "steady_hv env v" and "steady_wall env v" and "unstable_hv env"
  shows "halted w = None \<Longrightarrow> \<exists>x ms. clock_code (wallclock_tests env xs err) w x ms \<and> list_all wall_line ms"
proof (induction xs arbitrary: w err)
  case Nil
  show ?case unfolding clock_code_def
    by (intro exI [of _ err] exI [of _ "[]"] conjI exI [of _ "trace w"] exI [of _ "clk w"]) simp_all
next
  case (Cons i xs)
  obtain x ms t c where 1: "run_state (on_cpu env i ''wallclock_test'' (wallclock_test env err)) w
      = (x, w\<lparr>trace := t, clk := c\<rparr>)" "rises (clk w) c" "messages t = messages (trace w) @ ms" "list_all wall_line ms"
    using run_on_cpu [OF Cons.prems run_wallclock_test [OF assms]] unfolding clock_code_def by blast
  obtain y ns u d where 2: "run_state (wallclock_tests env xs x) (w\<lparr>trace := t, clk := c\<rparr>)
      = (y, w\<lparr>trace := u, clk := d\<rparr>)" "rises c d" "messages u = messages t @ ns" "list_all wall_line ns"
    using Cons.IH [of "w\<lparr>trace := t, clk := c\<rparr>" x] Cons.prems by (auto simp: clock_code_def)
  have "clock_code (wallclock_tests env (i # xs) err) w y (ms @ ns)"
    unfolding clock_code_def using 1 2
    by (intro exI [of _ u] exI [of _ d]) (auto intro: rises_trans)
  with 1(4) 2(4) show ?case by (metis list_all_append)
qed

text \<open>Telling the hypervisor where the clock structures are, and taking them back.\<close>

lemma run_kvm_clock_inits:
  "halted w = None \<Longrightarrow> \<exists>t. run_state (for_each xs (\<lambda>i. on_cpu env i ''kvm_clock_init'' (kvm_clock_init env))) w
      = ((), w\<lparr>trace := t\<rparr>)
    \<and> messages t = messages (trace w)
      @ map (\<lambda>i. Printk ''kvm-clock: cpu %d, msr %p'' [AInt (int i), arg_word (hv_clock env i)]) xs"
proof (induction xs arbitrary: w)
  case Nil
  then show ?case by (intro exI [of _ "trace w"]) simp
next
  case (Cons i xs)
  obtain t where 1: "run_state (on_cpu env i ''kvm_clock_init'' (kvm_clock_init env)) w = ((), w\<lparr>trace := t\<rparr>)"
    "messages t = messages (trace w) @ [Printk ''kvm-clock: cpu %d, msr %p'' [AInt (int i), arg_word (hv_clock env i)]]"
    using Cons.prems by (auto simp: on_cpu_def kvm_clock_init_def smp_id_def Let_def)
  with Cons.IH [of "w\<lparr>trace := t\<rparr>"] Cons.prems show ?case by auto
qed

lemma run_kvm_clock_clears:
  "halted w = None \<Longrightarrow> \<exists>t. run_state (for_each xs (\<lambda>i. on_cpu env i ''kvm_clock_clear'' (kvm_clock_clear env))) w
      = ((), w\<lparr>trace := t\<rparr>) \<and> messages t = messages (trace w)"
proof (induction xs arbitrary: w)
  case Nil
  then show ?case by (intro exI [of _ "trace w"]) simp
next
  case (Cons i xs)
  obtain t where 1: "run_state (on_cpu env i ''kvm_clock_clear'' (kvm_clock_clear env)) w = ((), w\<lparr>trace := t\<rparr>)"
    "messages t = messages (trace w)"
    using Cons.prems by (auto simp: on_cpu_def kvm_clock_clear_def)
  with Cons.IH [of "w\<lparr>trace := t\<rparr>"] Cons.prems show ?case by auto
qed

section \<open>A run of the stress test\<close>

text \<open>What a run on \<open>m\<close> CPUs prints: \<open>x\<close> xs the number of stalls or of cycles.\<close>

definition cycle_lines :: "nat \<Rightarrow> int \<Rightarrow> bool \<Rightarrow> u64 \<Rightarrow> u64 \<Rightarrow> u64 \<Rightarrow> ev list" where
  "cycle_lines m n chk wp ws x = [Printk ''Total vcpus: %d'' [AInt (int m)], Printk ''Test  loops: %ld'' [AInt n]] @
     (if chk then [Printk ''Total warps:  %lld'' [AInt (sint wp)], Printk ''Total stalls: %lld'' [AInt (sint x)],
        Printk ''Worst warp:   %lld'' [AInt (sint ws)]]
      else [Printk ''TSC cycles:  %lld'' [AInt (sint x)]])"

lemma run_cycle_report:
  assumes "halted w = None"
  shows "\<exists>t x. run_state (cycle_report env m chk k b) w = (if warps (ti w k) \<noteq> 0 then 1 else 0, w\<lparr>trace := t\<rparr>)
    \<and> messages t = messages (trace w) @ cycle_lines m (loops w) chk (warps (ti w k)) (worst (ti w k)) x"
  using assms
  by (intro exI [of _ "trace (snd (run_state (cycle_report env m chk k b) w))"]
      exI [of _ "if chk then stalls (ti w k) else env_rdtsc env (trace w) - b"])
    (simp add: cycle_report_def cycle_lines_def)

text \<open>The machine on which every run ends and none finds a warp.\<close>

definition fair_machine :: "env \<Rightarrow> nat \<Rightarrow> int \<Rightarrow> bool" where
  "fair_machine env m n \<longleftrightarrow> unstable_hv env \<and> (\<exists>v. steady_hv env v \<and> steady_wall env v)
     \<and> (\<exists>B sched. follows env m sched \<and> fair_within B m sched \<and> enough_fuel B m n \<le> env_fuel env)
     \<and> 0 < m \<and> m < 2 ^ 32"

definition unused :: "test_info \<Rightarrow> bool" where
  "unused i \<longleftrightarrow> \<not> ti_lock i \<and> warps i = 0 \<and> worst i = 0 \<and> last i = 0"

lemma run_cycle_test_fair:
  assumes "fair_machine env m (loops w)" and "halted w = None" and "unused (ti w k)"
    and "small (last_value (clk w))"
  shows "\<exists>t c i x. run_state (cycle_test env m chk k) w = (0, w\<lparr>clk := c, ti := (ti w)(k := i), trace := t\<rparr>)
    \<and> messages t = messages (trace w) @ cycle_lines m (loops w) chk 0 0 x \<and> small (last_value c)"
proof -
  obtain t where run: "run_state (cycle_test env m chk k) w
      = run_state (cycle_report env m chk k (env_rdtsc env (trace w)))
          (snd (run_state (wait_for_threads env k (replicate m new_thread))
            (w\<lparr>ti := (ti w)(k := (ti w k)\<lparr>ncpus := of_nat m, check := chk\<rparr>), trace := t\<rparr>)))"
    (is "_ = run_state _ (snd (run_state _ ?w1))") and "messages t = messages (trace w)"
    using run_cycle_test [OF assms(2)] by blast
  obtain v B sched where m: "steady_hv env v" "follows env m sched" "fair_within B m sched" "0 < m" "m < 2 ^ 32"
    "enough_fuel B m (loops w) \<le> env_fuel env" and un: "unstable_hv env"
    using assms(1) unfolding fair_machine_def by blast
  have "halted ?w1 = None" "\<not> ti_lock (ti ?w1 k)" "ncpus (ti ?w1 k) = of_nat m" "loops ?w1 = loops w"
    using assms(2,3) by (simp_all add: unused_def)
  note w1 = this
  obtain t' c i where wait: "run_state (wait_for_threads env k (replicate m new_thread)) ?w1
      = ((), ?w1\<lparr>clk := c, ti := (ti ?w1)(k := i), trace := t'\<rparr>)"
    using run_wait_for_threads [OF m(1-5) w1(1-3)] m(6) w1(4) by auto
  have "clock_inv (clk ?w1, ti ?w1 k, replicate m new_thread)"
    using assms(3,4) by (intro clock_inv_start) (simp_all add: unused_def)
  with wait_for_threads_counts [of env ?w1 k "replicate m new_thread"] wait assms(2,3) un m(4)
  have "messages t' = messages t" "warps i = 0" "worst i = 0" "small (last_value c)"
    by (simp_all add: counts_kept_def unused_def)
  with run_cycle_report [of "?w1\<lparr>clk := c, ti := (ti ?w1)(k := i), trace := t'\<rparr>" env m chk k "env_rdtsc env (trace w)"]
  show ?thesis using assms(2) run wait \<open>messages t = messages (trace w)\<close>
    by auto
qed

section \<open>What code says\<close>

text \<open>
  \<open>says C m Q C'\<close>: started where \<open>C\<close> holds, \<open>m\<close> leads to where \<open>C'\<close> holds, and its value and the
  messages it adds to the log satisfy \<open>Q\<close>.
\<close>

definition says :: "('a kworld_scheme \<Rightarrow> bool) \<Rightarrow> ('a kworld_scheme, 'b) state \<Rightarrow> ('b \<Rightarrow> ev list \<Rightarrow> bool)
    \<Rightarrow> ('a kworld_scheme \<Rightarrow> bool) \<Rightarrow> bool" where
  "says C m Q C' \<longleftrightarrow> (\<forall>w. C w \<longrightarrow> (\<exists>x w' ms. run_state m w = (x, w') \<and> C' w' \<and> Q x ms
     \<and> messages (trace w') = messages (trace w) @ ms))"

lemma says_conseq: "says C m Q C' \<Longrightarrow> (\<And>x ms. Q x ms \<Longrightarrow> Q' x ms) \<Longrightarrow> says C m Q' C'"
  unfolding says_def by blast

lemma says_any:
  assumes "says C m (\<lambda>x. P) C1" and "\<And>x. says C1 (f x) R C2"
  shows "says C (State_Monad.bind m f) (\<lambda>y ms. \<exists>a b. ms = a @ b \<and> P a \<and> R y b) C2"
  unfolding says_def
proof (intro allI impI)
  fix w assume "C w"
  with assms(1) obtain x w1 a where 1: "run_state m w = (x, w1)" "C1 w1" "P a"
    "messages (trace w1) = messages (trace w) @ a" unfolding says_def by blast
  with assms(2) obtain y w2 b where 2: "run_state (f x) w1 = (y, w2)" "C2 w2" "R y b"
    "messages (trace w2) = messages (trace w1) @ b" unfolding says_def by blast
  from 1 2 show "\<exists>y w2 ms. run_state (State_Monad.bind m f) w = (y, w2) \<and> C2 w2 \<and> (\<exists>a b. ms = a @ b \<and> P a \<and> R y b)
      \<and> messages (trace w2) = messages (trace w) @ ms"
    by (intro exI [of _ y] exI [of _ w2] exI [of _ "a @ b"]) auto
qed

text \<open>The same when the value is known.\<close>

lemma says_value:
  assumes "says C m (\<lambda>x ms. x = v \<and> P ms) C1" and "says C1 (f v) R C2"
  shows "says C (State_Monad.bind m f) (\<lambda>y ms. \<exists>a b. ms = a @ b \<and> P a \<and> R y b) C2"
proof -
  have "says C (State_Monad.bind m (\<lambda>x. State_Monad.return ())) (\<lambda>y. P) C1"
    using assms(1) unfolding says_def by (fastforce split: prod.splits)
  from says_any [OF this, of "\<lambda>_. f v", OF assms(2)] show ?thesis
    using assms(1) unfolding says_def by (fastforce split: prod.splits)
qed

lemma says_if: "b = c \<Longrightarrow> says C (if c then m else n) Q C' \<Longrightarrow> says C (if b then m else n) Q C'"
  by simp

text \<open>The test of the clock: its parameters are as they were, and the data of the runs \<open>K\<close> are unused.\<close>

definition testing :: "int \<Rightarrow> int \<Rightarrow> nat set \<Rightarrow> 'a pcm_world_scheme \<Rightarrow> bool" where
  "testing n th K w \<longleftrightarrow> halted w = None \<and> small (last_value (clk w)) \<and> loops w = n \<and> threshold w = th \<and> sec w = 2
     \<and> (\<forall>k \<in> K. unused (ti w k))"

lemma says_printk: "says (testing n th K) (printk fmt args) (\<lambda>x. (=) [Printk fmt args]) (testing n th K)"
  by (simp add: says_def testing_def printk_def)

lemma says_set_flags: "says (testing n th K) (pvclock_set_flags fl) (\<lambda>x. (=) []) (testing n th K)"
  by (simp add: says_def testing_def pvclock_set_flags_def)

lemma says_inits:
  "says (testing n th K) (for_each xs (\<lambda>i. on_cpu env i ''kvm_clock_init'' (kvm_clock_init env)))
    (\<lambda>x. (=) (map (\<lambda>i. Printk ''kvm-clock: cpu %d, msr %p'' [AInt (int i), arg_word (hv_clock env i)]) xs)) (testing n th K)"
  unfolding says_def
proof (intro allI impI)
  fix w :: "'a pcm_world_scheme" assume C: "testing n th K w"
  obtain t where "run_state (for_each xs (\<lambda>i. on_cpu env i ''kvm_clock_init'' (kvm_clock_init env))) w = ((), w\<lparr>trace := t\<rparr>)"
    "messages t = messages (trace w)
      @ map (\<lambda>i. Printk ''kvm-clock: cpu %d, msr %p'' [AInt (int i), arg_word (hv_clock env i)]) xs"
    using run_kvm_clock_inits [where w = w and env = env and xs = xs] C by (auto simp: testing_def)
  with C show "\<exists>x w' ms. run_state (for_each xs (\<lambda>i. on_cpu env i ''kvm_clock_init'' (kvm_clock_init env))) w = (x, w')
      \<and> testing n th K w'
      \<and> map (\<lambda>i. Printk ''kvm-clock: cpu %d, msr %p'' [AInt (int i), arg_word (hv_clock env i)]) xs = ms
      \<and> messages (trace w') = messages (trace w) @ ms"
    by (simp add: testing_def)
qed

lemma says_clears:
  "says (testing n th K) (for_each xs (\<lambda>i. on_cpu env i ''kvm_clock_clear'' (kvm_clock_clear env)))
    (\<lambda>x. (=) []) (testing n th K)"
  unfolding says_def
proof (intro allI impI)
  fix w :: "'a pcm_world_scheme" assume C: "testing n th K w"
  obtain t where "run_state (for_each xs (\<lambda>i. on_cpu env i ''kvm_clock_clear'' (kvm_clock_clear env))) w = ((), w\<lparr>trace := t\<rparr>)"
    "messages t = messages (trace w)"
    using run_kvm_clock_clears [where w = w and env = env and xs = xs] C by (auto simp: testing_def)
  with C show "\<exists>x w' ms. run_state (for_each xs (\<lambda>i. on_cpu env i ''kvm_clock_clear'' (kvm_clock_clear env))) w = (x, w')
      \<and> testing n th K w' \<and> [] = ms \<and> messages (trace w') = messages (trace w) @ ms"
    by (simp add: testing_def)
qed

lemma says_wallclock_tests:
  assumes "steady_hv env v" and "steady_wall env v" and "unstable_hv env"
  shows "says (testing n th K) (wallclock_tests env xs err) (\<lambda>x. list_all wall_line) (testing n th K)"
  unfolding says_def
proof (intro allI impI)
  fix w :: "'a pcm_world_scheme" assume C: "testing n th K w"
  obtain x t c ms where "run_state (wallclock_tests env xs err) w = (x, w\<lparr>trace := t, clk := c\<rparr>)" "rises (clk w) c"
    "messages t = messages (trace w) @ ms" "list_all wall_line ms"
    using run_wallclock_tests [OF assms, of w xs err] C by (auto simp: clock_code_def testing_def)
  with C show "\<exists>x w' ms. run_state (wallclock_tests env xs err) w = (x, w') \<and> testing n th K w' \<and> list_all wall_line ms
      \<and> messages (trace w') = messages (trace w) @ ms"
    by (simp add: testing_def rises_def)
qed

lemma says_cycle_test:
  assumes "fair_machine env m n" and "k \<in> K"
  shows "says (testing n th K) (cycle_test env m chk k)
    (\<lambda>r ms. r = 0 \<and> (\<exists>x. ms = cycle_lines m n chk 0 0 x)) (testing n th (K - {k}))"
  unfolding says_def
proof (intro allI impI)
  fix w :: "'a pcm_world_scheme" assume C: "testing n th K w"
  obtain t c i x where "run_state (cycle_test env m chk k) w = (0, w\<lparr>clk := c, ti := (ti w)(k := i), trace := t\<rparr>)"
    "messages t = messages (trace w) @ cycle_lines m (loops w) chk 0 0 x" "small (last_value c)"
    using run_cycle_test_fair [of env m w k chk] assms C by (auto simp: testing_def)
  with C show "\<exists>r w' ms. run_state (cycle_test env m chk k) w = (r, w') \<and> testing n th (K - {k}) w'
      \<and> (r = 0 \<and> (\<exists>x. ms = cycle_lines m n chk 0 0 x)) \<and> messages (trace w') = messages (trace w) @ ms"
    by (auto simp: testing_def)
qed

lemma says_gets:
  "says (testing n th K) (gets threshold) (\<lambda>x ms. x = th \<and> ms = []) (testing n th K)"
  "says (testing n th K) (gets sec) (\<lambda>x ms. x = 2 \<and> ms = []) (testing n th K)"
  by (simp_all add: says_def testing_def)

text \<open>The test after the number of CPUs is known.\<close>

definition kvm_clock_on :: "env \<Rightarrow> nat \<Rightarrow> ('a pcm_world_scheme, unit) state" where
  "kvm_clock_on env cpus = do {
     for_each [0..<cpus] (\<lambda>i. on_cpu env i ''kvm_clock_init'' (kvm_clock_init env));
     th \<leftarrow> gets threshold;
     s \<leftarrow> gets sec;
     printk ''Wallclock test, threshold %ld'' [AInt th];
     printk ''Seconds get from host:     %ld'' [AInt s];
     nerr \<leftarrow> wallclock_tests env [0..<cpus] 0;
     printk ''Check the stability of raw cycle ...'' [];
     pvclock_set_flags (PVCLOCK_TSC_STABLE_BIT OR PVCLOCK_RAW_CYCLE_BIT);
     r \<leftarrow> cycle_test env cpus True 0;
     (if r \<noteq> 0 then printk ''Raw cycle is not stable'' [] else printk ''Raw cycle is stable'' []);
     pvclock_set_flags PVCLOCK_TSC_STABLE_BIT;
     printk ''Monotonic cycle test:'' [];
     r \<leftarrow> cycle_test env cpus True 1;
     printk ''Measure the performance of raw cycle ...'' [];
     pvclock_set_flags (PVCLOCK_TSC_STABLE_BIT OR PVCLOCK_RAW_CYCLE_BIT);
     _ \<leftarrow> cycle_test env cpus False 2;
     printk ''Measure the performance of adjusted cycle ...'' [];
     pvclock_set_flags PVCLOCK_TSC_STABLE_BIT;
     _ \<leftarrow> cycle_test env cpus False 3;
     for_each [0..<cpus] (\<lambda>i. on_cpu env i ''kvm_clock_clear'' (kvm_clock_clear env)) }"

text \<open>Its log: \<open>walls\<close> are the lines of the wall clock test, the numbers are stalls and cycles.\<close>

definition kvm_clock_log :: "env \<Rightarrow> nat \<Rightarrow> int \<Rightarrow> int \<Rightarrow> ev list \<Rightarrow> u64 \<Rightarrow> u64 \<Rightarrow> u64 \<Rightarrow> u64 \<Rightarrow> ev list" where
  "kvm_clock_log env m n th walls s0 s1 c2 c3 =
     map (\<lambda>i. Printk ''kvm-clock: cpu %d, msr %p'' [AInt (int i), arg_word (hv_clock env i)]) [0..<m]
     @ [Printk ''Wallclock test, threshold %ld'' [AInt th], Printk ''Seconds get from host:     %ld'' [AInt 2]] @ walls
     @ [Printk ''Check the stability of raw cycle ...'' []] @ cycle_lines m n True 0 0 s0
     @ [Printk ''Raw cycle is stable'' [], Printk ''Monotonic cycle test:'' []] @ cycle_lines m n True 0 0 s1
     @ [Printk ''Measure the performance of raw cycle ...'' []] @ cycle_lines m n False 0 0 c2
     @ [Printk ''Measure the performance of adjusted cycle ...'' []] @ cycle_lines m n False 0 0 c3"

lemma says_kvm_clock_on:
  assumes fm: "fair_machine env m n"
  shows "says (testing n th {0, 1, 2, 3}) (kvm_clock_on env m)
    (\<lambda>_ ms. \<exists>walls s0 s1 c2 c3. list_all wall_line walls \<and> ms = kvm_clock_log env m n th walls s0 s1 c2 c3)
    (testing n th ({0, 1, 2, 3} - {0} - {1} - {2} - {3}))"
proof -
  obtain v where v: "steady_hv env v" "steady_wall env v" "unstable_hv env"
    using fm unfolding fair_machine_def by blast
  note step = says_any [OF says_printk] says_any [OF says_set_flags] says_any [OF says_inits]
    says_value [OF says_gets(1)] says_value [OF says_gets(2)] says_any [OF says_wallclock_tests [OF v]]
    says_value [OF says_cycle_test [OF fm]]
  show ?thesis
    unfolding kvm_clock_on_def
    apply (rule says_conseq)
     apply (rule step says_clears | (rule says_if [where c = False], simp) | simp only: if_False | simp)+
    apply (elim exE conjE)
    apply (simp add: kvm_clock_log_def)
    apply blast
    done
qed

lemma test_kvm_clock_parts:
  "test_kvm_clock env = do {
     modify (\<lambda>w. w\<lparr>sec := 2\<rparr>);
     online \<leftarrow> kcall env ''num_online_cpus'' [];
     kvm_clock_on env (nat (if sint (ucast online :: u32) > MAX_CPU then MAX_CPU else sint (ucast online :: u32))) }"
  by (simp only: test_kvm_clock_def kvm_clock_on_def Let_def)

lemma test_kvm_clock_on:
  assumes "halted w = None" and "sint (ucast (env_call env (trace w) ''num_online_cpus'' []) :: u32) = int online"
  shows "run_state (test_kvm_clock env) w = run_state (kvm_clock_on env (min online 64))
    (w\<lparr>sec := 2, trace := trace w @ [Call ''num_online_cpus'' []]\<rparr>)"
  using assms by (auto simp: test_kvm_clock_parts MAX_CPU_def min_def)

section \<open>Properties\<close>


section \<open>A machine on which the hypotheses hold\<close>

text \<open>Two CPUs that take turns; the hypervisor's time goes back and forth.\<close>

definition two_cpu_env :: env where
  "two_cpu_env = calm_env\<lparr>env_fuel := 2000,
     env_call := (\<lambda>t nm args. if nm = ''__pvclock_read_cycles cycles'' then (if even (turns t) then 5 else 3)
       else if nm = ''num_online_cpus'' then 2 else 0),
     env_insn := (\<lambda>t nm. of_nat (turns t mod 2))\<rparr>"

lemma two_cpu_follows: "follows two_cpu_env 2 (\<lambda>k. k mod 2)"
proof -
  have "unat (of_nat (k mod 2) :: u64) mod 2 = k mod 2" for k :: nat
    by (subst unat_of_nat_u64) simp_all
  then show ?thesis by (simp add: follows_def two_cpu_env_def)
qed

lemma two_cpu_steady: "steady_hv two_cpu_env 0" "steady_wall two_cpu_env 0" "unstable_hv two_cpu_env"
  by (simp_all add: steady_hv_def steady_wall_def unstable_hv_def adjusted_def two_cpu_env_def)

lemma two_cpu_fuel: "enough_fuel 2 2 3 \<le> env_fuel two_cpu_env"
  by (simp add: enough_fuel_def two_cpu_env_def)

lemma two_cpu_fair: "fair_machine two_cpu_env 2 3"
  using two_cpu_steady two_cpu_follows fair_round_robin [of 2] two_cpu_fuel
  by (auto simp: fair_machine_def)

theorem cycle_test_ends_witness:
  "halted (snd (run_state (cycle_test two_cpu_env 2 True 0) pcm_start)) = None"
  using cycle_test_ends [OF two_cpu_steady(1) two_cpu_follows fair_round_robin, of pcm_start 0 True] two_cpu_fuel
  by (simp add: fresh_info_def)


end
