(* ===== verification/FocusDriver.thy ===== *)
theory FocusDriver
  imports DriverContract UserApi
begin

text \<open>
  The driver of \<open>src/focus_test/driver\<close>: the single-instruction tests (\<open>cpuid.c\<close>, \<open>rdrand.c\<close>, \<open>rdseed.c\<close>,
  \<open>rdtsc.c\<close>, \<open>rdtscp.c\<close>, \<open>rdpmc.c\<close>, \<open>invd.c\<close>, \<open>mmio.c\<close>, \<open>pio.c\<close>), the ICMP test (\<open>icmp.c\<close>) and the \<open>switch\<close> of
  the ioctl in \<open>pcm_test_mod.c\<close>.  The ioctl itself is \<open>pcm_cdev_ioctl\<close>.
\<close>

section \<open>State\<close>

record sockaddr_in =
  sin_family :: u16
  s_addr :: u32

record icmphdr =
  icmp_type :: u8
  icmp_code :: u8
  icmp_checksum :: u16
  echo_id :: u16
  echo_sequence :: u16

record msghdr =
  msg_name :: sockaddr_in
  msg_namelen :: nat
  msg_controllen :: nat
  msg_iov :: "u8 list"

record focus_world = cdev_world +
  sock :: u64
  addr_in :: sockaddr_in
  icmp_hdr :: icmphdr
  msg :: msghdr
  iov :: "u8 list"
  oldfs :: u64
  ret_val :: int

section \<open>The instruction tests\<close>

definition cpuid_test :: "env \<Rightarrow> ('a kworld_scheme, unit) state" where
  "cpuid_test env = do { _ \<leftarrow> cpuid env 0 0; skip }"

definition rdpmc_test :: "env \<Rightarrow> ('a kworld_scheme, unit) state" where
  "rdpmc_test env = do { _ \<leftarrow> insn_val env ''rdpmc'' [AInt 0]; skip }"

definition invd_test :: "env \<Rightarrow> ('a kworld_scheme, unit) state" where
  "invd_test env = insn env ''invd'' []"

text \<open>
  RDRAND and RDSEED write their register and set the carry flag when the value is random.
\<close>

definition random_insn :: "env \<Rightarrow> string \<Rightarrow> ('a kworld_scheme, bool \<times> u64) state" where
  "random_insn env nm = do {
     c \<leftarrow> ask (\<lambda>t. env_insn env t (nm @ '' carry''));
     v \<leftarrow> insn_val env nm [];
     State_Monad.return (c \<noteq> 0, v) }"

definition RDRAND_RETRY_LOOPS :: nat where "RDRAND_RETRY_LOOPS = 10"

text \<open>The loop \<open>do .. while (--retry)\<close> with \<open>retry\<close> rounds left and \<open>v\<close> in the caller's variable.\<close>

fun rdrand_retry :: "env \<Rightarrow> nat \<Rightarrow> u64 \<Rightarrow> ('a kworld_scheme, bool \<times> u64) state" where
  "rdrand_retry env 0 v = State_Monad.return (False, v)"
| "rdrand_retry env (Suc retry) v = do {
     (ok, v) \<leftarrow> random_insn env ''rdrand'';
     if ok then State_Monad.return (True, v) else rdrand_retry env retry v }"

definition rdrand_long :: "env \<Rightarrow> u64 \<Rightarrow> ('a kworld_scheme, bool \<times> u64) state" where
  "rdrand_long env v = rdrand_retry env RDRAND_RETRY_LOOPS v"

definition rdrand_test :: "env \<Rightarrow> u64 \<Rightarrow> ('a kworld_scheme, unit) state" where
  "rdrand_test env junk = do {
     (_, v) \<leftarrow> rdrand_long env junk;
     printk ''get_rdrand=%lx'' [arg_word v] }"

definition rdseed_long :: "env \<Rightarrow> ('a kworld_scheme, bool \<times> u64) state" where
  "rdseed_long env = random_insn env ''rdseed''"

definition rdseed_test :: "env \<Rightarrow> ('a kworld_scheme, unit) state" where
  "rdseed_test env = do {
     (_, v) \<leftarrow> rdseed_long env;
     printk ''get_rdseed=%lx'' [arg_word v] }"

definition rdtsc_test :: "env \<Rightarrow> ('a kworld_scheme, unit) state" where
  "rdtsc_test env = do {
     val \<leftarrow> rdtsc env;
     printk ''rdtsc=%llx'' [arg_word val] }"

definition rdtscp_test :: "env \<Rightarrow> ('a kworld_scheme, unit) state" where
  "rdtscp_test env = do {
     (val, aux) \<leftarrow> rdtscp env;
     printk ''rdtscp=%llx'' [arg_word val] }"

text \<open>\<open>readl\<close> of an address that is not mapped (a failed \<open>ioremap\<close> gives 0) is a page fault.\<close>

definition readl :: "env \<Rightarrow> u64 \<Rightarrow> ('a kworld_scheme, u32) state" where
  "readl env a =
     (if env_mapped env a then mmio_read env a
      else do { emit (Fault ''readl'' PF); halt (Oops PF); State_Monad.return 0 })"

definition mmio_test :: "env \<Rightarrow> ('a kworld_scheme, unit) state" where
  "mmio_test env = do {
     addr \<leftarrow> kcall env ''ioremap'' [AInt 0xfebc0000, AInt 4];
     _ \<leftarrow> readl env addr;
     skip }"

definition pio_test :: "('a kworld_scheme, unit) state" where
  "pio_test = (let bus = 0; slot = 2; func = 0; offset = 0
     in printk ''disabled pio case, revisit later %d%d%d%d'' [AInt bus, AInt slot, AInt func, AInt offset])"

section \<open>The ICMP test\<close>

definition icmphdr_bytes :: "icmphdr \<Rightarrow> u8 list" where
  "icmphdr_bytes h = [icmp_type h, icmp_code h] @ le_bytes 2 (icmp_checksum h)
     @ le_bytes 2 (echo_id h) @ le_bytes 2 (echo_sequence h)"

definition ICMP_ECHO :: u8 where "ICMP_ECHO = 8"
definition AF_INET :: int where "AF_INET = 2"
definition SOCK_DGRAM :: int where "SOCK_DGRAM = 2"
definition IPPROTO_ICMP :: int where "IPPROTO_ICMP = 1"

definition send_args :: "u64 \<Rightarrow> msghdr \<Rightarrow> arg list" where
  "send_args s m = [arg_word s, arg_word (sin_family (msg_name m)), arg_word (s_addr (msg_name m)),
     AInt (8 + 5)] @ map arg_word (msg_iov m)"

definition icmp_test :: "env \<Rightarrow> ('a focus_world_scheme, unit) state" where
  "icmp_test env = do {
     let args = [AInt AF_INET, AInt SOCK_DGRAM, AInt IPPROTO_ICMP];
     s \<leftarrow> ask (\<lambda>t. env_call env t ''sock_create sock'' args);
     r \<leftarrow> kcall env ''sock_create'' args;
     modify (\<lambda>w. w\<lparr>ret_val := to_int r\<rparr>);
     if to_int r < 0 then printk ''Create socket for ICMP failed.%d'' [AInt (to_int r)]
     else do {
       modify (\<lambda>w. w\<lparr>sock := s\<rparr>);
       modify (\<lambda>w. w\<lparr>addr_in := addr_in w\<lparr>sin_family := 2\<rparr>\<rparr>);
       a \<leftarrow> kcall env ''in_aton'' [AStr ''192.168.199.1''];
       modify (\<lambda>w. w\<lparr>addr_in := addr_in w\<lparr>s_addr := ucast a\<rparr>\<rparr>);
       modify (\<lambda>w. w\<lparr>icmp_hdr := \<lparr>icmp_type = 0, icmp_code = 0, icmp_checksum = 0, echo_id = 0, echo_sequence = 0\<rparr>\<rparr>);
       modify (\<lambda>w. w\<lparr>icmp_hdr := icmp_hdr w\<lparr>icmp_type := ICMP_ECHO\<rparr>\<rparr>);
       modify (\<lambda>w. w\<lparr>icmp_hdr := icmp_hdr w\<lparr>echo_id := 1234\<rparr>\<rparr>);
       modify (\<lambda>w. w\<lparr>icmp_hdr := icmp_hdr w\<lparr>echo_sequence := 1\<rparr>\<rparr>);
       data \<leftarrow> gets (\<lambda>w. icmphdr_bytes (icmp_hdr w) @ map of_char ''hello'');
       modify (\<lambda>w. w\<lparr>iov := data\<rparr>);
       modify (\<lambda>w. w\<lparr>msg := \<lparr>msg_name = addr_in w, msg_namelen = 16, msg_controllen = 0, msg_iov = iov w\<rparr>\<rparr>);
       fs \<leftarrow> kcall env ''get_fs'' [];
       modify (\<lambda>w. w\<lparr>oldfs := fs\<rparr>);
       _ \<leftarrow> kcall env ''set_fs'' [AStr ''KERNEL_DS''];
       sk \<leftarrow> gets sock;
       m \<leftarrow> gets msg;
       _ \<leftarrow> kcall env ''sock_sendmsg'' (send_args sk m);
       old \<leftarrow> gets oldfs;
       _ \<leftarrow> kcall env ''set_fs'' [arg_word old];
       skip } }"

section \<open>Commands\<close>

definition CPUID :: u32 where "CPUID = IO PCM_TEST_IOC_MAGIC 1"
definition INVD :: u32 where "INVD = IO PCM_TEST_IOC_MAGIC 2"
definition RDSEED :: u32 where "RDSEED = IO PCM_TEST_IOC_MAGIC 3"
definition RDRAND :: u32 where "RDRAND = IO PCM_TEST_IOC_MAGIC 4"
definition RDPMC :: u32 where "RDPMC = IO PCM_TEST_IOC_MAGIC 5"
definition RDTSC :: u32 where "RDTSC = IO PCM_TEST_IOC_MAGIC 6"
definition RDTSCP :: u32 where "RDTSCP = IO PCM_TEST_IOC_MAGIC 7"
definition PIO :: u32 where "PIO = IO PCM_TEST_IOC_MAGIC 8"
definition MMIO :: u32 where "MMIO = IO PCM_TEST_IOC_MAGIC 9"
definition ICMP :: u32 where "ICMP = IO PCM_TEST_IOC_MAGIC 10"

definition FOCUS_IOC_MAXNR :: u32 where "FOCUS_IOC_MAXNR = 10"

lemmas focus_commands = CPUID_def INVD_def RDSEED_def RDRAND_def RDPMC_def RDTSC_def RDTSCP_def
  PIO_def MMIO_def ICMP_def

definition focus_switch :: "env \<Rightarrow> u64 \<Rightarrow> u32 \<Rightarrow> ('a focus_world_scheme, unit) state" where
  "focus_switch env junk cmd =
     (if cmd = CPUID then cpuid_test env
      else if cmd = RDPMC then rdpmc_test env
      else if cmd = RDRAND then rdrand_test env junk
      else if cmd = RDSEED then rdseed_test env
      else if cmd = INVD then invd_test env
      else if cmd = RDTSC then rdtsc_test env
      else if cmd = RDTSCP then rdtscp_test env
      else if cmd = PIO then pio_test
      else if cmd = MMIO then mmio_test env
      else if cmd = ICMP then icmp_test env
      else skip)"

text \<open>
  The rest of \<open>pcm_test_mod.c\<close> is the text of the pcm-unit driver, with its own commands.
\<close>

definition focus_ioctl :: "env \<Rightarrow> u64 \<Rightarrow> u32 \<Rightarrow> u64 \<Rightarrow> ('a focus_world_scheme, int) state" where
  "focus_ioctl env junk = pcm_cdev_ioctl env FOCUS_IOC_MAXNR (focus_switch env junk)"

definition focus_open :: "u64 \<Rightarrow> ('a focus_world_scheme, int \<times> u64) state" where
  "focus_open = pcm_cdev_open"

definition focus_release :: "('a focus_world_scheme, int) state" where
  "focus_release = pcm_cdev_release"

definition focus_cdev_init :: "env \<Rightarrow> ('a focus_world_scheme, int) state" where
  "focus_cdev_init = pcm_cdev_init"

definition focus_cdev_exit :: "env \<Rightarrow> ('a focus_world_scheme, unit) state" where
  "focus_cdev_exit = pcm_cdev_exit"

definition focus_cdev_add :: "env \<Rightarrow> ('a focus_world_scheme, int) state" where
  "focus_cdev_add = pcm_cdev_add"

definition focus_init :: "env \<Rightarrow> ('a focus_world_scheme, int) state" where
  "focus_init env = do { _ \<leftarrow> focus_cdev_init env; focus_cdev_add env }"

definition focus_exit :: "env \<Rightarrow> ('a focus_world_scheme, unit) state" where
  "focus_exit env = focus_cdev_exit env"

lemma focus_module: "focus_init env = pcm_test_init env" "focus_exit env = pcm_test_exit env"
  by (simp_all add: focus_init_def focus_exit_def focus_cdev_init_def focus_cdev_exit_def focus_cdev_add_def
      pcm_test_init_def pcm_test_exit_def)

lemma frozen_random [simp]: "frozen (random_insn env nm)"
  by (auto simp: random_insn_def)

lemma frozen_rdrand [simp]: "frozen (rdrand_retry env n v)"
  by (induction n arbitrary: v) (auto split: prod.splits)

lemma frozen_focus_tests [simp]:
  "frozen (cpuid_test env)" "frozen (rdpmc_test env)" "frozen (invd_test env)" "frozen (rdrand_test env junk)"
  "frozen (rdseed_test env)" "frozen (rdtsc_test env)" "frozen (rdtscp_test env)" "frozen pio_test"
  "frozen (mmio_test env)"
  by (auto simp: cpuid_test_def rdpmc_test_def invd_test_def rdrand_test_def rdrand_long_def rdseed_test_def
      rdseed_long_def rdtsc_test_def rdtscp_test_def pio_test_def mmio_test_def readl_def Let_def
      split: prod.splits)

lemma frozen_icmp [simp]: "frozen (icmp_test env)"
  unfolding icmp_test_def Let_def by (intro impI frozen_bind frozen_basic frozen_machine | simp)+

lemma frozen_focus_switch [simp]: "frozen (focus_switch env junk cmd)"
  by (simp add: focus_switch_def)

text \<open>The tests stay within their footprint, so this driver keeps the contract as well.\<close>

lemma within_random: "nm \<noteq> ''vmcall'' \<Longrightarrow> within test_event (random_insn env nm)"
  by (auto simp: random_insn_def)

lemma within_rdrand: "within test_event (rdrand_retry env n v)"
  by (induction n arbitrary: v) (auto split: prod.splits simp: within_random)

lemma within_if: "within P m \<Longrightarrow> within P n \<Longrightarrow> within P (if b then m else n)"
  by simp

lemma within_icmp: "within test_event (icmp_test env)"
  unfolding icmp_test_def Let_def
  by (intro within_if within_bind within_basic within_modify within_machine)
    (simp_all add: resource_calls_def same_module_def)

lemma within_focus_tests:
  "within test_event (cpuid_test env)" "within test_event (rdpmc_test env)" "within test_event (invd_test env)"
  "within test_event (rdrand_test env junk)" "within test_event (rdseed_test env)" "within test_event (rdtsc_test env)"
  "within test_event (rdtscp_test env)" "within test_event pio_test" "within test_event (mmio_test env)"
  unfolding cpuid_test_def rdpmc_test_def invd_test_def rdrand_test_def rdrand_long_def rdseed_test_def
    rdseed_long_def rdtsc_test_def rdtscp_test_def pio_test_def mmio_test_def readl_def Let_def
  by (auto simp: within_random within_rdrand resource_calls_def split: prod.splits)

lemma within_focus_switch: "within test_event (focus_switch env junk cmd)"
  unfolding focus_switch_def by (intro within_if within_focus_tests within_icmp within_basic)

interpretation focus: quiet_driver env FOCUS_IOC_MAXNR "focus_switch env junk" for env junk
  by unfold_locales (simp_all add: within_focus_switch)

section \<open>RDRAND\<close>

lemma run_random_insn:
  assumes "halted w = None" and "env_fault env (trace w) nm = None"
  shows "run_state (random_insn env nm) w
    = ((env_insn env (trace w) (nm @ '' carry'') \<noteq> 0, env_insn env (trace w) nm), w\<lparr>trace := trace w @ [Insn nm []]\<rparr>)"
  using assms by (simp add: random_insn_def run_insn_val)

abbreviation tries :: "ev list \<Rightarrow> nat \<Rightarrow> ev list" where
  "tries t i \<equiv> t @ replicate i (Insn ''rdrand'' [])"

lemma run_rdrand_retry:
  assumes "halted w = None" and "\<And>t. env_fault env t ''rdrand'' = None" and "0 < n"
  shows "\<exists>k < n. run_state (rdrand_retry env n v) w
      = ((env_insn env (tries (trace w) k) ''rdrand carry'' \<noteq> 0, env_insn env (tries (trace w) k) ''rdrand''),
         w\<lparr>trace := tries (trace w) (Suc k)\<rparr>)
    \<and> (\<forall>i < k. env_insn env (tries (trace w) i) ''rdrand carry'' = 0)
    \<and> (env_insn env (tries (trace w) k) ''rdrand carry'' = 0 \<longrightarrow> Suc k = n)"
  using assms(1,3)
proof (induction n arbitrary: v w)
  case (Suc n)
  let ?w1 = "w\<lparr>trace := trace w @ [Insn ''rdrand'' []]\<rparr>" and ?v1 = "env_insn env (trace w) ''rdrand''"
  show ?case
  proof (cases "env_insn env (trace w) ''rdrand carry'' \<noteq> 0")
    case True
    then show ?thesis
      using run_random_insn [OF Suc.prems(1) assms(2)] by (intro exI [of _ 0]) simp
  next
    case False
    then have r: "run_state (rdrand_retry env (Suc n) v) w = run_state (rdrand_retry env n ?v1) ?w1"
      using run_random_insn [OF Suc.prems(1) assms(2)] by simp
    show ?thesis
    proof (cases "n = 0")
      case True
      with False r show ?thesis by (intro exI [of _ 0]) simp
    next
      case n: False
      have shift: "tries (trace ?w1) i = tries (trace w) (Suc i)" for i by simp
      from Suc.IH [of ?w1 ?v1] Suc.prems(1) n obtain k where k: "k < n"
        "run_state (rdrand_retry env n ?v1) ?w1
          = ((env_insn env (tries (trace w) (Suc k)) ''rdrand carry'' \<noteq> 0, env_insn env (tries (trace w) (Suc k)) ''rdrand''),
             ?w1\<lparr>trace := tries (trace w) (Suc (Suc k))\<rparr>)"
        "\<forall>i < k. env_insn env (tries (trace w) (Suc i)) ''rdrand carry'' = 0"
        "env_insn env (tries (trace w) (Suc k)) ''rdrand carry'' = 0 \<longrightarrow> Suc k = n"
        unfolding shift by auto
      have "\<forall>i < Suc k. env_insn env (tries (trace w) i) ''rdrand carry'' = 0"
        using k(3) False by (metis append_Nil2 less_Suc_eq_0_disj replicate_0)
      with k(1,2,4) r show ?thesis by (intro exI [of _ "Suc k"]) simp
    qed
  qed
qed simp

text \<open>C27. \<open>rdrand_long\<close> executes RDRAND at least once and at most ten times and stops at the first
  execution that sets the carry flag; it returns whether the last execution did, and leaves the last
  value.  When the result is false, all ten failed: the caller \<open>rdrand_test\<close> prints that value all the
  same.\<close>

theorem rdrand_long_retries:
  assumes "halted w = None" and "\<And>t. env_fault env t ''rdrand'' = None"
  shows "\<exists>k < 10. run_state (rdrand_long env v) w
      = ((env_insn env (tries (trace w) k) ''rdrand carry'' \<noteq> 0, env_insn env (tries (trace w) k) ''rdrand''),
         w\<lparr>trace := tries (trace w) (Suc k)\<rparr>)
    \<and> (\<forall>i < k. env_insn env (tries (trace w) i) ''rdrand carry'' = 0)
    \<and> (env_insn env (tries (trace w) k) ''rdrand carry'' = 0 \<longrightarrow> k = 9)
    \<and> messages (trace (snd (run_state (rdrand_test env v) w))) = messages (trace w)
        @ [Printk ''get_rdrand=%lx'' [arg_word (env_insn env (tries (trace w) k) ''rdrand'')]]"
proof -
  have m: "messages (replicate k (Insn ''rdrand'' [])) = []" for k by (induction k) simp_all
  obtain k where k: "k < RDRAND_RETRY_LOOPS" "run_state (rdrand_long env v) w
      = ((env_insn env (tries (trace w) k) ''rdrand carry'' \<noteq> 0, env_insn env (tries (trace w) k) ''rdrand''),
         w\<lparr>trace := tries (trace w) (Suc k)\<rparr>)"
    "\<forall>i < k. env_insn env (tries (trace w) i) ''rdrand carry'' = 0"
    "env_insn env (tries (trace w) k) ''rdrand carry'' = 0 \<longrightarrow> Suc k = RDRAND_RETRY_LOOPS"
    using run_rdrand_retry [OF assms, of RDRAND_RETRY_LOOPS v]
    unfolding rdrand_long_def by (auto simp: RDRAND_RETRY_LOOPS_def simp del: replicate_Suc)
  have "messages (trace (snd (run_state (rdrand_test env v) w))) = messages (trace w)
        @ [Printk ''get_rdrand=%lx'' [arg_word (env_insn env (tries (trace w) k) ''rdrand'')]]"
    using assms(1) by (simp add: rdrand_test_def k(2) m del: replicate_Suc)
  with k show ?thesis by (intro exI [of _ k]) (simp add: RDRAND_RETRY_LOOPS_def)
qed

text \<open>A processor that never has a random number.\<close>

theorem rdrand_long_retries_witness:
  "run_state (rdrand_long calm_env 7) start_world
    = ((False, 0), start_world\<lparr>trace := replicate 10 (Insn ''rdrand'' [])\<rparr>)"
proof -
  have "env_fault calm_env t ''rdrand'' = None" "env_insn calm_env t n = 0" for t n by (simp_all add: calm_env_def)
  with rdrand_long_retries [of start_world calm_env 7] show ?thesis
    by (auto simp del: replicate_Suc)
qed

section \<open>ICMP\<close>

text \<open>
  The payload of the packets sent, and the number of sockets created less those released.
\<close>

definition packet_of :: "ev \<Rightarrow> arg list list" where
  "packet_of e = (case e of Call nm args \<Rightarrow> if nm = ''sock_sendmsg'' then [drop 4 args] else [] | _ \<Rightarrow> [])"

definition packets :: "ev list \<Rightarrow> arg list list" where
  "packets t = concat (map packet_of t)"

definition calls_of :: "string \<Rightarrow> ev list \<Rightarrow> nat" where
  "calls_of nm t = length (filter (\<lambda>e. case e of Call n args \<Rightarrow> n = nm | _ \<Rightarrow> False) t)"

lemma packets_simps [simp]:
  "packets [] = []" "packets (s @ t) = packets s @ packets t" "packets (e # t) = packet_of e @ packets t"
  by (simp_all add: packets_def)

lemma calls_of_simps [simp]:
  "calls_of nm [] = 0" "calls_of nm (s @ t) = calls_of nm s + calls_of nm t"
  "calls_of nm (e # t) = (case e of Call n args \<Rightarrow> if n = nm then 1 else 0 | _ \<Rightarrow> 0) + calls_of nm t"
  by (simp_all add: calls_of_def split: ev.splits)

definition echo_request :: "arg list" where
  "echo_request = map (\<lambda>b. arg_word (b :: u8)) [8, 0, 0, 0, 0xd2, 0x04, 1, 0, 0x68, 0x65, 0x6c, 0x6c, 0x6f]"

lemma icmp_payload:
  "icmphdr_bytes \<lparr>icmp_type = 8, icmp_code = 0, icmp_checksum = 0, echo_id = 1234, echo_sequence = 1\<rparr>
    = [8, 0, 0, 0, 0xd2, 0x04, 1, 0]"
  by (simp add: icmphdr_bytes_def le_bytes_def upt_rec)

lemma run_icmp_test:
  assumes "halted w = None" and "\<And>t args. 0 \<le> to_int (env_call env t ''sock_create'' args)"
  shows "\<exists>w'. run_state (icmp_test env) w = ((), w') \<and> halted w' = None
    \<and> packets (trace w') = packets (trace w) @ [echo_request]
    \<and> calls_of ''sock_create'' (trace w') = Suc (calls_of ''sock_create'' (trace w))
    \<and> calls_of ''sock_release'' (trace w') = calls_of ''sock_release'' (trace w)"
  using assms
  by (simp add: icmp_test_def Let_def not_less [symmetric] send_args_def echo_request_def packet_of_def
      ICMP_ECHO_def icmp_payload)

text \<open>C28. Every ICMP command sends one packet and leaks one socket.  On a machine where the kernel
  creates the sockets, \<open>n\<close> ICMP commands send \<open>n\<close> times the same 13 bytes: an echo request with
  checksum 0, the identifier 1234 and the sequence number 1 in the byte order of the CPU (so the
  network reads 0xd204 and 0x100), and the text ``hello''; \<open>n\<close> sockets are created and none is
  released.\<close>

theorem icmp_commands_leak_sockets:
  assumes "halted w = None" and "\<And>t. env_fault env t ''vmcall'' = None"
    and "\<And>t args. 0 \<le> to_int (env_call env t ''sock_create'' args)"
  shows "let w' = snd (run_state (ioctl_calls (focus_ioctl env junk) (replicate n (ICMP, p))) w) in
    halted w' = None \<and> packets (trace w') = packets (trace w) @ replicate n echo_request
    \<and> calls_of ''sock_create'' (trace w') = calls_of ''sock_create'' (trace w) + n
    \<and> calls_of ''sock_release'' (trace w') = calls_of ''sock_release'' (trace w)"
  using assms(1)
proof (induction n arbitrary: w)
  case (Suc n)
  let ?w1 = "w\<lparr>irq_on := False, trace := trace w @ [Printk ''%s()'' [AStr ''pcm_cdev_ioctl''], Cli, Insn ''vmcall'' [AInt 102]]\<rparr>"
  obtain w2 where w2: "run_state (icmp_test env) ?w1 = ((), w2)" "halted w2 = None"
    "packets (trace w2) = packets (trace w) @ [echo_request]"
    "calls_of ''sock_create'' (trace w2) = Suc (calls_of ''sock_create'' (trace w))"
    "calls_of ''sock_release'' (trace w2) = calls_of ''sock_release'' (trace w)"
    using run_icmp_test [of ?w1 env] Suc.prems assms(3) by (auto simp: packet_of_def)
  have sw: "focus_switch env junk ICMP = icmp_test env"
    by (simp add: focus_switch_def focus_commands ioc_defs PCM_TEST_IOC_MAGIC_def)
  have good: "\<not> bad_command FOCUS_IOC_MAXNR ICMP" "IOC_DIR ICMP = 0"
    by (simp_all add: bad_command_def FOCUS_IOC_MAXNR_def PCM_TEST_IOC_MAGIC_def focus_commands ioc_defs)
  let ?w3 = "w2\<lparr>trace := trace w2 @ [Insn ''vmcall'' [AInt 103], Sti], irq_on := True\<rparr>"
  have "run_state (focus_ioctl env junk ICMP p) w = (0, ?w3)"
    using run_accepted [of "w\<lparr>trace := trace w @ [Printk ''%s()'' [AStr ''pcm_cdev_ioctl'']]\<rparr>" env
        "focus_switch env junk" ICMP w2] Suc.prems assms(2) w2(1,2)
    by (simp add: focus_ioctl_def run_ioctl good run_access_err sw Let_def)
  with Suc.IH [of ?w3] w2 show ?case by (simp add: Let_def packet_of_def split_def)
qed simp

text \<open>The driver after loading.\<close>

definition focus_start :: focus_world where
  "focus_start = cdev_world.extend cdev_start \<lparr>sock = 0, addr_in = \<lparr>sin_family = 0, s_addr = 0\<rparr>,
     icmp_hdr = \<lparr>icmp_type = 0, icmp_code = 0, icmp_checksum = 0, echo_id = 0, echo_sequence = 0\<rparr>,
     msg = \<lparr>msg_name = \<lparr>sin_family = 0, s_addr = 0\<rparr>, msg_namelen = 0,
     msg_controllen = 0, msg_iov = []\<rparr>, iov = [], oldfs = 0, ret_val = 0\<rparr>"

lemma focus_start_simps [simp]: "halted focus_start = None" "trace focus_start = []"
  by (simp_all add: focus_start_def cdev_start_def cdev_world.defs focus_world.defs kworld.defs)

theorem icmp_commands_leak_sockets_witness:
  "packets (trace (snd (run_state (ioctl_calls (focus_ioctl calm_env 0) (replicate 3 (ICMP, 0))) focus_start)))
    = [echo_request, echo_request, echo_request]"
proof -
  have "env_fault calm_env t ''vmcall'' = None" "0 \<le> to_int (env_call calm_env t ''sock_create'' args)" for t args
    by (simp_all add: calm_env_def to_int_def)
  from icmp_commands_leak_sockets [OF _ this, of focus_start 0 3 0] show ?thesis
    by (simp add: Let_def eval_nat_numeral)
qed

end
