(* ===== verification/CommandLine.thy ===== *)
theory CommandLine
  imports Machine
begin

text \<open>
  The command line of \<open>src/focus_test/guestapp/pcmtest.c\<close> and \<open>src/focus_test/hostapp/ckevent.c\<close>: the
  same option string ``ht:'', the same buffer of 10 bytes for the argument of \<open>-t\<close>, and a chain of
  \<open>strcmp\<close> on that buffer.  \<open>getopt\<close>, \<open>strncpy\<close> and \<open>strcmp\<close> are the C library's, as it documents them
  (\<open>getopt\<close> with the GNU order: options may follow other arguments).
\<close>

section \<open>getopt\<close>

datatype opt = Opt_t string | Opt_h | Opt_bad

text \<open>All options of a command line, in order; \<open>Opt_bad\<close> is the answer \<open>?\<close>.\<close>

fun getopt :: "string list \<Rightarrow> opt list" and getopt_cluster :: "string \<Rightarrow> string list \<Rightarrow> opt list" where
  "getopt [] = []"
| "getopt (a # as) =
     (if a = ''--'' then []
      else if take 1 a = ''-'' \<and> 1 < length a then getopt_cluster (drop 1 a) as
      else getopt as)"
| "getopt_cluster [] as = getopt as"
| "getopt_cluster (c # cs) as =
     (if c = CHR ''h'' then Opt_h # getopt_cluster cs as
      else if c = CHR ''t'' then
        (if cs \<noteq> [] then Opt_t cs # getopt as
         else case as of [] \<Rightarrow> [Opt_bad] | b # bs \<Rightarrow> Opt_t b # getopt bs)
      else Opt_bad # getopt_cluster cs as)"

section \<open>Strings in a buffer\<close>

definition BUFFSIZE :: nat where "BUFFSIZE = 10"

abbreviation NUL :: char where "NUL \<equiv> CHR 0x00"

definition strncpy :: "nat \<Rightarrow> string \<Rightarrow> char list" where
  "strncpy n s = take n s @ replicate (n - length s) NUL"

text \<open>
  \<open>strcmp(buf, lit) == 0\<close> for a literal; \<open>None\<close> when the comparison reads past the end of the buffer.
\<close>

fun strcmp_eq :: "char list \<Rightarrow> string \<Rightarrow> bool option" where
  "strcmp_eq [] lit = None"
| "strcmp_eq (b # bs) [] = Some (b = NUL)"
| "strcmp_eq (b # bs) (c # cs) = (if b = c then strcmp_eq bs cs else Some False)"

text \<open>The chain \<open>if (strcmp(..) == 0) .. else if ..\<close> with its default.\<close>

fun dispatch :: "char list \<Rightarrow> (string \<times> 'c) list \<Rightarrow> 'c \<Rightarrow> 'c option" where
  "dispatch buf [] d = Some d"
| "dispatch buf ((lit, c) # rest) d = Option.bind (strcmp_eq buf lit) (\<lambda>eq.
     if eq then Some c else dispatch buf rest d)"

section \<open>Facts\<close>

lemma strcmp_strncpy:
  "length lit < n \<Longrightarrow> NUL \<notin> set s \<Longrightarrow> NUL \<notin> set lit \<Longrightarrow> strcmp_eq (strncpy n s) lit = Some (s = lit)"
proof (induction lit arbitrary: s n)
  case Nil
  then obtain m where "n = Suc m" by (cases n) auto
  with Nil show ?case by (cases s) (auto simp: strncpy_def)
next
  case (Cons c cs)
  then obtain m where m: "n = Suc m" by (cases n) auto
  show ?case
  proof (cases s)
    case Nil
    with Cons.prems m show ?thesis by (auto simp: strncpy_def)
  next
    case (Cons b bs)
    have "strncpy n s = b # strncpy m bs" by (simp add: strncpy_def m Cons)
    with Cons.IH [of m bs] Cons.prems m Cons show ?thesis by auto
  qed
qed

text \<open>The chain never reads past the buffer, whatever its argument, and looks the argument up.\<close>

lemma dispatch_strncpy:
  assumes "NUL \<notin> set s" and "\<forall>(lit, c) \<in> set tab. length lit < n \<and> NUL \<notin> set lit"
  shows "dispatch (strncpy n s) tab d = Some (case map_of tab s of Some c \<Rightarrow> c | None \<Rightarrow> d)"
  using assms(2) by (induction tab) (auto simp: strcmp_strncpy [OF _ assms(1)])

end
