(* ===== verification/GuestApp.thy ===== *)
theory GuestApp
  imports FocusDriver CommandLine
begin

text \<open>
  The program \<open>src/focus_test/guestapp/pcmtest.c\<close>, run on the driver of \<open>FocusDriver\<close>.  The descriptor
  is uninitialised until an option \<open>-t\<close> opens the device; each \<open>-t\<close> opens it again.
\<close>

text \<open>
  The options, given the descriptor so far, the descriptors opened and the buffer.  \<open>Inl\<close> is an exit
  code, \<open>Inr\<close> the state after the loop.
\<close>

fun guest_options :: "env \<Rightarrow> opt list \<Rightarrow> int \<Rightarrow> int list \<Rightarrow> char list
    \<Rightarrow> ('a focus_world_scheme, int + int \<times> int list \<times> char list) state" where
  "guest_options env [] fd fds type = State_Monad.return (Inr (fd, fds, type))"
| "guest_options env (Opt_t optarg # os) fd fds type = do {
     (fd, errno) \<leftarrow> sys_open env;
     if fd < 0 then do { printf ''%s'' [AInt errno]; State_Monad.return (Inl 1) }
     else guest_options env os fd (fds @ [fd]) (strncpy BUFFSIZE optarg) }"
| "guest_options env (Opt_h # os) fd fds type = State_Monad.return (Inl 1)"
| "guest_options env (Opt_bad # os) fd fds type = guest_options env os fd fds type"

definition guest_table :: "(string \<times> u32) list" where
  "guest_table = [(''cpuid'', CPUID), (''rdpmc'', RDPMC), (''rdrand'', RDRAND), (''rdseed'', RDSEED),
     (''rdtsc'', RDTSC), (''rdtscp'', RDTSCP), (''pio'', PIO), (''mmio'', MMIO), (''icmp'', ICMP)]"

text \<open>
  The exit code; \<open>None\<close> if the selection of the command reads past its buffer.  \<open>fd0\<close> is what the
  uninitialised descriptor holds, \<open>junk\<close> what the uninitialised variable of the RDRAND test holds.
\<close>

definition guest_main :: "env \<Rightarrow> u64 \<Rightarrow> int \<Rightarrow> string list \<Rightarrow> ('a focus_world_scheme, int option) state" where
  "guest_main env junk fd0 argv = do {
     r \<leftarrow> guest_options env (getopt argv) fd0 [] (strncpy BUFFSIZE ''cpuid'');
     case r of
       Inl code \<Rightarrow> State_Monad.return (Some code)
     | Inr (fd, fds, type) \<Rightarrow> (case dispatch type guest_table CPUID of
         None \<Rightarrow> State_Monad.return None
       | Some ins_ioc \<Rightarrow> do {
           (err, errno) \<leftarrow> sys_ioctl env (focus_ioctl env junk) fds fd ins_ioc;
           if err \<noteq> 0 then do { printf ''%s'' [AInt errno]; State_Monad.return (Some 1) }
           else do {
             sys_close env fds fd;
             State_Monad.return (Some 0) } }) }"

section \<open>Facts\<close>

definition guest_command :: "string \<Rightarrow> u32" where
  "guest_command s = (case map_of guest_table s of Some c \<Rightarrow> c | None \<Rightarrow> CPUID)"

lemma guest_dispatch: "NUL \<notin> set s \<Longrightarrow> dispatch (strncpy BUFFSIZE s) guest_table CPUID = Some (guest_command s)"
  unfolding guest_command_def by (rule dispatch_strncpy) (simp_all add: guest_table_def BUFFSIZE_def)

lemma guest_command_accepted:
  "\<not> bad_command FOCUS_IOC_MAXNR (guest_command s)" "IOC_DIR (guest_command s) = 0" "guest_command s \<noteq> INVD"
  unfolding guest_command_def guest_table_def
  by (auto simp: bad_command_def FOCUS_IOC_MAXNR_def PCM_TEST_IOC_MAGIC_def focus_commands ioc_defs)

abbreviation opened :: "nat \<Rightarrow> ev list" where
  "opened n \<equiv> concat (replicate n [Call ''open'' [AStr ''/dev/pcm_test''], Printk ''%s()'' [AStr ''pcm_cdev_open'']])"

lemma run_sys_open:
  assumes "halted w = None" and "\<And>t args. 0 \<le> to_int (env_call env t ''open'' args)"
  shows "\<exists>fd. 0 \<le> fd \<and> run_state (sys_open env) w = ((fd, 0), w\<lparr>trace := trace w @ opened 1\<rparr>)"
  using assms by (simp add: user_defs pcm_cdev_open_def Let_def not_less [symmetric])

lemma run_guest_options:
  assumes "\<And>t args. 0 \<le> to_int (env_call env t ''open'' args)"
  shows "halted w = None \<Longrightarrow> ss \<noteq> [] \<Longrightarrow> \<exists>fd fds'. 0 \<le> fd \<and> fd \<in> set fds'
    \<and> run_state (guest_options env (map Opt_t ss) fd0 fds type) w
      = (Inr (fd, fds', strncpy BUFFSIZE (last ss)), w\<lparr>trace := trace w @ opened (length ss)\<rparr>)"
proof (induction ss arbitrary: w fd0 fds type)
  case (Cons s ss)
  obtain fd where fd: "0 \<le> fd" "run_state (sys_open env) w = ((fd, 0), w\<lparr>trace := trace w @ opened 1\<rparr>)"
    using run_sys_open [OF Cons.prems(1) assms] by blast
  then have r: "run_state (guest_options env (map Opt_t (s # ss)) fd0 fds type) w
      = run_state (guest_options env (map Opt_t ss) fd (fds @ [fd]) (strncpy BUFFSIZE s))
          (w\<lparr>trace := trace w @ opened 1\<rparr>)"
    by simp
  show ?case
  proof (cases "ss = []")
    case True
    with r fd(1) show ?thesis by (intro exI [of _ fd] exI [of _ "fds @ [fd]"]) simp
  next
    case False
    with Cons.IH [of "w\<lparr>trace := trace w @ opened 1\<rparr>" fd "fds @ [fd]" "strncpy BUFFSIZE s"] Cons.prems r
    show ?thesis by simp
  qed
qed simp

lemma run_guest_main:
  assumes "halted w = None" and "\<And>t args. 0 \<le> to_int (env_call env t ''open'' args)"
    and "getopt argv = map Opt_t ss" and "ss \<noteq> []" and "NUL \<notin> set (last ss)"
    and "run_state (focus_ioctl env junk (guest_command (last ss)) (env_sym env ''rdx''))
      (w\<lparr>trace := trace w @ opened (length ss)\<rparr>) = (r, w2)"
  shows "r = 0" "run_state (guest_main env junk fd0 argv) w = (Some 0, snd (run_state pcm_cdev_release w2))"
proof -
  let ?cmd = "guest_command (last ss)" and ?w1 = "w\<lparr>trace := trace w @ opened (length ss)\<rparr>"
  obtain fd fds where fd: "0 \<le> fd" "fd \<in> set fds"
    "run_state (guest_options env (getopt argv) fd0 [] (strncpy BUFFSIZE ''cpuid'')) w
      = (Inr (fd, fds, strncpy BUFFSIZE (last ss)), ?w1)"
    unfolding assms(3) using run_guest_options [OF assms(2,1,4)] by blast
  show r: "r = 0"
    using assms(1,6) guest_command_accepted [of "last ss"]
    by (auto simp: focus_ioctl_def run_ioctl run_access_err accepted_def Let_def split: prod.splits)
  show "run_state (guest_main env junk fd0 argv) w = (Some 0, snd (run_state pcm_cdev_release w2))"
    using fd assms(6) r by (simp add: guest_main_def guest_dispatch [OF assms(5)] sys_ioctl_def libc_result_def
        sys_close_def split: prod.splits)
qed

text \<open>With one option, and a test that adds the events \<open>es\<close>, the whole trace of a run.\<close>

lemma run_guest_one:
  assumes "halted w = None" and "\<And>t args. 0 \<le> to_int (env_call env t ''open'' args)"
    and "\<And>t. env_fault env t ''vmcall'' = None" and "NUL \<notin> set s"
    and "t1 = trace w @ opened 1 @ [Printk ''%s()'' [AStr ''pcm_cdev_ioctl''], Cli, Insn ''vmcall'' [AInt 102]]"
    and "run_state (focus_switch env junk (guest_command s)) (w\<lparr>irq_on := False, trace := t1\<rparr>)
      = ((), w\<lparr>irq_on := False, trace := t1 @ es\<rparr>)"
  shows "\<exists>w'. run_state (guest_main env junk fd0 [''-t'', s]) w = (Some 0, w') \<and> halted w' = None
    \<and> trace w' = t1 @ es @ [Insn ''vmcall'' [AInt 103], Sti, Printk ''%s()'' [AStr ''pcm_cdev_release'']]"
proof -
  let ?w1 = "w\<lparr>trace := trace w @ opened 1\<rparr>"
  let ?w2 = "?w1\<lparr>trace := trace ?w1 @ [Printk ''%s()'' [AStr ''pcm_cdev_ioctl'']]\<rparr>"
  let ?w3 = "w\<lparr>irq_on := False, trace := t1 @ es\<rparr>"
  have "run_state (accepted env (focus_switch env junk) (guest_command s)) ?w2
      = (0, ?w3\<lparr>trace := trace ?w3 @ [Insn ''vmcall'' [AInt 103], Sti], irq_on := True\<rparr>)"
    by (rule run_accepted) (use assms in simp_all)
  then have run: "run_state (focus_ioctl env junk (guest_command s) (env_sym env ''rdx'')) ?w1
      = (0, ?w3\<lparr>trace := trace ?w3 @ [Insn ''vmcall'' [AInt 103], Sti], irq_on := True\<rparr>)"
    using assms(1) guest_command_accepted [of s] by (simp add: focus_ioctl_def run_ioctl run_access_err Let_def)
  have "getopt [''-t'', s] = map Opt_t [s]" by simp
  from run_guest_main(2) [OF assms(1,2) this, of junk 0 _ fd0] run assms(1,4) show ?thesis
    by (simp add: pcm_cdev_release_def)
qed



text \<open>Without \<open>-t\<close> the ioctl goes to whatever number the uninitialised variable holds; when that is no
  open file, the program fails and the driver sees nothing.\<close>

lemma guest_without_type:
  assumes "halted w = None" and "getopt argv = []"
    and "\<And>t args. to_int (env_call env t ''ioctl'' args) < 0"
  shows "\<exists>w'. run_state (guest_main env junk fd0 argv) w = (Some 1, w') \<and> messages (trace w') = messages (trace w)"
proof -
  have d: "dispatch (strncpy BUFFSIZE ''cpuid'') guest_table CPUID = Some (guest_command ''cpuid'')"
    by (rule guest_dispatch) simp
  show ?thesis
    using assms(1,3) by (simp add: guest_main_def assms(2) d sys_ioctl_def libc_result_def printf_def)
qed

end
