(* ===== verification/CStruct.thy ===== *)
theory CStruct
  imports Machine
begin

text \<open>
  Packed C structures in a file: a layout lists the fields in order with their sizes in bytes; under
  \<open>#pragma pack(1)\<close> each field starts where the one before ends.  Numbers are little-endian.
\<close>

type_synonym layout = "(string \<times> nat) list"

definition sizeof :: "layout \<Rightarrow> nat" where
  "sizeof l = sum_list (map snd l)"

text \<open>The fields of a structure that is a member.\<close>

definition member :: "string \<Rightarrow> layout \<Rightarrow> layout" where
  "member m l = map (\<lambda>(f, n). (m @ ''.'' @ f, n)) l"

text \<open>The value of a field of the structure stored in \<open>bs\<close> (0 for a name that is no field).\<close>

fun field :: "layout \<Rightarrow> u8 list \<Rightarrow> string \<Rightarrow> u64" where
  "field [] bs f = 0"
| "field ((g, n) # l) bs f = (if f = g then le_word (take n bs) else field l (drop n bs) f)"

text \<open>\<open>fread(buf, sizeof(buf), 1, fd)\<close>: a short file overwrites only the front of the buffer.\<close>

definition fread :: "u8 list \<Rightarrow> u8 list \<Rightarrow> u8 list" where
  "fread buf file = take (length buf) file @ drop (length file) buf"

text \<open>A line printed: the format and the number.\<close>

type_synonym printed = "(string \<times> u64) list"

definition print_fields :: "layout \<Rightarrow> u8 list \<Rightarrow> (string \<times> string) list \<Rightarrow> printed" where
  "print_fields l bs out = map (\<lambda>(fmt, f). (fmt, field l bs f)) out"

section \<open>The writer of such a file\<close>

definition encode :: "layout \<Rightarrow> (string \<Rightarrow> u64) \<Rightarrow> u8 list" where
  "encode l val = concat (map (\<lambda>(f, n). le_bytes n (val f)) l)"

definition fits :: "layout \<Rightarrow> (string \<Rightarrow> u64) \<Rightarrow> bool" where
  "fits l val \<longleftrightarrow> (\<forall>(f, n) \<in> set l. take_bit (8 * n) (val f) = val f)"

lemma length_encode: "length (encode l val) = sizeof l"
  by (induction l) (auto simp: encode_def sizeof_def)

lemma field_encode:
  assumes "fits l val" and "distinct (map fst l)" and "f \<in> fst ` set l"
  shows "field l (encode l val @ rest) f = val f"
  using assms
proof (induction l)
  case (Cons a l)
  obtain g n where a: "a = (g, n)" by fastforce
  have e: "encode (a # l) val @ rest = le_bytes n (val g) @ (encode l val @ rest)"
    by (simp add: encode_def a)
  show ?case
  proof (cases "f = g")
    case True
    with Cons.prems(1) show ?thesis unfolding e by (simp add: a fits_def le_word_le_bytes)
  next
    case False
    with Cons show ?thesis unfolding e by (simp add: a fits_def)
  qed
qed simp

lemma fread_long: "length buf \<le> length file \<Longrightarrow> fread buf file = take (length buf) file"
  by (simp add: fread_def)

lemma fread_encode: "length buf = sizeof l \<Longrightarrow> fread buf (encode l val @ rest) = encode l val"
  by (simp add: fread_def length_encode)

text \<open>Printing what was written.\<close>

lemma print_encode:
  assumes "fits l val" and "distinct (map fst l)" and "snd ` set out \<subseteq> fst ` set l"
  shows "print_fields l (encode l val) out = map (\<lambda>(fmt, f). (fmt, val f)) out"
proof -
  have "field l (encode l val) f = val f" if "(fmt, f) \<in> set out" for fmt f
    using field_encode [OF assms(1,2), of f "[]"] that assms(3) by force
  then show ?thesis unfolding print_fields_def by auto
qed

text \<open>A field of a buffer of zeros is 0, and so is a field behind the end of a short file in one.\<close>

lemma le_word_zeros [simp]: "(le_word (replicate k 0) :: 'a::len word) = 0"
  by (induction k) simp_all

lemma field_zeros [simp]: "field l (replicate k 0) f = 0"
  by (induction l arbitrary: k) (auto simp: min_def)

end
