(* ===== verification/HostEvent.thy ===== *)
theory HostEvent
  imports CStruct CommandLine
begin

text \<open>
  The program \<open>src/focus_test/hostapp/ckevent.c\<close>: it reads one event of the hypervisor's log from
  \<open>/tmp/event.bin\<close> and prints the payload as the type given with \<open>-t\<close>.
\<close>

section \<open>Structures\<close>

definition exec_pos :: layout where
  "exec_pos = [(''num_branches'', 4), (''eip'', 8), (''ecx'', 8)]"

definition event_log_t :: layout where
  "event_log_t = [(''next_addr'', 8), (''log_type'', 4), (''etype'', 4)] @ member ''pos'' exec_pos"

definition event_log_cpuid_read :: layout where
  "event_log_cpuid_read = [(''in_eax'', 4), (''in_ecx'', 4), (''out_eax'', 4), (''out_ebx'', 4),
     (''out_ecx'', 4), (''out_edx'', 4)]"

definition event_log_rdtsc :: layout where "event_log_rdtsc = [(''tsc'', 8)]"
definition event_log_rdtscp :: layout where "event_log_rdtscp = [(''tsc'', 8), (''tsc_aux'', 8)]"
definition event_log_rdpmc :: layout where "event_log_rdpmc = [(''pmc'', 8)]"
definition event_log_rdseed :: layout where "event_log_rdseed = [(''value'', 8)]"
definition event_log_msr_read :: layout where
  "event_log_msr_read = [(''in_ecx'', 4), (''out_eax'', 4), (''out_edx'', 4)]"
definition event_log_pio_ins :: layout where "event_log_pio_ins = [(''rep_num'', 4)]"
definition event_log_mmio_ins :: layout where "event_log_mmio_ins = [(''rep_num'', 4)]"
definition event_log_mmio_outs :: layout where "event_log_mmio_outs = [(''rep_num'', 4)]"

lemmas event_layouts = exec_pos_def event_log_t_def event_log_cpuid_read_def event_log_rdtsc_def
  event_log_rdtscp_def event_log_rdpmc_def event_log_rdseed_def event_log_msr_read_def
  event_log_pio_ins_def event_log_mmio_ins_def event_log_mmio_outs_def

section \<open>The commands\<close>

text \<open>
  The outside of the program: whether \<open>malloc\<close> succeeds, and the file, if it can be opened.  The program
  checks neither; without memory or file it crashes, which is the result \<open>None\<close>.
\<close>

record host =
  heap_ok :: bool
  event_bin :: "u8 list option"

text \<open>
  The common part of the commands: an event with the given payload, in memory set to 0 and then filled
  from the file.
\<close>

definition read_event :: "host \<Rightarrow> layout \<Rightarrow> u8 list option" where
  "read_event h payload = (
     if \<not> heap_ok h then None
     else let event_t = replicate (sizeof event_log_t + sizeof payload) 0
       in case event_bin h of None \<Rightarrow> None | Some fd \<Rightarrow> Some (fread event_t fd))"

text \<open>The payload \<open>event_t->log_data\<close> starts where the header ends.\<close>

definition log_data :: "u8 list \<Rightarrow> u8 list" where
  "log_data event_t = drop (sizeof event_log_t) event_t"

definition ck_event :: "host \<Rightarrow> layout \<Rightarrow> (string \<times> string) list \<Rightarrow> printed option" where
  "ck_event h payload out =
     map_option (\<lambda>event_t. print_fields payload (log_data event_t) out) (read_event h payload)"

definition ck_cpuid :: "host \<Rightarrow> printed option" where
  "ck_cpuid h = ck_event h event_log_cpuid_read
     [(''in_eax=%llx'', ''in_eax''), (''in_ecx=%llx'', ''in_ecx''), (''out_eax=%llx'', ''out_eax''),
      (''out_ebx=%llx'', ''out_ebx''), (''out_ecx=%llx'', ''out_ecx''), (''out_edx=%llx'', ''out_edx'')]"

definition ck_rdpmc :: "host \<Rightarrow> printed option" where
  "ck_rdpmc h = ck_event h event_log_rdpmc [(''rdpmc value=%llx'', ''pmc'')]"

definition ck_rdseed :: "host \<Rightarrow> printed option" where
  "ck_rdseed h = ck_event h event_log_rdseed [(''rdseed value=%llx'', ''value'')]"

definition ck_rdtsc :: "host \<Rightarrow> printed option" where
  "ck_rdtsc h = ck_event h event_log_rdtsc [(''rdtsc tsc=%llx'', ''tsc'')]"

definition ck_rdtscp :: "host \<Rightarrow> printed option" where
  "ck_rdtscp h = ck_event h event_log_rdtscp
     [(''rdtscp tsc=%llx'', ''tsc''), (''rdtscp tsc_aux=%llx'', ''tsc_aux'')]"

definition ck_pio :: "host \<Rightarrow> printed option" where
  "ck_pio h = Some []"

definition ck_mmio :: "host \<Rightarrow> printed option" where
  "ck_mmio h = ck_event h event_log_mmio_ins [(''mmio_ins rep=%d'', ''rep_num'')]"

section \<open>main\<close>

text \<open>The loop over the options: \<open>Inl\<close> is an exit code, \<open>Inr\<close> the buffer after the loop.\<close>

fun event_options :: "opt list \<Rightarrow> char list \<Rightarrow> int + char list" where
  "event_options [] type = Inr type"
| "event_options (Opt_t optarg # os) type = event_options os (strncpy BUFFSIZE optarg)"
| "event_options (Opt_h # os) type = Inl 1"
| "event_options (Opt_bad # os) type = event_options os type"

definition event_table :: "(string \<times> (host \<Rightarrow> printed option)) list" where
  "event_table = [(''cpuid'', ck_cpuid), (''rdpmc'', ck_rdpmc), (''rdrand'', ck_rdseed), (''rdseed'', ck_rdseed),
     (''rdtsc'', ck_rdtsc), (''rdtscp'', ck_rdtscp), (''pio'', ck_pio), (''mmio'', ck_mmio)]"

text \<open>Exit code and output; \<open>None\<close> when the program crashes.\<close>

definition ckevent_main :: "host \<Rightarrow> string list \<Rightarrow> (int \<times> printed) option" where
  "ckevent_main h argv = (case event_options (getopt argv) (strncpy BUFFSIZE ''cpuid'') of
     Inl code \<Rightarrow> Some (code, [])
   | Inr type \<Rightarrow> Option.bind (dispatch type event_table (\<lambda>h. Some [])) (\<lambda>ck.
       map_option (\<lambda>out. (0, out)) (ck h)))"

section \<open>Facts\<close>

lemma sizeof_event [simp]: "sizeof event_log_t = 36"
  by (simp add: event_layouts sizeof_def member_def)

lemma event_main_t:
  assumes "NUL \<notin> set s"
  shows "ckevent_main h [''-t'', s] = map_option (\<lambda>out. (0, out))
    ((case map_of event_table s of Some ck \<Rightarrow> ck | None \<Rightarrow> (\<lambda>h. Some [])) h)"
proof -
  have "dispatch (strncpy BUFFSIZE s) event_table (\<lambda>h. Some [])
      = Some (case map_of event_table s of Some ck \<Rightarrow> ck | None \<Rightarrow> (\<lambda>h. Some []))"
    by (rule dispatch_strncpy [OF assms]) (simp add: event_table_def BUFFSIZE_def)
  then show ?thesis by (simp add: ckevent_main_def)
qed

lemma ck_event_encode:
  assumes "heap_ok h" and "event_bin h = Some (encode event_log_t hdr @ encode payload val @ rest)"
    and "fits payload val" and "distinct (map fst payload)" and "snd ` set out \<subseteq> fst ` set payload"
  shows "ck_event h payload out = Some (map (\<lambda>(fmt, f). (fmt, val f)) out)"
  using assms print_encode [OF assms(3-5)]
  by (simp add: ck_event_def read_event_def log_data_def fread_def length_encode)

lemma ck_event_short:
  assumes "heap_ok h" and "event_bin h = Some bs" and "length bs \<le> 36"
  shows "ck_event h payload out = Some (map (\<lambda>(fmt, f). (fmt, 0)) out)"
  using assms
  by (simp add: ck_event_def read_event_def log_data_def fread_def print_fields_def)

text \<open>The payload of the type with a name, and what is printed of it.\<close>

definition event_formats :: "string \<Rightarrow> (layout \<times> (string \<times> string) list) option" where
  "event_formats = map_of
    [(''cpuid'', event_log_cpuid_read, [(''in_eax=%llx'', ''in_eax''), (''in_ecx=%llx'', ''in_ecx''),
        (''out_eax=%llx'', ''out_eax''), (''out_ebx=%llx'', ''out_ebx''), (''out_ecx=%llx'', ''out_ecx''),
        (''out_edx=%llx'', ''out_edx'')]),
     (''rdpmc'', event_log_rdpmc, [(''rdpmc value=%llx'', ''pmc'')]),
     (''rdrand'', event_log_rdseed, [(''rdseed value=%llx'', ''value'')]),
     (''rdseed'', event_log_rdseed, [(''rdseed value=%llx'', ''value'')]),
     (''rdtsc'', event_log_rdtsc, [(''rdtsc tsc=%llx'', ''tsc'')]),
     (''rdtscp'', event_log_rdtscp, [(''rdtscp tsc=%llx'', ''tsc''), (''rdtscp tsc_aux=%llx'', ''tsc_aux'')]),
     (''mmio'', event_log_mmio_ins, [(''mmio_ins rep=%d'', ''rep_num'')])]"

lemma event_table_formats:
  "(case map_of event_table s of Some ck \<Rightarrow> ck | None \<Rightarrow> (\<lambda>h. Some [])) h
    = (case event_formats s of Some (payload, out) \<Rightarrow> ck_event h payload out | None \<Rightarrow> Some [])"
  by (simp add: event_table_def event_formats_def ck_cpuid_def ck_rdpmc_def ck_rdseed_def ck_rdtsc_def
      ck_rdtscp_def ck_pio_def ck_mmio_def)

lemma event_formats_ok:
  assumes "event_formats s = Some (payload, out)"
  shows "distinct (map fst payload)" "snd ` set out \<subseteq> fst ` set payload"
  using assms by (auto simp: event_formats_def event_layouts split: if_splits)

text \<open>C25. What \<open>ckevent -t name\<close> prints.  From a file that holds an event with the payload of that type
  (whatever its header, 36 bytes, and whatever follows) it prints every field of the payload under
  its name and exits with 0; from a file that ends within the header it prints zeros for the same
  fields; without the file it crashes.  \<open>rdrand\<close> is printed as an RDSEED event, and \<open>pio\<close> and unknown
  names print nothing.\<close>

theorem ckevent_prints_payload:
  assumes "heap_ok h" and "NUL \<notin> set s"
  shows "case event_formats s of
      None \<Rightarrow> ckevent_main h [''-t'', s] = Some (0, [])
    | Some (payload, out) \<Rightarrow>
        (\<forall>hdr val rest. fits payload val
          \<longrightarrow> event_bin h = Some (encode event_log_t hdr @ encode payload val @ rest)
          \<longrightarrow> ckevent_main h [''-t'', s] = Some (0, map (\<lambda>(fmt, f). (fmt, val f)) out))
        \<and> (\<forall>bs. event_bin h = Some bs \<longrightarrow> length bs \<le> 36
          \<longrightarrow> ckevent_main h [''-t'', s] = Some (0, map (\<lambda>(fmt, f). (fmt, 0)) out))
        \<and> (event_bin h = None \<longrightarrow> ckevent_main h [''-t'', s] = None)"
proof (cases "event_formats s")
  case None
  then show ?thesis by (simp add: event_main_t [OF assms(2)] event_table_formats)
next
  case (Some po)
  obtain payload out where po: "po = (payload, out)" by fastforce
  note ok = event_formats_ok [OF Some [unfolded po]]
  have main: "ckevent_main h [''-t'', s] = map_option (\<lambda>out. (0, out)) (ck_event h payload out)"
    by (simp add: event_main_t [OF assms(2)] event_table_formats Some po)
  show ?thesis
    unfolding Some po option.case prod.case main
    using ck_event_encode [OF assms(1) _ _ ok] ck_event_short [OF assms(1)]
    by (auto simp: ck_event_def read_event_def assms(1))
qed

text \<open>An RDTSCP event, and the same file cut off after two bytes.\<close>

theorem ckevent_prints_payload_witness:
  "let val = (\<lambda>f. if f = ''tsc'' then 0x123456789abc else 7);
      file = encode event_log_t (\<lambda>f. 1) @ encode event_log_rdtscp val
    in ckevent_main \<lparr>heap_ok = True, event_bin = Some file\<rparr> [''-t'', ''rdtscp'']
        = Some (0, [(''rdtscp tsc=%llx'', 0x123456789abc), (''rdtscp tsc_aux=%llx'', 7)])
      \<and> ckevent_main \<lparr>heap_ok = True, event_bin = Some (take 2 file)\<rparr> [''-t'', ''rdtscp'']
        = Some (0, [(''rdtscp tsc=%llx'', 0), (''rdtscp tsc_aux=%llx'', 0)])"
proof -
  let ?val = "\<lambda>f. if f = ''tsc'' then 0x123456789abc else 7"
  let ?file = "encode event_log_t (\<lambda>f. 1) @ encode event_log_rdtscp ?val"
  have f: "event_formats ''rdtscp'' = Some (event_log_rdtscp,
      [(''rdtscp tsc=%llx'', ''tsc''), (''rdtscp tsc_aux=%llx'', ''tsc_aux'')])"
    by (simp add: event_formats_def)
  have fits: "fits event_log_rdtscp ?val" by (simp add: fits_def event_log_rdtscp_def)
  let ?out = "[(''rdtscp tsc=%llx'', ''tsc''), (''rdtscp tsc_aux=%llx'', ''tsc_aux'')]"
  have main: "(\<forall>hdr val rest. fits event_log_rdtscp val
        \<longrightarrow> event_bin h = Some (encode event_log_t hdr @ encode event_log_rdtscp val @ rest)
        \<longrightarrow> ckevent_main h [''-t'', ''rdtscp''] = Some (0, map (\<lambda>(fmt, f). (fmt, val f)) ?out))
    \<and> (\<forall>bs. event_bin h = Some bs \<longrightarrow> length bs \<le> 36
        \<longrightarrow> ckevent_main h [''-t'', ''rdtscp''] = Some (0, map (\<lambda>(fmt, f). (fmt, 0)) ?out))"
    if "heap_ok h" for h
    using ckevent_prints_payload [OF that, of "''rdtscp''"] unfolding f by simp
  let ?h = "\<lparr>heap_ok = True, event_bin = Some ?file\<rparr>"
    and ?h2 = "\<lparr>heap_ok = True, event_bin = Some (take 2 ?file)\<rparr>"
  have "ckevent_main ?h [''-t'', ''rdtscp''] = Some (0, map (\<lambda>(fmt, f). (fmt, ?val f)) ?out)"
    using main [of ?h] fits append_Nil2 [of "encode event_log_rdtscp ?val"]
    unfolding host.select_convs by blast
  moreover have "ckevent_main ?h2 [''-t'', ''rdtscp''] = Some (0, map (\<lambda>(fmt, f). (fmt, 0)) ?out)"
    using main [of ?h2] by (simp del: append_assoc)
  ultimately show ?thesis by (simp add: Let_def)
qed

end
