(* ===== verification/HostCpu.thy ===== *)
theory HostCpu
  imports CStruct
begin

text \<open>
  The program \<open>src/focus_test/hostapp/ckcpu.c\<close>: it reads the CPU state the hypervisor saved in
  \<open>/tmp/final_cpu.bin\<close> and prints its registers.  Arrays are listed by element, padding as one field.
\<close>

section \<open>Structures\<close>

definition pcm_cpu_msrs :: layout where
  "pcm_cpu_msrs = [(''msr_kernel_gs_base'', 8), (''msr_effer'', 8)]"

definition pcm_cpu_user_regs :: layout where
  "pcm_cpu_user_regs = [(''r15'', 8), (''r14'', 8), (''r13'', 8), (''r12'', 8), (''rbp'', 8), (''rbx'', 8),
     (''r11'', 8), (''r10'', 8), (''r9'', 8), (''r8'', 8), (''rax'', 8), (''rcx'', 8),
     (''rdx'', 8), (''rsi'', 8), (''rdi'', 8), (''rip'', 8), (''cs'', 2), (''_pad0'', 6),
     (''cs_limit'', 4), (''_pad1'', 4), (''cs_flags'', 4), (''_pad2'', 4), (''cs_base'', 8),
     (''rflags'', 8), (''rsp'', 8), (''ss'', 2), (''_pad3'', 6), (''ss_limit'', 4),
     (''_pad4'', 4), (''ss_flags'', 4), (''_pad5'', 4), (''ss_base'', 8), (''es'', 2),
     (''_pad6'', 6), (''es_limit'', 4), (''_pad7'', 4), (''es_flags'', 4), (''_pad8'', 4),
     (''es_base'', 8), (''ds'', 2), (''_pad9'', 6), (''ds_limit'', 4), (''_pad10'', 4),
     (''ds_flags'', 4), (''_pad11'', 4), (''ds_base'', 8), (''fs'', 2), (''_pad12'', 6),
     (''fs_limit'', 4), (''_pad13'', 4), (''fs_flags'', 4), (''_pad14'', 4), (''fs_base'', 8),
     (''gs'', 2), (''_pad15'', 6), (''gs_limit'', 4), (''_pad16'', 4), (''gs_flags'', 4),
     (''_pad17'', 4), (''gs_base'', 8)]"

definition pcm_cpu_non_reg_states :: layout where
  "pcm_cpu_non_reg_states = [(''activity'', 4), (''interruptibility'', 4), (''pending_debug_exceptions'', 8),
     (''vmx_preemption_time'', 8), (''vmcs_link'', 8), 
     (''pdpte[0]'', 8), (''pdpte[1]'', 8), (''pdpte[2]'', 8), (''pdpte[3]'', 8)]"

definition pcm_cpu_seg_regs :: layout where
  "pcm_cpu_seg_regs = [(''gdtr_base'', 8), (''gdtr_limit'', 4), (''_pad0'', 4), (''idtr_base'', 8),
     (''idtr_limit'', 4), (''_pad1'', 4), (''ldtr_base'', 8), (''ldtr_limit'', 4),
     (''ldtr_ss'', 2), (''pad2'', 2), (''tr_base'', 8), (''tr_limit'', 4), (''tr_ss'', 2),
     (''pad3'', 2)]"

definition pcm_cpu_cr_regs :: layout where
  "pcm_cpu_cr_regs = [(''cr0'', 8), (''cr2'', 8), (''cr3'', 8), (''cr4'', 8), (''cr8'', 8), (''xcr0'', 8)]"

definition pcm_cpu_dr_regs :: layout where
  "pcm_cpu_dr_regs = [(''dr0'', 8), (''dr1'', 8), (''dr2'', 8), (''dr3'', 8), (''dr6'', 8), (''dr7'', 8)]"

definition pcm_cpu_states :: layout where
  "pcm_cpu_states = member ''uregs'' pcm_cpu_user_regs @ member ''nregs'' pcm_cpu_non_reg_states
     @ member ''sregs'' pcm_cpu_seg_regs @ member ''crs'' pcm_cpu_cr_regs
     @ member ''drs'' pcm_cpu_dr_regs @ member ''msrs'' pcm_cpu_msrs
     @ [(''apic'', 8), (''p_msrs'', 8), (''pmu'', 8), (''fpu'', 8), (''platform_info'', 8),
     (''eptp'', 8)]"

lemmas cpu_layouts = pcm_cpu_msrs_def pcm_cpu_user_regs_def pcm_cpu_non_reg_states_def pcm_cpu_seg_regs_def
  pcm_cpu_cr_regs_def pcm_cpu_dr_regs_def pcm_cpu_states_def

section \<open>main\<close>

text \<open>The calls of \<open>printf\<close> in order; a heading has no argument.\<close>

definition ckcpu_lines :: "(string \<times> string option) list" where
  "ckcpu_lines = [
     (''====pcm_cpu_user_regs===='', None), (''r15: %lu'', Some ''uregs.r15''),
     (''r14: %lu'', Some ''uregs.r14''), (''r13: %lu'', Some ''uregs.r13''),
     (''r12: %lu'', Some ''uregs.r12''), (''rbp: %lu'', Some ''uregs.rbp''),
     (''rbx: 0x%llx'', Some ''uregs.rbx''), (''r11: %lu'', Some ''uregs.r11''),
     (''r10: %lu'', Some ''uregs.r10''), (''r9: %lu'', Some ''uregs.r9''),
     (''r8: %lu'', Some ''uregs.r8''), (''rax: 0x%llx'', Some ''uregs.rax''),
     (''rcx: 0x%llx'', Some ''uregs.rcx''), (''rdx: 0x%llx'', Some ''uregs.rdx''),
     (''rsi: %lu'', Some ''uregs.rsi''), (''rdi: %lu'', Some ''uregs.rdi''),
     (''rip: %lu'', Some ''uregs.rip''), (''cs: %d'', Some ''uregs.cs''),
     (''cs_limit: %u'', Some ''uregs.cs_limit''), (''cs_flags: %u'', Some ''uregs.cs_flags''),
     (''cs_base: %lu'', Some ''uregs.cs_base''), (''ds: %d'', Some ''uregs.ds''),
     (''ds_limit: %u'', Some ''uregs.ds_limit''), (''ds_flags: %u'', Some ''uregs.ds_flags''),
     (''ds_base: %lu'', Some ''uregs.ds_base''), (''ss: %d'', Some ''uregs.ss''),
     (''ss_limit: %u'', Some ''uregs.ss_limit''), (''ss_flags: %u'', Some ''uregs.ss_flags''),
     (''ss_base: %lu'', Some ''uregs.ss_base''), (''es: %d'', Some ''uregs.es''),
     (''es_limit: %u'', Some ''uregs.es_limit''), (''es_flags: %u'', Some ''uregs.es_flags''),
     (''es_base: %lu'', Some ''uregs.es_base''), (''fs: %d'', Some ''uregs.fs''),
     (''fs_limit: %u'', Some ''uregs.fs_limit''), (''fs_flags: %u'', Some ''uregs.fs_flags''),
     (''fs_base: %lu'', Some ''uregs.fs_base''), (''gs: %d'', Some ''uregs.gs''),
     (''gs_limit: %u'', Some ''uregs.gs_limit''), (''gs_flags: %u'', Some ''uregs.gs_flags''),
     (''gs_base: %lu'', Some ''uregs.gs_base''), (''rflags: %lu'', Some ''uregs.rflags''),
     (''rsp: %lu'', Some ''uregs.rsp''), (''====pcm_cpu_cr_regs===='', None),
     (''cr0: %lu'', Some ''crs.cr0''), (''cr2: %lu'', Some ''crs.cr2''),
     (''cr3: %lu'', Some ''crs.cr3''), (''cr4: %lu'', Some ''crs.cr4''),
     (''cr8: %lu'', Some ''crs.cr8''), (''xcr0: %lu'', Some ''crs.xcr0''),
     (''====pcm_cpu_dr_regs===='', None), (''dr0: %lu'', Some ''drs.dr0''),
     (''dr1: %lu'', Some ''drs.dr1''), (''dr2: %lu'', Some ''drs.dr2''),
     (''dr3: %lu'', Some ''drs.dr3''), (''dr6: %lu'', Some ''drs.dr6''),
     (''dr7: %lu'', Some ''drs.dr7''), (''====pcm_cpu_msrs===='', None),
     (''msr_kernel_gs_base: %lu'', Some ''msrs.msr_kernel_gs_base''),
     (''msr_effer: %lu'', Some ''msrs.msr_effer'')]"

text \<open>
  \<open>p1\<close> is the uninitialised structure on the stack, \<open>fd1\<close> the content of the file if it can be opened;
  reading from a file that was not opened crashes (\<open>None\<close>).
\<close>

definition ckcpu_main :: "u8 list \<Rightarrow> u8 list option \<Rightarrow> (int \<times> (string \<times> u64 option) list) option" where
  "ckcpu_main p1 fd1 = (case fd1 of
     None \<Rightarrow> None
   | Some file \<Rightarrow>
       let p1 = fread p1 file
       in Some (0, map (\<lambda>(fmt, f). (fmt, map_option (field pcm_cpu_states p1) f)) ckcpu_lines))"

section \<open>Facts\<close>

lemma sizeof_cpu: "sizeof pcm_cpu_states = 624"
  by (simp add: cpu_layouts sizeof_def member_def)

lemma distinct_cpu_fields: "distinct (map fst pcm_cpu_states)"
  by code_simp

lemma printed_fields: "\<forall>(fmt, f) \<in> set ckcpu_lines. case f of None \<Rightarrow> True | Some g \<Rightarrow> g \<in> fst ` set pcm_cpu_states"
  by code_simp

lemma cpu_lines_encode:
  assumes "fits pcm_cpu_states val"
  shows "map (\<lambda>(fmt, f). (fmt, map_option (field pcm_cpu_states (encode pcm_cpu_states val)) f)) ckcpu_lines
    = map (\<lambda>(fmt, f). (fmt, map_option val f)) ckcpu_lines"
proof (rule map_cong [OF refl], clarify)
  fix fmt f assume "(fmt, f) \<in> set ckcpu_lines"
  with printed_fields have "case f of None \<Rightarrow> True | Some g \<Rightarrow> g \<in> fst ` set pcm_cpu_states" by blast
  with field_encode [OF assms distinct_cpu_fields, of _ "[]"]
  have "map_option (field pcm_cpu_states (encode pcm_cpu_states val)) f = map_option val f"
    by (cases f) auto
  then show "fmt = fmt \<and> map_option (field pcm_cpu_states (encode pcm_cpu_states val)) f = map_option val f" by simp
qed



end
