(* ===== verification/TestModule.thy ===== *)
theory TestModule
  imports Machine
begin

text \<open>
  The instruction test module \<open>src/test_module\<close>: the Intel PT registers (\<open>test_pt.c\<close>), MPX (\<open>test_mpx.c\<close>),
  performance counters (\<open>test_rdpmc.c\<close>), VMX (\<open>test_vmx.c\<close>), XSAVES and XSETBV (\<open>test_xsave.c\<close>), and the
  module itself (\<open>test_mod.c\<close>), which runs the test that its parameter \<open>tc_no\<close> names when it is loaded.
\<close>

record testmod_world = kworld +
  tc_no :: int
  vmxon_region :: u64
  vmxon_phy_region :: u64

section \<open>test_pt.c\<close>

definition IA32_RTIT_CTL_MSR :: u32 where "IA32_RTIT_CTL_MSR = 0x570"
definition IA32_RTIT_STATUS_MSR :: u32 where "IA32_RTIT_STATUS_MSR = 0x571"
definition IA32_RTIT_CR3_MATCH :: u32 where "IA32_RTIT_CR3_MATCH = 0x572"
definition IA32_RTIT_OUTPUT_BASE :: u32 where "IA32_RTIT_OUTPUT_BASE = 0x560"
definition IA32_RTIT_OUTPUT_MASK :: u32 where "IA32_RTIT_OUTPUT_MASK = 0x561"
definition IA32_RTIT_ADDR0_A :: u32 where "IA32_RTIT_ADDR0_A = 0x580"
definition IA32_RTIT_ADDR0_B :: u32 where "IA32_RTIT_ADDR0_B = 0x581"
definition IA32_RTIT_ADDR1_A :: u32 where "IA32_RTIT_ADDR1_A = 0x582"
definition IA32_RTIT_ADDR1_B :: u32 where "IA32_RTIT_ADDR1_B = 0x583"
definition IA32_RTIT_ADDR2_A :: u32 where "IA32_RTIT_ADDR2_A = 0x584"
definition IA32_RTIT_ADDR2_B :: u32 where "IA32_RTIT_ADDR2_B = 0x585"
definition IA32_RTIT_ADDR3_A :: u32 where "IA32_RTIT_ADDR3_A = 0x586"
definition IA32_RTIT_ADDR3_B :: u32 where "IA32_RTIT_ADDR3_B = 0x587"

lemmas pt_msr_defs = IA32_RTIT_CTL_MSR_def IA32_RTIT_STATUS_MSR_def IA32_RTIT_CR3_MATCH_def
  IA32_RTIT_OUTPUT_BASE_def IA32_RTIT_OUTPUT_MASK_def IA32_RTIT_ADDR0_A_def IA32_RTIT_ADDR0_B_def
  IA32_RTIT_ADDR1_A_def IA32_RTIT_ADDR1_B_def IA32_RTIT_ADDR2_A_def IA32_RTIT_ADDR2_B_def
  IA32_RTIT_ADDR3_A_def IA32_RTIT_ADDR3_B_def

text \<open>The number each step announces, and the register it accesses.\<close>

definition pt_msrs :: "(string \<times> u32) list" where
  "pt_msrs = [(''0x570'', IA32_RTIT_CTL_MSR), (''0x571'', IA32_RTIT_STATUS_MSR),
     (''0x572'', IA32_RTIT_CR3_MATCH), (''0x560'', IA32_RTIT_OUTPUT_BASE), (''0x561'', IA32_RTIT_OUTPUT_MASK),
     (''0x580'', IA32_RTIT_ADDR0_A), (''0x581'', IA32_RTIT_ADDR0_B), (''0x582'', IA32_RTIT_ADDR1_A),
     (''0x583'', IA32_RTIT_ADDR1_B), (''0x584'', IA32_RTIT_ADDR2_A), (''0x585'', IA32_RTIT_ADDR2_B),
     (''0x586'', IA32_RTIT_ADDR3_A), (''0x587'', IA32_RTIT_ADDR3_B)]"

text \<open>
  The steps of a test: announce, access, and leave through \<open>fail\<close> at the first error.
\<close>

fun pt_steps :: "(u32 \<Rightarrow> ('a kworld_scheme, int) state) \<Rightarrow> string \<Rightarrow> string \<Rightarrow> (string \<times> u32) list
    \<Rightarrow> ('a kworld_scheme, int) state" where
  "pt_steps access verb success [] = do { printk success []; State_Monad.return 0 }"
| "pt_steps access verb success ((num, msr_val) # rest) = do {
     printk (''test '' @ verb @ '' '' @ num) [];
     err \<leftarrow> access msr_val;
     if err \<noteq> 0 then do {
       printk (verb @ '' 0x%x err %d'') [arg_word msr_val, AInt err];
       State_Monad.return 1 }
     else pt_steps access verb success rest }"

definition rdmsr_safe :: "env \<Rightarrow> u32 \<Rightarrow> ('a kworld_scheme, int) state" where
  "rdmsr_safe env m = do { (err, _) \<leftarrow> rdmsrl_safe env m; State_Monad.return err }"

definition wrmsr_safe :: "env \<Rightarrow> u32 \<Rightarrow> u32 \<Rightarrow> u32 \<Rightarrow> ('a kworld_scheme, int) state" where
  "wrmsr_safe env m data_low data_high = wrmsrl_safe env m (ucast data_low OR push_bit 32 (ucast data_high))"

definition test_pt_rdmsr :: "env \<Rightarrow> ('a kworld_scheme, int) state" where
  "test_pt_rdmsr env = pt_steps (rdmsr_safe env) ''rdmsr'' ''rdmsr for PT msrs success'' pt_msrs"

definition test_pt_wrmsr :: "env \<Rightarrow> ('a kworld_scheme, int) state" where
  "test_pt_wrmsr env = pt_steps (\<lambda>m. wrmsr_safe env m 0 0) ''wrmsr'' ''wrmsr success for PT MSRs'' pt_msrs"

section \<open>test_mpx.c\<close>

definition MSR_IA32_BNDCFGS :: u32 where "MSR_IA32_BNDCFGS = 0xd90"

definition test_mpx_rdmsr :: "env \<Rightarrow> ('a kworld_scheme, int) state" where
  "test_mpx_rdmsr env = do {
     err \<leftarrow> rdmsr_safe env MSR_IA32_BNDCFGS;
     printk ''return value of rdmsr_safe is %d'' [AInt err];
     (if err \<noteq> 0 then printk ''%s return err %d'' [AStr ''test_mpx_rdmsr'', AInt err] else skip);
     State_Monad.return err }"

definition test_mpx_wrmsr :: "env \<Rightarrow> ('a kworld_scheme, int) state" where
  "test_mpx_wrmsr env = do {
     err \<leftarrow> wrmsr_safe env MSR_IA32_BNDCFGS 0 0;
     (if err \<noteq> 0 then printk ''%s return err %d'' [AStr ''test_mpx_wrmsr'', AInt err] else skip);
     State_Monad.return err }"

section \<open>test_rdpmc.c\<close>

definition asm_rdpmc :: "env \<Rightarrow> int \<Rightarrow> ('a kworld_scheme, u64) state" where
  "asm_rdpmc env counter = do {
     v \<leftarrow> insn_val env ''rdpmc'' [AInt counter];
     let a = (ucast v :: u32);
     let d = (ucast (drop_bit 32 v) :: u32);
     State_Monad.return (push_bit 32 (ucast d) OR ucast a) }"

definition test_rdpmc :: "env \<Rightarrow> ('a kworld_scheme, unit) state" where
  "test_rdpmc env = do {
     for_each [0..<4] (\<lambda>i. do {
       r \<leftarrow> asm_rdpmc env (int i);
       if r \<noteq> 0 then printk ''rdpmc fail with value %llu'' [arg_word r] else skip });
     printk ''rdpmc test PASS!'' [] }"

section \<open>test_vmx.c\<close>

definition MSR_IA32_FEATURE_CONTROL :: u32 where "MSR_IA32_FEATURE_CONTROL = 0x3a"
definition FEATURE_CONTROL_LOCKED :: u64 where "FEATURE_CONTROL_LOCKED = 1"
definition FEATURE_CONTROL_VMXON_ENABLED_OUTSIDE_SMX :: u64 where
  "FEATURE_CONTROL_VMXON_ENABLED_OUTSIDE_SMX = 4"
definition X86_CR4_VMXE :: u64 where "X86_CR4_VMXE = push_bit 13 1"

definition test_vmxoff :: "env \<Rightarrow> ('a kworld_scheme, unit) state" where
  "test_vmxoff env = insn env ''vmxoff'' []"

definition test_vmxon :: "env \<Rightarrow> u64 \<Rightarrow> ('a kworld_scheme, unit) state" where
  "test_vmxon env addr = do {
     old \<leftarrow> rdmsr env MSR_IA32_FEATURE_CONTROL;
     let test_bits = FEATURE_CONTROL_LOCKED;
     let test_bits = test_bits OR FEATURE_CONTROL_VMXON_ENABLED_OUTSIDE_SMX;
     (if old AND test_bits \<noteq> test_bits then wrmsr env MSR_IA32_FEATURE_CONTROL (old OR test_bits) else skip);
     cr4 \<leftarrow> insn_val env ''mov from cr4'' [];
     insn env ''mov to cr4'' [arg_word (cr4 OR X86_CR4_VMXE)];
     insn env ''vmxon'' [arg_word addr];
     printk ''vmxon succeed'' [] }"

section \<open>test_xsave.c\<close>

definition XSTATE_MASK :: u64 where "XSTATE_MASK = 1"
definition XSTATE_CPUID :: u32 where "XSTATE_CPUID = 0xd"
definition XCR_XFEATURE_ENABLED_MASK :: u32 where "XCR_XFEATURE_ENABLED_MASK = 0"

definition test_xsaves :: "env \<Rightarrow> ('a kworld_scheme, unit) state" where
  "test_xsaves env = do {
     let mask = XSTATE_MASK;
     let lmask = (ucast mask :: u32);
     let hmask = (ucast (drop_bit 32 mask) :: u32);
     fx \<leftarrow> kcall env ''kmalloc'' [AInt 0x440, AStr ''GFP_KERNEL''];
     insn env ''xsaves'' [arg_word fx, arg_word lmask, arg_word hmask];
     printk ''xsaves is executed.'' [] }"

text \<open>XSETBV with its operands: they are in the registers before it executes.\<close>

definition xsetbv :: "env \<Rightarrow> u32 \<Rightarrow> u32 \<Rightarrow> u32 \<Rightarrow> ('a kworld_scheme, unit) state" where
  "xsetbv env a d c = do {
     insn env ''mov'' [arg_word a, arg_word d, arg_word c];
     insn env ''xsetbv'' [] }"

definition test_xsetbv :: "env \<Rightarrow> ('a kworld_scheme, unit) state" where
  "test_xsetbv env = do {
     (eax, ebx, ecx, edx) \<leftarrow> cpuid env XSTATE_CPUID 0;
     printk ''Begin to test legal xsetbv:'' [];
     printk ''eax %d'' [AInt (sint eax)];
     printk ''edx %d'' [AInt (sint edx)];
     xsetbv env eax edx XCR_XFEATURE_ENABLED_MASK;
     printk ''Legal xsetbv test is executed.'' [];
     printk ''Begin to test illegal xsetbv:'' [];
     let edx = edx + 1;
     printk ''eax %d'' [AInt (sint eax)];
     printk ''edx %d'' [AInt (sint edx)];
     xsetbv env eax edx XCR_XFEATURE_ENABLED_MASK;
     printk ''Illegal xsetbv test is executed.'' [] }"

section \<open>test_mod.c\<close>

definition X86_CR0_CD :: u32 where "X86_CR0_CD = push_bit 30 1"
definition X86_CR4_OSXSAVE :: u32 where "X86_CR4_OSXSAVE = push_bit 18 1"

definition test_invd :: "env \<Rightarrow> ('a kworld_scheme, unit) state" where
  "test_invd env = do { insn env ''invd'' []; printk ''invd executed'' [] }"

definition test_getsec :: "env \<Rightarrow> ('a kworld_scheme, unit) state" where
  "test_getsec env = do { insn env ''getsec'' [AInt 0]; printk ''getsec executed'' [] }"

definition test_mwait :: "env \<Rightarrow> ('a kworld_scheme, unit) state" where
  "test_mwait env = do {
     let eax = 0xf;
     insn env ''mwait'' [AInt eax, AInt 0];
     printk ''mwait executed'' [] }"

definition test_monitor :: "env \<Rightarrow> ('a kworld_scheme, unit) state" where
  "test_monitor env = do {
     insn env ''monitor'' [arg_word (env_sym env ''current_thread_info()->flags''), AInt 0, AInt 0];
     printk ''monitor executed'' [] }"

text \<open>The control registers go through 32-bit variables.\<close>

definition test_access_cr0 :: "env \<Rightarrow> ('a kworld_scheme, unit) state" where
  "test_access_cr0 env = do {
     v \<leftarrow> insn_val env ''mov from cr0'' [];
     let cr0 = (ucast v :: u32);
     insn env ''mov to cr0'' [arg_word (ucast (cr0 OR X86_CR0_CD) :: u64)];
     printk ''read write cr0 succeeded.'' [] }"

definition test_access_cr4 :: "env \<Rightarrow> ('a kworld_scheme, unit) state" where
  "test_access_cr4 env = do {
     v \<leftarrow> insn_val env ''mov from cr4'' [];
     let cr4 = (ucast v :: u32);
     insn env ''mov to cr4'' [arg_word (ucast (cr4 OR X86_CR4_OSXSAVE) :: u64)];
     printk ''read write cr4 succeeded.'' [] }"

text \<open>\<open>__pa\<close>: memory of \<open>kmalloc\<close> is in the kernel's direct map.\<close>

definition virt_to_phys :: "env \<Rightarrow> u64 \<Rightarrow> u64" where
  "virt_to_phys env p = p - env_sym env ''PAGE_OFFSET''"

definition test_case_vmxon :: "env \<Rightarrow> ('a testmod_world_scheme, unit) state" where
  "test_case_vmxon env = do {
     p \<leftarrow> kcall env ''kmalloc'' [AInt 0x1000, AStr ''GFP_KERNEL''];
     modify (\<lambda>w. w\<lparr>vmxon_region := p\<rparr>);
     modify (\<lambda>w. w\<lparr>vmxon_phy_region := virt_to_phys env (vmxon_region w)\<rparr>);
     phy \<leftarrow> gets vmxon_phy_region;
     test_vmxon env phy }"

definition init_test_mode :: "env \<Rightarrow> ('a testmod_world_scheme, int) state" where
  "init_test_mode env = do {
     n \<leftarrow> gets tc_no;
     printk ''tc_no is %d'' [AInt n];
     (if n = 1 then test_case_vmxon env
      else if n = 2 then test_vmxoff env
      else if n = 3 then do { _ \<leftarrow> test_pt_rdmsr env; _ \<leftarrow> test_pt_wrmsr env; skip }
      else if n = 4 then test_rdpmc env
      else if n = 5 then test_invd env
      else if n = 6 then test_getsec env
      else if n = 7 then test_monitor env
      else if n = 8 then test_mwait env
      else if n = 9 then do {
        printk ''test_mpx'' [];
        _ \<leftarrow> test_mpx_rdmsr env;
        _ \<leftarrow> test_mpx_wrmsr env;
        skip }
      else if n = 10 then test_xsaves env
      else if n = 11 then test_xsetbv env
      else if n = 12 then test_access_cr0 env
      else if n = 13 then test_access_cr4 env
      else printk ''Invalid tc_no %d'' [AInt n]);
     State_Monad.return 0 }"

definition exit_test_mode :: "env \<Rightarrow> ('a testmod_world_scheme, unit) state" where
  "exit_test_mode env = do {
     printk ''test_module cleanup'' [];
     p \<leftarrow> gets vmxon_region;
     if p \<noteq> 0 then do { _ \<leftarrow> kcall env ''kfree'' [arg_word p]; skip } else skip }"

section \<open>Facts\<close>

text \<open>The fault-tolerant accesses of a trace, with their results.\<close>

fun is_access :: "ev \<Rightarrow> bool" where
  "is_access (MsrRdSafe m e) = True"
| "is_access (MsrWrSafe m v e) = True"
| "is_access e = False"

definition accesses :: "ev list \<Rightarrow> ev list" where
  "accesses t = filter is_access t"

lemma accesses_simps [simp]:
  "accesses [] = []" "accesses (s @ t) = accesses s @ accesses t"
  "accesses (e # t) = (if is_access e then e # accesses t else accesses t)"
  by (simp_all add: accesses_def)

text \<open>
  What a test of the registers \<open>ms\<close> may leave, when an access to \<open>m\<close> with result \<open>err\<close> leaves the event
  \<open>f m err\<close>: all accesses succeeded and were announced, and the result is 0; or register \<open>k\<close> is the
  first whose access failed, nothing after it was touched, the failure is reported and the result is 1.
\<close>

definition pt_passed :: "(u32 \<Rightarrow> int \<Rightarrow> ev) \<Rightarrow> string \<Rightarrow> string \<Rightarrow> (string \<times> u32) list \<Rightarrow> ev list \<Rightarrow> bool" where
  "pt_passed f verb success ms t \<longleftrightarrow> accesses t = map (\<lambda>(num, m). f m 0) ms
     \<and> messages t = map (\<lambda>(num, m). Printk (''test '' @ verb @ '' '' @ num) []) ms @ [Printk success []]"

definition pt_failed_at :: "(u32 \<Rightarrow> int \<Rightarrow> ev) \<Rightarrow> string \<Rightarrow> (string \<times> u32) list \<Rightarrow> nat \<Rightarrow> int \<Rightarrow> ev list \<Rightarrow> bool" where
  "pt_failed_at f verb ms k err t \<longleftrightarrow> k < length ms \<and> err \<noteq> 0
     \<and> accesses t = map (\<lambda>(num, m). f m 0) (take k ms) @ [f (snd (ms ! k)) err]
     \<and> messages t = map (\<lambda>(num, m). Printk (''test '' @ verb @ '' '' @ num) []) (take (Suc k) ms)
         @ [Printk (verb @ '' 0x%x err %d'') [arg_word (snd (ms ! k)), AInt err]]"

definition pt_outcome :: "(u32 \<Rightarrow> int \<Rightarrow> ev) \<Rightarrow> string \<Rightarrow> string \<Rightarrow> (string \<times> u32) list \<Rightarrow> int \<Rightarrow> ev list \<Rightarrow> bool" where
  "pt_outcome f verb success ms r t \<longleftrightarrow> (r = 0 \<and> pt_passed f verb success ms t)
     \<or> (r = 1 \<and> (\<exists>k err. pt_failed_at f verb ms k err t))"

lemma pt_outcome_Cons:
  assumes "pt_outcome f verb success ms r t" and "\<And>m err. is_access (f m err)" and "\<And>m err. \<not> is_message (f m err)"
  shows "pt_outcome f verb success ((num, m) # ms) r (Printk (''test '' @ verb @ '' '' @ num) [] # f m 0 # t)"
proof -
  have "pt_passed f verb success ms t \<Longrightarrow>
      pt_passed f verb success ((num, m) # ms) (Printk (''test '' @ verb @ '' '' @ num) [] # f m 0 # t)"
    using assms(2,3) by (simp add: pt_passed_def)
  moreover have "pt_failed_at f verb ms k err t \<Longrightarrow> pt_failed_at f verb ((num, m) # ms) (Suc k) err
      (Printk (''test '' @ verb @ '' '' @ num) [] # f m 0 # t)" for k err
    using assms(2,3) by (simp add: pt_failed_at_def)
  ultimately show ?thesis using assms(1) unfolding pt_outcome_def by blast
qed

lemma run_pt_steps:
  assumes acc: "\<And>w m. halted w = None \<Longrightarrow>
      \<exists>err. run_state (access m) w = (err, w\<lparr>trace := trace w @ [f m err]\<rparr>)"
    and f: "\<And>m err. is_access (f m err)" "\<And>m err. \<not> is_message (f m err)"
  shows "halted w = None \<Longrightarrow> \<exists>r t. run_state (pt_steps access verb success ms) w
      = (r, w\<lparr>trace := trace w @ t\<rparr>) \<and> pt_outcome f verb success ms r t"
proof (induction ms arbitrary: w)
  case Nil
  then show ?case
    by (intro exI [of _ 0] exI [of _ "[Printk success []]"]) (simp add: pt_outcome_def pt_passed_def)
next
  case (Cons a ms)
  obtain num m where a: "a = (num, m)" by fastforce
  let ?p = "Printk (''test '' @ verb @ '' '' @ num) []"
  obtain err where err: "run_state (access m) (w\<lparr>trace := trace w @ [?p]\<rparr>)
      = (err, w\<lparr>trace := trace w @ [?p, f m err]\<rparr>)"
    using acc [of "w\<lparr>trace := trace w @ [?p]\<rparr>" m] Cons.prems by auto
  show ?case
  proof (cases "err = 0")
    case False
    let ?t = "[?p, f m err, Printk (verb @ '' 0x%x err %d'') [arg_word m, AInt err]]"
    have "pt_failed_at f verb (a # ms) 0 err ?t" using False a f by (simp add: pt_failed_at_def)
    then have "pt_outcome f verb success (a # ms) 1 ?t" unfolding pt_outcome_def by blast
    with err Cons.prems a False show ?thesis by (intro exI [of _ 1] exI [of _ ?t]) simp
  next
    case True
    let ?w1 = "w\<lparr>trace := trace w @ [?p, f m 0]\<rparr>"
    obtain r t where t: "run_state (pt_steps access verb success ms) ?w1 = (r, ?w1\<lparr>trace := trace ?w1 @ t\<rparr>)"
      "pt_outcome f verb success ms r t"
      using Cons.IH [of ?w1] Cons.prems by auto
    have "run_state (pt_steps access verb success (a # ms)) w = (r, w\<lparr>trace := trace w @ (?p # f m 0 # t)\<rparr>)"
      using err True t(1) Cons.prems a by simp
    with pt_outcome_Cons [where f = f, OF t(2) f, of num m] a show ?thesis by blast
  qed
qed

lemma run_rdmsr_safe:
  "halted w = None \<Longrightarrow> \<exists>err. run_state (rdmsr_safe env m) w = (err, w\<lparr>trace := trace w @ [MsrRdSafe m err]\<rparr>)"
  by (auto simp: rdmsr_safe_def split: prod.splits)

lemma run_wrmsr_safe:
  "halted w = None \<Longrightarrow> \<exists>err. run_state (wrmsr_safe env m 0 0) w = (err, w\<lparr>trace := trace w @ [MsrWrSafe m 0 err]\<rparr>)"
  by (simp add: wrmsr_safe_def)

lemma run_test_pt_rdmsr:
  assumes "halted w = None"
  shows "\<exists>r t. run_state (test_pt_rdmsr env) w = (r, w\<lparr>trace := trace w @ t\<rparr>)
    \<and> pt_outcome MsrRdSafe ''rdmsr'' ''rdmsr for PT msrs success'' pt_msrs r t"
  unfolding test_pt_rdmsr_def
  by (rule run_pt_steps [OF run_rdmsr_safe _ _ assms]) simp_all

lemma run_test_pt_wrmsr:
  assumes "halted w = None"
  shows "\<exists>r t. run_state (test_pt_wrmsr env) w = (r, w\<lparr>trace := trace w @ t\<rparr>)
    \<and> pt_outcome (\<lambda>m. MsrWrSafe m 0) ''wrmsr'' ''wrmsr success for PT MSRs'' pt_msrs r t"
  unfolding test_pt_wrmsr_def
  by (rule run_pt_steps [OF run_wrmsr_safe _ _ assms]) simp_all

text \<open>C29. Test case 3 of the test module, whatever the machine answers: the read test goes through the
  thirteen Intel PT registers in the order of the table and stops at the first error, and then the
  write test (of zeros) does the same from the first register on, even when the read test has
  failed; each announces every register it touches and reports success or the one register and its
  error; and the module loads in every case.\<close>

theorem pt_tests_stop_at_first_error:
  assumes "halted w = None" and "tc_no w = 3"
  shows "\<exists>t1 t2 r1 r2. run_state (init_test_mode env) w
      = (0, w\<lparr>trace := trace w @ [Printk ''tc_no is %d'' [AInt 3]] @ t1 @ t2\<rparr>)
    \<and> pt_outcome MsrRdSafe ''rdmsr'' ''rdmsr for PT msrs success''
      [(''0x570'', 0x570), (''0x571'', 0x571), (''0x572'', 0x572), (''0x560'', 0x560), (''0x561'', 0x561),
       (''0x580'', 0x580), (''0x581'', 0x581), (''0x582'', 0x582), (''0x583'', 0x583), (''0x584'', 0x584),
       (''0x585'', 0x585), (''0x586'', 0x586), (''0x587'', 0x587)] r1 t1
    \<and> pt_outcome (\<lambda>m. MsrWrSafe m 0) ''wrmsr'' ''wrmsr success for PT MSRs''
      [(''0x570'', 0x570), (''0x571'', 0x571), (''0x572'', 0x572), (''0x560'', 0x560), (''0x561'', 0x561),
       (''0x580'', 0x580), (''0x581'', 0x581), (''0x582'', 0x582), (''0x583'', 0x583), (''0x584'', 0x584),
       (''0x585'', 0x585), (''0x586'', 0x586), (''0x587'', 0x587)] r2 t2"
proof -
  let ?w1 = "w\<lparr>trace := trace w @ [Printk ''tc_no is %d'' [AInt 3]]\<rparr>"
  obtain r1 t1 where 1: "run_state (test_pt_rdmsr env) ?w1 = (r1, ?w1\<lparr>trace := trace ?w1 @ t1\<rparr>)"
    "pt_outcome MsrRdSafe ''rdmsr'' ''rdmsr for PT msrs success'' pt_msrs r1 t1"
    using run_test_pt_rdmsr [of ?w1 env] assms(1) by auto
  let ?w2 = "?w1\<lparr>trace := trace ?w1 @ t1\<rparr>"
  obtain r2 t2 where 2: "run_state (test_pt_wrmsr env) ?w2 = (r2, ?w2\<lparr>trace := trace ?w2 @ t2\<rparr>)"
    "pt_outcome (\<lambda>m. MsrWrSafe m 0) ''wrmsr'' ''wrmsr success for PT MSRs'' pt_msrs r2 t2"
    using run_test_pt_wrmsr [of ?w2 env] assms(1) by auto
  have "run_state (init_test_mode env) w
      = (0, w\<lparr>trace := trace w @ [Printk ''tc_no is %d'' [AInt 3]] @ t1 @ t2\<rparr>)"
    using assms 1(1) 2(1) by (simp add: init_test_mode_def)
  with 1(2) 2(2) show ?thesis unfolding pt_msrs_def pt_msr_defs by blast
qed

definition testmod_start :: "int \<Rightarrow> testmod_world" where
  "testmod_start n = kworld.extend start_world \<lparr>tc_no = n, vmxon_region = 0, vmxon_phy_region = 0\<rparr>"

lemma testmod_start_simps [simp]:
  "halted (testmod_start n) = None" "trace (testmod_start n) = []" "tc_no (testmod_start n) = n"
  by (simp_all add: testmod_start_def kworld.defs testmod_world.defs start_world_def)

text \<open>A machine without Intel PT: every access fails.\<close>

theorem pt_tests_stop_at_first_error_witness:
  "fst (run_state (init_test_mode (calm_env\<lparr>env_rdmsr_safe := \<lambda>t i. (- 5, 0)\<rparr>)) (testmod_start 3)) = 0"
  using pt_tests_stop_at_first_error [of "testmod_start 3" "calm_env\<lparr>env_rdmsr_safe := \<lambda>t i. (- 5, 0)\<rparr>"]
  by auto

text \<open>A word that is not all ones has a bit that only its successor has.\<close>

lemma successor_new_bit:
  fixes d :: "'a::len word"
  assumes "d \<noteq> - 1"
  shows "(d + 1) AND NOT d \<noteq> 0"
proof
  assume z: "(d + 1) AND NOT d = 0"
  have "(d + 1) AND d = d + 1"
  proof (rule bit_word_eqI)
    fix n assume n: "n < LENGTH('a)"
    have "\<not> bit ((d + 1) AND NOT d) n" by (simp add: z)
    with n show "bit ((d + 1) AND d) n = bit (d + 1) n" by (auto simp: bit_simps)
  qed
  then have "uint (d + 1) = uint (d + 1) AND uint d" by (metis unsigned_and_eq)
  then have "uint (d + 1) \<le> uint d" by (metis AND_upper2 uint_nonnegative)
  then have "d + 1 \<le> d" by (simp add: word_le_def)
  with assms show False using inc_less_eq_triv_imp by blast
qed



end
