(* ===== verification/Spec2Isabelle.thy ===== *)
theory Spec2Isabelle
  imports Prelude Machine Msr Tsc Setjmp IoapicRegs IoapicTable IoapicCommand KvmclockMain CharDevLife GuestApp
    HostEvent HostCpu TestModule
begin

text \<open>
  Verification of \<open>pcm_test\<close>: test modules for a KVM guest, the programs that run them, and the host
  programs that print what the hypervisor recorded.

  THE PROGRAM.  \<open>src/pcm-unit/driver\<close> is a Linux module with a character device \<open>/dev/pcm_test\<close>; each
  ioctl command runs one test of the virtual machine (MSRs, time-stamp counter, setjmp, interrupt
  controllers, paravirtual clock) between two hypercalls (102 and 103) and prints to the kernel log.
  \<open>src/pcm-unit/app\<close> sends it one command.  \<open>src/focus_test/driver\<close> is the same driver with tests of
  single instructions, \<open>src/focus_test/guestapp\<close> its program, and \<open>src/focus_test/hostapp\<close> decodes the
  event and the CPU state that the hypervisor wrote to files.  \<open>src/test_module\<close> is a module that runs
  one instruction test when it is loaded.

  HOW IT IS MODELLED.  Stateful code is a state monad over a record, the world: the fields of \<open>kworld\<close>
  (theory \<open>Machine\<close>) are the trace of all that the code did to the outside, the interrupt flag, the CPU
  number, the memory written, and \<open>halted\<close>; records that extend it hold the variables of the modules.
  Hardware, hypervisor and kernel are a parameter, the environment \<open>env\<close>: it answers each read and
  each kernel call as a function of the trace so far, and may make any privileged instruction fault.
  Nothing is assumed of it in the definitions; a property that needs a machine with documented
  behaviour says so in its hypotheses and has a witness with a concrete machine.  A fault of an
  instruction without exception handler, and a loop that is still running when its bound is used up,
  set \<open>halted\<close>, and a halted world is frozen (collection \<open>frozen_intro\<close>).  C integers are words of their
  width; messages are events with format and arguments.

  THEORIES AND SOURCES.
  \<open>Prelude\<close>: integer types, little-endian bytes, byte memory.  \<open>Machine\<close>: events, environment, world,
  instructions, loops.
  \<open>Msr\<close>: \<open>msr.c\<close>.  \<open>Tsc\<close>: \<open>tsc.c\<close>, \<open>tsc_adjust.c\<close>.  \<open>Setjmp\<close>: \<open>setjmp64.S\<close>, \<open>setjmp.c\<close>.
  \<open>IoapicRegs\<close>, \<open>IoapicIdt\<close>, \<open>IoapicTests\<close>: \<open>ioapic.c\<close> (register access; descriptor table and stubs;
  handlers and tests).  \<open>IoapicTable\<close>: the descriptor table over any number of installations.
  \<open>IoapicDevice\<close> states the documented behaviour of the two interrupt controllers as a machine over the
  trace, \<open>IoapicResults\<close> derives each test on it, \<open>IoapicRuns\<close> the sequence on one CPU, \<open>IoapicSmp\<close> the
  register tests, the tests in which CPU 1 moves the line, and the whole test.
  \<open>Kvmclock\<close>: \<open>kvmclock_test.c\<close>, with the stress test cut into steps of a thread; \<open>KvmclockRuns\<close> has the
  relation of all interleavings and its invariants, \<open>KvmclockTest\<close> the reads on the machine,
  \<open>KvmclockCycle\<close> the stress test on the machine, whose runs are runs of the relation.  \<open>Progress\<close> is the
  general theory of fair executions, \<open>KvmclockFair\<close> the potential with which the stress test ends under
  every fair scheduler, \<open>KvmclockMain\<close> the whole clock test.
  \<open>CharDev\<close>: \<open>pcm_test_mod.c\<close> of both drivers (open, ioctl, load, unload) with the \<open>switch\<close> as argument;
  \<open>CharDevLife\<close>: the resources a module holds; \<open>Footprint\<close>: what a test may leave behind;
  \<open>DriverContract\<close>: sequences of commands to a driver whose tests keep to that.  \<open>UserApi\<close>: the C library
  and the system calls.  \<open>UnitFootprint\<close>, \<open>UnitDriver\<close>: commands, \<open>switch\<close> and program of pcm-unit;
  \<open>IoapicCommand\<close>: its command for the interrupt test.  \<open>FocusDriver\<close>: commands, \<open>switch\<close>, tests and
  module functions of focus_test.  \<open>CommandLine\<close>: getopt, buffer and name comparison of the two programs
  with options; \<open>GuestApp\<close>: \<open>guestapp/pcmtest.c\<close>; \<open>CStruct\<close>: packed structures; \<open>HostEvent\<close>: \<open>ckevent.c\<close>;
  \<open>HostCpu\<close>: \<open>ckcpu.c\<close>.  \<open>TestModule\<close>: \<open>src/test_module\<close>.

  WHAT IS SHOWN.  For each test, what it writes and prints on documented hardware, and where its
  result does not depend on the hardware at all (\<open>Msr\<close>).  For the I/O APIC test, the complete log of a
  first run (registers, interrupts on one CPU and on two), the storm that a second command ends in, the
  fault on a machine without page zero, and that the descriptor table behaves as a map from vectors to
  handlers.  For the clock, mutual exclusion and monotonicity over all interleavings, with the
  refinement from the code; that all threads finish under every fair scheduler, on any number of CPUs,
  and that the code ends within a bound; and the log of the whole test.  For the drivers, the errors of
  an ioctl, the marks that the hypervisor sees for any sequence of commands, the dispatch, and the
  balance of resources over load, any commands and unload, with the two error paths that break it.
  For the programs, runs from the command line through the driver to the kernel log, and round trips
  between the writer of a file and what is printed; the last sections of this theory join the guest
  program, the driver and the host program, and compare the two modules.

  INTERFACES.  The contracts between parts are locales, interpreted on the model:
  \<open>redir_table\<close> and \<open>apic_iface\<close> (\<open>IoapicRegs\<close>; both access modes of the local APIC), \<open>clock_source\<close>
  (\<open>KvmclockTest\<close>; adjusted and stable clock), \<open>progress\<close> (\<open>Progress\<close>; the threads of the stress test),
  \<open>test_driver\<close> (\<open>CharDev\<close>) and its extension \<open>quiet_driver\<close> (\<open>DriverContract\<close>; both drivers).

  BOUNDS.  Loops that wait for the outside (a consistent version of the hypervisor's clock structure, a
  compare-exchange, another CPU, an interrupt window) run at most \<open>env_fuel\<close> rounds and hang after that.
  The bound is a field of the environment, so a property that holds for every environment holds for
  every bound, and the termination properties give a bound that is enough: \<open>enough_fuel\<close> (\<open>KvmclockFair\<close>)
  for the stress test, from the number of CPUs, the rounds and the bound of the scheduler; four
  interrupts a window for the interrupt tests; the moment at which CPU 1 gets its turn (\<open>prompt\<close>) for
  the wait of the tests on two CPUs.  All other loops are structural or have a measure.

  SIMPLIFICATIONS.  Interrupts are taken between the calls of an interrupt test, not within one.  The
  fixed windows of the interrupt controllers are taken to be mapped.  Threads of the stress test take
  turns between their accesses to shared data (sequential consistency).  The layout of the kernel's
  structures and the addresses of symbols are parameters.  A 32-bit number printed with a 64-bit
  conversion is taken as its zero extension.

  NOT MODELLED.  \<open>udp.c\<close> (not built, does not compile), \<open>setjmp32.S\<close> and the \<open>.bak\<close> files (not built),
  \<open>focus_mpx.c\<close> (a user program whose behaviour is the compiler's bounds checks), makefiles and the
  udev rule.
\<close>

section \<open>From the guest to the host\<close>

text \<open>
  The tests whose result the hypervisor records: name, event of the instruction, message of the test,
  payload of the recorded event, its field for the value, and the line printed on the host.
\<close>

definition recorded_tests ::
  "(string \<times> (u64 \<Rightarrow> u32 \<Rightarrow> ev) \<times> string \<times> layout \<times> string \<times> string) list" where
  "recorded_tests =
    [(''rdtsc'', \<lambda>v aux. Rdtsc v, ''rdtsc=%llx'', event_log_rdtsc, ''tsc'', ''rdtsc tsc=%llx''),
     (''rdtscp'', \<lambda>v aux. Rdtscp v aux, ''rdtscp=%llx'', event_log_rdtscp, ''tsc'', ''rdtscp tsc=%llx''),
     (''rdseed'', \<lambda>v aux. Insn ''rdseed'' [], ''get_rdseed=%lx'', event_log_rdseed, ''value'', ''rdseed value=%llx'')]"

lemma run_recorded_test:
  assumes "halted w = None" and "\<And>t. env_fault env t ''rdseed'' = None"
    and "(s, instr, fmt, payload, key, line) \<in> set recorded_tests"
  shows "\<exists>v aux. run_state (focus_switch env junk (guest_command s)) w
    = ((), w\<lparr>trace := trace w @ [instr v aux, Printk fmt [arg_word v]]\<rparr>)"
proof -
  have c: "focus_switch env junk (guest_command ''rdtsc'') = rdtsc_test env"
    "focus_switch env junk (guest_command ''rdtscp'') = rdtscp_test env"
    "focus_switch env junk (guest_command ''rdseed'') = rdseed_test env"
    by (simp_all add: guest_command_def guest_table_def focus_switch_def focus_commands ioc_defs PCM_TEST_IOC_MAGIC_def)
  from assms(3) consider
      "s = ''rdtsc''" "instr = (\<lambda>v aux. Rdtsc v)" "fmt = ''rdtsc=%llx''"
    | "s = ''rdtscp''" "instr = (\<lambda>v aux. Rdtscp v aux)" "fmt = ''rdtscp=%llx''"
    | "s = ''rdseed''" "instr = (\<lambda>v aux. Insn ''rdseed'' [])" "fmt = ''get_rdseed=%lx''"
    unfolding recorded_tests_def by force
  then show ?thesis
  proof cases
    case 1
    then show ?thesis
      by (intro exI [of _ "env_rdtsc env (trace w)"]) (simp add: c rdtsc_test_def assms(1))
  next
    case 2
    then show ?thesis
      by (intro exI [of _ "fst (env_rdtscp env (trace w))"] exI [of _ "snd (env_rdtscp env (trace w))"])
        (simp add: c rdtscp_test_def assms(1) split: prod.splits)
  next
    case 3
    then show ?thesis
      by (intro exI [of _ "env_insn env (trace w) ''rdseed''"])
        (simp add: c rdseed_test_def rdseed_long_def run_random_insn assms)
  qed
qed

lemma host_prints_recorded:
  assumes "heap_ok h" and "(s, instr, fmt, payload, key, line) \<in> set recorded_tests" and "val key = v"
    and "event_bin h = Some (encode event_log_t hdr @ encode payload val @ rest)"
  shows "\<exists>out. ckevent_main h [''-t'', s] = Some (0, (line, v) # out)"
proof -
  have nul: "NUL \<notin> set s" using assms(2) by (auto simp: recorded_tests_def)
  have "fits event_log_rdtsc val" "fits event_log_rdtscp val" "fits event_log_rdseed val"
    by (simp_all add: fits_def event_layouts take_bit_word_eq_self)
  moreover obtain more where "event_formats s = Some (payload, (line, key) # more)" "fits payload val"
    using assms(2) calculation by (auto simp: recorded_tests_def event_formats_def)
  ultimately show ?thesis
    using ck_event_encode [OF assms(1,4), of "(line, key) # more"] event_formats_ok [of s] assms(3)
    by (simp add: event_main_t [OF nul] event_table_formats)
qed



text \<open>C20. Both modules give back what they took, whatever happened in between.  On a kernel that grants
  every request, loading the driver succeeds with the five resources held (number region, class,
  memory, device structure, device node); no sequence of commands changes what is held; and when the
  machine has survived them, unloading gives each of the five back exactly once and nothing else.\<close>

theorem modules_give_back:
  fixes wu :: "'a pcm_world_scheme" and wf :: "'b focus_world_scheme"
  assumes "grants_region env" and "grants_memory env" and "grants_cdev env"
    and "halted wu = None" and "held env (trace wu) = Some h"
    and "halted wf = None" and "held env (trace wf) = Some k"
  shows "(let (r, w1) = run_state (pcm_test_init env) wu;
        w2 = snd (run_state (ioctl_calls (unit_ioctl env junk) cs) w1); w3 = snd (run_state (pcm_test_exit env) w2)
      in 0 \<le> r \<and> held env (trace w1) = Some (h + module_resources w1) \<and> held env (trace w2) = held env (trace w1)
        \<and> (halted w2 = None \<longrightarrow> held env (trace w3) = Some h))
    \<and> (let (r, w1) = run_state (focus_init env) wf;
        w2 = snd (run_state (ioctl_calls (focus_ioctl env junk') ds) w1); w3 = snd (run_state (focus_exit env) w2)
      in 0 \<le> r \<and> held env (trace w1) = Some (k + module_resources w1) \<and> held env (trace w2) = held env (trace w1)
        \<and> (halted w2 = None \<longrightarrow> held env (trace w3) = Some k))"
proof -
  have e: "focus_ioctl env junk' = pcm_cdev_ioctl env FOCUS_IOC_MAXNR (focus_switch env junk')"
    by (simp add: fun_eq_iff focus_ioctl_def)
  show ?thesis
    unfolding e focus_module
    using unit.life_cycle [OF assms(4,5,1-3), of junk cs] focus.life_cycle [OF assms(6,7,1-3), of junk' ds] by blast
qed

theorem modules_give_back_witness:
  "let w1 = snd (run_state (pcm_test_init (kernel_env (\<lambda>n. 0))) pcm_start) in
    held (kernel_env (\<lambda>n. 0)) (trace w1) = Some (module_resources w1)"
  using modules_give_back [of "kernel_env (\<lambda>n. 0)" pcm_start "{#}" focus_start "{#}" 0 "[]" 0 "[]"]
  by (simp add: kernel_env_grants held_def Let_def split_def)

end
